(* ===== verification/Perps_Prelude.thy ===== *)
theory Perps_Prelude
  imports Main "HOL-Library.Signed_Division" "HOL-Library.Word"
begin

text \<open>
  The generic part of the library: results with an error branch and their sequencing,
  truncating division, sums over finite maps, and runs of calls in which a failed call is
  rolled back.  Nothing here mentions the contracts.
\<close>

section \<open>Hint collections\<close>

named_theorems inv_simps \<open>inversion of a successful run of a fallible step\<close>
named_theorems store_simps \<open>reading a storage cell after a write\<close>

section \<open>Results\<close>

text \<open>
  A fallible computation returns \<open>Inl\<close> of the failure or \<open>Inr\<close> of its value.
  \<open>bnd\<close> sequences two of them and stops at the first failure, as \<open>?\<close> and a trap do.
\<close>

definition bnd :: "'e + 'a \<Rightarrow> ('a \<Rightarrow> 'e + 'b) \<Rightarrow> 'e + 'b" where
  "bnd m f = (case m of Inl e \<Rightarrow> Inl e | Inr x \<Rightarrow> f x)"

lemma bnd_Inl [simp]: "bnd (Inl e) f = Inl e"
  by (simp add: bnd_def)

lemma bnd_Inr [simp]: "bnd (Inr x) f = f x"
  by (simp add: bnd_def)

lemma bnd_eq_Inr [inv_simps]: "bnd m f = Inr y \<longleftrightarrow> (\<exists>x. m = Inr x \<and> f x = Inr y)"
  by (cases m) simp_all

lemma bnd_eq_Inl: "bnd m f = Inl e \<longleftrightarrow> m = Inl e \<or> (\<exists>x. m = Inr x \<and> f x = Inl e)"
  by (cases m) simp_all

lemma bnd_assoc: "bnd (bnd m f) g = bnd m (\<lambda>x. bnd (f x) g)"
  by (cases m) simp_all

lemma bnd_cong [fundef_cong]:
  "m = m' \<Longrightarrow> (\<And>x. m' = Inr x \<Longrightarrow> f x = f' x) \<Longrightarrow> bnd m f = bnd m' f'"
  by (cases m') simp_all

lemma if_fail_eq_Inr [inv_simps]:
  "(if b then Inl e else r) = Inr y \<longleftrightarrow> \<not> b \<and> r = Inr y"
  by simp

lemma if_else_fail_eq_Inr [inv_simps]:
  "(if b then r else Inl e) = Inr y \<longleftrightarrow> b \<and> r = Inr y"
  by simp

definition of_option :: "'e \<Rightarrow> 'a option \<Rightarrow> 'e + 'a" where
  "of_option e x = (case x of None \<Rightarrow> Inl e | Some y \<Rightarrow> Inr y)"

lemma of_option_simps [simp]: "of_option e None = Inl e" "of_option e (Some y) = Inr y"
  by (simp_all add: of_option_def)

lemma of_option_eq_Inr [inv_simps]: "of_option e x = Inr y \<longleftrightarrow> x = Some y"
  by (cases x) simp_all

definition get_or :: "'a \<Rightarrow> 'a option \<Rightarrow> 'a" where
  "get_or d x = (case x of None \<Rightarrow> d | Some y \<Rightarrow> y)"

lemma get_or_simps [simp]: "get_or d None = d" "get_or d (Some y) = y"
  by (simp_all add: get_or_def)

section \<open>Division that truncates towards zero\<close>

text \<open>
  \<open>sdiv\<close> of HOL-Library is the division of Rust.  On a non-negative dividend it is
  \<open>div\<close>; a negative dividend is reduced to the positive one by its sign.
\<close>

lemma sdiv_nonneg: "0 \<le> a \<Longrightarrow> 0 < b \<Longrightarrow> a sdiv b = a div (b::int)"
  by (cases "a = 0") (simp_all add: signed_divide_int_def)

lemma sdiv_minus_left: "(- a) sdiv b = - (a sdiv (b::int))"
  by (simp add: signed_divide_int_def sgn_minus)

lemma sdiv_nonpos: "a \<le> 0 \<Longrightarrow> 0 < b \<Longrightarrow> a sdiv b = - ((- a) div (b::int))"
  using sdiv_nonneg [of "- a" b] sdiv_minus_left [of "- a" b] by simp

lemma sdiv_nonneg_nonneg: "0 \<le> a \<Longrightarrow> 0 < b \<Longrightarrow> 0 \<le> a sdiv (b::int)"
  by (simp add: sdiv_nonneg pos_imp_zdiv_nonneg_iff)

lemma sdiv_nonpos_nonpos: "a \<le> 0 \<Longrightarrow> 0 < b \<Longrightarrow> a sdiv b \<le> (0::int)"
  by (simp add: sdiv_nonpos pos_imp_zdiv_nonneg_iff)

lemma sdiv_mono:
  assumes "a \<le> a'" and "0 < (b::int)"
  shows "a sdiv b \<le> a' sdiv b"
proof (cases "0 \<le> a")
  case True
  then show ?thesis using assms by (simp add: sdiv_nonneg zdiv_mono1)
next
  case neg: False
  show ?thesis
  proof (cases "0 \<le> a'")
    case True
    have "a sdiv b \<le> 0" using neg assms by (simp add: sdiv_nonpos_nonpos)
    also have "0 \<le> a' sdiv b" using True assms by (simp add: sdiv_nonneg_nonneg)
    finally show ?thesis .
  next
    case False
    then show ?thesis using neg assms by (simp add: sdiv_nonpos zdiv_mono1)
  qed
qed

lemma div_mult_le_pos: "0 < b \<Longrightarrow> a div b * b \<le> (a::int)"
  using pos_mod_sign [of b a] div_mult_mod_eq [of a b] by linarith

lemma div_mult_gt_pos: "0 < b \<Longrightarrow> a < (a div b + 1) * (b::int)"
  unfolding distrib_right using pos_mod_bound [of b a] div_mult_mod_eq [of a b] by linarith

lemma sdiv_exact: "0 < b \<Longrightarrow> (c * b) sdiv b = (c::int)"
  by (simp add: signed_divide_int_def abs_mult sgn_mult)
    (metis mult.commute sgn_mult_abs)

lemma sdiv_lower:
  assumes "0 < b" and "- (c * b) \<le> a"
  shows "- c \<le> a sdiv (b::int)"
  using sdiv_mono [of "- c * b" a b] sdiv_exact [of b "- c"] assms by simp

lemma sdiv_upper:
  assumes "0 < b" and "a \<le> c * b"
  shows "a sdiv (b::int) \<le> c"
  using sdiv_lower [of b c "- a"] assms by (simp add: sdiv_minus_left)

section \<open>Sums over finite maps\<close>

definition msum :: "('v \<Rightarrow> int) \<Rightarrow> ('k \<Rightarrow> 'v option) \<Rightarrow> int" where
  "msum f m = (\<Sum>k\<in>dom m. f (the (m k)))"

text \<open>What a key contributes to the sum: nothing when it is absent.\<close>

definition contrib :: "('v \<Rightarrow> int) \<Rightarrow> 'v option \<Rightarrow> int" where
  "contrib f x = (case x of None \<Rightarrow> 0 | Some v \<Rightarrow> f v)"

lemma contrib_simps [simp]: "contrib f None = 0" "contrib f (Some v) = f v"
  by (simp_all add: contrib_def)

lemma msum_empty [simp]: "msum f (\<lambda>_. None) = 0"
  by (simp add: msum_def)

lemma msum_split:
  assumes "finite (dom m)"
  shows "msum f m = contrib f (m k) + msum f (m(k := None))"
proof (cases "m k")
  case None
  then have "m(k := None) = m" by auto
  with None show ?thesis by simp
next
  case (Some v)
  then have k: "k \<in> dom m" by blast
  have "msum f m = f (the (m k)) + (\<Sum>x\<in>dom m - {k}. f (the (m x)))"
    unfolding msum_def by (rule sum.remove [OF assms k])
  also have "(\<Sum>x\<in>dom m - {k}. f (the (m x))) = msum f (m(k := None))"
    unfolding msum_def by (rule sum.cong) auto
  finally show ?thesis using Some by simp
qed

lemma msum_upd:
  assumes "finite (dom m)"
  shows "msum f (m(k \<mapsto> v)) = msum f m - contrib f (m k) + f v"
proof -
  have "msum f (m(k \<mapsto> v)) = f v + msum f (m(k := None))"
    using msum_split [of "m(k \<mapsto> v)" f k] assms by simp
  then show ?thesis using msum_split [OF assms, of f k] by simp
qed

lemma msum_del:
  assumes "finite (dom m)"
  shows "msum f (m(k := None)) = msum f m - contrib f (m k)"
  using msum_split [OF assms, of f k] by simp

lemma msum_nonneg:
  assumes "\<And>k v. m k = Some v \<Longrightarrow> 0 \<le> f v"
  shows "0 \<le> msum f m"
  unfolding msum_def using assms by (intro sum_nonneg) auto

lemma contrib_le_msum:
  assumes "finite (dom m)" and "\<And>k v. m k = Some v \<Longrightarrow> 0 \<le> f v"
  shows "contrib f (m k) \<le> msum f m"
proof -
  have "0 \<le> msum f (m(k := None))"
    by (rule msum_nonneg) (auto split: if_splits intro: assms(2))
  then show ?thesis using msum_split [OF assms(1), of f k] by simp
qed

lemma msum_add:
  "msum (\<lambda>v. f v + g v) m = msum f m + msum g m"
  by (simp add: msum_def sum.distrib)

lemma contrib_id: "contrib (\<lambda>x. x) y = get_or 0 y"
  by (cases y) simp_all

lemma msum_id_upd:
  "finite (dom m) \<Longrightarrow> msum (\<lambda>x. x) (m(k \<mapsto> v)) = msum (\<lambda>x. x) m - get_or 0 (m k) + v"
  by (simp add: msum_upd contrib_id)

section \<open>Runs of calls\<close>

text \<open>
  A sequence of calls on a state.  A call that fails is rolled back, so it leaves the state as it
  was and the next call goes on from there.
\<close>

definition attempt :: "('c \<Rightarrow> 's \<Rightarrow> 'e + 's) \<Rightarrow> 'c \<Rightarrow> 's \<Rightarrow> 's" where
  "attempt exec c s = (case exec c s of Inl e \<Rightarrow> s | Inr s' \<Rightarrow> s')"

fun run :: "('c \<Rightarrow> 's \<Rightarrow> 'e + 's) \<Rightarrow> 'c list \<Rightarrow> 's \<Rightarrow> 's" where
  "run exec [] s = s"
| "run exec (c # cs) s = run exec cs (attempt exec c s)"

lemma attempt_Inl: "exec c s = Inl e \<Longrightarrow> attempt exec c s = s"
  by (simp add: attempt_def)

lemma attempt_Inr: "exec c s = Inr s' \<Longrightarrow> attempt exec c s = s'"
  by (simp add: attempt_def)

lemma run_append: "run exec (cs @ ds) s = run exec ds (run exec cs s)"
  by (induction cs arbitrary: s) simp_all

text \<open>The contract of a set of operations with an invariant that each of them keeps.\<close>

locale invariant_machine =
  fixes exec :: "'c \<Rightarrow> 's \<Rightarrow> 'e + 's"
    and inv :: "'s \<Rightarrow> bool"
  assumes exec_keeps: "inv s \<Longrightarrow> exec c s = Inr s' \<Longrightarrow> inv s'"
begin

lemma attempt_keeps: "inv s \<Longrightarrow> inv (attempt exec c s)"
  by (cases "exec c s") (auto simp: attempt_def intro: exec_keeps)

lemma run_keeps: "inv s \<Longrightarrow> inv (run exec cs s)"
  by (induction cs arbitrary: s) (simp_all add: attempt_keeps)

end

end
