(* ===== verification/Perps_Types.thy ===== *)
theory Perps_Types
  imports Perps_Prelude
begin

text \<open>
  The shared types of \<^verbatim>\<open>contracts/perps-types/src/lib.rs\<close>: machine integers, addresses,
  directions, positions, cached prices, the error enum and the constants.  An \<open>i128\<close> is an
  \<open>int\<close> whose range is checked by every operation on it (theory Soroban_Host); \<open>u32\<close> and
  \<open>u64\<close> are words.  The storage-key enums of that file are the fields of the store records
  in the component theories.
\<close>

section \<open>Machine integers\<close>

type_synonym i128 = int
type_synonym u32 = "32 word"
type_synonym u64 = "64 word"

section \<open>Addresses, directions, positions, prices\<close>

text \<open>A Soroban address names an account or a contract.\<close>

datatype address = Account nat | Contract nat

datatype direction = Long | Short

text \<open>\<open>#[repr(u32)]\<close> orders the directions by their discriminants.\<close>

fun direction_code :: "direction \<Rightarrow> u32" where
  "direction_code Long = 0"
| "direction_code Short = 1"

instantiation direction :: linorder
begin

definition less_eq_direction :: "direction \<Rightarrow> direction \<Rightarrow> bool" where
  "less_eq_direction a b \<longleftrightarrow> direction_code a \<le> direction_code b"

definition less_direction :: "direction \<Rightarrow> direction \<Rightarrow> bool" where
  "less_direction a b \<longleftrightarrow> direction_code a < direction_code b"

instance
proof
  fix x y z :: direction
  show "x < y \<longleftrightarrow> x \<le> y \<and> \<not> y \<le> x"
    by (auto simp: less_eq_direction_def less_direction_def)
  show "x \<le> x"
    by (simp add: less_eq_direction_def)
  show "x \<le> y \<Longrightarrow> y \<le> z \<Longrightarrow> x \<le> z"
    by (auto simp: less_eq_direction_def)
  show "x \<le> y \<Longrightarrow> y \<le> x \<Longrightarrow> x = y"
    by (cases x; cases y) (auto simp: less_eq_direction_def)
  show "x \<le> y \<or> y \<le> x"
    by (auto simp: less_eq_direction_def)
qed

end

instantiation direction :: finite
begin

instance
proof
  have "(UNIV :: direction set) \<subseteq> {Long, Short}"
    using direction.exhaust by blast
  then show "finite (UNIV :: direction set)"
    by (rule finite_subset) simp
qed

end

lemma UNIV_direction: "(UNIV :: direction set) = {Long, Short}"
  using direction.exhaust by blast

record position =
  pos_id :: u64
  pos_trader :: address
  pos_asset :: u32
  pos_direction :: direction
  pos_size :: i128
  pos_collateral :: i128
  pos_entry_price :: i128
  pos_leverage :: u32
  pos_funding_index :: i128
  pos_opened_at :: u64

record cached_price =
  cp_price :: i128
  cp_timestamp :: u64

section \<open>Errors\<close>

datatype perps_error =
    NotInitialized
  | AlreadyInitialized
  | InsufficientBalance
  | InsufficientLiquidity
  | InvalidAmount
  | InvalidLeverage
  | PositionNotFound
  | StalePrice
  | MaxUtilizationExceeded
  | NotLiquidatable
  | Unauthorized
  | InvalidConfig
  | OverflowError
  | ZeroShares
  | MinCollateralNotMet
  | FundingTooEarly
  | AssetMismatch

fun perps_error_code :: "perps_error \<Rightarrow> u32" where
  "perps_error_code NotInitialized = 1"
| "perps_error_code AlreadyInitialized = 2"
| "perps_error_code InsufficientBalance = 3"
| "perps_error_code InsufficientLiquidity = 4"
| "perps_error_code InvalidAmount = 5"
| "perps_error_code InvalidLeverage = 6"
| "perps_error_code PositionNotFound = 7"
| "perps_error_code StalePrice = 8"
| "perps_error_code MaxUtilizationExceeded = 9"
| "perps_error_code NotLiquidatable = 10"
| "perps_error_code Unauthorized = 11"
| "perps_error_code InvalidConfig = 12"
| "perps_error_code OverflowError = 13"
| "perps_error_code ZeroShares = 14"
| "perps_error_code MinCollateralNotMet = 15"
| "perps_error_code FundingTooEarly = 16"
| "perps_error_code AssetMismatch = 17"

section \<open>Constants\<close>

definition DECIMALS :: i128 where
  "DECIMALS = 10000000"

definition BPS_DENOMINATOR :: u32 where
  "BPS_DENOMINATOR = 10000"

definition POSITION_TTL_THRESHOLD :: u32 where
  "POSITION_TTL_THRESHOLD = 518400"

definition POSITION_TTL_EXTEND :: u32 where
  "POSITION_TTL_EXTEND = 1036800"

definition BALANCE_TTL_THRESHOLD :: u32 where
  "BALANCE_TTL_THRESHOLD = 518400"

definition BALANCE_TTL_EXTEND :: u32 where
  "BALANCE_TTL_EXTEND = 1036800"

definition INSTANCE_TTL_THRESHOLD :: u32 where
  "INSTANCE_TTL_THRESHOLD = 17280"

definition INSTANCE_TTL_EXTEND :: u32 where
  "INSTANCE_TTL_EXTEND = 518400"

lemmas perps_constants =
  DECIMALS_def BPS_DENOMINATOR_def POSITION_TTL_THRESHOLD_def POSITION_TTL_EXTEND_def
  BALANCE_TTL_THRESHOLD_def BALANCE_TTL_EXTEND_def INSTANCE_TTL_THRESHOLD_def
  INSTANCE_TTL_EXTEND_def

end
