(* ===== verification/Soroban_Host.thy ===== *)
theory Soroban_Host
  imports Perps_Types
begin

text \<open>
  The platform the contracts run on.  Failures of a call (a contract error or a trap), the
  integer arithmetic of a build with overflow checks, the environment of a call, authorisation,
  events, time-to-live extension, and the token contract.

  A call that fails is rolled back by the host, so a failing operation returns only its failure
  and no state.  The failure of a called contract fails the caller too.
  The token contract is not part of the repository: it is the parameter \<open>tk\<close>, a record of the
  two functions the development refers to, over an abstract ledger of type \<open>'t\<close>.
\<close>

section \<open>Failures\<close>

datatype trap =
    ArithmeticOverflow
  | DivisionByZero
  | UnwrapNone
  | AuthFailed
  | MissingContract

text \<open>\<open>HostError\<close> stands for every other failure of the host or of the token.\<close>

datatype failure = Err perps_error | Trap trap | HostError nat

type_synonym 'a res = "failure + 'a"

section \<open>Checked arithmetic\<close>

text \<open>
  The release profile of \<^verbatim>\<open>Cargo.toml\<close> sets \<open>overflow-checks = true\<close> and
  \<open>panic = "abort"\<close>, so an operator that leaves the range of its type traps.
\<close>

definition i128_ok :: "int \<Rightarrow> bool" where
  "i128_ok x \<longleftrightarrow> - (2 ^ 127) \<le> x \<and> x < 2 ^ 127"

definition i128_of :: "int \<Rightarrow> i128 res" where
  "i128_of x = (if i128_ok x then Inr x else Inl (Trap ArithmeticOverflow))"

definition i128_add :: "i128 \<Rightarrow> i128 \<Rightarrow> i128 res" where
  "i128_add a b = i128_of (a + b)"

definition i128_sub :: "i128 \<Rightarrow> i128 \<Rightarrow> i128 res" where
  "i128_sub a b = i128_of (a - b)"

definition i128_mul :: "i128 \<Rightarrow> i128 \<Rightarrow> i128 res" where
  "i128_mul a b = i128_of (a * b)"

definition i128_neg :: "i128 \<Rightarrow> i128 res" where
  "i128_neg a = i128_of (- a)"

definition i128_abs :: "i128 \<Rightarrow> i128 res" where
  "i128_abs a = i128_of \<bar>a\<bar>"

definition i128_div :: "i128 \<Rightarrow> i128 \<Rightarrow> i128 res" where
  "i128_div a b = (if b = 0 then Inl (Trap DivisionByZero) else i128_of (a sdiv b))"

definition u64_add :: "u64 \<Rightarrow> u64 \<Rightarrow> u64 res" where
  "u64_add a b = (if uint a + uint b < 2 ^ 64 then Inr (a + b) else Inl (Trap ArithmeticOverflow))"

definition u64_sub :: "u64 \<Rightarrow> u64 \<Rightarrow> u64 res" where
  "u64_sub a b = (if b \<le> a then Inr (a - b) else Inl (Trap ArithmeticOverflow))"

text \<open>\<open>x as u32\<close> keeps the low 32 bits; \<open>x as i128\<close> of a \<open>u32\<close> is exact.\<close>

definition i128_as_u32 :: "i128 \<Rightarrow> u32" where
  "i128_as_u32 x = word_of_int x"

definition u32_as_i128 :: "u32 \<Rightarrow> i128" where
  "u32_as_i128 x = uint x"

lemma i128_of_eq_Inr [inv_simps]: "i128_of x = Inr y \<longleftrightarrow> i128_ok x \<and> y = x"
  by (auto simp: i128_of_def)

lemma i128_add_eq_Inr [inv_simps]: "i128_add a b = Inr y \<longleftrightarrow> i128_ok (a + b) \<and> y = a + b"
  by (auto simp: i128_add_def i128_of_def)

lemma i128_sub_eq_Inr [inv_simps]: "i128_sub a b = Inr y \<longleftrightarrow> i128_ok (a - b) \<and> y = a - b"
  by (auto simp: i128_sub_def i128_of_def)

lemma i128_mul_eq_Inr [inv_simps]: "i128_mul a b = Inr y \<longleftrightarrow> i128_ok (a * b) \<and> y = a * b"
  by (auto simp: i128_mul_def i128_of_def)

lemma i128_neg_eq_Inr [inv_simps]: "i128_neg a = Inr y \<longleftrightarrow> i128_ok (- a) \<and> y = - a"
  by (auto simp: i128_neg_def i128_of_def)

lemma i128_abs_eq_Inr [inv_simps]: "i128_abs a = Inr y \<longleftrightarrow> i128_ok \<bar>a\<bar> \<and> y = \<bar>a\<bar>"
  by (auto simp: i128_abs_def i128_of_def)

lemma i128_div_eq_Inr [inv_simps]:
  "i128_div a b = Inr y \<longleftrightarrow> b \<noteq> 0 \<and> i128_ok (a sdiv b) \<and> y = a sdiv b"
  by (auto simp: i128_div_def i128_of_def)

lemma u64_add_eq_Inr [inv_simps]:
  "u64_add a b = Inr y \<longleftrightarrow> uint a + uint b < 2 ^ 64 \<and> y = a + b"
  by (auto simp: u64_add_def)

lemma u64_sub_eq_Inr [inv_simps]: "u64_sub a b = Inr y \<longleftrightarrow> b \<le> a \<and> y = a - b"
  by (auto simp: u64_sub_def)

lemma i128_ok_0 [simp]: "i128_ok 0"
  by (simp add: i128_ok_def)

lemma i128_ok_between: "i128_ok a \<Longrightarrow> i128_ok b \<Longrightarrow> a \<le> x \<Longrightarrow> x \<le> b \<Longrightarrow> i128_ok x"
  by (auto simp: i128_ok_def)

lemma u32_as_i128_nonneg [simp]: "0 \<le> u32_as_i128 x"
  by (simp add: u32_as_i128_def)

lemma u32_as_i128_le: "x \<le> y \<Longrightarrow> u32_as_i128 x \<le> u32_as_i128 y"
  by (simp add: u32_as_i128_def word_le_def)

lemma u32_as_i128_eq_0 [simp]: "u32_as_i128 x = 0 \<longleftrightarrow> x = 0"
  by (simp add: u32_as_i128_def uint_0_iff)

text \<open>The cast is exact only below \<open>2 ^ 32\<close>.\<close>

lemma i128_as_u32_exact: "0 \<le> x \<Longrightarrow> x < 2 ^ 32 \<Longrightarrow> uint (i128_as_u32 x) = x"
  by (simp add: i128_as_u32_def uint_word_of_int)

section \<open>The environment of a call\<close>

text \<open>
  \<open>e_signers\<close> are the addresses whose signatures authorise the transaction, \<open>e_invoker\<close> is the
  contract that makes the call (none for a transaction), \<open>e_self\<close> the contract that runs.
\<close>

record env =
  e_now :: u64
  e_signers :: "address set"
  e_invoker :: "address option"
  e_self :: address

definition authorised :: "env \<Rightarrow> address \<Rightarrow> bool" where
  "authorised e a \<longleftrightarrow> a \<in> e_signers e \<or> e_invoker e = Some a"

definition require_auth :: "env \<Rightarrow> address \<Rightarrow> unit res" where
  "require_auth e a = (if authorised e a then Inr () else Inl (Trap AuthFailed))"

lemma require_auth_eq_Inr [inv_simps]: "require_auth e a = Inr u \<longleftrightarrow> authorised e a"
  by (simp add: require_auth_def)

text \<open>The environment a callee at address \<open>a\<close> sees.\<close>

definition subcall :: "env \<Rightarrow> address \<Rightarrow> env" where
  "subcall e a = e\<lparr>e_invoker := Some (e_self e), e_self := a\<rparr>"

lemma subcall_simps [simp]:
  "e_now (subcall e a) = e_now e" "e_signers (subcall e a) = e_signers e"
  "e_invoker (subcall e a) = Some (e_self e)" "e_self (subcall e a) = a"
  by (simp_all add: subcall_def)

text \<open>A call by address reaches the contract that lives there, or no contract at all.\<close>

definition contract_at :: "env \<Rightarrow> address \<Rightarrow> address \<Rightarrow> env res" where
  "contract_at e here a = (if a = here then Inr (subcall e a) else Inl (Trap MissingContract))"

lemma contract_at_eq_Inr [inv_simps]:
  "contract_at e here a = Inr e' \<longleftrightarrow> a = here \<and> e' = subcall e here"
  by (auto simp: contract_at_def)

section \<open>Events and the host state\<close>

datatype sval =
    SSym string
  | SAddr address
  | SI128 i128
  | SU32 u32
  | SU64 u64
  | SDir direction
  | SVec "sval list"
  | SMap "(string \<times> sval) list"

record event =
  ev_contract :: address
  ev_topics :: "sval list"
  ev_data :: sval

text \<open>
  The part of the world the host keeps: the ledger of the token contracts and the events
  published.  Each component theory extends this record with its own store.
\<close>

record 't host =
  ledger :: 't
  events :: "event list"

definition publish :: "env \<Rightarrow> sval list \<Rightarrow> sval \<Rightarrow> ('t, 'm) host_scheme \<Rightarrow> ('t, 'm) host_scheme" where
  "publish e topics data w =
     w\<lparr>events := events w @ [\<lparr>ev_contract = e_self e, ev_topics = topics, ev_data = data\<rparr>]\<rparr>"

text \<open>
  \<open>extend_ttl(threshold, extend_to)\<close>: an entry with fewer than \<open>threshold\<close> ledgers to live gets
  \<open>extend_to\<close> of them.
\<close>

definition extend_ttl :: "u32 \<Rightarrow> u32 \<Rightarrow> u32 \<Rightarrow> u32" where
  "extend_ttl threshold extend_to ttl = (if ttl < threshold then extend_to else ttl)"

lemma extend_ttl_ge: "threshold \<le> extend_to \<Longrightarrow> threshold \<le> extend_ttl threshold extend_to ttl"
  by (auto simp: extend_ttl_def not_less)

lemma extend_ttl_idem:
  "threshold \<le> extend_to \<Longrightarrow>
   extend_ttl threshold extend_to (extend_ttl threshold extend_to ttl) = extend_ttl threshold extend_to ttl"
  by (auto simp: extend_ttl_def)

lemma instance_ttl_idem [simp]:
  "extend_ttl INSTANCE_TTL_THRESHOLD INSTANCE_TTL_EXTEND
     (extend_ttl INSTANCE_TTL_THRESHOLD INSTANCE_TTL_EXTEND ttl)
   = extend_ttl INSTANCE_TTL_THRESHOLD INSTANCE_TTL_EXTEND ttl"
  by (rule extend_ttl_idem) (simp add: perps_constants)

lemma instance_ttl_ge:
  "INSTANCE_TTL_THRESHOLD \<le> extend_ttl INSTANCE_TTL_THRESHOLD INSTANCE_TTL_EXTEND ttl"
  by (rule extend_ttl_ge) (simp add: perps_constants)

section \<open>The token contract\<close>

text \<open>
  The functions take the address of the token contract first, so one ledger serves several tokens.
\<close>

record 't token =
  tok_transfer :: "env \<Rightarrow> address \<Rightarrow> address \<Rightarrow> address \<Rightarrow> i128 \<Rightarrow> 't \<Rightarrow> 't res"
  tok_balance :: "address \<Rightarrow> address \<Rightarrow> 't \<Rightarrow> i128"

definition token_transfer ::
  "'t token \<Rightarrow> env \<Rightarrow> address \<Rightarrow> address \<Rightarrow> address \<Rightarrow> i128 \<Rightarrow> ('t, 'm) host_scheme
    \<Rightarrow> ('t, 'm) host_scheme res" where
  "token_transfer tk e token from to amount w =
     bnd (tok_transfer tk (subcall e token) token from to amount (ledger w))
       (\<lambda>t. Inr (w\<lparr>ledger := t\<rparr>))"

lemma token_transfer_eq_Inr [inv_simps]:
  "token_transfer tk e token from to amount w = Inr w' \<longleftrightarrow>
     (\<exists>t. tok_transfer tk (subcall e token) token from to amount (ledger w) = Inr t
        \<and> w' = w\<lparr>ledger := t\<rparr>)"
  by (auto simp: token_transfer_def bnd_eq_Inr)

text \<open>
  The documented behaviour of a SEP-41 token: a transfer that succeeds was authorised by the
  payer, moved a non-negative amount the payer had, and touched no other balance.
\<close>

definition moved :: "i128 \<Rightarrow> address \<Rightarrow> address \<Rightarrow> i128 \<Rightarrow> address \<Rightarrow> i128" where
  "moved b from to amount a =
     b - (if a = from then amount else 0) + (if a = to then amount else 0)"

definition sep41 :: "'t token \<Rightarrow> bool" where
  "sep41 tk \<longleftrightarrow> (\<forall>e c from to amount t t'. tok_transfer tk e c from to amount t = Inr t' \<longrightarrow>
     authorised e from \<and> 0 \<le> amount \<and> amount \<le> tok_balance tk c from t \<and>
     (\<forall>c' a. tok_balance tk c' a t' =
        (if c' = c then moved (tok_balance tk c a t) from to amount a else tok_balance tk c' a t)))"

lemma sep41D:
  assumes "sep41 tk" and "tok_transfer tk e c from to amount t = Inr t'"
  shows "authorised e from" and "0 \<le> amount" and "amount \<le> tok_balance tk c from t"
    and "tok_balance tk c a t' = moved (tok_balance tk c a t) from to amount a"
  using assms unfolding sep41_def by (blast, blast, blast, metis)

text \<open>A token to run the model with: balances in a function, one per token and holder.\<close>

type_synonym balances = "address \<Rightarrow> address \<Rightarrow> i128"

definition plain_transfer ::
  "env \<Rightarrow> address \<Rightarrow> address \<Rightarrow> address \<Rightarrow> i128 \<Rightarrow> balances \<Rightarrow> balances res" where
  "plain_transfer e c from to amount t =
     (if \<not> authorised e from then Inl (Trap AuthFailed)
      else if amount < 0 \<or> t c from < amount then Inl (HostError 10)
      else Inr (t(c := (\<lambda>a. moved (t c a) from to amount a))))"

definition plain_token :: "balances token" where
  "plain_token = \<lparr>tok_transfer = plain_transfer, tok_balance = (\<lambda>c a t. t c a)\<rparr>"

lemma plain_token_sep41: "sep41 plain_token"
  by (auto simp: sep41_def plain_token_def plain_transfer_def split: if_splits)

end
