(* ===== verification/Perps_Interfaces.thy ===== *)
theory Perps_Interfaces
  imports Soroban_Host
begin

text \<open>
  The interfaces between the contracts, as locales: what a caller relies on, stated once over
  abstract operations.  The theory of the contract that provides an interface interprets it on
  its own operations; the lemmas proved here (and those a client adds later in a context block)
  then hold for them.
\<close>

section \<open>Admin-gated operations\<close>

text \<open>
  Every contract keeps one admin address and guards its setters by it.  \<open>op e a w\<close> is the call
  by \<open>a\<close> in environment \<open>e\<close>.
\<close>

locale admin_gate =
  fixes op :: "env \<Rightarrow> address \<Rightarrow> 'w \<Rightarrow> 'w res"
    and admin_of :: "'w \<Rightarrow> address option"
  assumes op_unsigned: "\<not> authorised e a \<Longrightarrow> op e a w = Inl (Trap AuthFailed)"
    and op_uninit: "authorised e a \<Longrightarrow> admin_of w = None \<Longrightarrow> op e a w = Inl (Trap UnwrapNone)"
    and op_other: "authorised e a \<Longrightarrow> admin_of w = Some b \<Longrightarrow> a \<noteq> b \<Longrightarrow>
                     op e a w = Inl (Err Unauthorized)"
    and op_admin_kept: "op e a w = Inr w' \<Longrightarrow> admin_of w' = admin_of w"
begin

lemma op_only_admin:
  assumes "op e a w = Inr w'"
  shows "admin_of w = Some a \<and> authorised e a"
  using assms op_unsigned [of e a w] op_uninit [of e a w] op_other [of e a w]
  by (cases "authorised e a"; cases "admin_of w") auto

lemma op_refused:
  assumes "admin_of w \<noteq> Some a \<or> \<not> authorised e a"
  shows "op e a w = Inl (if \<not> authorised e a then Trap AuthFailed
                         else if admin_of w = None then Trap UnwrapNone else Err Unauthorized)"
  using assms op_unsigned [of e a w] op_uninit [of e a w] op_other [of e a w]
  by (cases "admin_of w") auto

text \<open>A call without the signature of the admin leaves the state as it is.\<close>

lemma op_needs_signature:
  assumes "admin_of w = Some b" and "\<not> authorised e b"
  shows "attempt (\<lambda>(e, a) w. op e a w) (e, a) w = w"
proof (cases "op e a w")
  case (Inr w')
  then show ?thesis using op_only_admin [OF Inr] assms by auto
qed (simp add: attempt_def)

end

section \<open>A price feed\<close>

locale price_feed =
  fixes quote :: "env \<Rightarrow> u32 \<Rightarrow> 'w \<Rightarrow> (i128 \<times> 'w) res"
    and priced :: "'w \<Rightarrow> bool"
  assumes quote_positive: "priced w \<Longrightarrow> quote e a w = Inr (p, w') \<Longrightarrow> 0 < p"
    and quote_priced: "priced w \<Longrightarrow> quote e a w = Inr (p, w') \<Longrightarrow> priced w'"
    and quote_stable: "quote e a w = Inr (p, w') \<Longrightarrow> quote e a w' = Inr (p, w')"

section \<open>A pool of liquidity\<close>

text \<open>
  What the position manager relies on of the vault: the effect of locking, of collecting a fee
  and of a settlement on the two totals.
\<close>

locale liquidity_pool =
  fixes lock :: "env \<Rightarrow> address \<Rightarrow> i128 \<Rightarrow> 'w \<Rightarrow> 'w res"
    and collect :: "env \<Rightarrow> address \<Rightarrow> i128 \<Rightarrow> 'w \<Rightarrow> 'w res"
    and settle :: "env \<Rightarrow> address \<Rightarrow> address \<Rightarrow> i128 \<Rightarrow> i128 \<Rightarrow> i128 \<Rightarrow> i128 \<Rightarrow> 'w \<Rightarrow> 'w res"
    and deposits :: "'w \<Rightarrow> i128"
    and locked :: "'w \<Rightarrow> i128"
  assumes lock_effect: "lock e c n w = Inr w' \<Longrightarrow>
            0 < n \<and> locked w' = locked w + n \<and> deposits w' = deposits w"
    and collect_effect: "collect e c f w = Inr w' \<Longrightarrow>
            0 < f \<and> locked w' = locked w \<and> deposits w' = deposits w + f"
    and settle_effect: "settle e c t n m p f w = Inr w' \<Longrightarrow>
            n \<le> locked w \<and> locked w' = locked w - n \<and>
            0 \<le> deposits w' \<and> deposits w' = deposits w - p + f"
begin

text \<open>The two calls of an opened position, and the settlement that undoes the lock.\<close>

lemma open_effect:
  assumes "lock e c n w = Inr w1" and "collect e c f w1 = Inr w2"
  shows "0 < n" and "0 < f" and "locked w2 = locked w + n" and "deposits w2 = deposits w + f"
  using lock_effect [OF assms(1)] collect_effect [OF assms(2)] by auto

lemma lock_settle_round_trip:
  assumes "lock e c n w = Inr w1" and "collect e c f w1 = Inr w2"
    and "locked w3 = locked w2" and "deposits w3 = deposits w2"
    and "settle e' c t n m p f' w3 = Inr w4"
  shows "locked w4 = locked w" and "deposits w4 = deposits w + f - p + f'"
  using open_effect [OF assms(1,2)] settle_effect [OF assms(5)] assms(3,4) by auto

end

section \<open>A source of open interest\<close>

locale interest_source =
  fixes query :: "env \<Rightarrow> 'w \<Rightarrow> ((i128 \<times> i128) \<times> 'w) res"
    and book :: "'w \<Rightarrow> bool"
  assumes query_nonneg: "book w \<Longrightarrow> query e w = Inr ((l, s), w') \<Longrightarrow> 0 \<le> l \<and> 0 \<le> s"

end
