(* ===== verification/Oracle_Adapter.thy ===== *)
theory Oracle_Adapter
  imports Perps_Interfaces
begin

text \<open>
  The oracle adapter, \<^verbatim>\<open>contracts/oracle-adapter/src/lib.rs\<close>: an admin-fed price per asset,
  kept in temporary storage, and a read that refuses a missing or a stale price.
\<close>

section \<open>State\<close>

text \<open>
  One field per storage key (\<open>OracleKey\<close>, \<open>OracleCacheKey\<close>); \<open>None\<close> is an absent key.
  \<open>o_self\<close> is the contract's address, \<open>o_ttl\<close> and \<open>o_price_ttl\<close> the ledgers the instance and
  the cached prices have left.
\<close>

record oracle_store =
  o_self :: address
  o_admin :: "address option"
  o_staleness :: "u64 option"
  o_prices :: "u32 \<Rightarrow> cached_price option"
  o_ttl :: u32
  o_price_ttl :: "u32 \<Rightarrow> u32"

record 't oracle_world = "'t host" +
  oracle_st :: oracle_store

section \<open>Storage helpers\<close>

definition oracle_bump_instance :: "('t, 'm) oracle_world_scheme \<Rightarrow> ('t, 'm) oracle_world_scheme" where
  "oracle_bump_instance w = w\<lparr>oracle_st := (oracle_st w)
     \<lparr>o_ttl := extend_ttl INSTANCE_TTL_THRESHOLD INSTANCE_TTL_EXTEND (o_ttl (oracle_st w))\<rparr>\<rparr>"

definition oracle_set_admin ::
  "address \<Rightarrow> ('t, 'm) oracle_world_scheme \<Rightarrow> ('t, 'm) oracle_world_scheme" where
  "oracle_set_admin a w = w\<lparr>oracle_st := (oracle_st w)\<lparr>o_admin := Some a\<rparr>\<rparr>"

definition oracle_get_admin :: "('t, 'm) oracle_world_scheme \<Rightarrow> address res" where
  "oracle_get_admin w = of_option (Trap UnwrapNone) (o_admin (oracle_st w))"

definition oracle_has_admin :: "('t, 'm) oracle_world_scheme \<Rightarrow> bool" where
  "oracle_has_admin w \<longleftrightarrow> o_admin (oracle_st w) \<noteq> None"

definition oracle_store_staleness_threshold ::
  "u64 \<Rightarrow> ('t, 'm) oracle_world_scheme \<Rightarrow> ('t, 'm) oracle_world_scheme" where
  "oracle_store_staleness_threshold n w = w\<lparr>oracle_st := (oracle_st w)\<lparr>o_staleness := Some n\<rparr>\<rparr>"

definition oracle_get_staleness_threshold :: "('t, 'm) oracle_world_scheme \<Rightarrow> u64" where
  "oracle_get_staleness_threshold w = get_or 300 (o_staleness (oracle_st w))"

definition oracle_set_cached_price ::
  "u32 \<Rightarrow> cached_price \<Rightarrow> ('t, 'm) oracle_world_scheme \<Rightarrow> ('t, 'm) oracle_world_scheme" where
  "oracle_set_cached_price asset p w = w\<lparr>oracle_st := (oracle_st w)
     \<lparr>o_prices := (o_prices (oracle_st w))(asset \<mapsto> p),
      o_price_ttl := (o_price_ttl (oracle_st w))
        (asset := extend_ttl 100 200 (o_price_ttl (oracle_st w) asset))\<rparr>\<rparr>"

definition oracle_get_cached_price :: "u32 \<Rightarrow> ('t, 'm) oracle_world_scheme \<Rightarrow> cached_price option" where
  "oracle_get_cached_price asset w = o_prices (oracle_st w) asset"

lemmas oracle_storage_defs =
  oracle_bump_instance_def oracle_set_admin_def oracle_get_admin_def oracle_has_admin_def
  oracle_store_staleness_threshold_def oracle_get_staleness_threshold_def
  oracle_set_cached_price_def oracle_get_cached_price_def

section \<open>Operations\<close>

definition emit_price_fetched ::
  "env \<Rightarrow> u32 \<Rightarrow> i128 \<Rightarrow> u64 \<Rightarrow> ('t, 'm) host_scheme \<Rightarrow> ('t, 'm) host_scheme" where
  "emit_price_fetched e asset price timestamp =
     publish e [SSym ''price_fetched'', SU32 asset] (SVec [SI128 price, SU64 timestamp])"

definition oracle_initialize ::
  "address \<Rightarrow> u64 \<Rightarrow> ('t, 'm) oracle_world_scheme \<Rightarrow> ('t, 'm) oracle_world_scheme res" where
  "oracle_initialize admin staleness_threshold w =
     (if oracle_has_admin w then Inl (Err AlreadyInitialized)
      else if staleness_threshold = 0 then Inl (Err InvalidConfig)
      else
        let w = oracle_set_admin admin w;
            w = oracle_store_staleness_threshold staleness_threshold w;
            w = oracle_bump_instance w
        in Inr w)"

definition oracle_set_price ::
  "env \<Rightarrow> address \<Rightarrow> u32 \<Rightarrow> i128 \<Rightarrow> ('t, 'm) oracle_world_scheme
    \<Rightarrow> ('t, 'm) oracle_world_scheme res" where
  "oracle_set_price e admin asset price w =
     (let w = oracle_bump_instance w in
      bnd (require_auth e admin) (\<lambda>_.
      bnd (oracle_get_admin w) (\<lambda>stored_admin.
      if admin \<noteq> stored_admin then Inl (Err Unauthorized)
      else if price \<le> 0 then Inl (Err InvalidAmount)
      else
        let cached = \<lparr>cp_price = price, cp_timestamp = e_now e\<rparr>;
            w = oracle_set_cached_price asset cached w;
            w = emit_price_fetched e asset price (cp_timestamp cached) w
        in Inr w)))"

definition oracle_get_price ::
  "env \<Rightarrow> u32 \<Rightarrow> ('t, 'm) oracle_world_scheme \<Rightarrow> (cached_price \<times> ('t, 'm) oracle_world_scheme) res" where
  "oracle_get_price e asset w =
     (let w = oracle_bump_instance w in
      bnd (of_option (Err StalePrice) (oracle_get_cached_price asset w)) (\<lambda>cached.
      let threshold = oracle_get_staleness_threshold w in
      bnd (u64_sub (e_now e) (cp_timestamp cached)) (\<lambda>age.
      if threshold < age then Inl (Err StalePrice) else Inr (cached, w))))"

definition oracle_get_price_value ::
  "env \<Rightarrow> u32 \<Rightarrow> ('t, 'm) oracle_world_scheme \<Rightarrow> (i128 \<times> ('t, 'm) oracle_world_scheme) res" where
  "oracle_get_price_value e asset w =
     bnd (oracle_get_price e asset w) (\<lambda>(cached, w). Inr (cp_price cached, w))"

definition oracle_set_staleness_threshold ::
  "env \<Rightarrow> address \<Rightarrow> u64 \<Rightarrow> ('t, 'm) oracle_world_scheme \<Rightarrow> ('t, 'm) oracle_world_scheme res" where
  "oracle_set_staleness_threshold e admin threshold w =
     (let w = oracle_bump_instance w in
      bnd (require_auth e admin) (\<lambda>_.
      bnd (oracle_get_admin w) (\<lambda>stored_admin.
      if admin \<noteq> stored_admin then Inl (Err Unauthorized)
      else if threshold = 0 then Inl (Err InvalidConfig)
      else Inr (oracle_store_staleness_threshold threshold w))))"

section \<open>When a price is served\<close>

lemma oracle_get_price_eq_Inr:
  "oracle_get_price e asset w = Inr (cached, w') \<longleftrightarrow>
     o_prices (oracle_st w) asset = Some cached \<and> cp_timestamp cached \<le> e_now e \<and>
     e_now e - cp_timestamp cached \<le> oracle_get_staleness_threshold w \<and>
     w' = oracle_bump_instance w"
  by (auto simp: oracle_get_price_def inv_simps Let_def oracle_storage_defs)

lemma oracle_get_price_value_eq_Inr:
  "oracle_get_price_value e asset w = Inr (p, w') \<longleftrightarrow>
     (\<exists>cached. oracle_get_price e asset w = Inr (cached, w') \<and> p = cp_price cached)"
  by (auto simp: oracle_get_price_value_def bnd_eq_Inr)

lemma oracle_bump_frame [simp]:
  "o_prices (oracle_st (oracle_bump_instance w)) = o_prices (oracle_st w)"
  "o_admin (oracle_st (oracle_bump_instance w)) = o_admin (oracle_st w)"
  "o_self (oracle_st (oracle_bump_instance w)) = o_self (oracle_st w)"
  "oracle_get_staleness_threshold (oracle_bump_instance w) = oracle_get_staleness_threshold w"
  "oracle_bump_instance (oracle_bump_instance w) = oracle_bump_instance w"
  "ledger (oracle_bump_instance w) = ledger w"
  "events (oracle_bump_instance w) = events w"
  by (simp_all add: oracle_storage_defs)

text \<open>
  C33. The oracle adapter serves a price exactly when one is cached and its age is between zero
  and the staleness threshold, inclusive.  A missing or an older price is the error
  \<open>StalePrice\<close>; a timestamp ahead of the ledger's clock traps.
\<close>

theorem oracle_price_served_iff_fresh:
  "oracle_get_price e asset w =
     (case o_prices (oracle_st w) asset of
        None \<Rightarrow> Inl (Err StalePrice)
      | Some cached \<Rightarrow>
          if uint (e_now e) < uint (cp_timestamp cached) then Inl (Trap ArithmeticOverflow)
          else if uint (e_now e) - uint (cp_timestamp cached)
                    \<le> uint (oracle_get_staleness_threshold w)
            then Inr (cached, oracle_bump_instance w)
          else Inl (Err StalePrice))"
proof (cases "o_prices (oracle_st w) asset")
  case None
  then show ?thesis
    by (simp add: oracle_get_price_def oracle_get_cached_price_def Let_def)
next
  case (Some cached)
  show ?thesis
  proof (cases "cp_timestamp cached \<le> e_now e")
    case True
    then have "uint (e_now e - cp_timestamp cached) = uint (e_now e) - uint (cp_timestamp cached)"
      by (simp add: uint_sub_lem word_le_def)
    then show ?thesis
      using Some True
      by (auto simp: oracle_get_price_def oracle_get_cached_price_def Let_def u64_sub_def
          word_le_def word_less_def)
  next
    case False
    then show ?thesis
      using Some by (simp add: oracle_get_price_def oracle_get_cached_price_def Let_def u64_sub_def
          word_le_def word_less_def)
  qed
qed

section \<open>Prices are positive\<close>

definition oracle_priced :: "('t, 'm) oracle_world_scheme \<Rightarrow> bool" where
  "oracle_priced w \<longleftrightarrow> (\<forall>asset c. o_prices (oracle_st w) asset = Some c \<longrightarrow> 0 < cp_price c)"

interpretation oracle_feed: price_feed oracle_get_price_value oracle_priced
  by unfold_locales
    (auto simp: oracle_get_price_value_eq_Inr oracle_get_price_eq_Inr oracle_priced_def)

datatype oracle_call =
    OInitialize address u64
  | OSetPrice address u32 i128
  | OGetPrice u32
  | OGetPriceValue u32
  | OSetStaleness address u64

fun oracle_exec ::
  "env \<times> oracle_call \<Rightarrow> ('t, 'm) oracle_world_scheme \<Rightarrow> ('t, 'm) oracle_world_scheme res" where
  "oracle_exec (e, OInitialize a n) w = oracle_initialize a n w"
| "oracle_exec (e, OSetPrice a k p) w = oracle_set_price e a k p w"
| "oracle_exec (e, OGetPrice k) w = bnd (oracle_get_price e k w) (\<lambda>(_, w). Inr w)"
| "oracle_exec (e, OGetPriceValue k) w = bnd (oracle_get_price_value e k w) (\<lambda>(_, w). Inr w)"
| "oracle_exec (e, OSetStaleness a n) w = oracle_set_staleness_threshold e a n w"

lemma oracle_set_price_eq_Inr:
  "oracle_set_price e a asset p w = Inr w' \<longleftrightarrow>
     authorised e a \<and> o_admin (oracle_st w) = Some a \<and> 0 < p \<and>
     w' = emit_price_fetched e asset p (e_now e)
       (oracle_set_cached_price asset \<lparr>cp_price = p, cp_timestamp = e_now e\<rparr>
         (oracle_bump_instance w))"
  by (auto simp: oracle_set_price_def inv_simps Let_def oracle_get_admin_def)

lemma oracle_exec_keeps_priced:
  "oracle_priced w \<Longrightarrow> oracle_exec c w = Inr w' \<Longrightarrow> oracle_priced w'"
  by (cases "(c, w)" rule: oracle_exec.cases)
    (auto simp: oracle_priced_def bnd_eq_Inr oracle_set_price_eq_Inr oracle_get_price_eq_Inr
      oracle_get_price_value_eq_Inr oracle_initialize_def oracle_set_staleness_threshold_def inv_simps Let_def
      oracle_storage_defs emit_price_fetched_def publish_def split: if_splits)

interpretation oracle_machine: invariant_machine oracle_exec oracle_priced
  by unfold_locales (rule oracle_exec_keeps_priced)

interpretation oracle_price_gate: admin_gate
  "\<lambda>e a. oracle_set_price e a asset p" "\<lambda>w. o_admin (oracle_st w)"
  by unfold_locales
    (auto simp: oracle_set_price_def require_auth_def Let_def oracle_storage_defs
      emit_price_fetched_def publish_def inv_simps split: if_splits)

interpretation oracle_staleness_gate: admin_gate
  "\<lambda>e a. oracle_set_staleness_threshold e a n" "\<lambda>w. o_admin (oracle_st w)"
  by unfold_locales
    (auto simp: oracle_set_staleness_threshold_def require_auth_def Let_def oracle_storage_defs
      inv_simps split: if_splits)

end
