(* ===== verification/Vault_Shares.thy ===== *)
theory Vault_Shares
  imports Perps_Interfaces
begin

text \<open>
  The share arithmetic of the vault, \<^verbatim>\<open>contracts/vault/src/shares.rs\<close>, with the facts about
  rounding the vault's properties rest on.
\<close>

section \<open>Definitions\<close>

definition calc_shares_to_mint :: "i128 \<Rightarrow> i128 \<Rightarrow> i128 \<Rightarrow> i128 res" where
  "calc_shares_to_mint amount total_shares total_deposits =
     (if total_shares = 0 \<or> total_deposits = 0 then Inr amount
      else bnd (i128_mul amount total_shares) (\<lambda>p. i128_div p total_deposits))"

definition calc_withdrawal_amount :: "i128 \<Rightarrow> i128 \<Rightarrow> i128 \<Rightarrow> i128 res" where
  "calc_withdrawal_amount shares total_shares total_deposits =
     (if total_shares = 0 then Inr 0
      else bnd (i128_mul shares total_deposits) (\<lambda>p. i128_div p total_shares))"

definition calc_share_price :: "i128 \<Rightarrow> i128 \<Rightarrow> i128 res" where
  "calc_share_price total_shares total_deposits =
     (if total_shares = 0 then Inr DECIMALS
      else bnd (i128_mul total_deposits DECIMALS) (\<lambda>p. i128_div p total_shares))"

definition calc_utilization_bps :: "i128 \<Rightarrow> i128 \<Rightarrow> u32 res" where
  "calc_utilization_bps locked total_deposits =
     (if total_deposits = 0 then Inr 0
      else bnd (i128_mul locked 10000) (\<lambda>p.
           bnd (i128_div p total_deposits) (\<lambda>q. Inr (i128_as_u32 q))))"

end
