(* ===== verification/Vault.thy ===== *)
theory Vault
  imports Oracle_Adapter Vault_Shares
begin

text \<open>
  The LP vault, \<^verbatim>\<open>contracts/vault/src/storage.rs\<close> and \<^verbatim>\<open>contracts/vault/src/lib.rs\<close>: deposits
  and withdrawals against shares, liquidity locked for open positions, and the settlement of
  closed ones.  The operations below the views can be called by the position manager only.
\<close>

section \<open>State\<close>

text \<open>
  One field per \<open>VaultKey\<close>; \<open>None\<close> is an absent key.  \<open>v_self\<close> is the contract's address,
  \<open>v_ttl\<close> and \<open>v_share_ttl\<close> the ledgers the instance and the balances have left.
  The vault's world extends the oracle's for typing only: no vault operation reads it.
\<close>

record vault_store =
  v_self :: address
  v_admin :: "address option"
  v_usdc :: "address option"
  v_total_shares :: "i128 option"
  v_total_deposits :: "i128 option"
  v_locked :: "i128 option"
  v_max_util :: "u32 option"
  v_pm :: "address option"
  v_shares :: "address \<Rightarrow> i128 option"
  v_ttl :: u32
  v_share_ttl :: "address \<Rightarrow> u32"

record 't vault_world = "'t oracle_world" +
  vault_st :: vault_store

section \<open>Storage helpers\<close>

definition vault_bump_instance :: "('t, 'm) vault_world_scheme \<Rightarrow> ('t, 'm) vault_world_scheme" where
  "vault_bump_instance w = w\<lparr>vault_st := (vault_st w)
     \<lparr>v_ttl := extend_ttl INSTANCE_TTL_THRESHOLD INSTANCE_TTL_EXTEND (v_ttl (vault_st w))\<rparr>\<rparr>"

definition vault_set_admin :: "address \<Rightarrow> ('t, 'm) vault_world_scheme \<Rightarrow> ('t, 'm) vault_world_scheme" where
  "vault_set_admin x w = w\<lparr>vault_st := (vault_st w)\<lparr>v_admin := Some x\<rparr>\<rparr>"

definition vault_get_admin :: "('t, 'm) vault_world_scheme \<Rightarrow> address res" where
  "vault_get_admin w = of_option (Trap UnwrapNone) (v_admin (vault_st w))"

definition vault_has_admin :: "('t, 'm) vault_world_scheme \<Rightarrow> bool" where
  "vault_has_admin w \<longleftrightarrow> v_admin (vault_st w) \<noteq> None"

definition vault_set_usdc_token :: "address \<Rightarrow> ('t, 'm) vault_world_scheme \<Rightarrow> ('t, 'm) vault_world_scheme" where
  "vault_set_usdc_token x w = w\<lparr>vault_st := (vault_st w)\<lparr>v_usdc := Some x\<rparr>\<rparr>"

definition vault_get_usdc_token :: "('t, 'm) vault_world_scheme \<Rightarrow> address res" where
  "vault_get_usdc_token w = of_option (Trap UnwrapNone) (v_usdc (vault_st w))"

definition vault_set_total_shares :: "i128 \<Rightarrow> ('t, 'm) vault_world_scheme \<Rightarrow> ('t, 'm) vault_world_scheme" where
  "vault_set_total_shares x w = w\<lparr>vault_st := (vault_st w)\<lparr>v_total_shares := Some x\<rparr>\<rparr>"

definition vault_get_total_shares :: "('t, 'm) vault_world_scheme \<Rightarrow> i128" where
  "vault_get_total_shares w = get_or 0 (v_total_shares (vault_st w))"

definition vault_set_total_deposits :: "i128 \<Rightarrow> ('t, 'm) vault_world_scheme \<Rightarrow> ('t, 'm) vault_world_scheme" where
  "vault_set_total_deposits x w = w\<lparr>vault_st := (vault_st w)\<lparr>v_total_deposits := Some x\<rparr>\<rparr>"

definition vault_get_total_deposits :: "('t, 'm) vault_world_scheme \<Rightarrow> i128" where
  "vault_get_total_deposits w = get_or 0 (v_total_deposits (vault_st w))"

definition vault_set_locked_liquidity :: "i128 \<Rightarrow> ('t, 'm) vault_world_scheme \<Rightarrow> ('t, 'm) vault_world_scheme" where
  "vault_set_locked_liquidity x w = w\<lparr>vault_st := (vault_st w)\<lparr>v_locked := Some x\<rparr>\<rparr>"

definition vault_get_locked_liquidity :: "('t, 'm) vault_world_scheme \<Rightarrow> i128" where
  "vault_get_locked_liquidity w = get_or 0 (v_locked (vault_st w))"

definition vault_store_max_utilization :: "u32 \<Rightarrow> ('t, 'm) vault_world_scheme \<Rightarrow> ('t, 'm) vault_world_scheme" where
  "vault_store_max_utilization x w = w\<lparr>vault_st := (vault_st w)\<lparr>v_max_util := Some x\<rparr>\<rparr>"

definition vault_get_max_utilization :: "('t, 'm) vault_world_scheme \<Rightarrow> u32" where
  "vault_get_max_utilization w = get_or 8000 (v_max_util (vault_st w))"

definition vault_store_position_manager :: "address \<Rightarrow> ('t, 'm) vault_world_scheme \<Rightarrow> ('t, 'm) vault_world_scheme" where
  "vault_store_position_manager x w = w\<lparr>vault_st := (vault_st w)\<lparr>v_pm := Some x\<rparr>\<rparr>"

definition vault_get_position_manager :: "('t, 'm) vault_world_scheme \<Rightarrow> address res" where
  "vault_get_position_manager w = of_option (Trap UnwrapNone) (v_pm (vault_st w))"

definition vault_has_position_manager :: "('t, 'm) vault_world_scheme \<Rightarrow> bool" where
  "vault_has_position_manager w \<longleftrightarrow> v_pm (vault_st w) \<noteq> None"

definition vault_set_share_balance ::
  "address \<Rightarrow> i128 \<Rightarrow> ('t, 'm) vault_world_scheme \<Rightarrow> ('t, 'm) vault_world_scheme" where
  "vault_set_share_balance account balance w = w\<lparr>vault_st := (vault_st w)
     \<lparr>v_shares := (v_shares (vault_st w))(account \<mapsto> balance),
      v_share_ttl := (v_share_ttl (vault_st w))(account :=
        extend_ttl BALANCE_TTL_THRESHOLD BALANCE_TTL_EXTEND (v_share_ttl (vault_st w) account))\<rparr>\<rparr>"

text \<open>Reading a positive balance extends its time to live, so the read returns a new state too.\<close>

definition vault_share_balance :: "address \<Rightarrow> ('t, 'm) vault_world_scheme \<Rightarrow> i128" where
  "vault_share_balance account w = get_or 0 (v_shares (vault_st w) account)"

definition vault_read_share_balance ::
  "address \<Rightarrow> ('t, 'm) vault_world_scheme \<Rightarrow> i128 \<times> ('t, 'm) vault_world_scheme" where
  "vault_read_share_balance account w =
     (let balance = vault_share_balance account w in
      (balance,
       if 0 < balance then w\<lparr>vault_st := (vault_st w)
         \<lparr>v_share_ttl := (v_share_ttl (vault_st w))(account :=
           extend_ttl BALANCE_TTL_THRESHOLD BALANCE_TTL_EXTEND (v_share_ttl (vault_st w) account))\<rparr>\<rparr>
       else w))"

lemmas vault_storage_defs =
  vault_bump_instance_def vault_set_admin_def vault_get_admin_def vault_has_admin_def
  vault_set_usdc_token_def vault_get_usdc_token_def vault_set_total_shares_def
  vault_get_total_shares_def vault_set_total_deposits_def vault_get_total_deposits_def
  vault_set_locked_liquidity_def vault_get_locked_liquidity_def vault_store_max_utilization_def
  vault_get_max_utilization_def vault_store_position_manager_def vault_get_position_manager_def
  vault_has_position_manager_def vault_set_share_balance_def vault_share_balance_def
  vault_read_share_balance_def

section \<open>Events\<close>

text \<open>
  The six event structs.  As contract data a struct is a map from its field names, in
  alphabetical order.
\<close>

record deposit_event =
  de_depositor :: address
  de_amount :: i128
  de_shares_minted :: i128

record withdraw_event =
  we_depositor :: address
  we_shares_burned :: i128
  we_amount_returned :: i128

record liquidity_locked_event =
  lle_amount :: i128

record liquidity_unlocked_event =
  lue_amount :: i128

record pnl_settled_event =
  pse_trader :: address
  pse_pnl :: i128

record fee_collected_event =
  fce_amount :: i128

definition deposit_event_val :: "deposit_event \<Rightarrow> sval" where
  "deposit_event_val x = SMap [(''amount'', SI128 (de_amount x)),
     (''depositor'', SAddr (de_depositor x)), (''shares_minted'', SI128 (de_shares_minted x))]"

definition withdraw_event_val :: "withdraw_event \<Rightarrow> sval" where
  "withdraw_event_val x = SMap [(''amount_returned'', SI128 (we_amount_returned x)),
     (''depositor'', SAddr (we_depositor x)), (''shares_burned'', SI128 (we_shares_burned x))]"

definition liquidity_locked_event_val :: "liquidity_locked_event \<Rightarrow> sval" where
  "liquidity_locked_event_val x = SMap [(''amount'', SI128 (lle_amount x))]"

definition liquidity_unlocked_event_val :: "liquidity_unlocked_event \<Rightarrow> sval" where
  "liquidity_unlocked_event_val x = SMap [(''amount'', SI128 (lue_amount x))]"

definition pnl_settled_event_val :: "pnl_settled_event \<Rightarrow> sval" where
  "pnl_settled_event_val x =
     SMap [(''pnl'', SI128 (pse_pnl x)), (''trader'', SAddr (pse_trader x))]"

definition fee_collected_event_val :: "fee_collected_event \<Rightarrow> sval" where
  "fee_collected_event_val x = SMap [(''amount'', SI128 (fce_amount x))]"

lemmas vault_event_vals =
  deposit_event_val_def withdraw_event_val_def liquidity_locked_event_val_def
  liquidity_unlocked_event_val_def pnl_settled_event_val_def fee_collected_event_val_def

definition emit_deposit ::
  "env \<Rightarrow> address \<Rightarrow> i128 \<Rightarrow> i128 \<Rightarrow> ('t, 'm) host_scheme \<Rightarrow> ('t, 'm) host_scheme" where
  "emit_deposit e depositor amount shares_minted =
     publish e [SSym ''deposit''] (deposit_event_val
       \<lparr>de_depositor = depositor, de_amount = amount, de_shares_minted = shares_minted\<rparr>)"

definition emit_withdraw ::
  "env \<Rightarrow> address \<Rightarrow> i128 \<Rightarrow> i128 \<Rightarrow> ('t, 'm) host_scheme \<Rightarrow> ('t, 'm) host_scheme" where
  "emit_withdraw e depositor shares_burned amount_returned =
     publish e [SSym ''withdraw''] (withdraw_event_val
       \<lparr>we_depositor = depositor, we_shares_burned = shares_burned,
        we_amount_returned = amount_returned\<rparr>)"

definition emit_liquidity_locked ::
  "env \<Rightarrow> i128 \<Rightarrow> ('t, 'm) host_scheme \<Rightarrow> ('t, 'm) host_scheme" where
  "emit_liquidity_locked e amount =
     publish e [SSym ''liquidity_locked''] (liquidity_locked_event_val \<lparr>lle_amount = amount\<rparr>)"

definition emit_liquidity_unlocked ::
  "env \<Rightarrow> i128 \<Rightarrow> ('t, 'm) host_scheme \<Rightarrow> ('t, 'm) host_scheme" where
  "emit_liquidity_unlocked e amount =
     publish e [SSym ''liquidity_unlocked''] (liquidity_unlocked_event_val \<lparr>lue_amount = amount\<rparr>)"

definition emit_pnl_settled ::
  "env \<Rightarrow> address \<Rightarrow> i128 \<Rightarrow> ('t, 'm) host_scheme \<Rightarrow> ('t, 'm) host_scheme" where
  "emit_pnl_settled e trader pnl =
     publish e [SSym ''pnl_settled''] (pnl_settled_event_val \<lparr>pse_trader = trader, pse_pnl = pnl\<rparr>)"

definition emit_fee_collected ::
  "env \<Rightarrow> i128 \<Rightarrow> ('t, 'm) host_scheme \<Rightarrow> ('t, 'm) host_scheme" where
  "emit_fee_collected e amount =
     publish e [SSym ''fee_collected''] (fee_collected_event_val \<lparr>fce_amount = amount\<rparr>)"

lemmas vault_emit_defs =
  emit_deposit_def emit_withdraw_def emit_liquidity_locked_def emit_liquidity_unlocked_def
  emit_pnl_settled_def emit_fee_collected_def publish_def

section \<open>Initialisation and the LP operations\<close>

definition vault_initialize ::
  "address \<Rightarrow> address \<Rightarrow> u32 \<Rightarrow> ('t, 'm) vault_world_scheme \<Rightarrow> ('t, 'm) vault_world_scheme res" where
  "vault_initialize admin usdc_token max_utilization_bps w =
     (if vault_has_admin w then Inl (Err AlreadyInitialized)
      else if max_utilization_bps = 0 \<or> BPS_DENOMINATOR < max_utilization_bps
        then Inl (Err InvalidConfig)
      else
        let w = vault_set_admin admin w;
            w = vault_set_usdc_token usdc_token w;
            w = vault_store_max_utilization max_utilization_bps w;
            w = vault_set_total_shares 0 w;
            w = vault_set_total_deposits 0 w;
            w = vault_set_locked_liquidity 0 w;
            w = vault_bump_instance w
        in Inr w)"

definition vault_deposit ::
  "'t token \<Rightarrow> env \<Rightarrow> address \<Rightarrow> i128 \<Rightarrow> ('t, 'm) vault_world_scheme
    \<Rightarrow> (i128 \<times> ('t, 'm) vault_world_scheme) res" where
  "vault_deposit tk e depositor amount w =
     (let w = vault_bump_instance w in
      bnd (require_auth e depositor) (\<lambda>_.
      if amount \<le> 0 then Inl (Err InvalidAmount) else
      let total_shares = vault_get_total_shares w;
          total_deposits = vault_get_total_deposits w in
      bnd (calc_shares_to_mint amount total_shares total_deposits) (\<lambda>shares_to_mint.
      if shares_to_mint \<le> 0 then Inl (Err ZeroShares) else
      bnd (vault_get_usdc_token w) (\<lambda>usdc.
      bnd (token_transfer tk e usdc depositor (e_self e) amount w) (\<lambda>w.
      bnd (i128_add total_deposits amount) (\<lambda>new_deposits.
      let w = vault_set_total_deposits new_deposits w in
      bnd (i128_add total_shares shares_to_mint) (\<lambda>new_shares.
      let w = vault_set_total_shares new_shares w;
          (current_balance, w) = vault_read_share_balance depositor w in
      bnd (i128_add current_balance shares_to_mint) (\<lambda>new_balance.
      let w = vault_set_share_balance depositor new_balance w;
          w = emit_deposit e depositor amount shares_to_mint w
      in Inr (shares_to_mint, w)))))))))"

text \<open>The check of \<open>withdraw\<close> that it does not push the utilisation above the maximum.\<close>

definition vault_check_withdrawal :: "i128 \<Rightarrow> i128 \<Rightarrow> u32 \<Rightarrow> unit res" where
  "vault_check_withdrawal locked new_total_deposits max_utilization =
     (if 0 < new_total_deposits then
        bnd (calc_utilization_bps locked new_total_deposits) (\<lambda>new_util.
        if max_utilization < new_util then Inl (Err MaxUtilizationExceeded) else Inr ())
      else if 0 < locked then Inl (Err InsufficientLiquidity)
      else Inr ())"

definition vault_withdraw ::
  "'t token \<Rightarrow> env \<Rightarrow> address \<Rightarrow> i128 \<Rightarrow> ('t, 'm) vault_world_scheme
    \<Rightarrow> (i128 \<times> ('t, 'm) vault_world_scheme) res" where
  "vault_withdraw tk e depositor share_amount w =
     (let w = vault_bump_instance w in
      bnd (require_auth e depositor) (\<lambda>_.
      if share_amount \<le> 0 then Inl (Err InvalidAmount) else
      let (current_balance, w) = vault_read_share_balance depositor w in
      if current_balance < share_amount then Inl (Err InsufficientBalance) else
      let total_shares = vault_get_total_shares w;
          total_deposits = vault_get_total_deposits w;
          locked = vault_get_locked_liquidity w in
      bnd (calc_withdrawal_amount share_amount total_shares total_deposits) (\<lambda>usdc_to_return.
      if usdc_to_return \<le> 0 then Inl (Err ZeroShares) else
      bnd (i128_sub total_deposits usdc_to_return) (\<lambda>new_total_deposits.
      bnd (vault_check_withdrawal locked new_total_deposits (vault_get_max_utilization w)) (\<lambda>_.
      bnd (i128_sub total_shares share_amount) (\<lambda>new_shares.
      let w = vault_set_total_shares new_shares w;
          w = vault_set_total_deposits new_total_deposits w in
      bnd (i128_sub current_balance share_amount) (\<lambda>new_balance.
      let w = vault_set_share_balance depositor new_balance w in
      bnd (vault_get_usdc_token w) (\<lambda>usdc.
      bnd (token_transfer tk e usdc (e_self e) depositor usdc_to_return w) (\<lambda>w.
      let w = emit_withdraw e depositor share_amount usdc_to_return w
      in Inr (usdc_to_return, w))))))))))"

section \<open>Operations of the position manager\<close>

definition vault_require_position_manager ::
  "env \<Rightarrow> address \<Rightarrow> ('t, 'm) vault_world_scheme \<Rightarrow> unit res" where
  "vault_require_position_manager e caller w =
     bnd (require_auth e caller) (\<lambda>_.
     if \<not> vault_has_position_manager w then Inl (Err NotInitialized) else
     bnd (vault_get_position_manager w) (\<lambda>pm.
     if caller \<noteq> pm then Inl (Err Unauthorized) else Inr ()))"

definition vault_lock_liquidity ::
  "env \<Rightarrow> address \<Rightarrow> i128 \<Rightarrow> ('t, 'm) vault_world_scheme \<Rightarrow> ('t, 'm) vault_world_scheme res" where
  "vault_lock_liquidity e caller amount w =
     (let w = vault_bump_instance w in
      bnd (vault_require_position_manager e caller w) (\<lambda>_.
      if amount \<le> 0 then Inl (Err InvalidAmount) else
      let total_deposits = vault_get_total_deposits w;
          locked = vault_get_locked_liquidity w in
      bnd (i128_add locked amount) (\<lambda>new_locked.
      bnd (calc_utilization_bps new_locked total_deposits) (\<lambda>new_util.
      if vault_get_max_utilization w < new_util then Inl (Err MaxUtilizationExceeded) else
      let w = vault_set_locked_liquidity new_locked w;
          w = emit_liquidity_locked e amount w
      in Inr w))))"

definition vault_unlock_liquidity ::
  "env \<Rightarrow> address \<Rightarrow> i128 \<Rightarrow> ('t, 'm) vault_world_scheme \<Rightarrow> ('t, 'm) vault_world_scheme res" where
  "vault_unlock_liquidity e caller amount w =
     (let w = vault_bump_instance w in
      bnd (vault_require_position_manager e caller w) (\<lambda>_.
      if amount \<le> 0 then Inl (Err InvalidAmount) else
      let locked = vault_get_locked_liquidity w in
      bnd (i128_sub locked amount) (\<lambda>new_locked.
      if new_locked < 0 then Inl (Err OverflowError) else
      let w = vault_set_locked_liquidity new_locked w;
          w = emit_liquidity_unlocked e amount w
      in Inr w)))"

definition vault_settle_pnl ::
  "'t token \<Rightarrow> env \<Rightarrow> address \<Rightarrow> address \<Rightarrow> i128 \<Rightarrow> ('t, 'm) vault_world_scheme
    \<Rightarrow> ('t, 'm) vault_world_scheme res" where
  "vault_settle_pnl tk e caller trader pnl w =
     (let w = vault_bump_instance w in
      bnd (vault_require_position_manager e caller w) (\<lambda>_.
      let total_deposits = vault_get_total_deposits w in
      bnd (if 0 < pnl then
             if total_deposits < pnl then Inl (Err InsufficientLiquidity) else
             bnd (vault_get_usdc_token w) (\<lambda>usdc.
             bnd (token_transfer tk e usdc (e_self e) trader pnl w) (\<lambda>w.
             bnd (i128_sub total_deposits pnl) (\<lambda>d.
             Inr (vault_set_total_deposits d w))))
           else if pnl < 0 then
             bnd (i128_abs pnl) (\<lambda>loss.
             bnd (i128_add total_deposits loss) (\<lambda>d.
             Inr (vault_set_total_deposits d w)))
           else Inr w) (\<lambda>w.
      Inr (emit_pnl_settled e trader pnl w))))"

definition vault_close_position_settlement ::
  "'t token \<Rightarrow> env \<Rightarrow> address \<Rightarrow> address \<Rightarrow> i128 \<Rightarrow> i128 \<Rightarrow> i128 \<Rightarrow> i128
    \<Rightarrow> ('t, 'm) vault_world_scheme \<Rightarrow> ('t, 'm) vault_world_scheme res" where
  "vault_close_position_settlement tk e caller trader position_size collateral pnl fee w =
     (let w = vault_bump_instance w in
      bnd (vault_require_position_manager e caller w) (\<lambda>_.
      let locked = vault_get_locked_liquidity w in
      bnd (i128_sub locked position_size) (\<lambda>new_locked.
      if new_locked < 0 then Inl (Err OverflowError) else
      let w = vault_set_locked_liquidity new_locked w;
          total_deposits = vault_get_total_deposits w in
      bnd (i128_sub total_deposits pnl) (\<lambda>d.
      bnd (i128_add d fee) (\<lambda>new_deposits.
      if new_deposits < 0 then Inl (Err InsufficientLiquidity) else
      let w = vault_set_total_deposits new_deposits w in
      bnd (i128_add collateral pnl) (\<lambda>p.
      bnd (i128_sub p fee) (\<lambda>payout.
      bnd (if 0 < payout then
             bnd (vault_get_usdc_token w) (\<lambda>usdc.
             token_transfer tk e usdc (e_self e) trader payout w)
           else Inr w) (\<lambda>w.
      let w = emit_pnl_settled e trader pnl w;
          w = emit_fee_collected e fee w
      in Inr w))))))))"

definition vault_collect_fee ::
  "env \<Rightarrow> address \<Rightarrow> i128 \<Rightarrow> ('t, 'm) vault_world_scheme \<Rightarrow> ('t, 'm) vault_world_scheme res" where
  "vault_collect_fee e caller amount w =
     (let w = vault_bump_instance w in
      bnd (vault_require_position_manager e caller w) (\<lambda>_.
      if amount \<le> 0 then Inl (Err InvalidAmount) else
      let total_deposits = vault_get_total_deposits w in
      bnd (i128_add total_deposits amount) (\<lambda>new_deposits.
      let w = vault_set_total_deposits new_deposits w;
          w = emit_fee_collected e amount w
      in Inr w)))"

section \<open>Views\<close>

text \<open>Every view extends the instance's time to live before it reads.\<close>

definition vault_view_share_balance ::
  "address \<Rightarrow> ('t, 'm) vault_world_scheme \<Rightarrow> i128 \<times> ('t, 'm) vault_world_scheme" where
  "vault_view_share_balance account w = vault_read_share_balance account (vault_bump_instance w)"

definition vault_view_total_shares ::
  "('t, 'm) vault_world_scheme \<Rightarrow> i128 \<times> ('t, 'm) vault_world_scheme" where
  "vault_view_total_shares w =
     (let w = vault_bump_instance w in (vault_get_total_shares w, w))"

definition vault_view_total_deposits ::
  "('t, 'm) vault_world_scheme \<Rightarrow> i128 \<times> ('t, 'm) vault_world_scheme" where
  "vault_view_total_deposits w =
     (let w = vault_bump_instance w in (vault_get_total_deposits w, w))"

definition vault_view_locked_liquidity ::
  "('t, 'm) vault_world_scheme \<Rightarrow> i128 \<times> ('t, 'm) vault_world_scheme" where
  "vault_view_locked_liquidity w =
     (let w = vault_bump_instance w in (vault_get_locked_liquidity w, w))"

definition vault_view_available_liquidity ::
  "('t, 'm) vault_world_scheme \<Rightarrow> (i128 \<times> ('t, 'm) vault_world_scheme) res" where
  "vault_view_available_liquidity w =
     (let w = vault_bump_instance w;
          total = vault_get_total_deposits w;
          locked = vault_get_locked_liquidity w
      in bnd (i128_sub total locked) (\<lambda>r. Inr (r, w)))"

definition vault_view_share_price ::
  "('t, 'm) vault_world_scheme \<Rightarrow> (i128 \<times> ('t, 'm) vault_world_scheme) res" where
  "vault_view_share_price w =
     (let w = vault_bump_instance w;
          total_shares = vault_get_total_shares w;
          total_deposits = vault_get_total_deposits w
      in bnd (calc_share_price total_shares total_deposits) (\<lambda>r. Inr (r, w)))"

definition vault_view_utilization ::
  "('t, 'm) vault_world_scheme \<Rightarrow> (u32 \<times> ('t, 'm) vault_world_scheme) res" where
  "vault_view_utilization w =
     (let w = vault_bump_instance w;
          total_deposits = vault_get_total_deposits w;
          locked = vault_get_locked_liquidity w
      in bnd (calc_utilization_bps locked total_deposits) (\<lambda>r. Inr (r, w)))"

section \<open>Admin functions\<close>

definition vault_set_position_manager ::
  "env \<Rightarrow> address \<Rightarrow> address \<Rightarrow> ('t, 'm) vault_world_scheme \<Rightarrow> ('t, 'm) vault_world_scheme res" where
  "vault_set_position_manager e admin pm_address w =
     (let w = vault_bump_instance w in
      bnd (require_auth e admin) (\<lambda>_.
      bnd (vault_get_admin w) (\<lambda>stored_admin.
      if admin \<noteq> stored_admin then Inl (Err Unauthorized)
      else Inr (vault_store_position_manager pm_address w))))"

definition vault_set_max_utilization ::
  "env \<Rightarrow> address \<Rightarrow> u32 \<Rightarrow> ('t, 'm) vault_world_scheme \<Rightarrow> ('t, 'm) vault_world_scheme res" where
  "vault_set_max_utilization e admin max_bps w =
     (let w = vault_bump_instance w in
      bnd (require_auth e admin) (\<lambda>_.
      bnd (vault_get_admin w) (\<lambda>stored_admin.
      if admin \<noteq> stored_admin then Inl (Err Unauthorized)
      else if max_bps = 0 \<or> BPS_DENOMINATOR < max_bps then Inl (Err InvalidConfig)
      else Inr (vault_store_max_utilization max_bps w))))"


section \<open>Storage frame\<close>

text \<open>What a write to one cell leaves of the others: the getters over every setter.\<close>

lemma vault_getters_frame [simp]:
  "vault_get_total_shares (w\<lparr>ledger := t\<rparr>) = vault_get_total_shares w"
  "vault_get_total_deposits (w\<lparr>ledger := t\<rparr>) = vault_get_total_deposits w"
  "vault_get_locked_liquidity (w\<lparr>ledger := t\<rparr>) = vault_get_locked_liquidity w"
  "vault_share_balance a (w\<lparr>ledger := t\<rparr>) = vault_share_balance a w"
  "vault_get_total_shares (vault_bump_instance w) = vault_get_total_shares w"
  "vault_get_total_deposits (vault_bump_instance w) = vault_get_total_deposits w"
  "vault_get_locked_liquidity (vault_bump_instance w) = vault_get_locked_liquidity w"
  "vault_get_max_utilization (vault_bump_instance w) = vault_get_max_utilization w"
  "vault_get_usdc_token (vault_bump_instance w) = vault_get_usdc_token w"
  "vault_get_admin (vault_bump_instance w) = vault_get_admin w"
  "vault_share_balance a (vault_bump_instance w) = vault_share_balance a w"
  "v_pm (vault_st (vault_bump_instance w)) = v_pm (vault_st w)"
  "v_self (vault_st (vault_bump_instance w)) = v_self (vault_st w)"
  "ledger (vault_bump_instance w) = ledger w"
  by (simp_all add: vault_storage_defs)

section \<open>When the operations of the position manager succeed\<close>

text \<open>
  Each operation is characterised by one equivalence: its guards, and the state it returns.
  The properties below and the position manager use these and no definition.
\<close>

lemma vault_require_position_manager_eq_Inr [inv_simps]:
  "vault_require_position_manager e caller w = Inr u \<longleftrightarrow>
     authorised e caller \<and> v_pm (vault_st w) = Some caller"
  by (auto simp: vault_require_position_manager_def inv_simps vault_storage_defs)

lemma vault_lock_liquidity_eq_Inr:
  "vault_lock_liquidity e caller amount w = Inr w' \<longleftrightarrow>
     authorised e caller \<and> v_pm (vault_st w) = Some caller \<and> 0 < amount \<and>
     i128_ok (vault_get_locked_liquidity w + amount) \<and>
     (\<exists>u. calc_utilization_bps (vault_get_locked_liquidity w + amount)
            (vault_get_total_deposits w) = Inr u \<and> u \<le> vault_get_max_utilization w) \<and>
     w' = emit_liquidity_locked e amount (vault_set_locked_liquidity
            (vault_get_locked_liquidity w + amount) (vault_bump_instance w))"
  by (auto simp: vault_lock_liquidity_def inv_simps Let_def not_less)

lemma vault_unlock_liquidity_eq_Inr:
  "vault_unlock_liquidity e caller amount w = Inr w' \<longleftrightarrow>
     authorised e caller \<and> v_pm (vault_st w) = Some caller \<and> 0 < amount \<and>
     i128_ok (vault_get_locked_liquidity w - amount) \<and>
     amount \<le> vault_get_locked_liquidity w \<and>
     w' = emit_liquidity_unlocked e amount (vault_set_locked_liquidity
            (vault_get_locked_liquidity w - amount) (vault_bump_instance w))"
  by (auto simp: vault_unlock_liquidity_def inv_simps Let_def not_less)

lemma vault_collect_fee_eq_Inr:
  "vault_collect_fee e caller amount w = Inr w' \<longleftrightarrow>
     authorised e caller \<and> v_pm (vault_st w) = Some caller \<and> 0 < amount \<and>
     i128_ok (vault_get_total_deposits w + amount) \<and>
     w' = emit_fee_collected e amount (vault_set_total_deposits
            (vault_get_total_deposits w + amount) (vault_bump_instance w))"
  by (auto simp: vault_collect_fee_def inv_simps Let_def not_less)

text \<open>The payout of a settlement, and the state a settlement returns for the ledger \<open>t\<close> after it.\<close>

abbreviation settlement_payout :: "i128 \<Rightarrow> i128 \<Rightarrow> i128 \<Rightarrow> i128" where
  "settlement_payout collateral pnl fee \<equiv> collateral + pnl - fee"

lemma vault_close_position_settlement_eq_Inr:
  "vault_close_position_settlement tk e caller trader psize collateral pnl fee w = Inr w' \<longleftrightarrow>
     authorised e caller \<and> v_pm (vault_st w) = Some caller \<and>
     i128_ok (vault_get_locked_liquidity w - psize) \<and> psize \<le> vault_get_locked_liquidity w \<and>
     i128_ok (vault_get_total_deposits w - pnl) \<and>
     i128_ok (vault_get_total_deposits w - pnl + fee) \<and>
     0 \<le> vault_get_total_deposits w - pnl + fee \<and>
     i128_ok (collateral + pnl) \<and> i128_ok (settlement_payout collateral pnl fee) \<and>
     (\<exists>t. (if 0 < settlement_payout collateral pnl fee
           then \<exists>usdc. v_usdc (vault_st w) = Some usdc \<and>
             tok_transfer tk (subcall e usdc) usdc (e_self e) trader
               (settlement_payout collateral pnl fee) (ledger w) = Inr t
           else t = ledger w) \<and>
       w' = emit_fee_collected e fee (emit_pnl_settled e trader pnl
         ((vault_set_total_deposits (vault_get_total_deposits w - pnl + fee)
            (vault_set_locked_liquidity (vault_get_locked_liquidity w - psize)
              (vault_bump_instance w)))\<lparr>ledger := t\<rparr>)))"
  by (cases "0 < settlement_payout collateral pnl fee")
    (auto simp: vault_close_position_settlement_def inv_simps Let_def not_less vault_storage_defs)

section \<open>When the LP operations succeed\<close>

text \<open>
  \<open>deposited\<close> and \<open>withdrawn\<close> are the states a deposit and a withdrawal return, for the ledger
  \<open>t\<close> the token transfer leaves.
\<close>

abbreviation deposited ::
  "env \<Rightarrow> address \<Rightarrow> i128 \<Rightarrow> i128 \<Rightarrow> 't \<Rightarrow> ('t, 'm) vault_world_scheme \<Rightarrow> ('t, 'm) vault_world_scheme" where
  "deposited e depositor amount s t w \<equiv>
     emit_deposit e depositor amount s
       (vault_set_share_balance depositor (vault_share_balance depositor w + s)
         (snd (vault_read_share_balance depositor
           (vault_set_total_shares (vault_get_total_shares w + s)
             (vault_set_total_deposits (vault_get_total_deposits w + amount)
               ((vault_bump_instance w)\<lparr>ledger := t\<rparr>))))))"

abbreviation withdrawn ::
  "env \<Rightarrow> address \<Rightarrow> i128 \<Rightarrow> i128 \<Rightarrow> 't \<Rightarrow> ('t, 'm) vault_world_scheme \<Rightarrow> ('t, 'm) vault_world_scheme" where
  "withdrawn e depositor s u t w \<equiv>
     emit_withdraw e depositor s u
       ((vault_set_share_balance depositor (vault_share_balance depositor w - s)
         (vault_set_total_deposits (vault_get_total_deposits w - u)
           (vault_set_total_shares (vault_get_total_shares w - s)
             (snd (vault_read_share_balance depositor (vault_bump_instance w))))))\<lparr>ledger := t\<rparr>)"

lemma fst_read_share_balance [simp]:
  "fst (vault_read_share_balance a w) = vault_share_balance a w"
  by (simp add: vault_read_share_balance_def Let_def)

lemma vault_getters_read [simp]:
  "vault_get_total_shares (snd (vault_read_share_balance a w)) = vault_get_total_shares w"
  "vault_get_total_deposits (snd (vault_read_share_balance a w)) = vault_get_total_deposits w"
  "vault_get_locked_liquidity (snd (vault_read_share_balance a w)) = vault_get_locked_liquidity w"
  "vault_get_max_utilization (snd (vault_read_share_balance a w)) = vault_get_max_utilization w"
  "vault_get_usdc_token (snd (vault_read_share_balance a w)) = vault_get_usdc_token w"
  "v_shares (vault_st (snd (vault_read_share_balance a w))) = v_shares (vault_st w)"
  "ledger (snd (vault_read_share_balance a w)) = ledger w"
  "oracle_st (snd (vault_read_share_balance a w)) = oracle_st w"
  by (simp_all add: vault_storage_defs Let_def)

lemma vault_getters_set [simp]:
  "vault_share_balance a (vault_set_total_shares x w) = vault_share_balance a w"
  "vault_share_balance a (vault_set_total_deposits x w) = vault_share_balance a w"
  "vault_get_usdc_token (vault_set_total_shares x w) = vault_get_usdc_token w"
  "vault_get_usdc_token (vault_set_total_deposits x w) = vault_get_usdc_token w"
  "vault_get_usdc_token (vault_set_share_balance a x w) = vault_get_usdc_token w"
  "ledger (vault_set_total_shares x w) = ledger w"
  "ledger (vault_set_total_deposits x w) = ledger w"
  "ledger (vault_set_share_balance a x w) = ledger w"
  by (simp_all add: vault_storage_defs)

lemma vault_get_usdc_token_eq_Inr [inv_simps]:
  "vault_get_usdc_token w = Inr u \<longleftrightarrow> v_usdc (vault_st w) = Some u"
  by (simp add: vault_get_usdc_token_def inv_simps)

lemma vault_deposit_eq_Inr:
  "vault_deposit tk e depositor amount w = Inr (s, w') \<longleftrightarrow>
     authorised e depositor \<and> 0 < amount \<and>
     calc_shares_to_mint amount (vault_get_total_shares w) (vault_get_total_deposits w) = Inr s \<and>
     0 < s \<and> i128_ok (vault_get_total_deposits w + amount) \<and>
     i128_ok (vault_get_total_shares w + s) \<and> i128_ok (vault_share_balance depositor w + s) \<and>
     (\<exists>usdc t. v_usdc (vault_st w) = Some usdc \<and>
        tok_transfer tk (subcall e usdc) usdc depositor (e_self e) amount (ledger w) = Inr t \<and>
        w' = deposited e depositor amount s t w)"
  unfolding vault_deposit_def Let_def prod.case_eq_if
  by (auto simp: inv_simps not_le)

lemma vault_check_withdrawal_eq_Inr:
  "vault_check_withdrawal locked d max_util = Inr x \<longleftrightarrow>
     (if 0 < d then \<exists>u. calc_utilization_bps locked d = Inr u \<and> u \<le> max_util else locked \<le> 0)"
  by (auto simp: vault_check_withdrawal_def inv_simps not_less)

lemma vault_withdraw_eq_Inr:
  "vault_withdraw tk e depositor s w = Inr (u, w') \<longleftrightarrow>
     authorised e depositor \<and> 0 < s \<and> s \<le> vault_share_balance depositor w \<and>
     calc_withdrawal_amount s (vault_get_total_shares w) (vault_get_total_deposits w) = Inr u \<and>
     0 < u \<and> i128_ok (vault_get_total_deposits w - u) \<and>
     vault_check_withdrawal (vault_get_locked_liquidity w) (vault_get_total_deposits w - u)
       (vault_get_max_utilization w) = Inr () \<and>
     i128_ok (vault_get_total_shares w - s) \<and> i128_ok (vault_share_balance depositor w - s) \<and>
     (\<exists>usdc t. v_usdc (vault_st w) = Some usdc \<and>
        tok_transfer tk (subcall e usdc) usdc (e_self e) depositor u (ledger w) = Inr t \<and>
        w' = withdrawn e depositor s u t w)"
  unfolding vault_withdraw_def
  unfolding Let_def prod.case_eq_if
  by (auto simp: inv_simps not_le not_less)

end
