(* ===== verification/Position_Math.thy ===== *)
theory Position_Math
  imports Perps_Interfaces
begin

text \<open>
  The arithmetic of positions, \<^verbatim>\<open>contracts/position-manager/src/math.rs\<close>: profit and loss,
  the trading fee and the funding payment.
\<close>

section \<open>Definitions\<close>

definition calculate_pnl :: "direction \<Rightarrow> i128 \<Rightarrow> i128 \<Rightarrow> i128 \<Rightarrow> i128 res" where
  "calculate_pnl direction psize entry_price current_price =
     (case direction of
        Long \<Rightarrow>
          bnd (i128_sub current_price entry_price) (\<lambda>d.
          bnd (i128_mul psize d) (\<lambda>p. i128_div p entry_price))
      | Short \<Rightarrow>
          bnd (i128_sub entry_price current_price) (\<lambda>d.
          bnd (i128_mul psize d) (\<lambda>p. i128_div p entry_price)))"

definition calculate_fee :: "i128 \<Rightarrow> u32 \<Rightarrow> i128 res" where
  "calculate_fee notional_size fee_bps =
     bnd (i128_mul notional_size (u32_as_i128 fee_bps)) (\<lambda>p. i128_div p 10000)"

definition calculate_funding_payment :: "i128 \<Rightarrow> i128 \<Rightarrow> i128 \<Rightarrow> i128 res" where
  "calculate_funding_payment psize entry_funding_index current_funding_index =
     bnd (i128_sub current_funding_index entry_funding_index) (\<lambda>d.
     bnd (i128_mul psize d) (\<lambda>p. i128_div p 10000))"

section \<open>What the formulas compute\<close>

text \<open>The price move in the position's favour.\<close>

definition favourable_move :: "direction \<Rightarrow> i128 \<Rightarrow> i128 \<Rightarrow> int" where
  "favourable_move direction entry_price current_price =
     (case direction of Long \<Rightarrow> current_price - entry_price | Short \<Rightarrow> entry_price - current_price)"

lemma calculate_pnl_eq_Inr:
  "calculate_pnl d n entry p = Inr r \<longleftrightarrow>
     entry \<noteq> 0 \<and> i128_ok (favourable_move d entry p) \<and> i128_ok (n * favourable_move d entry p) \<and>
     i128_ok r \<and> r = (n * favourable_move d entry p) sdiv entry"
  by (cases d) (auto simp: calculate_pnl_def favourable_move_def inv_simps)

lemma calculate_fee_eq_Inr:
  "calculate_fee n bps = Inr f \<longleftrightarrow>
     i128_ok (n * u32_as_i128 bps) \<and> i128_ok f \<and> f = (n * u32_as_i128 bps) sdiv 10000"
  by (auto simp: calculate_fee_def inv_simps)

text \<open>
  C37. Profit and loss is the notional size times the relative price move, rounded towards zero:
  it has the sign of the move in the position's favour, and its error is below one unit.
\<close>

theorem pnl_is_rounded_relative_move:
  assumes "calculate_pnl d n entry p = Inr r" and "0 < n" and "0 < entry"
  shows "\<bar>r\<bar> * entry \<le> n * \<bar>favourable_move d entry p\<bar>
       \<and> n * \<bar>favourable_move d entry p\<bar> < (\<bar>r\<bar> + 1) * entry
       \<and> (0 < r \<longrightarrow> 0 < favourable_move d entry p) \<and> (r < 0 \<longrightarrow> favourable_move d entry p < 0)"
proof -
  let ?m = "favourable_move d entry p"
  have r: "r = (n * ?m) sdiv entry" using assms(1) by (simp add: calculate_pnl_eq_Inr)
  have abs: "\<bar>r\<bar> = (n * \<bar>?m\<bar>) div entry"
  proof (cases "0 \<le> ?m")
    case True
    then show ?thesis using assms by (simp add: r sdiv_nonneg pos_imp_zdiv_nonneg_iff)
  next
    case False
    then have "n * ?m \<le> 0" using assms(2) by (simp add: mult_le_0_iff)
    then have "r = - ((n * \<bar>?m\<bar>) div entry)" using False assms(3) by (simp add: r sdiv_nonpos)
    moreover have "0 \<le> (n * \<bar>?m\<bar>) div entry"
      using assms by (simp add: pos_imp_zdiv_nonneg_iff)
    ultimately show ?thesis by simp
  qed
  have "r \<le> 0" if "?m \<le> 0"
    unfolding r using that assms(2,3) by (intro sdiv_nonpos_nonpos) (simp_all add: mult_le_0_iff)
  moreover have "0 \<le> r" if "0 \<le> ?m"
    unfolding r using that assms(2,3) by (intro sdiv_nonneg_nonneg) simp_all
  ultimately show ?thesis
    unfolding abs using div_mult_le_pos [OF assms(3)] div_mult_gt_pos [OF assms(3)]
    by (metis linorder_not_le order_less_le_trans)
qed

text \<open>
  A long and a short of the same size and entry price are mirror images: what one wins, the
  other loses, to the last unit.
\<close>

theorem long_and_short_pnl_cancel:
  assumes "calculate_pnl Long n entry p = Inr l" and "calculate_pnl Short n entry p = Inr s"
  shows "l + s = 0"
proof -
  have "favourable_move Short entry p = - favourable_move Long entry p"
    by (simp add: favourable_move_def)
  then have "(n * favourable_move Short entry p) sdiv entry
      = - ((n * favourable_move Long entry p) sdiv entry)"
    by (simp add: sdiv_minus_left)
  then show ?thesis
    using assms by (simp add: calculate_pnl_eq_Inr)
qed

lemma long_loss_bounded:
  assumes "calculate_pnl Long n entry p = Inr r" and "0 < n" and "0 < entry" and "0 < p"
  shows "- n \<le> r"
proof -
  have "- (n * entry) \<le> n * (p - entry)" using assms by (simp add: algebra_simps)
  then have "- n \<le> (n * (p - entry)) sdiv entry" using assms(3) by (intro sdiv_lower)
  then show ?thesis using assms(1) by (simp add: calculate_pnl_eq_Inr favourable_move_def)
qed

lemma short_gain_bounded:
  assumes "calculate_pnl Short n entry p = Inr r" and "0 < n" and "0 < entry" and "0 < p"
  shows "r \<le> n"
proof -
  have "n * (entry - p) \<le> n * entry" using assms by (simp add: algebra_simps)
  then have "(n * (entry - p)) sdiv entry \<le> n" using assms(3) by (intro sdiv_upper)
  then show ?thesis using assms(1) by (simp add: calculate_pnl_eq_Inr favourable_move_def)
qed

lemma pnl_mono:
  assumes "calculate_pnl d n entry p = Inr r" and "calculate_pnl d n entry p' = Inr r'"
    and "0 \<le> n" and "0 < entry" and "favourable_move d entry p \<le> favourable_move d entry p'"
  shows "r \<le> r'"
  using assms by (auto simp: calculate_pnl_eq_Inr intro!: sdiv_mono mult_left_mono)

text \<open>
  The trading fee of a non-negative notional is the share \<open>fee_bps / 10000\<close> rounded down.  Under the
  10\% cap the admin functions enforce it is at most a tenth of the notional.
\<close>

theorem fee_is_rounded_share:
  assumes "calculate_fee n bps = Inr f" and "0 \<le> n" and "bps \<le> 1000"
  shows "0 \<le> f \<and> f * 10000 \<le> n * uint bps \<and> n * uint bps < (f + 1) * 10000 \<and> 10 * f \<le> n"
proof -
  have f: "f = n * uint bps div 10000"
    using assms by (simp add: calculate_fee_eq_Inr sdiv_nonneg u32_as_i128_def)
  have "uint bps \<le> 1000" using assms(3) by (simp add: word_le_def)
  then have "n * uint bps \<le> n * 1000" using assms(2) by (intro mult_left_mono) auto
  moreover have "f * 10000 \<le> n * uint bps" unfolding f by (rule div_mult_le_pos) simp
  moreover have "n * uint bps < (f + 1) * 10000" unfolding f by (rule div_mult_gt_pos) simp
  moreover have "0 \<le> f" unfolding f using assms(2) by (simp add: pos_imp_zdiv_nonneg_iff)
  ultimately show ?thesis by linarith
qed

text \<open>What a user of a price feed gets from positive prices: bounded losses and gains.\<close>

context price_feed begin

lemma quoted_long_loss:
  assumes "priced w" and "quote e a w = Inr (p, w')"
    and "calculate_pnl Long n entry p = Inr r" and "0 < n" and "0 < entry"
  shows "- n \<le> r"
  using long_loss_bounded [OF assms(3,4,5)] quote_positive [OF assms(1,2)] by simp

lemma quoted_short_gain:
  assumes "priced w" and "quote e a w = Inr (p, w')"
    and "calculate_pnl Short n entry p = Inr r" and "0 < n" and "0 < entry"
  shows "r \<le> n"
  using short_gain_bounded [OF assms(3,4,5)] quote_positive [OF assms(1,2)] by simp

end

end
