(* ===== verification/Position_Manager.thy ===== *)
theory Position_Manager
  imports Vault Position_Math
begin

text \<open>
  The position manager, \<^verbatim>\<open>contracts/position-manager/src/storage.rs\<close> and
  \<^verbatim>\<open>contracts/position-manager/src/lib.rs\<close>: opening, closing and liquidating leveraged
  positions, open interest per direction, and the calls into the oracle adapter and the vault.
\<close>

section \<open>State\<close>

text \<open>
  One field per \<open>PositionKey\<close>; \<open>None\<close> is an absent key.  \<open>p_self\<close> is the contract's address,
  \<open>p_ttl\<close> and \<open>p_position_ttl\<close> the ledgers the instance and the positions have left.
\<close>

record pm_store =
  p_self :: address
  p_admin :: "address option"
  p_vault :: "address option"
  p_oracle :: "address option"
  p_funding :: "address option"
  p_liq_engine :: "address option"
  p_usdc :: "address option"
  p_next_id :: "u64 option"
  p_open_fee :: "u32 option"
  p_close_fee :: "u32 option"
  p_max_leverage :: "u32 option"
  p_min_collateral :: "i128 option"
  p_oi_long :: "i128 option"
  p_oi_short :: "i128 option"
  p_positions :: "address \<times> u64 \<Rightarrow> position option"
  p_counts :: "address \<Rightarrow> u64 option"
  p_ttl :: u32
  p_position_ttl :: "address \<times> u64 \<Rightarrow> u32"

record 't pm_world = "'t vault_world" +
  pm_st :: pm_store

section \<open>Storage helpers\<close>

definition pm_bump_instance :: "('t, 'm) pm_world_scheme \<Rightarrow> ('t, 'm) pm_world_scheme" where
  "pm_bump_instance w = w\<lparr>pm_st := (pm_st w)
     \<lparr>p_ttl := extend_ttl INSTANCE_TTL_THRESHOLD INSTANCE_TTL_EXTEND (p_ttl (pm_st w))\<rparr>\<rparr>"

definition pm_set_admin :: "address \<Rightarrow> ('t, 'm) pm_world_scheme \<Rightarrow> ('t, 'm) pm_world_scheme" where
  "pm_set_admin x w = w\<lparr>pm_st := (pm_st w)\<lparr>p_admin := Some x\<rparr>\<rparr>"

definition pm_get_admin :: "('t, 'm) pm_world_scheme \<Rightarrow> address res" where
  "pm_get_admin w = of_option (Trap UnwrapNone) (p_admin (pm_st w))"

definition pm_has_admin :: "('t, 'm) pm_world_scheme \<Rightarrow> bool" where
  "pm_has_admin w \<longleftrightarrow> p_admin (pm_st w) \<noteq> None"

definition pm_set_vault :: "address \<Rightarrow> ('t, 'm) pm_world_scheme \<Rightarrow> ('t, 'm) pm_world_scheme" where
  "pm_set_vault x w = w\<lparr>pm_st := (pm_st w)\<lparr>p_vault := Some x\<rparr>\<rparr>"

definition pm_get_vault :: "('t, 'm) pm_world_scheme \<Rightarrow> address res" where
  "pm_get_vault w = of_option (Trap UnwrapNone) (p_vault (pm_st w))"

definition pm_set_oracle :: "address \<Rightarrow> ('t, 'm) pm_world_scheme \<Rightarrow> ('t, 'm) pm_world_scheme" where
  "pm_set_oracle x w = w\<lparr>pm_st := (pm_st w)\<lparr>p_oracle := Some x\<rparr>\<rparr>"

definition pm_get_oracle :: "('t, 'm) pm_world_scheme \<Rightarrow> address res" where
  "pm_get_oracle w = of_option (Trap UnwrapNone) (p_oracle (pm_st w))"

definition pm_set_funding :: "address \<Rightarrow> ('t, 'm) pm_world_scheme \<Rightarrow> ('t, 'm) pm_world_scheme" where
  "pm_set_funding x w = w\<lparr>pm_st := (pm_st w)\<lparr>p_funding := Some x\<rparr>\<rparr>"

definition pm_get_funding :: "('t, 'm) pm_world_scheme \<Rightarrow> address option" where
  "pm_get_funding w = p_funding (pm_st w)"

definition pm_store_liquidation_engine :: "address \<Rightarrow> ('t, 'm) pm_world_scheme \<Rightarrow> ('t, 'm) pm_world_scheme" where
  "pm_store_liquidation_engine x w = w\<lparr>pm_st := (pm_st w)\<lparr>p_liq_engine := Some x\<rparr>\<rparr>"

definition pm_get_liquidation_engine :: "('t, 'm) pm_world_scheme \<Rightarrow> address option" where
  "pm_get_liquidation_engine w = p_liq_engine (pm_st w)"

definition pm_set_usdc_token :: "address \<Rightarrow> ('t, 'm) pm_world_scheme \<Rightarrow> ('t, 'm) pm_world_scheme" where
  "pm_set_usdc_token x w = w\<lparr>pm_st := (pm_st w)\<lparr>p_usdc := Some x\<rparr>\<rparr>"

definition pm_get_usdc_token :: "('t, 'm) pm_world_scheme \<Rightarrow> address res" where
  "pm_get_usdc_token w = of_option (Trap UnwrapNone) (p_usdc (pm_st w))"

definition pm_set_open_fee_rate :: "u32 \<Rightarrow> ('t, 'm) pm_world_scheme \<Rightarrow> ('t, 'm) pm_world_scheme" where
  "pm_set_open_fee_rate x w = w\<lparr>pm_st := (pm_st w)\<lparr>p_open_fee := Some x\<rparr>\<rparr>"

definition pm_get_open_fee_rate :: "('t, 'm) pm_world_scheme \<Rightarrow> u32" where
  "pm_get_open_fee_rate w = get_or 10 (p_open_fee (pm_st w))"

definition pm_set_close_fee_rate :: "u32 \<Rightarrow> ('t, 'm) pm_world_scheme \<Rightarrow> ('t, 'm) pm_world_scheme" where
  "pm_set_close_fee_rate x w = w\<lparr>pm_st := (pm_st w)\<lparr>p_close_fee := Some x\<rparr>\<rparr>"

definition pm_get_close_fee_rate :: "('t, 'm) pm_world_scheme \<Rightarrow> u32" where
  "pm_get_close_fee_rate w = get_or 10 (p_close_fee (pm_st w))"

definition pm_store_max_leverage :: "u32 \<Rightarrow> ('t, 'm) pm_world_scheme \<Rightarrow> ('t, 'm) pm_world_scheme" where
  "pm_store_max_leverage x w = w\<lparr>pm_st := (pm_st w)\<lparr>p_max_leverage := Some x\<rparr>\<rparr>"

definition pm_get_max_leverage :: "('t, 'm) pm_world_scheme \<Rightarrow> u32" where
  "pm_get_max_leverage w = get_or 30 (p_max_leverage (pm_st w))"

definition pm_set_min_collateral :: "i128 \<Rightarrow> ('t, 'm) pm_world_scheme \<Rightarrow> ('t, 'm) pm_world_scheme" where
  "pm_set_min_collateral x w = w\<lparr>pm_st := (pm_st w)\<lparr>p_min_collateral := Some x\<rparr>\<rparr>"

definition pm_get_min_collateral :: "('t, 'm) pm_world_scheme \<Rightarrow> i128" where
  "pm_get_min_collateral w = get_or 100000000 (p_min_collateral (pm_st w))"

definition pm_get_next_position_id :: "('t, 'm) pm_world_scheme \<Rightarrow> u64" where
  "pm_get_next_position_id w = get_or 1 (p_next_id (pm_st w))"

definition pm_increment_position_id :: "('t, 'm) pm_world_scheme \<Rightarrow> (u64 \<times> ('t, 'm) pm_world_scheme) res" where
  "pm_increment_position_id w =
     (let i = pm_get_next_position_id w in
      bnd (u64_add i 1) (\<lambda>n. Inr (i, w\<lparr>pm_st := (pm_st w)\<lparr>p_next_id := Some n\<rparr>\<rparr>)))"

definition pm_get_oi_long :: "('t, 'm) pm_world_scheme \<Rightarrow> i128" where
  "pm_get_oi_long w = get_or 0 (p_oi_long (pm_st w))"

definition pm_set_oi_long :: "i128 \<Rightarrow> ('t, 'm) pm_world_scheme \<Rightarrow> ('t, 'm) pm_world_scheme" where
  "pm_set_oi_long x w = w\<lparr>pm_st := (pm_st w)\<lparr>p_oi_long := Some x\<rparr>\<rparr>"

definition pm_get_oi_short :: "('t, 'm) pm_world_scheme \<Rightarrow> i128" where
  "pm_get_oi_short w = get_or 0 (p_oi_short (pm_st w))"

definition pm_set_oi_short :: "i128 \<Rightarrow> ('t, 'm) pm_world_scheme \<Rightarrow> ('t, 'm) pm_world_scheme" where
  "pm_set_oi_short x w = w\<lparr>pm_st := (pm_st w)\<lparr>p_oi_short := Some x\<rparr>\<rparr>"

definition pm_save_position ::
  "address \<Rightarrow> u64 \<Rightarrow> position \<Rightarrow> ('t, 'm) pm_world_scheme \<Rightarrow> ('t, 'm) pm_world_scheme" where
  "pm_save_position trader i p w = w\<lparr>pm_st := (pm_st w)
     \<lparr>p_positions := (p_positions (pm_st w))((trader, i) \<mapsto> p),
      p_position_ttl := (p_position_ttl (pm_st w))((trader, i) :=
        extend_ttl POSITION_TTL_THRESHOLD POSITION_TTL_EXTEND (p_position_ttl (pm_st w) (trader, i)))\<rparr>\<rparr>"

text \<open>Reading a position that exists extends its time to live.\<close>

definition pm_load_position ::
  "address \<Rightarrow> u64 \<Rightarrow> ('t, 'm) pm_world_scheme \<Rightarrow> position option \<times> ('t, 'm) pm_world_scheme" where
  "pm_load_position trader i w =
     (let pos = p_positions (pm_st w) (trader, i) in
      (pos,
       if pos \<noteq> None then w\<lparr>pm_st := (pm_st w)
         \<lparr>p_position_ttl := (p_position_ttl (pm_st w))((trader, i) :=
           extend_ttl POSITION_TTL_THRESHOLD POSITION_TTL_EXTEND
             (p_position_ttl (pm_st w) (trader, i)))\<rparr>\<rparr>
       else w))"

definition pm_remove_position ::
  "address \<Rightarrow> u64 \<Rightarrow> ('t, 'm) pm_world_scheme \<Rightarrow> ('t, 'm) pm_world_scheme" where
  "pm_remove_position trader i w = w\<lparr>pm_st := (pm_st w)
     \<lparr>p_positions := (p_positions (pm_st w))((trader, i) := None)\<rparr>\<rparr>"

definition pm_get_trader_position_count :: "address \<Rightarrow> ('t, 'm) pm_world_scheme \<Rightarrow> u64" where
  "pm_get_trader_position_count trader w = get_or 0 (p_counts (pm_st w) trader)"

definition pm_set_trader_position_count ::
  "address \<Rightarrow> u64 \<Rightarrow> ('t, 'm) pm_world_scheme \<Rightarrow> ('t, 'm) pm_world_scheme" where
  "pm_set_trader_position_count trader n w = w\<lparr>pm_st := (pm_st w)
     \<lparr>p_counts := (p_counts (pm_st w))(trader \<mapsto> n)\<rparr>\<rparr>"

lemmas pm_storage_defs =
  pm_bump_instance_def pm_set_admin_def pm_get_admin_def pm_has_admin_def pm_set_vault_def
  pm_get_vault_def pm_set_oracle_def pm_get_oracle_def pm_set_funding_def pm_get_funding_def
  pm_store_liquidation_engine_def pm_get_liquidation_engine_def pm_set_usdc_token_def
  pm_get_usdc_token_def pm_set_open_fee_rate_def pm_get_open_fee_rate_def
  pm_set_close_fee_rate_def pm_get_close_fee_rate_def pm_store_max_leverage_def
  pm_get_max_leverage_def pm_set_min_collateral_def pm_get_min_collateral_def
  pm_get_next_position_id_def pm_increment_position_id_def pm_get_oi_long_def pm_set_oi_long_def
  pm_get_oi_short_def pm_set_oi_short_def pm_save_position_def pm_load_position_def
  pm_remove_position_def pm_get_trader_position_count_def pm_set_trader_position_count_def

section \<open>Events\<close>

definition emit_position_opened ::
  "env \<Rightarrow> address \<Rightarrow> u64 \<Rightarrow> direction \<Rightarrow> i128 \<Rightarrow> i128 \<Rightarrow> i128 \<Rightarrow> u32 \<Rightarrow> i128
    \<Rightarrow> ('t, 'm) host_scheme \<Rightarrow> ('t, 'm) host_scheme" where
  "emit_position_opened e trader position_id direction psize collateral entry_price leverage fee =
     publish e [SSym ''position_opened'', SAddr trader, SU64 position_id]
       (SVec [SDir direction, SI128 psize, SI128 collateral, SI128 entry_price, SU32 leverage,
              SI128 fee])"

definition emit_position_closed ::
  "env \<Rightarrow> address \<Rightarrow> u64 \<Rightarrow> i128 \<Rightarrow> i128 \<Rightarrow> i128 \<Rightarrow> ('t, 'm) host_scheme
    \<Rightarrow> ('t, 'm) host_scheme" where
  "emit_position_closed e trader position_id exit_price realized_pnl fee =
     publish e [SSym ''position_closed'', SAddr trader, SU64 position_id]
       (SVec [SI128 exit_price, SI128 realized_pnl, SI128 fee])"

section \<open>Calls into the oracle adapter and the vault\<close>

text \<open>\<open>OracleAdapterContractClient::new(&env, &oracle_addr).get_price_value(&asset)\<close>.\<close>

definition pm_query_price ::
  "env \<Rightarrow> u32 \<Rightarrow> ('t, 'm) pm_world_scheme \<Rightarrow> (i128 \<times> ('t, 'm) pm_world_scheme) res" where
  "pm_query_price e asset w =
     bnd (pm_get_oracle w) (\<lambda>oracle_addr.
     bnd (contract_at e (o_self (oracle_st w)) oracle_addr) (\<lambda>oe.
     oracle_get_price_value oe asset w))"

text \<open>The loss of a closing position is capped at its collateral.\<close>

definition capped_pnl :: "position \<Rightarrow> i128 \<Rightarrow> i128 res" where
  "capped_pnl pos current_price =
     bnd (calculate_pnl (pos_direction pos) (pos_size pos) (pos_entry_price pos) current_price)
       (\<lambda>raw_pnl.
     bnd (i128_neg (pos_collateral pos)) (\<lambda>floor.
     Inr (if raw_pnl < floor then floor else raw_pnl)))"

definition pm_add_open_interest ::
  "direction \<Rightarrow> i128 \<Rightarrow> ('t, 'm) pm_world_scheme \<Rightarrow> ('t, 'm) pm_world_scheme res" where
  "pm_add_open_interest direction psize w =
     (case direction of
        Long \<Rightarrow> bnd (i128_add (pm_get_oi_long w) psize) (\<lambda>oi. Inr (pm_set_oi_long oi w))
      | Short \<Rightarrow> bnd (i128_add (pm_get_oi_short w) psize) (\<lambda>oi. Inr (pm_set_oi_short oi w)))"

definition pm_sub_open_interest ::
  "direction \<Rightarrow> i128 \<Rightarrow> ('t, 'm) pm_world_scheme \<Rightarrow> ('t, 'm) pm_world_scheme res" where
  "pm_sub_open_interest direction psize w =
     (case direction of
        Long \<Rightarrow> bnd (i128_sub (pm_get_oi_long w) psize) (\<lambda>oi. Inr (pm_set_oi_long oi w))
      | Short \<Rightarrow> bnd (i128_sub (pm_get_oi_short w) psize) (\<lambda>oi. Inr (pm_set_oi_short oi w)))"

definition pm_drop_position_count ::
  "address \<Rightarrow> ('t, 'm) pm_world_scheme \<Rightarrow> ('t, 'm) pm_world_scheme" where
  "pm_drop_position_count trader w =
     (let count = pm_get_trader_position_count trader w in
      if 0 < count then pm_set_trader_position_count trader (count - 1) w else w)"

section \<open>Operations\<close>

definition pm_initialize ::
  "address \<Rightarrow> address \<Rightarrow> address \<Rightarrow> address \<Rightarrow> u32 \<Rightarrow> u32 \<Rightarrow> u32 \<Rightarrow> i128
    \<Rightarrow> ('t, 'm) pm_world_scheme \<Rightarrow> ('t, 'm) pm_world_scheme res" where
  "pm_initialize admin vault orc usdc_token open_fee_bps close_fee_bps max_leverage
      min_collateral w =
     (if pm_has_admin w then Inl (Err AlreadyInitialized)
      else if max_leverage = 0 \<or> 1000 < open_fee_bps \<or> 1000 < close_fee_bps
        then Inl (Err InvalidConfig)
      else
        let w = pm_set_admin admin w;
            w = pm_set_vault vault w;
            w = pm_set_oracle orc w;
            w = pm_set_usdc_token usdc_token w;
            w = pm_set_open_fee_rate open_fee_bps w;
            w = pm_set_close_fee_rate close_fee_bps w;
            w = pm_store_max_leverage max_leverage w;
            w = pm_set_min_collateral min_collateral w;
            w = pm_set_oi_long 0 w;
            w = pm_set_oi_short 0 w;
            w = pm_bump_instance w
        in Inr w)"

definition pm_open_position ::
  "'t token \<Rightarrow> env \<Rightarrow> address \<Rightarrow> u32 \<Rightarrow> direction \<Rightarrow> i128 \<Rightarrow> u32
    \<Rightarrow> ('t, 'm) pm_world_scheme \<Rightarrow> (u64 \<times> ('t, 'm) pm_world_scheme) res" where
  "pm_open_position tk e trader asset direction collateral leverage w =
     (let w = pm_bump_instance w in
      bnd (require_auth e trader) (\<lambda>_.
      if collateral < pm_get_min_collateral w then Inl (Err MinCollateralNotMet)
      else if leverage = 0 \<or> pm_get_max_leverage w < leverage then Inl (Err InvalidLeverage) else
      bnd (pm_query_price e asset w) (\<lambda>(entry_price, w).
      bnd (i128_mul collateral (u32_as_i128 leverage)) (\<lambda>psize.
      bnd (calculate_fee psize (pm_get_open_fee_rate w)) (\<lambda>open_fee.
      bnd (i128_add collateral open_fee) (\<lambda>total_cost.
      bnd (pm_get_usdc_token w) (\<lambda>usdc_addr.
      bnd (pm_get_vault w) (\<lambda>vault_addr.
      bnd (token_transfer tk e usdc_addr trader vault_addr total_cost w) (\<lambda>w.
      bnd (contract_at e (v_self (vault_st w)) vault_addr) (\<lambda>ve.
      bnd (vault_lock_liquidity ve (e_self e) psize w) (\<lambda>w.
      bnd (vault_collect_fee ve (e_self e) open_fee w) (\<lambda>w.
      bnd (pm_increment_position_id w) (\<lambda>(position_id, w).
      let pos = \<lparr>pos_id = position_id, pos_trader = trader, pos_asset = asset,
                 pos_direction = direction, pos_size = psize, pos_collateral = collateral,
                 pos_entry_price = entry_price, pos_leverage = leverage,
                 pos_funding_index = 0, pos_opened_at = e_now e\<rparr>;
          w = pm_save_position trader position_id pos w in
      bnd (pm_add_open_interest direction psize w) (\<lambda>w.
      let count = pm_get_trader_position_count trader w in
      bnd (u64_add count 1) (\<lambda>n.
      let w = pm_set_trader_position_count trader n w;
          w = emit_position_opened e trader position_id direction psize collateral entry_price
                leverage open_fee w
      in Inr (position_id, w))))))))))))))))"

definition pm_close_position ::
  "'t token \<Rightarrow> env \<Rightarrow> address \<Rightarrow> u64 \<Rightarrow> u32 \<Rightarrow> ('t, 'm) pm_world_scheme
    \<Rightarrow> (i128 \<times> ('t, 'm) pm_world_scheme) res" where
  "pm_close_position tk e trader position_id asset w =
     (let w = pm_bump_instance w in
      bnd (require_auth e trader) (\<lambda>_.
      let (found, w) = pm_load_position trader position_id w in
      bnd (of_option (Err PositionNotFound) found) (\<lambda>pos.
      if pos_trader pos \<noteq> trader then Inl (Err Unauthorized)
      else if pos_asset pos \<noteq> asset then Inl (Err AssetMismatch) else
      bnd (pm_query_price e asset w) (\<lambda>(current_price, w).
      bnd (capped_pnl pos current_price) (\<lambda>price_pnl.
      bnd (calculate_fee (pos_size pos) (pm_get_close_fee_rate w)) (\<lambda>close_fee.
      bnd (i128_sub price_pnl close_fee) (\<lambda>net_pnl.
      bnd (pm_get_vault w) (\<lambda>vault_addr.
      bnd (contract_at e (v_self (vault_st w)) vault_addr) (\<lambda>ve.
      bnd (vault_close_position_settlement tk ve (e_self e) trader (pos_size pos)
             (pos_collateral pos) price_pnl close_fee w) (\<lambda>w.
      let w = pm_remove_position trader position_id w in
      bnd (pm_sub_open_interest (pos_direction pos) (pos_size pos) w) (\<lambda>w.
      let w = pm_drop_position_count trader w;
          w = emit_position_closed e trader position_id current_price net_pnl close_fee w
      in Inr (net_pnl, w))))))))))))"

definition pm_get_position ::
  "address \<Rightarrow> u64 \<Rightarrow> ('t, 'm) pm_world_scheme \<Rightarrow> (position \<times> ('t, 'm) pm_world_scheme) res" where
  "pm_get_position trader position_id w =
     (let w = pm_bump_instance w;
          (found, w) = pm_load_position trader position_id w
      in bnd (of_option (Err PositionNotFound) found) (\<lambda>pos. Inr (pos, w)))"

definition pm_get_unrealized_pnl ::
  "env \<Rightarrow> address \<Rightarrow> u64 \<Rightarrow> u32 \<Rightarrow> ('t, 'm) pm_world_scheme
    \<Rightarrow> (i128 \<times> ('t, 'm) pm_world_scheme) res" where
  "pm_get_unrealized_pnl e trader position_id asset w =
     (let w = pm_bump_instance w;
          (found, w) = pm_load_position trader position_id w
      in bnd (of_option (Err PositionNotFound) found) (\<lambda>pos.
         bnd (pm_query_price e asset w) (\<lambda>(current_price, w).
         bnd (calculate_pnl (pos_direction pos) (pos_size pos) (pos_entry_price pos) current_price)
           (\<lambda>pnl. Inr (pnl, w)))))"

definition pm_liquidate_position ::
  "'t token \<Rightarrow> env \<Rightarrow> address \<Rightarrow> address \<Rightarrow> u64 \<Rightarrow> u32 \<Rightarrow> ('t, 'm) pm_world_scheme
    \<Rightarrow> ((i128 \<times> i128) \<times> ('t, 'm) pm_world_scheme) res" where
  "pm_liquidate_position tk e caller trader position_id asset w =
     (let w = pm_bump_instance w in
      bnd (require_auth e caller) (\<lambda>_.
      bnd (of_option (Err NotInitialized) (pm_get_liquidation_engine w)) (\<lambda>le.
      if caller \<noteq> le then Inl (Err Unauthorized) else
      let (found, w) = pm_load_position trader position_id w in
      bnd (of_option (Err PositionNotFound) found) (\<lambda>pos.
      if pos_asset pos \<noteq> asset then Inl (Err AssetMismatch) else
      bnd (pm_query_price e asset w) (\<lambda>(current_price, w).
      bnd (capped_pnl pos current_price) (\<lambda>price_pnl.
      bnd (pm_get_vault w) (\<lambda>vault_addr.
      bnd (contract_at e (v_self (vault_st w)) vault_addr) (\<lambda>ve.
      bnd (vault_close_position_settlement tk ve (e_self e) trader (pos_size pos)
             (pos_collateral pos) price_pnl 0 w) (\<lambda>w.
      let w = pm_remove_position trader position_id w in
      bnd (pm_sub_open_interest (pos_direction pos) (pos_size pos) w) (\<lambda>w.
      let w = pm_drop_position_count trader w
      in Inr ((pos_collateral pos, price_pnl), w)))))))))))"

section \<open>Views and admin functions\<close>

definition pm_view_open_interest_long ::
  "('t, 'm) pm_world_scheme \<Rightarrow> i128 \<times> ('t, 'm) pm_world_scheme" where
  "pm_view_open_interest_long w = (let w = pm_bump_instance w in (pm_get_oi_long w, w))"

definition pm_view_open_interest_short ::
  "('t, 'm) pm_world_scheme \<Rightarrow> i128 \<times> ('t, 'm) pm_world_scheme" where
  "pm_view_open_interest_short w = (let w = pm_bump_instance w in (pm_get_oi_short w, w))"

definition pm_view_trader_position_count ::
  "address \<Rightarrow> ('t, 'm) pm_world_scheme \<Rightarrow> u64 \<times> ('t, 'm) pm_world_scheme" where
  "pm_view_trader_position_count trader w =
     (let w = pm_bump_instance w in (pm_get_trader_position_count trader w, w))"

definition pm_set_fee_rates ::
  "env \<Rightarrow> address \<Rightarrow> u32 \<Rightarrow> u32 \<Rightarrow> ('t, 'm) pm_world_scheme \<Rightarrow> ('t, 'm) pm_world_scheme res" where
  "pm_set_fee_rates e admin open_bps close_bps w =
     (let w = pm_bump_instance w in
      bnd (require_auth e admin) (\<lambda>_.
      bnd (pm_get_admin w) (\<lambda>stored_admin.
      if admin \<noteq> stored_admin then Inl (Err Unauthorized)
      else if 1000 < open_bps \<or> 1000 < close_bps then Inl (Err InvalidConfig)
      else
        let w = pm_set_open_fee_rate open_bps w;
            w = pm_set_close_fee_rate close_bps w
        in Inr w)))"

definition pm_set_max_leverage ::
  "env \<Rightarrow> address \<Rightarrow> u32 \<Rightarrow> ('t, 'm) pm_world_scheme \<Rightarrow> ('t, 'm) pm_world_scheme res" where
  "pm_set_max_leverage e admin max_lev w =
     (let w = pm_bump_instance w in
      bnd (require_auth e admin) (\<lambda>_.
      bnd (pm_get_admin w) (\<lambda>stored_admin.
      if admin \<noteq> stored_admin then Inl (Err Unauthorized)
      else if max_lev = 0 then Inl (Err InvalidConfig)
      else Inr (pm_store_max_leverage max_lev w))))"

definition pm_set_liquidation_engine ::
  "env \<Rightarrow> address \<Rightarrow> address \<Rightarrow> ('t, 'm) pm_world_scheme \<Rightarrow> ('t, 'm) pm_world_scheme res" where
  "pm_set_liquidation_engine e admin le_address w =
     (let w = pm_bump_instance w in
      bnd (require_auth e admin) (\<lambda>_.
      bnd (pm_get_admin w) (\<lambda>stored_admin.
      if admin \<noteq> stored_admin then Inl (Err Unauthorized)
      else Inr (pm_store_liquidation_engine le_address w))))"

definition pm_set_funding_address ::
  "env \<Rightarrow> address \<Rightarrow> address \<Rightarrow> ('t, 'm) pm_world_scheme \<Rightarrow> ('t, 'm) pm_world_scheme res" where
  "pm_set_funding_address e admin fund_address w =
     (let w = pm_bump_instance w in
      bnd (require_auth e admin) (\<lambda>_.
      bnd (pm_get_admin w) (\<lambda>stored_admin.
      if admin \<noteq> stored_admin then Inl (Err Unauthorized)
      else Inr (pm_set_funding fund_address w))))"

end
