(* ===== verification/Funding_Rate.thy ===== *)
theory Funding_Rate
  imports Position_Manager
begin

text \<open>
  The funding rate contract, \<^verbatim>\<open>contracts/funding-rate/src/lib.rs\<close>: a rate from the skew of the
  position manager's open interest, added to two cumulative indices once per interval.
\<close>

section \<open>State\<close>

text \<open>One field per \<open>FundingKey\<close>; \<open>f_self\<close> is the contract's address, \<open>f_ttl\<close> its time to live.\<close>

record fund_store =
  f_self :: address
  f_admin :: "address option"
  f_pm :: "address option"
  f_interval :: "u64 option"
  f_max_rate :: "u32 option"
  f_spread :: "u32 option"
  f_cum_long :: "i128 option"
  f_cum_short :: "i128 option"
  f_last_time :: "u64 option"
  f_ttl :: u32

record 't fund_world = "'t pm_world" +
  fund_st :: fund_store

section \<open>Storage helpers\<close>

definition fund_bump_instance :: "('t, 'm) fund_world_scheme \<Rightarrow> ('t, 'm) fund_world_scheme" where
  "fund_bump_instance w = w\<lparr>fund_st := (fund_st w)
     \<lparr>f_ttl := extend_ttl INSTANCE_TTL_THRESHOLD INSTANCE_TTL_EXTEND (f_ttl (fund_st w))\<rparr>\<rparr>"

definition fund_set_admin :: "address \<Rightarrow> ('t, 'm) fund_world_scheme \<Rightarrow> ('t, 'm) fund_world_scheme" where
  "fund_set_admin x w = w\<lparr>fund_st := (fund_st w)\<lparr>f_admin := Some x\<rparr>\<rparr>"

definition fund_get_admin :: "('t, 'm) fund_world_scheme \<Rightarrow> address res" where
  "fund_get_admin w = of_option (Trap UnwrapNone) (f_admin (fund_st w))"

definition fund_has_admin :: "('t, 'm) fund_world_scheme \<Rightarrow> bool" where
  "fund_has_admin w \<longleftrightarrow> f_admin (fund_st w) \<noteq> None"

definition fund_set_position_manager :: "address \<Rightarrow> ('t, 'm) fund_world_scheme \<Rightarrow> ('t, 'm) fund_world_scheme" where
  "fund_set_position_manager x w = w\<lparr>fund_st := (fund_st w)\<lparr>f_pm := Some x\<rparr>\<rparr>"

definition fund_get_position_manager :: "('t, 'm) fund_world_scheme \<Rightarrow> address res" where
  "fund_get_position_manager w = of_option (Trap UnwrapNone) (f_pm (fund_st w))"

definition fund_store_funding_interval :: "u64 \<Rightarrow> ('t, 'm) fund_world_scheme \<Rightarrow> ('t, 'm) fund_world_scheme" where
  "fund_store_funding_interval x w = w\<lparr>fund_st := (fund_st w)\<lparr>f_interval := Some x\<rparr>\<rparr>"

definition fund_get_funding_interval :: "('t, 'm) fund_world_scheme \<Rightarrow> u64" where
  "fund_get_funding_interval w = get_or 3600 (f_interval (fund_st w))"

definition fund_set_max_funding_rate :: "u32 \<Rightarrow> ('t, 'm) fund_world_scheme \<Rightarrow> ('t, 'm) fund_world_scheme" where
  "fund_set_max_funding_rate x w = w\<lparr>fund_st := (fund_st w)\<lparr>f_max_rate := Some x\<rparr>\<rparr>"

definition fund_get_max_funding_rate :: "('t, 'm) fund_world_scheme \<Rightarrow> u32" where
  "fund_get_max_funding_rate w = get_or 10 (f_max_rate (fund_st w))"

definition fund_set_funding_spread :: "u32 \<Rightarrow> ('t, 'm) fund_world_scheme \<Rightarrow> ('t, 'm) fund_world_scheme" where
  "fund_set_funding_spread x w = w\<lparr>fund_st := (fund_st w)\<lparr>f_spread := Some x\<rparr>\<rparr>"

definition fund_get_funding_spread :: "('t, 'm) fund_world_scheme \<Rightarrow> u32" where
  "fund_get_funding_spread w = get_or 5 (f_spread (fund_st w))"

definition fund_set_cumulative_funding_long :: "i128 \<Rightarrow> ('t, 'm) fund_world_scheme \<Rightarrow> ('t, 'm) fund_world_scheme" where
  "fund_set_cumulative_funding_long x w = w\<lparr>fund_st := (fund_st w)\<lparr>f_cum_long := Some x\<rparr>\<rparr>"

definition fund_get_cumulative_funding_long :: "('t, 'm) fund_world_scheme \<Rightarrow> i128" where
  "fund_get_cumulative_funding_long w = get_or 0 (f_cum_long (fund_st w))"

definition fund_set_cumulative_funding_short :: "i128 \<Rightarrow> ('t, 'm) fund_world_scheme \<Rightarrow> ('t, 'm) fund_world_scheme" where
  "fund_set_cumulative_funding_short x w = w\<lparr>fund_st := (fund_st w)\<lparr>f_cum_short := Some x\<rparr>\<rparr>"

definition fund_get_cumulative_funding_short :: "('t, 'm) fund_world_scheme \<Rightarrow> i128" where
  "fund_get_cumulative_funding_short w = get_or 0 (f_cum_short (fund_st w))"

definition fund_set_last_funding_time :: "u64 \<Rightarrow> ('t, 'm) fund_world_scheme \<Rightarrow> ('t, 'm) fund_world_scheme" where
  "fund_set_last_funding_time x w = w\<lparr>fund_st := (fund_st w)\<lparr>f_last_time := Some x\<rparr>\<rparr>"

definition fund_get_last_funding_time :: "('t, 'm) fund_world_scheme \<Rightarrow> u64" where
  "fund_get_last_funding_time w = get_or 0 (f_last_time (fund_st w))"

lemmas fund_storage_defs =
  fund_bump_instance_def fund_set_admin_def fund_get_admin_def fund_has_admin_def
  fund_set_position_manager_def fund_get_position_manager_def fund_store_funding_interval_def
  fund_get_funding_interval_def fund_set_max_funding_rate_def fund_get_max_funding_rate_def
  fund_set_funding_spread_def fund_get_funding_spread_def fund_set_cumulative_funding_long_def
  fund_get_cumulative_funding_long_def fund_set_cumulative_funding_short_def
  fund_get_cumulative_funding_short_def fund_set_last_funding_time_def
  fund_get_last_funding_time_def

section \<open>Events and helpers\<close>

definition emit_funding_applied ::
  "env \<Rightarrow> i128 \<Rightarrow> i128 \<Rightarrow> i128 \<Rightarrow> i128 \<Rightarrow> i128 \<Rightarrow> i128 \<Rightarrow> u64
    \<Rightarrow> ('t, 'm) host_scheme \<Rightarrow> ('t, 'm) host_scheme" where
  "emit_funding_applied e long_rate short_rate cumulative_long cumulative_short oi_long oi_short
      timestamp =
     publish e [SSym ''funding_applied'']
       (SVec [SI128 long_rate, SI128 short_rate, SI128 cumulative_long, SI128 cumulative_short,
              SI128 oi_long, SI128 oi_short, SU64 timestamp])"

definition clamp :: "i128 \<Rightarrow> i128 \<Rightarrow> i128 \<Rightarrow> i128" where
  "clamp v lo hi = (if v < lo then lo else if hi < v then hi else v)"

section \<open>Operations\<close>

definition fund_initialize ::
  "env \<Rightarrow> address \<Rightarrow> address \<Rightarrow> u64 \<Rightarrow> u32 \<Rightarrow> u32 \<Rightarrow> ('t, 'm) fund_world_scheme
    \<Rightarrow> ('t, 'm) fund_world_scheme res" where
  "fund_initialize e admin position_manager interval max_funding_rate_bps funding_spread_bps w =
     (if fund_has_admin w then Inl (Err AlreadyInitialized)
      else if interval = 0 \<or> max_funding_rate_bps = 0 then Inl (Err InvalidConfig)
      else
        let w = fund_set_admin admin w;
            w = fund_set_position_manager position_manager w;
            w = fund_store_funding_interval interval w;
            w = fund_set_max_funding_rate max_funding_rate_bps w;
            w = fund_set_funding_spread funding_spread_bps w;
            w = fund_set_cumulative_funding_long 0 w;
            w = fund_set_cumulative_funding_short 0 w;
            w = fund_set_last_funding_time (e_now e) w;
            w = fund_bump_instance w
        in Inr w)"

text \<open>The two reads of open interest through \<open>PositionManagerContractClient\<close>.\<close>

definition fund_query_open_interest ::
  "env \<Rightarrow> ('t, 'm) fund_world_scheme \<Rightarrow> ((i128 \<times> i128) \<times> ('t, 'm) fund_world_scheme) res" where
  "fund_query_open_interest e w =
     bnd (fund_get_position_manager w) (\<lambda>pm_addr.
     bnd (contract_at e (p_self (pm_st w)) pm_addr) (\<lambda>_.
     let (oi_long, w) = pm_view_open_interest_long w;
         (oi_short, w) = pm_view_open_interest_short w
     in Inr ((oi_long, oi_short), w)))"

definition fund_get_current_rate ::
  "env \<Rightarrow> ('t, 'm) fund_world_scheme \<Rightarrow> ((i128 \<times> i128) \<times> ('t, 'm) fund_world_scheme) res" where
  "fund_get_current_rate e w =
     (let w = fund_bump_instance w in
      bnd (fund_query_open_interest e w) (\<lambda>((oi_long, oi_short), w).
      bnd (i128_add oi_long oi_short) (\<lambda>total_oi.
      if total_oi = 0 then Inr ((0, 0), w) else
      let max_rate = u32_as_i128 (fund_get_max_funding_rate w);
          spread = u32_as_i128 (fund_get_funding_spread w) in
      bnd (i128_sub oi_long oi_short) (\<lambda>d.
      bnd (i128_mul d 10000) (\<lambda>p.
      bnd (i128_div p total_oi) (\<lambda>skew.
      bnd (i128_neg max_rate) (\<lambda>min_rate.
      let base_rate = clamp skew min_rate max_rate in
      bnd (i128_add base_rate spread) (\<lambda>long_rate.
      bnd (i128_sub base_rate spread) (\<lambda>s.
      bnd (i128_neg s) (\<lambda>short_rate.
      Inr ((long_rate, short_rate), w)))))))))))"

definition fund_apply_funding ::
  "env \<Rightarrow> address \<Rightarrow> ('t, 'm) fund_world_scheme \<Rightarrow> ('t, 'm) fund_world_scheme res" where
  "fund_apply_funding e keeper w =
     (let w = fund_bump_instance w in
      bnd (require_auth e keeper) (\<lambda>_.
      let last_time = fund_get_last_funding_time w;
          interval = fund_get_funding_interval w in
      bnd (u64_sub (e_now e) last_time) (\<lambda>elapsed.
      if elapsed < interval then Inl (Err FundingTooEarly) else
      bnd (fund_get_current_rate e w) (\<lambda>((long_rate, short_rate), w).
      bnd (i128_add (fund_get_cumulative_funding_long w) long_rate) (\<lambda>cum_long.
      bnd (i128_add (fund_get_cumulative_funding_short w) short_rate) (\<lambda>cum_short.
      let w = fund_set_cumulative_funding_long cum_long w;
          w = fund_set_cumulative_funding_short cum_short w;
          w = fund_set_last_funding_time (e_now e) w in
      bnd (fund_query_open_interest e w) (\<lambda>((oi_long, oi_short), w).
      Inr (emit_funding_applied e long_rate short_rate cum_long cum_short oi_long oi_short
             (e_now e) w))))))))"

section \<open>Views and admin functions\<close>

definition fund_view_cumulative_funding_long ::
  "('t, 'm) fund_world_scheme \<Rightarrow> i128 \<times> ('t, 'm) fund_world_scheme" where
  "fund_view_cumulative_funding_long w =
     (let w = fund_bump_instance w in (fund_get_cumulative_funding_long w, w))"

definition fund_view_cumulative_funding_short ::
  "('t, 'm) fund_world_scheme \<Rightarrow> i128 \<times> ('t, 'm) fund_world_scheme" where
  "fund_view_cumulative_funding_short w =
     (let w = fund_bump_instance w in (fund_get_cumulative_funding_short w, w))"

definition fund_view_last_funding_time ::
  "('t, 'm) fund_world_scheme \<Rightarrow> u64 \<times> ('t, 'm) fund_world_scheme" where
  "fund_view_last_funding_time w =
     (let w = fund_bump_instance w in (fund_get_last_funding_time w, w))"

definition fund_set_funding_interval ::
  "env \<Rightarrow> address \<Rightarrow> u64 \<Rightarrow> ('t, 'm) fund_world_scheme \<Rightarrow> ('t, 'm) fund_world_scheme res" where
  "fund_set_funding_interval e admin interval w =
     (let w = fund_bump_instance w in
      bnd (require_auth e admin) (\<lambda>_.
      bnd (fund_get_admin w) (\<lambda>stored_admin.
      if admin \<noteq> stored_admin then Inl (Err Unauthorized)
      else if interval = 0 then Inl (Err InvalidConfig)
      else Inr (fund_store_funding_interval interval w))))"

definition fund_set_max_rate ::
  "env \<Rightarrow> address \<Rightarrow> u32 \<Rightarrow> ('t, 'm) fund_world_scheme \<Rightarrow> ('t, 'm) fund_world_scheme res" where
  "fund_set_max_rate e admin max_bps w =
     (let w = fund_bump_instance w in
      bnd (require_auth e admin) (\<lambda>_.
      bnd (fund_get_admin w) (\<lambda>stored_admin.
      if admin \<noteq> stored_admin then Inl (Err Unauthorized)
      else if max_bps = 0 then Inl (Err InvalidConfig)
      else Inr (fund_set_max_funding_rate max_bps w))))"

end
