(* ===== verification/Liquidation_Engine.thy ===== *)
theory Liquidation_Engine
  imports Funding_Rate
begin

text \<open>
  The liquidation engine, \<^verbatim>\<open>contracts/liquidation-engine/src/lib.rs\<close>: the margin ratio of a
  position, the test whether it may be liquidated, and the forced close.
  Its world extends the funding contract's for typing only.
\<close>

section \<open>State\<close>

text \<open>One field per \<open>LiquidationKey\<close>; \<open>l_self\<close> is the contract's address, \<open>l_ttl\<close> its time to live.\<close>

record liq_store =
  l_self :: address
  l_admin :: "address option"
  l_pm :: "address option"
  l_oracle :: "address option"
  l_maintenance :: "u32 option"
  l_penalty :: "u32 option"
  l_reward :: "u32 option"
  l_ttl :: u32

record 't liq_world = "'t fund_world" +
  liq_st :: liq_store

section \<open>Storage helpers\<close>

definition liq_bump_instance :: "('t, 'm) liq_world_scheme \<Rightarrow> ('t, 'm) liq_world_scheme" where
  "liq_bump_instance w = w\<lparr>liq_st := (liq_st w)
     \<lparr>l_ttl := extend_ttl INSTANCE_TTL_THRESHOLD INSTANCE_TTL_EXTEND (l_ttl (liq_st w))\<rparr>\<rparr>"

definition liq_set_admin :: "address \<Rightarrow> ('t, 'm) liq_world_scheme \<Rightarrow> ('t, 'm) liq_world_scheme" where
  "liq_set_admin x w = w\<lparr>liq_st := (liq_st w)\<lparr>l_admin := Some x\<rparr>\<rparr>"

definition liq_get_admin :: "('t, 'm) liq_world_scheme \<Rightarrow> address res" where
  "liq_get_admin w = of_option (Trap UnwrapNone) (l_admin (liq_st w))"

definition liq_has_admin :: "('t, 'm) liq_world_scheme \<Rightarrow> bool" where
  "liq_has_admin w \<longleftrightarrow> l_admin (liq_st w) \<noteq> None"

definition liq_set_position_manager :: "address \<Rightarrow> ('t, 'm) liq_world_scheme \<Rightarrow> ('t, 'm) liq_world_scheme" where
  "liq_set_position_manager x w = w\<lparr>liq_st := (liq_st w)\<lparr>l_pm := Some x\<rparr>\<rparr>"

definition liq_get_position_manager :: "('t, 'm) liq_world_scheme \<Rightarrow> address res" where
  "liq_get_position_manager w = of_option (Trap UnwrapNone) (l_pm (liq_st w))"

definition liq_set_oracle :: "address \<Rightarrow> ('t, 'm) liq_world_scheme \<Rightarrow> ('t, 'm) liq_world_scheme" where
  "liq_set_oracle x w = w\<lparr>liq_st := (liq_st w)\<lparr>l_oracle := Some x\<rparr>\<rparr>"

definition liq_get_oracle :: "('t, 'm) liq_world_scheme \<Rightarrow> address res" where
  "liq_get_oracle w = of_option (Trap UnwrapNone) (l_oracle (liq_st w))"

definition liq_set_maintenance_margin_rate :: "u32 \<Rightarrow> ('t, 'm) liq_world_scheme \<Rightarrow> ('t, 'm) liq_world_scheme" where
  "liq_set_maintenance_margin_rate x w = w\<lparr>liq_st := (liq_st w)\<lparr>l_maintenance := Some x\<rparr>\<rparr>"

definition liq_get_maintenance_margin_rate :: "('t, 'm) liq_world_scheme \<Rightarrow> u32" where
  "liq_get_maintenance_margin_rate w = get_or 500 (l_maintenance (liq_st w))"

definition liq_store_liquidation_penalty :: "u32 \<Rightarrow> ('t, 'm) liq_world_scheme \<Rightarrow> ('t, 'm) liq_world_scheme" where
  "liq_store_liquidation_penalty x w = w\<lparr>liq_st := (liq_st w)\<lparr>l_penalty := Some x\<rparr>\<rparr>"

definition liq_get_liquidation_penalty :: "('t, 'm) liq_world_scheme \<Rightarrow> u32" where
  "liq_get_liquidation_penalty w = get_or 250 (l_penalty (liq_st w))"

definition liq_store_keeper_reward :: "u32 \<Rightarrow> ('t, 'm) liq_world_scheme \<Rightarrow> ('t, 'm) liq_world_scheme" where
  "liq_store_keeper_reward x w = w\<lparr>liq_st := (liq_st w)\<lparr>l_reward := Some x\<rparr>\<rparr>"

definition liq_get_keeper_reward :: "('t, 'm) liq_world_scheme \<Rightarrow> u32" where
  "liq_get_keeper_reward w = get_or 50 (l_reward (liq_st w))"

lemmas liq_storage_defs =
  liq_bump_instance_def liq_set_admin_def liq_get_admin_def liq_has_admin_def
  liq_set_position_manager_def liq_get_position_manager_def liq_set_oracle_def
  liq_get_oracle_def liq_set_maintenance_margin_rate_def liq_get_maintenance_margin_rate_def
  liq_store_liquidation_penalty_def liq_get_liquidation_penalty_def liq_store_keeper_reward_def
  liq_get_keeper_reward_def

section \<open>Events\<close>

definition emit_liquidation ::
  "env \<Rightarrow> address \<Rightarrow> u64 \<Rightarrow> address \<Rightarrow> i128 \<Rightarrow> i128 \<Rightarrow> i128 \<Rightarrow> i128
    \<Rightarrow> ('t, 'm) host_scheme \<Rightarrow> ('t, 'm) host_scheme" where
  "emit_liquidation e trader position_id keeper mark_price margin_ratio_bps penalty
      keeper_reward =
     publish e [SSym ''liquidation'', SAddr trader, SU64 position_id]
       (SVec [SAddr keeper, SI128 mark_price, SI128 margin_ratio_bps, SI128 penalty,
              SI128 keeper_reward])"

section \<open>Operations\<close>

definition liq_initialize ::
  "address \<Rightarrow> address \<Rightarrow> address \<Rightarrow> u32 \<Rightarrow> u32 \<Rightarrow> u32 \<Rightarrow> ('t, 'm) liq_world_scheme
    \<Rightarrow> ('t, 'm) liq_world_scheme res" where
  "liq_initialize admin position_manager orc maintenance_margin_bps liquidation_penalty_bps
      keeper_reward_bps w =
     (if liq_has_admin w then Inl (Err AlreadyInitialized)
      else if maintenance_margin_bps = 0 \<or> 5000 < maintenance_margin_bps
        then Inl (Err InvalidConfig)
      else if liquidation_penalty_bps < keeper_reward_bps then Inl (Err InvalidConfig)
      else
        let w = liq_set_admin admin w;
            w = liq_set_position_manager position_manager w;
            w = liq_set_oracle orc w;
            w = liq_set_maintenance_margin_rate maintenance_margin_bps w;
            w = liq_store_liquidation_penalty liquidation_penalty_bps w;
            w = liq_store_keeper_reward keeper_reward_bps w;
            w = liq_bump_instance w
        in Inr w)"

definition liq_get_margin_ratio ::
  "env \<Rightarrow> address \<Rightarrow> u64 \<Rightarrow> u32 \<Rightarrow> ('t, 'm) liq_world_scheme
    \<Rightarrow> (i128 \<times> ('t, 'm) liq_world_scheme) res" where
  "liq_get_margin_ratio e trader position_id asset w =
     (let w = liq_bump_instance w in
      bnd (liq_get_position_manager w) (\<lambda>pm_addr.
      bnd (contract_at e (p_self (pm_st w)) pm_addr) (\<lambda>pe.
      bnd (pm_get_position trader position_id w) (\<lambda>(pos, w).
      bnd (pm_get_unrealized_pnl pe trader position_id asset w) (\<lambda>(unrealized_pnl, w).
      bnd (i128_add (pos_collateral pos) unrealized_pnl) (\<lambda>effective_margin.
      if pos_size pos = 0 then Inl (Err PositionNotFound) else
      bnd (i128_mul effective_margin 10000) (\<lambda>p.
      bnd (i128_div p (pos_size pos)) (\<lambda>ratio_bps.
      Inr (ratio_bps, w)))))))))"

definition liq_is_liquidatable ::
  "env \<Rightarrow> address \<Rightarrow> u64 \<Rightarrow> u32 \<Rightarrow> ('t, 'm) liq_world_scheme
    \<Rightarrow> (bool \<times> ('t, 'm) liq_world_scheme) res" where
  "liq_is_liquidatable e trader position_id asset w =
     (let w = liq_bump_instance w;
          maintenance = u32_as_i128 (liq_get_maintenance_margin_rate w)
      in bnd (liq_get_margin_ratio e trader position_id asset w) (\<lambda>(margin_ratio, w).
         Inr (margin_ratio < maintenance, w)))"

text \<open>Penalty and reward: a share of the collateral, capped at the equity that remains.\<close>

definition liq_capped_share :: "i128 \<Rightarrow> i128 \<Rightarrow> i128 \<Rightarrow> i128 res" where
  "liq_capped_share collateral bps remaining_equity =
     (if 0 < remaining_equity then
        bnd (i128_mul collateral bps) (\<lambda>p.
        bnd (i128_div p 10000) (\<lambda>raw.
        Inr (min raw remaining_equity)))
      else Inr 0)"

definition liq_liquidate ::
  "'t token \<Rightarrow> env \<Rightarrow> address \<Rightarrow> address \<Rightarrow> u64 \<Rightarrow> u32 \<Rightarrow> ('t, 'm) liq_world_scheme
    \<Rightarrow> ('t, 'm) liq_world_scheme res" where
  "liq_liquidate tk e keeper trader position_id asset w =
     (let w = liq_bump_instance w in
      bnd (require_auth e keeper) (\<lambda>_.
      bnd (liq_get_position_manager w) (\<lambda>pm_addr.
      bnd (contract_at e (p_self (pm_st w)) pm_addr) (\<lambda>pe.
      bnd (pm_get_position trader position_id w) (\<lambda>(pos, w).
      bnd (liq_get_oracle w) (\<lambda>oracle_addr.
      bnd (contract_at e (o_self (oracle_st w)) oracle_addr) (\<lambda>oe.
      bnd (oracle_get_price_value oe asset w) (\<lambda>(mark_price, w).
      bnd (pm_get_unrealized_pnl pe trader position_id asset w) (\<lambda>(unrealized_pnl, w).
      bnd (i128_add (pos_collateral pos) unrealized_pnl) (\<lambda>effective_margin.
      bnd (i128_mul effective_margin 10000) (\<lambda>m.
      bnd (i128_div m (pos_size pos)) (\<lambda>margin_ratio_bps.
      let maintenance = u32_as_i128 (liq_get_maintenance_margin_rate w) in
      if maintenance \<le> margin_ratio_bps then Inl (Err NotLiquidatable) else
      bnd (pm_liquidate_position tk pe (e_self e) trader position_id asset w)
        (\<lambda>((collateral, pnl), w).
      bnd (i128_add collateral pnl) (\<lambda>remaining_equity.
      let penalty_bps = u32_as_i128 (liq_get_liquidation_penalty w);
          keeper_bps = u32_as_i128 (liq_get_keeper_reward w) in
      bnd (liq_capped_share collateral penalty_bps remaining_equity) (\<lambda>penalty.
      bnd (liq_capped_share collateral keeper_bps remaining_equity) (\<lambda>keeper_reward.
      Inr (emit_liquidation e trader position_id keeper mark_price margin_ratio_bps penalty
             keeper_reward w)))))))))))))))))"

section \<open>Admin functions\<close>

definition liq_set_maintenance_margin ::
  "env \<Rightarrow> address \<Rightarrow> u32 \<Rightarrow> ('t, 'm) liq_world_scheme \<Rightarrow> ('t, 'm) liq_world_scheme res" where
  "liq_set_maintenance_margin e admin bps w =
     (let w = liq_bump_instance w in
      bnd (require_auth e admin) (\<lambda>_.
      bnd (liq_get_admin w) (\<lambda>stored_admin.
      if admin \<noteq> stored_admin then Inl (Err Unauthorized)
      else if bps = 0 \<or> 5000 < bps then Inl (Err InvalidConfig)
      else Inr (liq_set_maintenance_margin_rate bps w))))"

definition liq_set_liquidation_penalty ::
  "env \<Rightarrow> address \<Rightarrow> u32 \<Rightarrow> ('t, 'm) liq_world_scheme \<Rightarrow> ('t, 'm) liq_world_scheme res" where
  "liq_set_liquidation_penalty e admin bps w =
     (let w = liq_bump_instance w in
      bnd (require_auth e admin) (\<lambda>_.
      bnd (liq_get_admin w) (\<lambda>stored_admin.
      if admin \<noteq> stored_admin then Inl (Err Unauthorized)
      else Inr (liq_store_liquidation_penalty bps w))))"

definition liq_set_keeper_reward ::
  "env \<Rightarrow> address \<Rightarrow> u32 \<Rightarrow> ('t, 'm) liq_world_scheme \<Rightarrow> ('t, 'm) liq_world_scheme res" where
  "liq_set_keeper_reward e admin bps w =
     (let w = liq_bump_instance w in
      bnd (require_auth e admin) (\<lambda>_.
      bnd (liq_get_admin w) (\<lambda>stored_admin.
      if admin \<noteq> stored_admin then Inl (Err Unauthorized)
      else Inr (liq_store_keeper_reward bps w))))"

end
