(* ===== verification/Vault_Accounting.thy ===== *)
theory Vault_Accounting
  imports Vault
begin

text \<open>
  What the vault promises: the share accounting invariant and its preservation by every entry
  point, the share price that deposits and withdrawals never lower, the effect of a settlement,
  and the restriction of the position manager's operations.
\<close>

section \<open>The invariant\<close>

definition vault_fresh :: "vault_store \<Rightarrow> bool" where
  "vault_fresh v \<longleftrightarrow> v_usdc v = None \<and> v_total_shares v = None \<and> v_total_deposits v = None \<and>
     v_locked v = None \<and> v_pm v = None \<and> v_shares v = (\<lambda>_. None)"

text \<open>
  The shares handed out add up to \<open>TotalShares\<close>, no balance and no total is negative, and a
  vault that was not initialised holds nothing.
\<close>

definition vault_inv :: "('t, 'm) vault_world_scheme \<Rightarrow> bool" where
  "vault_inv w \<longleftrightarrow>
     finite (dom (v_shares (vault_st w))) \<and>
     (\<forall>a b. v_shares (vault_st w) a = Some b \<longrightarrow> 0 \<le> b) \<and>
     msum (\<lambda>x. x) (v_shares (vault_st w)) = vault_get_total_shares w \<and>
     0 \<le> vault_get_total_deposits w \<and>
     0 \<le> vault_get_locked_liquidity w \<and>
     (v_admin (vault_st w) = None \<longrightarrow> vault_fresh (vault_st w))"

lemma vault_invD:
  assumes "vault_inv w"
  shows "finite (dom (v_shares (vault_st w)))"
    and "msum (\<lambda>x. x) (v_shares (vault_st w)) = vault_get_total_shares w"
    and "0 \<le> vault_get_total_deposits w" and "0 \<le> vault_get_locked_liquidity w"
    and "0 \<le> vault_share_balance a w"
    and "vault_share_balance a w \<le> vault_get_total_shares w"
    and "0 \<le> vault_get_total_shares w"
proof -
  show fin: "finite (dom (v_shares (vault_st w)))"
    and sum: "msum (\<lambda>x. x) (v_shares (vault_st w)) = vault_get_total_shares w"
    and "0 \<le> vault_get_total_deposits w" and "0 \<le> vault_get_locked_liquidity w"
    using assms by (auto simp: vault_inv_def)
  have nonneg: "\<And>k v. v_shares (vault_st w) k = Some v \<Longrightarrow> 0 \<le> v"
    using assms by (auto simp: vault_inv_def)
  then show "0 \<le> vault_share_balance a w"
    by (cases "v_shares (vault_st w) a") (auto simp: vault_share_balance_def)

  show le: "vault_share_balance a w \<le> vault_get_total_shares w"
    using contrib_le_msum [where f = "\<lambda>x. x" and k = a, OF fin nonneg] sum
    by (simp add: contrib_id vault_share_balance_def)
  show "0 \<le> vault_get_total_shares w"
    using msum_nonneg [of "v_shares (vault_st w)" "\<lambda>x. x"] nonneg sum by simp
qed

section \<open>Every entry point keeps the invariant\<close>

text \<open>The views that only extend the instance's time to live before they read.\<close>

datatype vault_view =
    ViewTotalShares
  | ViewTotalDeposits
  | ViewLockedLiquidity
  | ViewAvailableLiquidity
  | ViewSharePrice
  | ViewUtilization

fun vault_read_view ::
  "vault_view \<Rightarrow> ('t, 'm) vault_world_scheme \<Rightarrow> ('t, 'm) vault_world_scheme res" where
  "vault_read_view ViewTotalShares w = Inr (snd (vault_view_total_shares w))"
| "vault_read_view ViewTotalDeposits w = Inr (snd (vault_view_total_deposits w))"
| "vault_read_view ViewLockedLiquidity w = Inr (snd (vault_view_locked_liquidity w))"
| "vault_read_view ViewAvailableLiquidity w =
     bnd (vault_view_available_liquidity w) (\<lambda>(_, w). Inr w)"
| "vault_read_view ViewSharePrice w = bnd (vault_view_share_price w) (\<lambda>(_, w). Inr w)"
| "vault_read_view ViewUtilization w = bnd (vault_view_utilization w) (\<lambda>(_, w). Inr w)"

lemma vault_read_view_state [dest!]:
  "vault_read_view q w = Inr w' \<Longrightarrow> w' = vault_bump_instance w"
  by (cases q) (auto simp: bnd_eq_Inr Let_def vault_view_total_shares_def
      vault_view_total_deposits_def vault_view_locked_liquidity_def
      vault_view_available_liquidity_def vault_view_share_price_def vault_view_utilization_def)

text \<open>The entry points as data, and the dispatcher over them.\<close>

datatype vault_call =
    VInitialize address address u32
  | VDeposit address i128
  | VWithdraw address i128
  | VLock address i128
  | VUnlock address i128
  | VSettlePnl address address i128
  | VCloseSettlement address address i128 i128 i128 i128
  | VCollectFee address i128
  | VViewShareBalance address
  | VView vault_view
  | VSetPositionManager address address
  | VSetMaxUtilization address u32

fun vault_exec ::
  "'t token \<Rightarrow> env \<times> vault_call \<Rightarrow> ('t, 'm) vault_world_scheme \<Rightarrow> ('t, 'm) vault_world_scheme res" where
  "vault_exec tk (e, VInitialize admin usdc max_bps) w = vault_initialize admin usdc max_bps w"
| "vault_exec tk (e, VDeposit d a) w = bnd (vault_deposit tk e d a w) (\<lambda>(_, w). Inr w)"
| "vault_exec tk (e, VWithdraw d s) w = bnd (vault_withdraw tk e d s w) (\<lambda>(_, w). Inr w)"
| "vault_exec tk (e, VLock c a) w = vault_lock_liquidity e c a w"
| "vault_exec tk (e, VUnlock c a) w = vault_unlock_liquidity e c a w"
| "vault_exec tk (e, VSettlePnl c t p) w = vault_settle_pnl tk e c t p w"
| "vault_exec tk (e, VCloseSettlement c t n m p f) w =
     vault_close_position_settlement tk e c t n m p f w"
| "vault_exec tk (e, VCollectFee c a) w = vault_collect_fee e c a w"
| "vault_exec tk (e, VViewShareBalance a) w = Inr (snd (vault_view_share_balance a w))"
| "vault_exec tk (e, VView q) w = vault_read_view q w"
| "vault_exec tk (e, VSetPositionManager a p) w = vault_set_position_manager e a p w"
| "vault_exec tk (e, VSetMaxUtilization a m) w = vault_set_max_utilization e a m w"

text \<open>The cells the invariant reads; a write to any other cell keeps it.\<close>

lemma vault_inv_cong:
  assumes "vault_inv w"
    and "v_shares (vault_st w') = v_shares (vault_st w)"
    and "v_total_shares (vault_st w') = v_total_shares (vault_st w)"
    and "v_total_deposits (vault_st w') = v_total_deposits (vault_st w)"
    and "v_locked (vault_st w') = v_locked (vault_st w)"
    and "v_admin (vault_st w') = None \<longrightarrow> vault_fresh (vault_st w) \<longrightarrow> vault_fresh (vault_st w')"
    and "v_admin (vault_st w') = None \<longrightarrow> v_admin (vault_st w) = None"
  shows "vault_inv w'"
  using assms by (auto simp: vault_inv_def vault_storage_defs)

lemma vault_inv_bump: "vault_inv w \<Longrightarrow> vault_inv (vault_bump_instance w)"
  by (rule vault_inv_cong) (auto simp: vault_storage_defs vault_fresh_def)

lemma vault_inv_initialize:
  "vault_inv w \<Longrightarrow> vault_initialize admin usdc m w = Inr w' \<Longrightarrow> vault_inv w'"
  by (auto simp: vault_initialize_def vault_inv_def vault_fresh_def vault_storage_defs Let_def
      split: if_splits)

text \<open>An authorised position manager or a known token means the vault was initialised.\<close>

lemma vault_inv_initialised:
  assumes "vault_inv w" and "v_pm (vault_st w) \<noteq> None \<or> v_usdc (vault_st w) \<noteq> None"
  shows "v_admin (vault_st w) \<noteq> None"
  using assms by (auto simp: vault_inv_def vault_fresh_def)

lemma vault_inv_totals:
  assumes "vault_inv w" and "v_admin (vault_st w) \<noteq> None"
    and "v_shares (vault_st w') = v_shares (vault_st w)"
    and "v_admin (vault_st w') = v_admin (vault_st w)"
    and "v_total_shares (vault_st w') = v_total_shares (vault_st w)"
    and "0 \<le> vault_get_total_deposits w'" and "0 \<le> vault_get_locked_liquidity w'"
  shows "vault_inv w'"
  using assms by (auto simp: vault_inv_def vault_get_total_shares_def)

lemma vault_inv_deposit:
  assumes inv: "vault_inv w" and run: "vault_deposit tk e d a w = Inr (s, w')"
  shows "vault_inv w'"
proof -
  from run have pos: "0 < a" "0 < s" and usdc: "v_usdc (vault_st w) \<noteq> None"
    and shares: "v_shares (vault_st w') = (v_shares (vault_st w))(d \<mapsto> vault_share_balance d w + s)"
    and total: "vault_get_total_shares w' = vault_get_total_shares w + s"
    and dep: "vault_get_total_deposits w' = vault_get_total_deposits w + a"
    and lock: "vault_get_locked_liquidity w' = vault_get_locked_liquidity w"
    and admin: "v_admin (vault_st w') = v_admin (vault_st w)"
    by (auto simp: vault_deposit_eq_Inr vault_emit_defs vault_storage_defs Let_def)
  note facts = vault_invD [OF inv]
  have "0 \<le> vault_share_balance d w" by (rule facts(5))
  moreover have "v_admin (vault_st w) \<noteq> None" using vault_inv_initialised [OF inv] usdc by blast
  moreover have "get_or 0 (v_shares (vault_st w) d) = vault_share_balance d w"
    by (simp add: vault_share_balance_def)
  ultimately show ?thesis
    using inv pos facts(1-4) shares total dep lock admin
    by (auto simp: vault_inv_def msum_id_upd)
qed

lemma withdrawal_bounds:
  assumes "calc_withdrawal_amount s S D = Inr u" and "0 < u" and "0 < s" and "s \<le> S" and "0 \<le> D"
  shows "u * S \<le> s * D" and "u \<le> D"
proof -
  have S: "0 < S" using assms by simp
  have u: "u = s * D div S"
    using assms S by (auto simp: calc_withdrawal_amount_def inv_simps sdiv_nonneg)
  show le: "u * S \<le> s * D" unfolding u using S by (rule div_mult_le_pos)
  also have "\<dots> \<le> S * D" using assms by (intro mult_right_mono) auto
  finally show "u \<le> D" using S by (simp add: mult.commute)
qed

lemma vault_inv_withdraw:
  assumes inv: "vault_inv w" and run: "vault_withdraw tk e d s w = Inr (u, w')"
  shows "vault_inv w'"
proof -
  from run have pos: "0 < s" "0 < u" "s \<le> vault_share_balance d w"
    and calc: "calc_withdrawal_amount s (vault_get_total_shares w) (vault_get_total_deposits w) = Inr u"
    and usdc: "v_usdc (vault_st w) \<noteq> None"
    and shares: "v_shares (vault_st w') = (v_shares (vault_st w))(d \<mapsto> vault_share_balance d w - s)"
    and total: "vault_get_total_shares w' = vault_get_total_shares w - s"
    and dep: "vault_get_total_deposits w' = vault_get_total_deposits w - u"
    and lock: "vault_get_locked_liquidity w' = vault_get_locked_liquidity w"
    and admin: "v_admin (vault_st w') = v_admin (vault_st w)"
    by (auto simp: vault_withdraw_eq_Inr vault_emit_defs vault_storage_defs Let_def)
  note facts = vault_invD [OF inv]
  have "s \<le> vault_get_total_shares w" using pos facts(6) [of d] by simp
  then have "u \<le> vault_get_total_deposits w"
    using withdrawal_bounds [OF calc] pos facts(3) by simp
  moreover have "v_admin (vault_st w) \<noteq> None" using vault_inv_initialised [OF inv] usdc by blast
  moreover have "get_or 0 (v_shares (vault_st w) d) = vault_share_balance d w"
    by (simp add: vault_share_balance_def)
  ultimately show ?thesis
    using inv pos facts(1-4) shares total dep lock admin
    by (auto simp: vault_inv_def msum_id_upd)
qed

lemma vault_settle_pnl_effect:
  assumes "vault_settle_pnl tk e c t pnl w = Inr w'"
  shows "v_pm (vault_st w) = Some c" and "pnl \<le> vault_get_total_deposits w \<or> pnl \<le> 0"
    and "vault_get_total_deposits w' = vault_get_total_deposits w - pnl"
    and "vault_get_locked_liquidity w' = vault_get_locked_liquidity w"
    and "v_shares (vault_st w') = v_shares (vault_st w)"
    and "v_total_shares (vault_st w') = v_total_shares (vault_st w)"
    and "v_admin (vault_st w') = v_admin (vault_st w)"
  using assms
  by (auto simp: vault_settle_pnl_def inv_simps Let_def vault_emit_defs vault_storage_defs
      split: if_splits)

lemma vault_inv_pm_op:
  assumes inv: "vault_inv w" and pm: "v_pm (vault_st w) = Some c"
    and "v_shares (vault_st w') = v_shares (vault_st w)"
    and "v_admin (vault_st w') = v_admin (vault_st w)"
    and "v_total_shares (vault_st w') = v_total_shares (vault_st w)"
    and "0 \<le> vault_get_total_deposits w'" and "0 \<le> vault_get_locked_liquidity w'"
  shows "vault_inv w'"
proof (rule vault_inv_totals [OF inv])
  show "v_admin (vault_st w) \<noteq> None"
    using vault_inv_initialised [OF inv] pm by simp
qed (use assms in auto)

lemma vault_inv_lock:
  "vault_inv w \<Longrightarrow> vault_lock_liquidity e c n w = Inr w' \<Longrightarrow> vault_inv w'"
  using vault_invD(3,4) [of w]
  by (auto simp: vault_lock_liquidity_eq_Inr vault_emit_defs vault_storage_defs
      intro!: vault_inv_pm_op [of w c])

lemma vault_inv_unlock:
  "vault_inv w \<Longrightarrow> vault_unlock_liquidity e c n w = Inr w' \<Longrightarrow> vault_inv w'"
  using vault_invD(3,4) [of w]
  by (auto simp: vault_unlock_liquidity_eq_Inr vault_emit_defs vault_storage_defs
      intro!: vault_inv_pm_op [of w c])

lemma vault_inv_collect:
  "vault_inv w \<Longrightarrow> vault_collect_fee e c n w = Inr w' \<Longrightarrow> vault_inv w'"
  using vault_invD(3,4) [of w]
  by (auto simp: vault_collect_fee_eq_Inr vault_emit_defs vault_storage_defs
      intro!: vault_inv_pm_op [of w c])

lemma vault_inv_settle_pnl:
  assumes inv: "vault_inv w" and run: "vault_settle_pnl tk e c t p w = Inr w'"
  shows "vault_inv w'"
proof (rule vault_inv_pm_op [OF inv])
  note eff = vault_settle_pnl_effect [OF run]
  show "v_pm (vault_st w) = Some c" by (rule eff(1))
  show "0 \<le> vault_get_total_deposits w'" "0 \<le> vault_get_locked_liquidity w'"
    using eff(2,3,4) vault_invD(3,4) [OF inv] by auto
qed (use vault_settle_pnl_effect [OF run] in auto)

lemma vault_inv_close_settlement:
  "vault_inv w \<Longrightarrow> vault_close_position_settlement tk e c t n m p f w = Inr w' \<Longrightarrow> vault_inv w'"
  using vault_invD(3,4) [of w]
  by (auto simp: vault_close_position_settlement_eq_Inr vault_emit_defs vault_storage_defs
      intro!: vault_inv_pm_op [of w c])

lemma vault_inv_setters:
  "vault_inv w \<Longrightarrow> vault_set_position_manager e a p w = Inr w' \<Longrightarrow> vault_inv w'"
  "vault_inv w \<Longrightarrow> vault_set_max_utilization e a m w = Inr w' \<Longrightarrow> vault_inv w'"
  by (rule vault_inv_cong,
      auto simp: vault_set_position_manager_def vault_set_max_utilization_def Let_def inv_simps
        vault_storage_defs vault_fresh_def)+

lemma vault_inv_read_share_balance:
  "vault_inv w \<Longrightarrow> vault_inv (snd (vault_read_share_balance a w))"
  by (cases "0 < vault_share_balance a w")
    (simp_all add: vault_read_share_balance_def Let_def,
     erule vault_inv_cong, simp_all add: vault_fresh_def)

lemma vault_exec_keeps_inv:
  "vault_inv w \<Longrightarrow> vault_exec tk c w = Inr w' \<Longrightarrow> vault_inv w'"
  by (cases "(tk, c, w)" rule: vault_exec.cases)
    (auto simp: bnd_eq_Inr vault_view_share_balance_def vault_inv_bump
      vault_inv_read_share_balance
      intro: vault_inv_initialize vault_inv_deposit vault_inv_withdraw vault_inv_lock
        vault_inv_unlock vault_inv_settle_pnl vault_inv_close_settlement vault_inv_collect
        vault_inv_setters)

interpretation vault_machine: invariant_machine "vault_exec tk" vault_inv
  by unfold_locales (rule vault_exec_keeps_inv)

lemma vault_fresh_inv:
  "v_admin (vault_st w) = None \<Longrightarrow> vault_fresh (vault_st w) \<Longrightarrow> vault_inv w"
  by (simp add: vault_inv_def vault_fresh_def vault_storage_defs)

text \<open>
  C1. From a vault that was just deployed, whatever sequence of calls reaches its entry points,
  by whomever they are signed and whatever the token does, the share balances of the LPs add up
  to \<open>TotalShares\<close>, no LP holds more than the total, and no balance, no deposit total and no
  locked amount is negative.
\<close>

theorem vault_accounting_invariant:
  assumes "v_admin (vault_st w) = None" and "vault_fresh (vault_st w)"
  shows "let w' = run (vault_exec tk) calls w in
         msum (\<lambda>x. x) (v_shares (vault_st w')) = vault_get_total_shares w'
       \<and> (\<forall>a. 0 \<le> vault_share_balance a w' \<and> vault_share_balance a w' \<le> vault_get_total_shares w')
       \<and> 0 \<le> vault_get_total_deposits w' \<and> 0 \<le> vault_get_locked_liquidity w'"
proof -
  have "vault_inv (run (vault_exec tk) calls w)"
    by (rule vault_machine.run_keeps) (rule vault_fresh_inv [OF assms])
  then show ?thesis
    by (simp add: Let_def vault_invD)
qed

section \<open>The share price\<close>

lemma deposit_effect:
  assumes "vault_deposit tk e d a w = Inr (s, w')"
  shows "0 < a" and "0 < s"
    and "calc_shares_to_mint a (vault_get_total_shares w) (vault_get_total_deposits w) = Inr s"
    and "vault_get_total_shares w' = vault_get_total_shares w + s"
    and "vault_get_total_deposits w' = vault_get_total_deposits w + a"
    and "vault_get_locked_liquidity w' = vault_get_locked_liquidity w"
    and "vault_share_balance b w' = vault_share_balance b w + (if b = d then s else 0)"
  using assms by (auto simp: vault_deposit_eq_Inr vault_emit_defs vault_storage_defs Let_def)

lemma withdraw_effect:
  assumes "vault_withdraw tk e d s w = Inr (u, w')"
  shows "0 < s" and "0 < u" and "s \<le> vault_share_balance d w"
    and "calc_withdrawal_amount s (vault_get_total_shares w) (vault_get_total_deposits w) = Inr u"
    and "vault_get_total_shares w' = vault_get_total_shares w - s"
    and "vault_get_total_deposits w' = vault_get_total_deposits w - u"
    and "vault_get_locked_liquidity w' = vault_get_locked_liquidity w"
    and "vault_share_balance b w' = vault_share_balance b w - (if b = d then s else 0)"
  using assms by (auto simp: vault_withdraw_eq_Inr vault_emit_defs vault_storage_defs Let_def)

lemma mint_bounds:
  assumes "calc_shares_to_mint a S D = Inr s" and "0 < a" and "0 < S" and "0 < D"
  shows "s * D \<le> a * S" and "a * S < (s + 1) * D"
proof -
  have s: "s = a * S div D"
    using assms by (auto simp: calc_shares_to_mint_def inv_simps sdiv_nonneg)
  show "s * D \<le> a * S" unfolding s using assms(4) by (rule div_mult_le_pos)
  show "a * S < (s + 1) * D" unfolding s using assms(4) by (rule div_mult_gt_pos)
qed

text \<open>
  C19. Neither a deposit into a vault with shares and deposits nor a withdrawal lowers the share
  price: deposits per share, compared by cross multiplication, do not fall.  The rounding of both
  goes to the LPs that stay.
\<close>

theorem share_price_never_falls:
  assumes "vault_inv w"
    and "vault_exec tk (e, c) w = Inr w'"
    and "c = VWithdraw d n \<or>
         c = VDeposit d n \<and> 0 < vault_get_total_shares w \<and> 0 < vault_get_total_deposits w"
  shows "vault_get_total_deposits w * vault_get_total_shares w'
           \<le> vault_get_total_deposits w' * vault_get_total_shares w"
  using assms(3)
proof (elim disjE conjE)
  assume "c = VWithdraw d n"
  then obtain u where u: "vault_withdraw tk e d n w = Inr (u, w')"
    using assms(2) by (auto simp: bnd_eq_Inr)
  note eff = withdraw_effect [OF u]
  have "n \<le> vault_get_total_shares w"
    using eff(3) vault_invD(6) [OF assms(1), of d] by simp
  then have "u * vault_get_total_shares w \<le> n * vault_get_total_deposits w"
    using withdrawal_bounds(1) [OF eff(4,2,1)] vault_invD(3) [OF assms(1)] by simp
  then show ?thesis by (simp add: eff(5,6) algebra_simps)
next
  assume "c = VDeposit d n" and pos: "0 < vault_get_total_shares w" "0 < vault_get_total_deposits w"
  then obtain s where s: "vault_deposit tk e d n w = Inr (s, w')"
    using assms(2) by (auto simp: bnd_eq_Inr)
  note eff = deposit_effect [OF s]
  show ?thesis
    using mint_bounds(1) [OF eff(3,1) pos] by (simp add: eff(4,5) algebra_simps)
qed

text \<open>
  C20. Depositing and withdrawing the minted shares at once never pays: the LP gets back at most
  what was deposited, and loses less than one unit plus the value of one share.  The vault must
  have both shares and deposits, or neither.
\<close>

theorem deposit_withdraw_round_trip:
  assumes inv: "vault_inv w"
    and dep: "vault_deposit tk e d a w = Inr (s, w1)"
    and wit: "vault_withdraw tk e' d s w1 = Inr (u, w2)"
    and state: "0 < vault_get_total_shares w \<and> 0 < vault_get_total_deposits w \<or>
                vault_get_total_shares w = 0 \<and> vault_get_total_deposits w = 0"
  shows "u \<le> a \<and> (a - u - 1) * vault_get_total_shares w1 \<le> vault_get_total_deposits w"
proof -
  let ?S = "vault_get_total_shares w" and ?D = "vault_get_total_deposits w"
  note d = deposit_effect [OF dep] and x = withdraw_effect [OF wit]
  have S1: "0 < ?S + s" using d(2) vault_invD(7) [OF inv] by simp
  have u: "u = s * (?D + a) div (?S + s)"
    using x(4) d S1 vault_invD(3) [OF inv]
    by (auto simp: calc_withdrawal_amount_def inv_simps sdiv_nonneg)
  have lo: "u * (?S + s) \<le> s * (?D + a)" and hi: "s * (?D + a) < (u + 1) * (?S + s)"
    unfolding u using S1 by (rule div_mult_le_pos, rule div_mult_gt_pos)
  have mint: "s * ?D \<le> a * ?S" "a * ?S \<le> s * ?D + ?D"
    using state mint_bounds [OF d(3,1)] by (auto simp: algebra_simps)
  have "u * (?S + s) \<le> a * (?S + s)"
    using lo mint(1) by (simp add: algebra_simps)
  then have "u \<le> a" using S1 by simp
  moreover have "(a - u - 1) * (?S + s) \<le> ?D"
    using hi mint(2) by (simp add: algebra_simps)
  ultimately show ?thesis by (simp add: d(4))
qed

section \<open>Utilisation\<close>

lemma utilization_exact:
  assumes "calc_utilization_bps l d = Inr u" and "0 \<le> l" and "0 < d"
    and "l * 10000 < 2 ^ 32 * d"
  shows "uint u = l * 10000 div d"
proof -
  have "u = i128_as_u32 (l * 10000 div d)"
    using assms by (auto simp: calc_utilization_bps_def inv_simps sdiv_nonneg)
  moreover have "l * 10000 div d < 2 ^ 32"
  proof (rule ccontr)
    assume "\<not> l * 10000 div d < 2 ^ 32"
    then have "2 ^ 32 * d \<le> l * 10000 div d * d"
      using assms(3) by (intro mult_right_mono) auto
    then show False using div_mult_le_pos [OF assms(3), of "l * 10000"] assms(4) by simp
  qed
  moreover have "0 \<le> l * 10000 div d"
    using assms by (simp add: pos_imp_zdiv_nonneg_iff)
  ultimately show ?thesis by (simp add: i128_as_u32_exact)
qed

lemma utilization_within:
  assumes "calc_utilization_bps l d = Inr u" and "u \<le> m" and "0 \<le> l" and "0 < d"
    and "l * 10000 < 2 ^ 32 * d"
  shows "l * 10000 < (uint m + 1) * d"
proof -
  have "l * 10000 < (l * 10000 div d + 1) * d"
    using assms(4) by (rule div_mult_gt_pos)
  also have "l * 10000 div d = uint u"
    using utilization_exact [OF assms(1,3,4,5)] by simp
  also have "(uint u + 1) * d \<le> (uint m + 1) * d"
    using assms(2,4) by (intro mult_right_mono) (simp_all add: word_le_def)
  finally show ?thesis .
qed

text \<open>
  C26. Locking liquidity and withdrawing deposits keep the vault's utilisation at or below
  \<open>MaxUtilization\<close> basis points, as long as the utilisation in basis points fits the \<open>u32\<close> it
  is cast to.
\<close>

theorem utilization_stays_within_maximum:
  assumes inv: "vault_inv w" and run: "vault_exec tk (e, c) w = Inr w'"
    and "c = VLock a n \<or> c = VWithdraw a n"
    and pos: "0 < vault_get_total_deposits w'"
    and fits: "vault_get_locked_liquidity w' * 10000 < 2 ^ 32 * vault_get_total_deposits w'"
  shows "vault_get_locked_liquidity w' * 10000
           < (uint (vault_get_max_utilization w) + 1) * vault_get_total_deposits w'"
  using assms(3)
proof
  assume "c = VLock a n"
  then have lock: "vault_lock_liquidity e a n w = Inr w'" using run by simp
  then have st: "vault_get_locked_liquidity w' = vault_get_locked_liquidity w + n"
      "vault_get_total_deposits w' = vault_get_total_deposits w" and n: "0 < n"
    by (auto simp: vault_lock_liquidity_eq_Inr vault_emit_defs vault_storage_defs)
  from lock obtain u where
    "calc_utilization_bps (vault_get_locked_liquidity w') (vault_get_total_deposits w') = Inr u"
    and "u \<le> vault_get_max_utilization w"
    unfolding st by (auto simp: vault_lock_liquidity_eq_Inr)
  then show ?thesis
    by (rule utilization_within) (use st n pos fits vault_invD(4) [OF inv] in auto)
next
  assume "c = VWithdraw a n"
  then obtain r where wd: "vault_withdraw tk e a n w = Inr (r, w')"
    using run by (auto simp: bnd_eq_Inr)
  note st = withdraw_effect(6,7) [OF wd]
  from wd pos obtain u where
    "calc_utilization_bps (vault_get_locked_liquidity w') (vault_get_total_deposits w') = Inr u"
    and "u \<le> vault_get_max_utilization w"
    unfolding st by (auto simp: vault_withdraw_eq_Inr vault_check_withdrawal_eq_Inr)
  then show ?thesis
    by (rule utilization_within) (use st pos fits vault_invD(4) [OF inv] in auto)
qed

text \<open>
  A vault without deposits locks any amount: the utilisation of an empty pool counts as zero,
  so no bound applies to the liquidity locked against it.
\<close>

theorem empty_vault_locks_any_amount:
  assumes "vault_get_total_deposits w = 0" and "v_pm (vault_st w) = Some c" and "authorised e c"
    and "0 < n" and "i128_ok (vault_get_locked_liquidity w + n)"
  shows "\<exists>w'. vault_lock_liquidity e c n w = Inr w'
           \<and> vault_get_locked_liquidity w' = vault_get_locked_liquidity w + n"
proof -
  have "calc_utilization_bps (vault_get_locked_liquidity w + n) (vault_get_total_deposits w) = Inr 0"
    using assms(1) by (simp add: calc_utilization_bps_def)
  then show ?thesis
    using assms by (simp add: vault_lock_liquidity_eq_Inr vault_emit_defs vault_storage_defs)
qed

section \<open>Who may call what\<close>

text \<open>The caller an operation of the position manager is made by.\<close>

fun vault_pm_caller :: "vault_call \<Rightarrow> address option" where
  "vault_pm_caller (VLock c a) = Some c"
| "vault_pm_caller (VUnlock c a) = Some c"
| "vault_pm_caller (VSettlePnl c t p) = Some c"
| "vault_pm_caller (VCloseSettlement c t n m p f) = Some c"
| "vault_pm_caller (VCollectFee c a) = Some c"
| "vault_pm_caller _ = None"

lemma require_position_manager_refused:
  assumes "\<not> authorised e c \<or> v_pm (vault_st w) \<noteq> Some c"
  shows "vault_require_position_manager e c w =
    Inl (if \<not> authorised e c then Trap AuthFailed
         else if v_pm (vault_st w) = None then Err NotInitialized else Err Unauthorized)"
  using assms
  by (auto simp: vault_require_position_manager_def require_auth_def vault_storage_defs)

text \<open>
  C32. The five operations of the position manager refuse every other caller, with the error of
  the first check that fails: no signature, no position manager set, another address.
\<close>

theorem vault_refuses_other_callers:
  assumes "vault_pm_caller c = Some a" and "\<not> authorised e a \<or> v_pm (vault_st w) \<noteq> Some a"
  shows "vault_exec tk (e, c) w =
    Inl (if \<not> authorised e a then Trap AuthFailed
         else if v_pm (vault_st w) = None then Err NotInitialized else Err Unauthorized)"
proof -
  have "vault_require_position_manager e a (vault_bump_instance w) =
    Inl (if \<not> authorised e a then Trap AuthFailed
         else if v_pm (vault_st w) = None then Err NotInitialized else Err Unauthorized)"
    using require_position_manager_refused [of e a "vault_bump_instance w"] assms(2) by simp
  then show ?thesis
    using assms(1)
    by (cases c) (simp_all add: vault_lock_liquidity_def vault_unlock_liquidity_def
        vault_settle_pnl_def vault_close_position_settlement_def vault_collect_fee_def Let_def)
qed

interpretation vault_pm_gate: admin_gate
  "\<lambda>e a. vault_set_position_manager e a p" "\<lambda>w. v_admin (vault_st w)"
  by unfold_locales
    (auto simp: vault_set_position_manager_def require_auth_def Let_def vault_storage_defs
      inv_simps split: if_splits)

interpretation vault_util_gate: admin_gate
  "\<lambda>e a. vault_set_max_utilization e a m" "\<lambda>w. v_admin (vault_st w)"
  by unfold_locales
    (auto simp: vault_set_max_utilization_def require_auth_def Let_def vault_storage_defs
      inv_simps split: if_splits)

section \<open>The pool the position manager sees\<close>

interpretation vault_pool: liquidity_pool vault_lock_liquidity vault_collect_fee
  "vault_close_position_settlement tk" vault_get_total_deposits vault_get_locked_liquidity
  by unfold_locales
    (auto simp: vault_lock_liquidity_eq_Inr vault_collect_fee_eq_Inr
      vault_close_position_settlement_eq_Inr vault_emit_defs vault_storage_defs)

end
