(* ===== verification/Position_Accounting.thy ===== *)
theory Position_Accounting
  imports Position_Manager Vault_Accounting
begin

text \<open>
  What the position manager promises: the effect of opening, closing and liquidating a position
  on its book, on the vault's totals and on the token, the invariant of the book of positions,
  and the errors of its guards.
\<close>

section \<open>When the operations succeed\<close>

lemma pm_bump_frame [simp]:
  "pm_get_min_collateral (pm_bump_instance w) = pm_get_min_collateral w"
  "pm_get_max_leverage (pm_bump_instance w) = pm_get_max_leverage w"
  "p_positions (pm_st (pm_bump_instance w)) = p_positions (pm_st w)"
  "p_oracle (pm_st (pm_bump_instance w)) = p_oracle (pm_st w)"
  "p_self (pm_st (pm_bump_instance w)) = p_self (pm_st w)"
  "p_admin (pm_st (pm_bump_instance w)) = p_admin (pm_st w)"
  "p_liq_engine (pm_st (pm_bump_instance w)) = p_liq_engine (pm_st w)"
  "pm_get_oi_long (pm_bump_instance w) = pm_get_oi_long w"
  "pm_get_oi_short (pm_bump_instance w) = pm_get_oi_short w"
  "oracle_st (pm_bump_instance w) = oracle_st w"
  "vault_st (pm_bump_instance w) = vault_st w"
  "ledger (pm_bump_instance w) = ledger w"
  by (simp_all add: pm_storage_defs)

lemma pm_load_frame [simp]:
  "fst (pm_load_position t i w) = p_positions (pm_st w) (t, i)"
  "oracle_st (snd (pm_load_position t i w)) = oracle_st w"
  "vault_st (snd (pm_load_position t i w)) = vault_st w"
  "ledger (snd (pm_load_position t i w)) = ledger w"
  "events (snd (pm_load_position t i w)) = events w"
  "p_positions (pm_st (snd (pm_load_position t i w))) = p_positions (pm_st w)"
  "p_counts (pm_st (snd (pm_load_position t i w))) = p_counts (pm_st w)"
  "p_oracle (pm_st (snd (pm_load_position t i w))) = p_oracle (pm_st w)"
  "p_vault (pm_st (snd (pm_load_position t i w))) = p_vault (pm_st w)"
  "p_usdc (pm_st (snd (pm_load_position t i w))) = p_usdc (pm_st w)"
  "p_self (pm_st (snd (pm_load_position t i w))) = p_self (pm_st w)"
  "p_admin (pm_st (snd (pm_load_position t i w))) = p_admin (pm_st w)"
  "p_liq_engine (pm_st (snd (pm_load_position t i w))) = p_liq_engine (pm_st w)"
  "p_next_id (pm_st (snd (pm_load_position t i w))) = p_next_id (pm_st w)"
  "p_oi_long (pm_st (snd (pm_load_position t i w))) = p_oi_long (pm_st w)"
  "p_oi_short (pm_st (snd (pm_load_position t i w))) = p_oi_short (pm_st w)"
  "p_close_fee (pm_st (snd (pm_load_position t i w))) = p_close_fee (pm_st w)"
  by (simp_all add: pm_load_position_def Let_def)

lemma pm_query_price_eq_Inr:
  "pm_query_price e asset w = Inr (p, w') \<longleftrightarrow>
     p_oracle (pm_st w) = Some (o_self (oracle_st w)) \<and>
     oracle_get_price_value (subcall e (o_self (oracle_st w))) asset w = Inr (p, w')"
  by (auto simp: pm_query_price_def pm_get_oracle_def inv_simps)

lemma pm_query_price_state:
  "pm_query_price e asset w = Inr (p, w') \<Longrightarrow> w' = oracle_bump_instance w"
  by (auto simp: pm_query_price_eq_Inr oracle_get_price_value_eq_Inr oracle_get_price_eq_Inr)

text \<open>The position an open writes.\<close>

abbreviation opened_position ::
  "env \<Rightarrow> u64 \<Rightarrow> address \<Rightarrow> u32 \<Rightarrow> direction \<Rightarrow> i128 \<Rightarrow> u32 \<Rightarrow> i128 \<Rightarrow> position" where
  "opened_position e i trader asset direction collateral leverage price \<equiv>
     \<lparr>pos_id = i, pos_trader = trader, pos_asset = asset, pos_direction = direction,
      pos_size = collateral * u32_as_i128 leverage, pos_collateral = collateral,
      pos_entry_price = price, pos_leverage = leverage, pos_funding_index = 0,
      pos_opened_at = e_now e\<rparr>"

lemma pm_open_positionE:
  assumes "pm_open_position tk e trader asset direction collateral leverage w = Inr (i, w')"
  obtains price fee usdc t w2 w3 w4 w5 where
    "authorised e trader" and "pm_get_min_collateral w \<le> collateral"
    and "leverage \<noteq> 0" and "leverage \<le> pm_get_max_leverage w"
    and "pm_query_price e asset (pm_bump_instance w)
           = Inr (price, oracle_bump_instance (pm_bump_instance w))"
    and "calculate_fee (collateral * u32_as_i128 leverage) (pm_get_open_fee_rate w) = Inr fee"
    and "p_usdc (pm_st w) = Some usdc" and "p_vault (pm_st w) = Some (v_self (vault_st w))"
    and "tok_transfer tk (subcall e usdc) usdc trader (v_self (vault_st w)) (collateral + fee)
           (ledger w) = Inr t"
    and "vault_lock_liquidity (subcall e (v_self (vault_st w))) (e_self e)
           (collateral * u32_as_i128 leverage)
           ((oracle_bump_instance (pm_bump_instance w))\<lparr>ledger := t\<rparr>) = Inr w2"
    and "vault_collect_fee (subcall e (v_self (vault_st w))) (e_self e) fee w2 = Inr w3"
    and "pm_increment_position_id w3 = Inr (i, w4)"
    and "pm_add_open_interest direction (collateral * u32_as_i128 leverage)
           (pm_save_position trader i
             (opened_position e i trader asset direction collateral leverage price) w4) = Inr w5"
    and "uint (pm_get_trader_position_count trader w5) + 1 < 2 ^ 64"
    and "w' = emit_position_opened e trader i direction (collateral * u32_as_i128 leverage)
           collateral price leverage fee
           (pm_set_trader_position_count trader (pm_get_trader_position_count trader w5 + 1) w5)"
  using assms
  unfolding pm_open_position_def Let_def
  by (clarsimp simp: inv_simps split: prod.splits)
    (frule pm_query_price_state, auto simp: inv_simps pm_get_usdc_token_def pm_get_vault_def
      oracle_bump_instance_def pm_bump_instance_def pm_get_open_fee_rate_def)

text \<open>
  The part of the world that only configuration writes: who the contracts are and whom they
  trust.  No trading operation changes it.
\<close>

definition same_wiring :: "('t, 'm) pm_world_scheme \<Rightarrow> ('t, 'm) pm_world_scheme \<Rightarrow> bool" where
  "same_wiring w w' \<longleftrightarrow>
     v_self (vault_st w') = v_self (vault_st w) \<and> v_pm (vault_st w') = v_pm (vault_st w) \<and>
     v_usdc (vault_st w') = v_usdc (vault_st w) \<and> v_admin (vault_st w') = v_admin (vault_st w) \<and>
     o_self (oracle_st w') = o_self (oracle_st w) \<and> o_admin (oracle_st w') = o_admin (oracle_st w) \<and>
     o_prices (oracle_st w') = o_prices (oracle_st w) \<and>
     p_self (pm_st w') = p_self (pm_st w) \<and> p_vault (pm_st w') = p_vault (pm_st w) \<and>
     p_oracle (pm_st w') = p_oracle (pm_st w) \<and> p_usdc (pm_st w') = p_usdc (pm_st w) \<and>
     p_admin (pm_st w') = p_admin (pm_st w) \<and> p_liq_engine (pm_st w') = p_liq_engine (pm_st w)"

lemma same_wiringD:
  assumes "same_wiring w w'"
  shows "v_self (vault_st w') = v_self (vault_st w)" "v_pm (vault_st w') = v_pm (vault_st w)"
    "v_usdc (vault_st w') = v_usdc (vault_st w)" "v_admin (vault_st w') = v_admin (vault_st w)"
    "o_self (oracle_st w') = o_self (oracle_st w)" "o_admin (oracle_st w') = o_admin (oracle_st w)"
    "o_prices (oracle_st w') = o_prices (oracle_st w)"
    "p_self (pm_st w') = p_self (pm_st w)" "p_vault (pm_st w') = p_vault (pm_st w)"
    "p_oracle (pm_st w') = p_oracle (pm_st w)" "p_usdc (pm_st w') = p_usdc (pm_st w)"
    "p_admin (pm_st w') = p_admin (pm_st w)" "p_liq_engine (pm_st w') = p_liq_engine (pm_st w)"
  using assms by (auto simp: same_wiring_def)

definition pm_oi :: "direction \<Rightarrow> ('t, 'm) pm_world_scheme \<Rightarrow> i128" where
  "pm_oi d w = (case d of Long \<Rightarrow> pm_get_oi_long w | Short \<Rightarrow> pm_get_oi_short w)"

text \<open>What the vault's three operations leave alone, as the position manager sees it.\<close>

lemma vault_lock_frame:
  assumes "vault_lock_liquidity e c n w = Inr w'"
  shows "pm_st w' = pm_st w" "oracle_st w' = oracle_st w" "ledger w' = ledger w"
    "v_self (vault_st w') = v_self (vault_st w)" "v_pm (vault_st w') = v_pm (vault_st w)"
    "v_usdc (vault_st w') = v_usdc (vault_st w)" "v_admin (vault_st w') = v_admin (vault_st w)"
    "v_shares (vault_st w') = v_shares (vault_st w)"
    "v_total_shares (vault_st w') = v_total_shares (vault_st w)"
    "v_pm (vault_st w) = Some c"
  using assms
  by (simp_all add: vault_lock_liquidity_eq_Inr vault_emit_defs vault_storage_defs)

lemma vault_collect_frame:
  assumes "vault_collect_fee e c n w = Inr w'"
  shows "pm_st w' = pm_st w" "oracle_st w' = oracle_st w" "ledger w' = ledger w"
    "v_self (vault_st w') = v_self (vault_st w)" "v_pm (vault_st w') = v_pm (vault_st w)"
    "v_usdc (vault_st w') = v_usdc (vault_st w)" "v_admin (vault_st w') = v_admin (vault_st w)"
    "v_shares (vault_st w') = v_shares (vault_st w)"
    "v_total_shares (vault_st w') = v_total_shares (vault_st w)"
  using assms
  by (simp_all add: vault_collect_fee_eq_Inr vault_emit_defs vault_storage_defs)

lemma vault_settle_frame:
  assumes "vault_close_position_settlement tk e c t n m p f w = Inr w'"
  shows "pm_st w' = pm_st w" "oracle_st w' = oracle_st w"
    "v_self (vault_st w') = v_self (vault_st w)" "v_pm (vault_st w') = v_pm (vault_st w)"
    "v_usdc (vault_st w') = v_usdc (vault_st w)" "v_admin (vault_st w') = v_admin (vault_st w)"
    "v_shares (vault_st w') = v_shares (vault_st w)"
    "v_total_shares (vault_st w') = v_total_shares (vault_st w)"
    "v_pm (vault_st w) = Some c"
  using assms
  by (auto simp: vault_close_position_settlement_eq_Inr vault_emit_defs vault_storage_defs)

text \<open>What the two operations of an open publish.\<close>

lemma vault_lock_events:
  "vault_lock_liquidity e c n w = Inr w' \<Longrightarrow> events w' = events w @
     [\<lparr>ev_contract = e_self e, ev_topics = [SSym ''liquidity_locked''],
       ev_data = SMap [(''amount'', SI128 n)]\<rparr>]"
  by (simp add: vault_lock_liquidity_eq_Inr vault_emit_defs vault_storage_defs vault_event_vals)

lemma vault_collect_events:
  "vault_collect_fee e c n w = Inr w' \<Longrightarrow> events w' = events w @
     [\<lparr>ev_contract = e_self e, ev_topics = [SSym ''fee_collected''],
       ev_data = SMap [(''amount'', SI128 n)]\<rparr>]"
  by (simp add: vault_collect_fee_eq_Inr vault_emit_defs vault_storage_defs vault_event_vals)

text \<open>The steps that write the position manager's own store leave the rest of the world.\<close>

lemma pm_increment_eq_Inr:
  "pm_increment_position_id w = Inr (i, w') \<longleftrightarrow>
     i = pm_get_next_position_id w \<and> uint i + 1 < 2 ^ 64 \<and>
     w' = w\<lparr>pm_st := (pm_st w)\<lparr>p_next_id := Some (i + 1)\<rparr>\<rparr>"
  by (auto simp: pm_increment_position_id_def inv_simps Let_def)

lemma pm_add_open_interest_frame:
  assumes "pm_add_open_interest d n w = Inr w'"
  shows "vault_st w' = vault_st w" "oracle_st w' = oracle_st w" "ledger w' = ledger w"
    "p_positions (pm_st w') = p_positions (pm_st w)" "p_counts (pm_st w') = p_counts (pm_st w)"
    "p_next_id (pm_st w') = p_next_id (pm_st w)"
    "p_self (pm_st w') = p_self (pm_st w)" "p_vault (pm_st w') = p_vault (pm_st w)"
    "p_oracle (pm_st w') = p_oracle (pm_st w)" "p_usdc (pm_st w') = p_usdc (pm_st w)"
    "p_admin (pm_st w') = p_admin (pm_st w)" "p_liq_engine (pm_st w') = p_liq_engine (pm_st w)"
    "pm_oi b w' = pm_oi b w + (if b = d then n else 0)" "events w' = events w"
  using assms
  by (auto simp: pm_add_open_interest_def inv_simps pm_oi_def pm_storage_defs
      split: direction.splits)

lemma pm_sub_open_interest_frame:
  assumes "pm_sub_open_interest d n w = Inr w'"
  shows "vault_st w' = vault_st w" "oracle_st w' = oracle_st w" "ledger w' = ledger w"
    "p_positions (pm_st w') = p_positions (pm_st w)" "p_counts (pm_st w') = p_counts (pm_st w)"
    "p_next_id (pm_st w') = p_next_id (pm_st w)"
    "p_self (pm_st w') = p_self (pm_st w)" "p_vault (pm_st w') = p_vault (pm_st w)"
    "p_oracle (pm_st w') = p_oracle (pm_st w)" "p_usdc (pm_st w') = p_usdc (pm_st w)"
    "p_admin (pm_st w') = p_admin (pm_st w)" "p_liq_engine (pm_st w') = p_liq_engine (pm_st w)"
    "pm_oi b w' = pm_oi b w - (if b = d then n else 0)"
  using assms
  by (auto simp: pm_sub_open_interest_def inv_simps pm_oi_def pm_storage_defs
      split: direction.splits)

lemma pm_oi_cong: "p_oi_long (pm_st w') = p_oi_long (pm_st w) \<Longrightarrow>
    p_oi_short (pm_st w') = p_oi_short (pm_st w) \<Longrightarrow> pm_oi d w' = pm_oi d w"
  by (simp add: pm_oi_def pm_storage_defs split: direction.splits)

text \<open>The events of an open, in the order they are published.\<close>

abbreviation opened_events ::
  "env \<Rightarrow> address \<Rightarrow> u64 \<Rightarrow> address \<Rightarrow> direction \<Rightarrow> i128 \<Rightarrow> u32 \<Rightarrow> i128 \<Rightarrow> i128 \<Rightarrow> event list" where
  "opened_events e vault i trader direction collateral leverage price fee \<equiv>
     [\<lparr>ev_contract = vault, ev_topics = [SSym ''liquidity_locked''],
       ev_data = SMap [(''amount'', SI128 (collateral * u32_as_i128 leverage))]\<rparr>,
      \<lparr>ev_contract = vault, ev_topics = [SSym ''fee_collected''],
       ev_data = SMap [(''amount'', SI128 fee)]\<rparr>,
      \<lparr>ev_contract = e_self e, ev_topics = [SSym ''position_opened'', SAddr trader, SU64 i],
       ev_data = SVec [SDir direction, SI128 (collateral * u32_as_i128 leverage), SI128 collateral,
         SI128 price, SU32 leverage, SI128 fee]\<rparr>]"

lemma pm_open_effect:
  assumes run: "pm_open_position tk e trader asset direction collateral leverage w = Inr (i, w')"
  obtains price fee usdc where
    "authorised e trader" and "leverage \<noteq> 0"
    and "oracle_get_price_value (subcall e (o_self (oracle_st w))) asset w
           = Inr (price, oracle_bump_instance w)"
    and "calculate_fee (collateral * u32_as_i128 leverage) (pm_get_open_fee_rate w) = Inr fee"
    and "0 < collateral * u32_as_i128 leverage" and "0 < fee"
    and "v_pm (vault_st w) = Some (e_self e)" and "p_vault (pm_st w) = Some (v_self (vault_st w))"
    and "p_oracle (pm_st w) = Some (o_self (oracle_st w))" and "p_usdc (pm_st w) = Some usdc"
    and "tok_transfer tk (subcall e usdc) usdc trader (v_self (vault_st w)) (collateral + fee)
           (ledger w) = Inr (ledger w')"
    and "i = pm_get_next_position_id w" and "uint i + 1 < 2 ^ 64"
    and "p_next_id (pm_st w') = Some (i + 1)"
    and "p_positions (pm_st w') = (p_positions (pm_st w))((trader, i) \<mapsto>
           opened_position e i trader asset direction collateral leverage price)"
    and "\<And>d. pm_oi d w' = pm_oi d w + (if d = direction then collateral * u32_as_i128 leverage else 0)"
    and "uint (pm_get_trader_position_count trader w) + 1 < 2 ^ 64"
    and "p_counts (pm_st w') = (p_counts (pm_st w))
           (trader \<mapsto> pm_get_trader_position_count trader w + 1)"
    and "vault_get_total_deposits w' = vault_get_total_deposits w + fee"
    and "vault_get_locked_liquidity w' = vault_get_locked_liquidity w + collateral * u32_as_i128 leverage"
    and "v_shares (vault_st w') = v_shares (vault_st w)"
    and "v_total_shares (vault_st w') = v_total_shares (vault_st w)"
    and "same_wiring w w'"
    and "events w' = events w
           @ opened_events e (v_self (vault_st w)) i trader direction collateral leverage price fee"
  using pm_open_positionE [OF run]
proof cases
  case (1 price fee usdc t w2 w3 w4 w5)
  let ?n = "collateral * u32_as_i128 leverage"
  let ?w1 = "(oracle_bump_instance (pm_bump_instance w))\<lparr>ledger := t\<rparr>"
  let ?s = "pm_save_position trader i
    (opened_position e i trader asset direction collateral leverage price) w4"
  have q: "oracle_get_price_value (subcall e (o_self (oracle_st w))) asset w
           = Inr (price, oracle_bump_instance w)"
      "p_oracle (pm_st w) = Some (o_self (oracle_st w))"
    using 1(5) by (auto simp: pm_query_price_eq_Inr oracle_get_price_value_eq_Inr
        oracle_get_price_eq_Inr oracle_get_staleness_threshold_def)
  have w1: "vault_st ?w1 = vault_st w" "pm_st ?w1 = pm_st (pm_bump_instance w)" "ledger ?w1 = t"
      "oracle_st ?w1 = oracle_st (oracle_bump_instance w)"
    by (simp_all add: oracle_bump_instance_def)
  note w2 = vault_lock_frame [OF 1(10), unfolded w1] vault_pool.lock_effect [OF 1(10)]
  note w3 = vault_collect_frame [OF 1(11), unfolded w2] vault_pool.collect_effect [OF 1(11)]
  have w4: "i = pm_get_next_position_id w3" "uint i + 1 < 2 ^ 64"
      "w4 = w3\<lparr>pm_st := (pm_st w3)\<lparr>p_next_id := Some (i + 1)\<rparr>\<rparr>"
    using 1(12) unfolding pm_increment_eq_Inr by blast+
  note w5 = pm_add_open_interest_frame [OF 1(13)]
  have host: "vault_st w' = vault_st w3" "oracle_st w' = oracle_st w3" "ledger w' = ledger w3"
    by (simp_all add: 1(15) emit_position_opened_def publish_def pm_set_trader_position_count_def
        w5 pm_save_position_def w4(3))
  have pm: "p_positions (pm_st w') = (p_positions (pm_st w3))((trader, i) \<mapsto>
        opened_position e i trader asset direction collateral leverage price)"
      "p_next_id (pm_st w') = Some (i + 1)"
      "p_counts (pm_st w') = (p_counts (pm_st w3))
         (trader \<mapsto> get_or 0 (p_counts (pm_st w3) trader) + 1)"
      "p_self (pm_st w') = p_self (pm_st w3)" "p_vault (pm_st w') = p_vault (pm_st w3)"
      "p_oracle (pm_st w') = p_oracle (pm_st w3)" "p_usdc (pm_st w') = p_usdc (pm_st w3)"
      "p_admin (pm_st w') = p_admin (pm_st w3)" "p_liq_engine (pm_st w') = p_liq_engine (pm_st w3)"
    by (simp_all add: 1(15) emit_position_opened_def publish_def pm_set_trader_position_count_def
        pm_get_trader_position_count_def w5 pm_save_position_def w4(3))
  have ev: "events w' = events w
      @ opened_events e (v_self (vault_st w)) i trader direction collateral leverage price fee"
    using vault_lock_events [OF 1(10)] vault_collect_events [OF 1(11)]
    by (simp add: 1(15) emit_position_opened_def publish_def pm_set_trader_position_count_def w5
        pm_save_position_def w4(3) oracle_bump_instance_def pm_bump_instance_def)
  have oi: "pm_oi d w' = pm_oi d w + (if d = direction then ?n else 0)" for d
  proof -
    have "pm_oi d w' = pm_oi d w5"
      by (rule pm_oi_cong) (simp_all add: 1(15) emit_position_opened_def publish_def
          pm_set_trader_position_count_def)
    also have "\<dots> = pm_oi d ?s + (if d = direction then ?n else 0)" by (rule w5)
    also have "pm_oi d ?s = pm_oi d w"
      by (rule pm_oi_cong) (simp_all add: pm_save_position_def w4(3) w3 pm_bump_instance_def)
    finally show ?thesis .
  qed
  have pm3: "pm_st w3 = pm_st (pm_bump_instance w)" by (simp add: w3)
  have count: "pm_get_trader_position_count trader w5 = pm_get_trader_position_count trader w"
    by (simp add: pm_get_trader_position_count_def w5 pm_save_position_def w4(3) pm3
        pm_bump_instance_def)
  have totals: "vault_get_total_deposits w' = vault_get_total_deposits w3"
      "vault_get_locked_liquidity w' = vault_get_locked_liquidity w3"
      "vault_get_total_deposits ?w1 = vault_get_total_deposits w"
      "vault_get_locked_liquidity ?w1 = vault_get_locked_liquidity w"
    by (simp_all add: vault_storage_defs host w1)
  show ?thesis
  proof (rule that [of price fee usdc])
    show "same_wiring w w'"
      by (simp add: same_wiring_def host pm w2 w3 pm3 pm_bump_instance_def oracle_bump_instance_def)
    show "p_positions (pm_st w') = (p_positions (pm_st w))((trader, i) \<mapsto>
        opened_position e i trader asset direction collateral leverage price)"
      by (simp add: pm(1) pm3)
    show "p_counts (pm_st w') = (p_counts (pm_st w))
           (trader \<mapsto> pm_get_trader_position_count trader w + 1)"
      by (simp add: pm(3) pm3 pm_bump_instance_def pm_get_trader_position_count_def)
    show "i = pm_get_next_position_id w"
      by (simp add: w4(1) pm_get_next_position_id_def pm3 pm_bump_instance_def)
  qed (use 1(1,3,6-9,14) q w2 w3 w4(2) totals host pm(2) oi count ev in simp_all)
qed

section \<open>Closing a position\<close>

text \<open>The size a position contributes to the open interest of direction \<open>d\<close>.\<close>

definition side :: "direction \<Rightarrow> position \<Rightarrow> i128" where
  "side d p = (if d = pos_direction p then pos_size p else 0)"

text \<open>
  What closing position \<open>pos\<close> with capped profit \<open>pnl\<close> and fee \<open>fee\<close> does, for a trader's close
  and for a liquidation alike: the abstract step both refine.
\<close>

definition closed_out ::
  "'t token \<Rightarrow> env \<Rightarrow> address \<Rightarrow> u64 \<Rightarrow> position \<Rightarrow> i128 \<Rightarrow> i128
    \<Rightarrow> ('t, 'm) pm_world_scheme \<Rightarrow> ('t, 'm) pm_world_scheme \<Rightarrow> bool" where
  "closed_out tk e trader i pos pnl fee w w' \<longleftrightarrow>
     v_pm (vault_st w) = Some (e_self e) \<and> p_vault (pm_st w) = Some (v_self (vault_st w)) \<and>
     p_oracle (pm_st w) = Some (o_self (oracle_st w)) \<and>
     p_positions (pm_st w) (trader, i) = Some pos \<and>
     p_positions (pm_st w') = (p_positions (pm_st w))((trader, i) := None) \<and>
     (\<forall>d. pm_oi d w' = pm_oi d w - side d pos) \<and>
     p_counts (pm_st w') =
       (let c = pm_get_trader_position_count trader w in
        if 0 < c then (p_counts (pm_st w))(trader \<mapsto> c - 1) else p_counts (pm_st w)) \<and>
     p_next_id (pm_st w') = p_next_id (pm_st w) \<and>
     vault_get_total_deposits w' = vault_get_total_deposits w - pnl + fee \<and>
     0 \<le> vault_get_total_deposits w' \<and>
     pos_size pos \<le> vault_get_locked_liquidity w \<and>
     vault_get_locked_liquidity w' = vault_get_locked_liquidity w - pos_size pos \<and>
     v_shares (vault_st w') = v_shares (vault_st w) \<and>
     v_total_shares (vault_st w') = v_total_shares (vault_st w) \<and>
     same_wiring w w' \<and>
     (if 0 < settlement_payout (pos_collateral pos) pnl fee
      then \<exists>usdc. v_usdc (vault_st w) = Some usdc \<and>
             tok_transfer tk (subcall (subcall e (v_self (vault_st w))) usdc) usdc
               (v_self (vault_st w)) trader (settlement_payout (pos_collateral pos) pnl fee)
               (ledger w) = Inr (ledger w')
      else ledger w' = ledger w)"

abbreviation loaded :: "address \<Rightarrow> u64 \<Rightarrow> ('t, 'm) pm_world_scheme \<Rightarrow> ('t, 'm) pm_world_scheme" where
  "loaded trader i w \<equiv> snd (pm_load_position trader i (pm_bump_instance w))"

lemma pm_drop_count_frame:
  "vault_st (pm_drop_position_count t w) = vault_st w"
  "oracle_st (pm_drop_position_count t w) = oracle_st w"
  "ledger (pm_drop_position_count t w) = ledger w"
  "p_positions (pm_st (pm_drop_position_count t w)) = p_positions (pm_st w)"
  "p_next_id (pm_st (pm_drop_position_count t w)) = p_next_id (pm_st w)"
  "pm_oi d (pm_drop_position_count t w) = pm_oi d w"
  "p_self (pm_st (pm_drop_position_count t w)) = p_self (pm_st w)"
  "p_vault (pm_st (pm_drop_position_count t w)) = p_vault (pm_st w)"
  "p_oracle (pm_st (pm_drop_position_count t w)) = p_oracle (pm_st w)"
  "p_usdc (pm_st (pm_drop_position_count t w)) = p_usdc (pm_st w)"
  "p_admin (pm_st (pm_drop_position_count t w)) = p_admin (pm_st w)"
  "p_liq_engine (pm_st (pm_drop_position_count t w)) = p_liq_engine (pm_st w)"
  "p_counts (pm_st (pm_drop_position_count t w)) =
     (let c = get_or 0 (p_counts (pm_st w) t) in
      if 0 < c then (p_counts (pm_st w))(t \<mapsto> c - 1) else p_counts (pm_st w))"
  by (simp_all add: pm_drop_position_count_def pm_set_trader_position_count_def
      pm_get_trader_position_count_def Let_def pm_oi_def pm_storage_defs split: direction.splits)

lemma closing_tail:
  assumes pos: "p_positions (pm_st w) (trader, i) = Some pos"
    and orc: "p_oracle (pm_st w) = Some (o_self (oracle_st w))"
    and vault: "p_vault (pm_st w) = Some (v_self (vault_st w))"
    and settle: "vault_close_position_settlement tk (subcall e (v_self (vault_st w))) (e_self e)
          trader (pos_size pos) (pos_collateral pos) pnl fee
          (oracle_bump_instance (loaded trader i w)) = Inr w2"
    and oi: "pm_sub_open_interest (pos_direction pos) (pos_size pos)
          (pm_remove_position trader i w2) = Inr w3"
    and host: "vault_st w' = vault_st w3" "oracle_st w' = oracle_st w3" "ledger w' = ledger w3"
      "pm_st w' = pm_st (pm_drop_position_count trader w3)"
  shows "closed_out tk e trader i pos pnl fee w w'"
proof -
  let ?w1 = "oracle_bump_instance (loaded trader i w)"
  note w2 = vault_settle_frame [OF settle] vault_pool.settle_effect [OF settle]
  note w3 = pm_sub_open_interest_frame [OF oi]
  have w1: "vault_st ?w1 = vault_st w" "ledger ?w1 = ledger w"
      "oracle_st ?w1 = oracle_st (oracle_bump_instance w)"
      "pm_st ?w1 = pm_st (loaded trader i w)"
    by (simp_all add: oracle_bump_instance_def)
  have rem: "vault_st (pm_remove_position trader i w2) = vault_st w2"
      "oracle_st (pm_remove_position trader i w2) = oracle_st w2"
      "ledger (pm_remove_position trader i w2) = ledger w2"
      "pm_oi d (pm_remove_position trader i w2) = pm_oi d w" for d
    using w1 w2 by (simp_all add: pm_remove_position_def pm_oi_def pm_storage_defs Let_def
        split: direction.splits)
  have totals: "vault_get_total_deposits w' = vault_get_total_deposits w2"
      "vault_get_locked_liquidity w' = vault_get_locked_liquidity w2"
      "vault_get_total_deposits ?w1 = vault_get_total_deposits w"
      "vault_get_locked_liquidity ?w1 = vault_get_locked_liquidity w"
    by (simp_all add: vault_storage_defs host w3 rem w1)
  have wiring: "same_wiring w w'"
    by (simp add: same_wiring_def host w3 rem w2(1-8) w1 pm_drop_count_frame pm_remove_position_def
        oracle_bump_instance_def pm_bump_instance_def)
  have oi': "pm_oi d w' = pm_oi d w - side d pos" for d
  proof -
    have "pm_oi d w' = pm_oi d (pm_drop_position_count trader w3)"
      by (rule pm_oi_cong) (simp_all add: host)
    then show ?thesis by (simp add: pm_drop_count_frame w3 rem side_def)
  qed
  have pay: "if 0 < settlement_payout (pos_collateral pos) pnl fee
      then \<exists>usdc. v_usdc (vault_st w) = Some usdc \<and>
             tok_transfer tk (subcall (subcall e (v_self (vault_st w))) usdc) usdc
               (v_self (vault_st w)) trader (settlement_payout (pos_collateral pos) pnl fee)
               (ledger w) = Inr (ledger w')
      else ledger w' = ledger w"
    using settle
    by (auto simp: vault_close_position_settlement_eq_Inr host w3 rem w1 vault_emit_defs
        vault_storage_defs)
  note w2' = w2 [unfolded totals(3,4) w1]
  have book: "p_positions (pm_st w') = (p_positions (pm_st w))((trader, i) := None)"
      "p_next_id (pm_st w') = p_next_id (pm_st w)"
      "v_shares (vault_st w') = v_shares (vault_st w)"
      "v_total_shares (vault_st w') = v_total_shares (vault_st w)"
    by (simp_all add: host w3 rem w2' pm_drop_count_frame pm_remove_position_def
        pm_bump_instance_def)
  have count: "p_counts (pm_st w') =
       (let c = pm_get_trader_position_count trader w in
        if 0 < c then (p_counts (pm_st w))(trader \<mapsto> c - 1) else p_counts (pm_st w))"
    by (simp add: host w3 w2' pm_drop_count_frame pm_remove_position_def pm_bump_instance_def
        pm_get_trader_position_count_def Let_def)
  show ?thesis
    unfolding closed_out_def
    using w2'(9-) totals(1,2) wiring oi' pay pos orc vault book count by simp
qed

text \<open>A trader's close and a liquidation both are such a step.\<close>

lemma pm_query_loaded:
  assumes "pm_query_price e asset (loaded trader i w) = Inr (p, w1)"
  shows "w1 = oracle_bump_instance (loaded trader i w)"
    and "p_oracle (pm_st w) = Some (o_self (oracle_st w))"
    and "oracle_get_price_value (subcall e (o_self (oracle_st w))) asset w
           = Inr (p, oracle_bump_instance w)"
  using assms
  by (auto simp: pm_query_price_eq_Inr oracle_get_price_value_eq_Inr oracle_get_price_eq_Inr
      oracle_get_staleness_threshold_def)

lemma pm_rates_loaded [simp]:
  "pm_get_close_fee_rate (oracle_bump_instance (loaded trader i w)) = pm_get_close_fee_rate w"
  "pm_get_vault (oracle_bump_instance (loaded trader i w)) = pm_get_vault w"
  "vault_st (oracle_bump_instance (loaded trader i w)) = vault_st w"
  by (simp_all add: pm_get_close_fee_rate_def pm_get_vault_def oracle_bump_instance_def
      pm_bump_instance_def)

lemma pm_close_positionE:
  assumes "pm_close_position tk e trader i asset w = Inr (r, w')"
  obtains pos price w1 pnl fee w2 w3 where
    "authorised e trader" and "p_positions (pm_st w) (trader, i) = Some pos"
    and "pos_trader pos = trader" and "pos_asset pos = asset"
    and "pm_query_price e asset (loaded trader i w) = Inr (price, w1)"
    and "capped_pnl pos price = Inr pnl"
    and "calculate_fee (pos_size pos) (pm_get_close_fee_rate w1) = Inr fee" and "r = pnl - fee"
    and "pm_get_vault w1 = Inr (v_self (vault_st w1))"
    and "vault_close_position_settlement tk (subcall e (v_self (vault_st w1))) (e_self e) trader
           (pos_size pos) (pos_collateral pos) pnl fee w1 = Inr w2"
    and "pm_sub_open_interest (pos_direction pos) (pos_size pos)
           (pm_remove_position trader i w2) = Inr w3"
    and "w' = emit_position_closed e trader i price r fee (pm_drop_position_count trader w3)"
  using assms
  unfolding pm_close_position_def Let_def prod.case_eq_if
  by (auto simp: inv_simps)

lemma pm_liquidate_positionE:
  assumes "pm_liquidate_position tk e caller trader i asset w = Inr ((c, pnl), w')"
  obtains pos price w1 w2 w3 where
    "authorised e caller" and "p_liq_engine (pm_st w) = Some caller"
    and "p_positions (pm_st w) (trader, i) = Some pos" and "pos_asset pos = asset"
    and "pm_query_price e asset (loaded trader i w) = Inr (price, w1)"
    and "capped_pnl pos price = Inr pnl" and "c = pos_collateral pos"
    and "pm_get_vault w1 = Inr (v_self (vault_st w1))"
    and "vault_close_position_settlement tk (subcall e (v_self (vault_st w1))) (e_self e) trader
           (pos_size pos) (pos_collateral pos) pnl 0 w1 = Inr w2"
    and "pm_sub_open_interest (pos_direction pos) (pos_size pos)
           (pm_remove_position trader i w2) = Inr w3"
    and "w' = pm_drop_position_count trader w3"
  using assms
  unfolding pm_liquidate_position_def Let_def prod.case_eq_if
  by (auto simp: inv_simps pm_get_liquidation_engine_def pm_bump_instance_def)

lemma pm_close_effect:
  assumes "pm_close_position tk e trader i asset w = Inr (r, w')"
  obtains pos price pnl fee where
    "authorised e trader" and "pos_trader pos = trader" and "pos_asset pos = asset"
    and "oracle_get_price_value (subcall e (o_self (oracle_st w))) asset w
           = Inr (price, oracle_bump_instance w)"
    and "capped_pnl pos price = Inr pnl"
    and "calculate_fee (pos_size pos) (pm_get_close_fee_rate w) = Inr fee"
    and "r = pnl - fee"
    and "closed_out tk e trader i pos pnl fee w w'"
  using pm_close_positionE [OF assms]
proof cases
  case (1 pos price w1 pnl fee w2 w3)
  note q = pm_query_loaded [OF 1(5)]
  have vault: "p_vault (pm_st w) = Some (v_self (vault_st w))"
    using 1(9) unfolding q(1) pm_rates_loaded by (simp add: pm_get_vault_def inv_simps)
  have "closed_out tk e trader i pos pnl fee w w'"
    by (rule closing_tail [OF 1(2) q(2) vault 1(10) [unfolded q(1) pm_rates_loaded] 1(11)])
      (simp_all add: 1(12) emit_position_closed_def publish_def pm_drop_count_frame)
  then show ?thesis
    using that 1(1,3,4,6,7,8) q by simp
qed

lemma pm_liquidate_effect:
  assumes "pm_liquidate_position tk e caller trader i asset w = Inr ((c, pnl), w')"
  obtains pos price where
    "authorised e caller" and "p_liq_engine (pm_st w) = Some caller" and "pos_asset pos = asset"
    and "oracle_get_price_value (subcall e (o_self (oracle_st w))) asset w
           = Inr (price, oracle_bump_instance w)"
    and "capped_pnl pos price = Inr pnl" and "c = pos_collateral pos"
    and "closed_out tk e trader i pos pnl 0 w w'"
  using pm_liquidate_positionE [OF assms]
proof cases
  case (1 pos price w1 w2 w3)
  note q = pm_query_loaded [OF 1(5)]
  have vault: "p_vault (pm_st w) = Some (v_self (vault_st w))"
    using 1(8) unfolding q(1) pm_rates_loaded by (simp add: pm_get_vault_def inv_simps)
  have "closed_out tk e trader i pos pnl 0 w w'"
    by (rule closing_tail [OF 1(3) q(2) vault 1(9) [unfolded q(1) pm_rates_loaded] 1(10)])
      (simp_all add: 1(11) pm_drop_count_frame)
  then show ?thesis
    using that 1(1,2,4,6,7) q by simp
qed

section \<open>The book of positions\<close>

text \<open>
  The book invariant: a stored position carries its key and is well-formed, an identifier is used
  once and is below the counter, open interest is the sum of the sizes of its side, and a
  trader's count is the number of the trader's positions.  Before \<open>initialize\<close> there is no vault
  to trade with and no position.
\<close>

definition position_ok :: "address \<Rightarrow> u64 \<Rightarrow> position \<Rightarrow> bool" where
  "position_ok trader i p \<longleftrightarrow> pos_trader p = trader \<and> pos_id p = i \<and> 0 < pos_size p \<and>
     0 < pos_collateral p \<and> 0 < pos_entry_price p \<and>
     pos_size p = pos_collateral p * u32_as_i128 (pos_leverage p)"

definition pm_inv :: "('t, 'm) pm_world_scheme \<Rightarrow> bool" where
  "pm_inv w \<longleftrightarrow>
     finite (dom (p_positions (pm_st w))) \<and>
     (\<forall>t i p. p_positions (pm_st w) (t, i) = Some p \<longrightarrow>
        position_ok t i p \<and> uint i < uint (pm_get_next_position_id w)) \<and>
     (\<forall>t t' i. (t, i) \<in> dom (p_positions (pm_st w)) \<longrightarrow>
        (t', i) \<in> dom (p_positions (pm_st w)) \<longrightarrow> t = t') \<and>
     (\<forall>d. pm_oi d w = msum (side d) (p_positions (pm_st w))) \<and>
     (\<forall>t. uint (pm_get_trader_position_count t w)
        = int (card {i. (t, i) \<in> dom (p_positions (pm_st w))})) \<and>
     (p_admin (pm_st w) = None \<longrightarrow> p_vault (pm_st w) = None \<and> p_positions (pm_st w) = (\<lambda>_. None))"

lemma pm_invD:
  assumes "pm_inv w"
  shows "finite (dom (p_positions (pm_st w)))"
    and "p_positions (pm_st w) (t, i) = Some p \<Longrightarrow> position_ok t i p"
    and "p_positions (pm_st w) (t, i) = Some p \<Longrightarrow> uint i < uint (pm_get_next_position_id w)"
    and "(t, i) \<in> dom (p_positions (pm_st w)) \<Longrightarrow> (t', i) \<in> dom (p_positions (pm_st w)) \<Longrightarrow> t = t'"
    and "pm_oi d w = msum (side d) (p_positions (pm_st w))"
    and "uint (pm_get_trader_position_count t w)
        = int (card {i. (t, i) \<in> dom (p_positions (pm_st w))})"
    and "p_admin (pm_st w) = None \<Longrightarrow>
           p_vault (pm_st w) = None \<and> p_positions (pm_st w) = (\<lambda>_. None)"
  using assms unfolding pm_inv_def by blast+

lemma pm_invI:
  assumes "finite (dom (p_positions (pm_st w)))"
    and "\<And>t i p. p_positions (pm_st w) (t, i) = Some p \<Longrightarrow>
           position_ok t i p \<and> uint i < uint (pm_get_next_position_id w)"
    and "\<And>t t' i. (t, i) \<in> dom (p_positions (pm_st w)) \<Longrightarrow>
           (t', i) \<in> dom (p_positions (pm_st w)) \<Longrightarrow> t = t'"
    and "\<And>d. pm_oi d w = msum (side d) (p_positions (pm_st w))"
    and "\<And>t. uint (pm_get_trader_position_count t w)
        = int (card {i. (t, i) \<in> dom (p_positions (pm_st w))})"
    and "p_admin (pm_st w) = None \<Longrightarrow>
           p_vault (pm_st w) = None \<and> p_positions (pm_st w) = (\<lambda>_. None)"
  shows "pm_inv w"
  using assms unfolding pm_inv_def by blast

lemma side_nonneg: "position_ok t i p \<Longrightarrow> 0 \<le> side d p"
  by (auto simp: side_def position_ok_def)

lemma pm_oi_nonneg:
  assumes "pm_inv w"
  shows "0 \<le> pm_oi d w"
  unfolding pm_invD(5) [OF assms]
proof (rule msum_nonneg)
  fix k v
  assume "p_positions (pm_st w) k = Some v"
  then show "0 \<le> side d v"
    using pm_invD(2) [OF assms, of "fst k" "snd k" v] by (simp add: side_nonneg)
qed

lemma finite_trader_ids:
  "finite (dom m) \<Longrightarrow> finite {i. (t, i) \<in> dom (m :: 'a \<times> 'b \<Rightarrow> 'c option)}"
  by (rule finite_subset [of _ "snd ` dom m"]) force+

lemma trader_ids_upd:
  "{j. (t, j) \<in> dom (m((t', i) \<mapsto> p))} =
     (if t = t' then insert i {j. (t, j) \<in> dom m} else {j. (t, j) \<in> dom m})"
  by auto

lemma trader_ids_del:
  "{j. (t, j) \<in> dom (m((t', i) := None))} =
     (if t = t' then {j. (t, j) \<in> dom m} - {i} else {j. (t, j) \<in> dom m})"
  by auto

lemma uint_Suc_u64: "uint (i::u64) + 1 < 2 ^ 64 \<Longrightarrow> uint (i + 1) = uint i + 1"
  by (simp add: uint_plus_if')

lemma pm_inv_open:
  assumes inv: "pm_inv w" and priced: "oracle_priced w"
    and run: "pm_open_position tk e trader asset direction collateral leverage w = Inr (i, w')"
  shows "pm_inv w'"
  using run
proof (rule pm_open_effect)
  fix price fee usdc
  let ?m = "p_positions (pm_st w)"
  let ?p = "opened_position e i trader asset direction collateral leverage price"
  assume lev: "leverage \<noteq> 0" and size: "0 < collateral * u32_as_i128 leverage"
    and quote: "oracle_get_price_value (subcall e (o_self (oracle_st w))) asset w
           = Inr (price, oracle_bump_instance w)"
    and i: "i = pm_get_next_position_id w" "uint i + 1 < 2 ^ 64"
    and next_id: "p_next_id (pm_st w') = Some (i + 1)"
    and m: "p_positions (pm_st w') = ?m((trader, i) \<mapsto> ?p)"
    and oi: "\<And>d. pm_oi d w' = pm_oi d w + (if d = direction then collateral * u32_as_i128 leverage else 0)"
    and cnt: "uint (pm_get_trader_position_count trader w) + 1 < 2 ^ 64"
      "p_counts (pm_st w') = (p_counts (pm_st w)) (trader \<mapsto> pm_get_trader_position_count trader w + 1)"
    and vault: "p_vault (pm_st w) = Some (v_self (vault_st w))" and wiring: "same_wiring w w'"
  have admin: "p_admin (pm_st w') \<noteq> None"
    using pm_invD(7) [OF inv] vault by (auto simp: same_wiringD(12) [OF wiring])
  note fin = pm_invD(1) [OF inv]
  have next': "uint (pm_get_next_position_id w') = uint i + 1"
    by (simp add: pm_get_next_position_id_def next_id uint_Suc_u64 [OF i(2)])
  have fresh: "(t, i) \<notin> dom ?m" for t
    using pm_invD(3) [OF inv, of t i] i(1) by auto
  then have new: "?m (trader, i) = None" by auto
  have "0 < price" using oracle_feed.quote_positive [OF priced quote] .
  moreover have "0 < collateral"
    using size u32_as_i128_nonneg [of leverage] by (auto simp: zero_less_mult_iff)
  ultimately have ok: "position_ok trader i ?p" using size by (simp add: position_ok_def)
  have "position_ok t j p \<and> uint j < uint (pm_get_next_position_id w')"
    if "p_positions (pm_st w') (t, j) = Some p" for t j p
    using that ok next' i(1) pm_invD(2,3) [OF inv, of t j p] by (auto simp: m split: if_splits)
  moreover have "t = t'" if "(t, j) \<in> dom (p_positions (pm_st w'))"
      and "(t', j) \<in> dom (p_positions (pm_st w'))" for t t' j
    using that fresh pm_invD(4) [OF inv, of t j t'] by (auto simp: m split: if_splits)
  moreover have "pm_oi d w' = msum (side d) (p_positions (pm_st w'))" for d
    by (simp add: oi m msum_upd [OF fin] new pm_invD(5) [OF inv] side_def)
  moreover have "uint (pm_get_trader_position_count t w')
        = int (card {j. (t, j) \<in> dom (p_positions (pm_st w'))})" for t
    using pm_invD(6) [OF inv, of t] finite_trader_ids [OF fin, of t] fresh [of t] cnt(1)
    unfolding m trader_ids_upd
    by (cases "t = trader")
      (simp_all add: pm_get_trader_position_count_def cnt(2) uint_Suc_u64 card_insert_if)
  moreover have "finite (dom (p_positions (pm_st w')))" using fin by (simp add: m)
  ultimately show ?thesis
    unfolding pm_inv_def using admin by blast
qed

lemma closed_outD:
  assumes "closed_out tk e trader i pos pnl fee w w'"
  shows "p_positions (pm_st w) (trader, i) = Some pos"
    and "p_positions (pm_st w') = (p_positions (pm_st w))((trader, i) := None)"
    and "pm_oi d w' = pm_oi d w - side d pos"
    and "p_counts (pm_st w') =
       (let c = pm_get_trader_position_count trader w in
        if 0 < c then (p_counts (pm_st w))(trader \<mapsto> c - 1) else p_counts (pm_st w))"
    and "p_next_id (pm_st w') = p_next_id (pm_st w)"
    and "vault_get_total_deposits w' = vault_get_total_deposits w - pnl + fee"
    and "0 \<le> vault_get_total_deposits w'"
    and "vault_get_locked_liquidity w' = vault_get_locked_liquidity w - pos_size pos"
    and "pos_size pos \<le> vault_get_locked_liquidity w"
    and "v_shares (vault_st w') = v_shares (vault_st w)"
    and "v_total_shares (vault_st w') = v_total_shares (vault_st w)"
    and "same_wiring w w'"
    and "v_pm (vault_st w) = Some (e_self e)" and "p_vault (pm_st w) = Some (v_self (vault_st w))"
    and "if 0 < settlement_payout (pos_collateral pos) pnl fee
      then \<exists>usdc. v_usdc (vault_st w) = Some usdc \<and>
             tok_transfer tk (subcall (subcall e (v_self (vault_st w))) usdc) usdc
               (v_self (vault_st w)) trader (settlement_payout (pos_collateral pos) pnl fee)
               (ledger w) = Inr (ledger w')
      else ledger w' = ledger w"
  using assms unfolding closed_out_def by blast+

lemma uint_pred_u64: "0 < (c::u64) \<Longrightarrow> uint (c - 1) = uint c - 1"
  using uint_sub_lem [of 1 c] by (simp add: word_less_def)

lemma pm_inv_closed_out:
  assumes inv: "pm_inv w" and step: "closed_out tk e trader i pos pnl fee w w'"
  shows "pm_inv w'"
proof -
  let ?m = "p_positions (pm_st w)"
  note c = closed_outD [OF step]
  note m = c(2)
  note fin = pm_invD(1) [OF inv]
  have next': "pm_get_next_position_id w' = pm_get_next_position_id w"
    by (simp add: pm_get_next_position_id_def c(5))
  have "position_ok t j p \<and> uint j < uint (pm_get_next_position_id w')"
    if "p_positions (pm_st w') (t, j) = Some p" for t j p
    using that pm_invD(2,3) [OF inv, of t j p] by (auto simp: m next' split: if_splits)
  moreover have "t = t'" if "(t, j) \<in> dom (p_positions (pm_st w'))"
      and "(t', j) \<in> dom (p_positions (pm_st w'))" for t t' j
    using that pm_invD(4) [OF inv, of t j t'] by (auto simp: m split: if_splits)
  moreover have "pm_oi d w' = msum (side d) (p_positions (pm_st w'))" for d
    by (simp add: c(1,3) m msum_del [OF fin] pm_invD(5) [OF inv])
  moreover have "uint (pm_get_trader_position_count t w')
        = int (card {j. (t, j) \<in> dom (p_positions (pm_st w'))})" for t
  proof (cases "t = trader")
    case True
    let ?ids = "{j. (trader, j) \<in> dom ?m}"
    have mem: "i \<in> ?ids" using c(1) by auto
    have fin': "finite ?ids" by (rule finite_trader_ids [OF fin])
    have card: "int (card (?ids - {i})) = int (card ?ids) - 1"
      using card_Suc_Diff1 [OF fin' mem] by simp
    have "0 < card ?ids" using fin' mem card_gt_0_iff by blast
    then have "0 < uint (pm_get_trader_position_count trader w)"
      using pm_invD(6) [OF inv, of trader] by simp
    then have pos: "0 < pm_get_trader_position_count trader w"
      by (simp add: word_less_def)
    have "pm_get_trader_position_count trader w' = pm_get_trader_position_count trader w - 1"
      using pos unfolding pm_get_trader_position_count_def [of _ w'] c(4) by (simp add: Let_def)
    then have "uint (pm_get_trader_position_count trader w') = int (card (?ids - {i}))"
      using uint_pred_u64 [OF pos] pm_invD(6) [OF inv, of trader] card by (simp only:)
    then show ?thesis
      unfolding m trader_ids_del True by (simp only: if_True refl)
  next
    case False
    then have "pm_get_trader_position_count t w' = pm_get_trader_position_count t w"
      by (simp add: pm_get_trader_position_count_def c(4) Let_def)
    then show ?thesis
      using pm_invD(6) [OF inv, of t] False unfolding m trader_ids_del by simp
  qed
  moreover have "finite (dom (p_positions (pm_st w')))" using fin by (simp add: m)
  moreover have "p_admin (pm_st w') \<noteq> None"
    using pm_invD(7) [OF inv] c(14) by (auto simp: same_wiringD(12) [OF c(12)])
  ultimately show ?thesis
    unfolding pm_inv_def by blast
qed

section \<open>Every entry point keeps the book\<close>

text \<open>The views that only extend the instance's time to live before they read.\<close>

datatype pm_view =
    ViewOpenInterestLong
  | ViewOpenInterestShort
  | ViewPositionCount address

fun pm_read_view :: "pm_view \<Rightarrow> ('t, 'm) pm_world_scheme \<Rightarrow> ('t, 'm) pm_world_scheme" where
  "pm_read_view ViewOpenInterestLong w = snd (pm_view_open_interest_long w)"
| "pm_read_view ViewOpenInterestShort w = snd (pm_view_open_interest_short w)"
| "pm_read_view (ViewPositionCount t) w = snd (pm_view_trader_position_count t w)"

lemma pm_read_view_state [simp]: "pm_read_view q w = pm_bump_instance w"
  by (cases q) (simp_all add: Let_def pm_view_open_interest_long_def
      pm_view_open_interest_short_def pm_view_trader_position_count_def)

datatype pm_call =
    PInitialize address address address address u32 u32 u32 i128
  | POpen address u32 direction i128 u32
  | PClose address u64 u32
  | PGetPosition address u64
  | PGetUnrealizedPnl address u64 u32
  | PLiquidate address address u64 u32
  | PView pm_view
  | PSetFeeRates address u32 u32
  | PSetMaxLeverage address u32
  | PSetLiquidationEngine address address
  | PSetFundingAddress address address

fun pm_exec ::
  "'t token \<Rightarrow> env \<times> pm_call \<Rightarrow> ('t, 'm) pm_world_scheme \<Rightarrow> ('t, 'm) pm_world_scheme res" where
  "pm_exec tk (e, PInitialize a v orc u fo fc l m) w = pm_initialize a v orc u fo fc l m w"
| "pm_exec tk (e, POpen t k d c l) w = bnd (pm_open_position tk e t k d c l w) (\<lambda>(_, w). Inr w)"
| "pm_exec tk (e, PClose t i k) w = bnd (pm_close_position tk e t i k w) (\<lambda>(_, w). Inr w)"
| "pm_exec tk (e, PGetPosition t i) w = bnd (pm_get_position t i w) (\<lambda>(_, w). Inr w)"
| "pm_exec tk (e, PGetUnrealizedPnl t i k) w =
     bnd (pm_get_unrealized_pnl e t i k w) (\<lambda>(_, w). Inr w)"
| "pm_exec tk (e, PLiquidate c t i k) w =
     bnd (pm_liquidate_position tk e c t i k w) (\<lambda>(_, w). Inr w)"
| "pm_exec tk (e, PView q) w = Inr (pm_read_view q w)"
| "pm_exec tk (e, PSetFeeRates a fo fc) w = pm_set_fee_rates e a fo fc w"
| "pm_exec tk (e, PSetMaxLeverage a l) w = pm_set_max_leverage e a l w"
| "pm_exec tk (e, PSetLiquidationEngine a l) w = pm_set_liquidation_engine e a l w"
| "pm_exec tk (e, PSetFundingAddress a f) w = pm_set_funding_address e a f w"

text \<open>The cells the book invariant reads.\<close>

lemma pm_inv_cong:
  assumes "pm_inv w"
    and "p_positions (pm_st w') = p_positions (pm_st w)"
    and "p_counts (pm_st w') = p_counts (pm_st w)"
    and "p_next_id (pm_st w') = p_next_id (pm_st w)"
    and "p_oi_long (pm_st w') = p_oi_long (pm_st w)"
    and "p_oi_short (pm_st w') = p_oi_short (pm_st w)"
    and "p_admin (pm_st w') = p_admin (pm_st w)"
    and "p_vault (pm_st w') = p_vault (pm_st w)"
  shows "pm_inv w'"
proof -
  have "pm_oi d w' = pm_oi d w" for d
    using assms(5,6) by (rule pm_oi_cong)
  then show ?thesis
    using assms
    by (simp add: pm_inv_def pm_get_next_position_id_def pm_get_trader_position_count_def)
qed

lemma pm_inv_initialize:
  assumes inv: "pm_inv w" and run: "pm_initialize a v orc u fo fc l m w = Inr w'"
  shows "pm_inv w'"
proof -
  have "p_admin (pm_st w) = None"
    using run by (auto simp: pm_initialize_def pm_has_admin_def inv_simps)
  then have empty: "p_positions (pm_st w) = (\<lambda>_. None)" using pm_invD(7) [OF inv] by blast
  have w': "p_positions (pm_st w') = (\<lambda>_. None)" "p_counts (pm_st w') = p_counts (pm_st w)"
      "p_admin (pm_st w') \<noteq> None" "pm_oi d w' = 0" for d
    using run empty
    by (auto simp: pm_initialize_def inv_simps Let_def pm_storage_defs pm_oi_def
        split: direction.splits)
  have "pm_get_trader_position_count t w' = pm_get_trader_position_count t w" for t
    by (simp add: pm_get_trader_position_count_def w')
  moreover have "uint (pm_get_trader_position_count t w) = 0" for t
    using pm_invD(6) [OF inv, of t] by (simp add: empty)
  ultimately show ?thesis
    by (intro pm_invI) (simp_all add: w')
qed

end
