(* ===== verification/Position_Book.thy ===== *)
theory Position_Book
  imports Position_Accounting
begin

text \<open>
  The properties of the position manager: its book of positions is kept by every call, the effect
  of opening and of closing, the errors of the guards, and the restriction of
  liquidations and of the setters.
\<close>

section \<open>The book under every call\<close>

lemma pm_bump_book [simp]:
  "p_counts (pm_st (pm_bump_instance w)) = p_counts (pm_st w)"
  "p_next_id (pm_st (pm_bump_instance w)) = p_next_id (pm_st w)"
  "p_oi_long (pm_st (pm_bump_instance w)) = p_oi_long (pm_st w)"
  "p_oi_short (pm_st (pm_bump_instance w)) = p_oi_short (pm_st w)"
  "p_vault (pm_st (pm_bump_instance w)) = p_vault (pm_st w)"
  by (simp_all add: pm_bump_instance_def)

lemma pm_load_bump_frame:
  "p_positions (pm_st (loaded t i w)) = p_positions (pm_st w)"
  "p_counts (pm_st (loaded t i w)) = p_counts (pm_st w)"
  "p_next_id (pm_st (loaded t i w)) = p_next_id (pm_st w)"
  "p_oi_long (pm_st (loaded t i w)) = p_oi_long (pm_st w)"
  "p_oi_short (pm_st (loaded t i w)) = p_oi_short (pm_st w)"
  "p_admin (pm_st (loaded t i w)) = p_admin (pm_st w)"
  "p_vault (pm_st (loaded t i w)) = p_vault (pm_st w)"
  "o_prices (oracle_st (loaded t i w)) = o_prices (oracle_st w)"
  by (simp_all add: pm_bump_instance_def)

lemma pm_get_position_eq_Inr:
  "pm_get_position t i w = Inr (pos, w') \<longleftrightarrow>
     p_positions (pm_st w) (t, i) = Some pos \<and> w' = loaded t i w"
  unfolding pm_get_position_def Let_def prod.case_eq_if by (auto simp: inv_simps)

lemma pm_get_unrealized_pnl_eq_Inr:
  "pm_get_unrealized_pnl e t i asset w = Inr (pnl, w') \<longleftrightarrow>
     (\<exists>pos price. p_positions (pm_st w) (t, i) = Some pos \<and>
        pm_query_price e asset (loaded t i w) = Inr (price, w') \<and>
        calculate_pnl (pos_direction pos) (pos_size pos) (pos_entry_price pos) price = Inr pnl)"
  unfolding pm_get_unrealized_pnl_def Let_def prod.case_eq_if
  by (auto simp: inv_simps)

lemma pm_inv_loaded: "pm_inv w \<Longrightarrow> pm_inv (oracle_bump_instance (loaded t i w))"
  by (erule pm_inv_cong) (simp_all add: oracle_bump_instance_def pm_load_bump_frame)

lemma pm_inv_views:
  "pm_inv w \<Longrightarrow> pm_inv (pm_bump_instance w)"
  "pm_inv w \<Longrightarrow> pm_get_position t i w = Inr (pos, w') \<Longrightarrow> pm_inv w'"
  "pm_inv w \<Longrightarrow> pm_get_unrealized_pnl e t i k w = Inr (pnl, w') \<Longrightarrow> pm_inv w'"
proof -
  show "pm_inv w \<Longrightarrow> pm_inv (pm_bump_instance w)"
    by (erule pm_inv_cong) (simp_all add: pm_bump_instance_def)
  show "pm_inv w \<Longrightarrow> pm_get_position t i w = Inr (pos, w') \<Longrightarrow> pm_inv w'"
    by (erule pm_inv_cong) (auto simp: pm_get_position_eq_Inr pm_load_bump_frame)
  assume inv: "pm_inv w" and run: "pm_get_unrealized_pnl e t i k w = Inr (pnl, w')"
  from run obtain price where "pm_query_price e k (loaded t i w) = Inr (price, w')"
    by (auto simp: pm_get_unrealized_pnl_eq_Inr)
  then have "w' = oracle_bump_instance (loaded t i w)" by (rule pm_query_price_state)
  then show "pm_inv w'" using pm_inv_loaded [OF inv] by simp
qed

lemma pm_inv_setters:
  "pm_inv w \<Longrightarrow> pm_set_fee_rates e a x y w = Inr w' \<Longrightarrow> pm_inv w'"
  "pm_inv w \<Longrightarrow> pm_set_max_leverage e a x w = Inr w' \<Longrightarrow> pm_inv w'"
  "pm_inv w \<Longrightarrow> pm_set_liquidation_engine e a l w = Inr w' \<Longrightarrow> pm_inv w'"
  "pm_inv w \<Longrightarrow> pm_set_funding_address e a l w = Inr w' \<Longrightarrow> pm_inv w'"
  by (erule pm_inv_cong; auto simp: pm_set_fee_rates_def pm_set_max_leverage_def
      pm_set_liquidation_engine_def pm_set_funding_address_def Let_def inv_simps pm_storage_defs)+

lemma pm_inv_close:
  "pm_inv w \<Longrightarrow> pm_close_position tk e t i k w = Inr (r, w') \<Longrightarrow> pm_inv w'"
  by (erule pm_close_effect) (rule pm_inv_closed_out)

lemma pm_inv_liquidate:
  "pm_inv w \<Longrightarrow> pm_liquidate_position tk e c t i k w = Inr ((m, p), w') \<Longrightarrow> pm_inv w'"
  by (erule pm_liquidate_effect) (rule pm_inv_closed_out)

lemma pm_exec_prices:
  assumes "pm_exec tk c w = Inr w'"
  shows "o_prices (oracle_st w') = o_prices (oracle_st w)"
  using assms
proof (cases "(tk, c, w)" rule: pm_exec.cases)
  case (2 tk' e t k d col l w0)
  then show ?thesis using assms
    by (auto simp: bnd_eq_Inr elim!: pm_open_effect dest: same_wiringD(7))
next
  case (3 tk' e t i k w0)
  then show ?thesis using assms
    by (auto simp: bnd_eq_Inr elim!: pm_close_effect dest!: closed_outD(12) same_wiringD(7))
next
  case (6 tk' e c' t i k w0)
  then show ?thesis using assms
    by (auto simp: bnd_eq_Inr elim!: pm_liquidate_effect dest!: closed_outD(12) same_wiringD(7))
qed (use assms in \<open>auto simp: bnd_eq_Inr pm_get_position_eq_Inr pm_get_unrealized_pnl_eq_Inr
      pm_load_bump_frame pm_initialize_def pm_set_fee_rates_def pm_set_max_leverage_def
      pm_set_liquidation_engine_def pm_set_funding_address_def Let_def inv_simps pm_storage_defs
      dest!: pm_query_price_state\<close>)

lemma pm_exec_keeps_book:
  assumes "pm_inv w \<and> oracle_priced w" and run: "pm_exec tk c w = Inr w'"
  shows "pm_inv w' \<and> oracle_priced w'"
proof
  show "oracle_priced w'"
    using assms(1) pm_exec_prices [OF run] by (simp add: oracle_priced_def)
  show "pm_inv w'"
    using assms
    by (cases "(tk, c, w)" rule: pm_exec.cases)
      (auto simp: bnd_eq_Inr intro: pm_inv_initialize pm_inv_open pm_inv_close pm_inv_liquidate
        pm_inv_views pm_inv_setters)
qed

interpretation pm_machine: invariant_machine "pm_exec tk" "\<lambda>w. pm_inv w \<and> oracle_priced w"
  by unfold_locales (rule pm_exec_keeps_book)

definition pm_fresh :: "pm_store \<Rightarrow> bool" where
  "pm_fresh p \<longleftrightarrow> p_admin p = None \<and> p_vault p = None \<and> p_positions p = (\<lambda>_. None) \<and>
     p_counts p = (\<lambda>_. None) \<and> p_oi_long p = None \<and> p_oi_short p = None"

lemma pm_fresh_inv: "pm_fresh (pm_st w) \<Longrightarrow> pm_inv w"
  by (rule pm_invI) (auto simp: pm_fresh_def pm_oi_def pm_get_oi_long_def pm_get_oi_short_def
      pm_get_trader_position_count_def split: direction.splits)

section \<open>Opening and closing\<close>

lemma pm_open_guards:
  assumes "pm_open_position tk e trader asset d collateral leverage w = Inr (i, w')"
  shows "pm_get_min_collateral w \<le> collateral \<and> leverage \<noteq> 0 \<and> leverage \<le> pm_get_max_leverage w"
  using assms by (rule pm_open_positionE) blast

text \<open>
  C10. A successful \<open>open_position\<close> met every guard and had this effect: the position is stored
  under the next identifier at the price the oracle serves, the trader's position count grows by
  one without wrapping, open interest of its direction and the vault's locked liquidity grow by
  collateral times leverage, the vault's deposits grow by the open fee, the token moved collateral
  plus fee from the trader to the vault, the vault published the lock and the fee and the position
  manager the new position, and the LPs' shares, their total and the wiring of the contracts are
  untouched.
\<close>

theorem open_position_effect:
  assumes "pm_open_position tk e trader asset d collateral leverage w = Inr (i, w')"
  shows "\<exists>price fee usdc. authorised e trader \<and> pm_get_min_collateral w \<le> collateral
     \<and> leverage \<noteq> 0 \<and> leverage \<le> pm_get_max_leverage w
     \<and> oracle_get_price_value (subcall e (o_self (oracle_st w))) asset w
         = Inr (price, oracle_bump_instance w)
     \<and> calculate_fee (collateral * u32_as_i128 leverage) (pm_get_open_fee_rate w) = Inr fee
     \<and> 0 < collateral * u32_as_i128 leverage \<and> 0 < fee
     \<and> i = pm_get_next_position_id w \<and> uint (pm_get_next_position_id w') = uint i + 1
     \<and> p_positions (pm_st w') = (p_positions (pm_st w))((trader, i) \<mapsto>
         opened_position e i trader asset d collateral leverage price)
     \<and> uint (pm_get_trader_position_count trader w') = uint (pm_get_trader_position_count trader w) + 1
     \<and> (\<forall>t. t \<noteq> trader \<longrightarrow> pm_get_trader_position_count t w' = pm_get_trader_position_count t w)
     \<and> (\<forall>b. pm_oi b w' = pm_oi b w + (if b = d then collateral * u32_as_i128 leverage else 0))
     \<and> vault_get_locked_liquidity w' = vault_get_locked_liquidity w + collateral * u32_as_i128 leverage
     \<and> vault_get_total_deposits w' = vault_get_total_deposits w + fee
     \<and> p_usdc (pm_st w) = Some usdc
     \<and> tok_transfer tk (subcall e usdc) usdc trader (v_self (vault_st w)) (collateral + fee)
         (ledger w) = Inr (ledger w')
     \<and> events w' = events w
         @ opened_events e (v_self (vault_st w)) i trader d collateral leverage price fee
     \<and> v_shares (vault_st w') = v_shares (vault_st w)
     \<and> v_total_shares (vault_st w') = v_total_shares (vault_st w) \<and> same_wiring w w'"
  using assms
proof (rule pm_open_effect)
  fix price fee usdc
  assume "uint i + 1 < 2 ^ 64" and "p_next_id (pm_st w') = Some (i + 1)"
  then have next': "uint (pm_get_next_position_id w') = uint i + 1"
    by (simp add: pm_get_next_position_id_def uint_Suc_u64)
  assume "uint (pm_get_trader_position_count trader w) + 1 < 2 ^ 64"
    and counts: "p_counts (pm_st w') = (p_counts (pm_st w))
           (trader \<mapsto> pm_get_trader_position_count trader w + 1)"
  then have count: "uint (pm_get_trader_position_count trader w')
      = uint (pm_get_trader_position_count trader w) + 1"
    unfolding pm_get_trader_position_count_def [of _ w'] by (simp add: uint_Suc_u64)
  have others: "t \<noteq> trader \<longrightarrow> pm_get_trader_position_count t w' = pm_get_trader_position_count t w" for t
    by (simp add: pm_get_trader_position_count_def counts)
  have guards: "pm_get_min_collateral w \<le> collateral" "leverage \<noteq> 0"
      "leverage \<le> pm_get_max_leverage w"
    using pm_open_guards [OF assms] by blast+
  show ?thesis if "authorised e trader"
      and "oracle_get_price_value (subcall e (o_self (oracle_st w))) asset w
         = Inr (price, oracle_bump_instance w)"
      and "calculate_fee (collateral * u32_as_i128 leverage) (pm_get_open_fee_rate w) = Inr fee"
      and "0 < collateral * u32_as_i128 leverage" and "0 < fee"
      and "i = pm_get_next_position_id w"
      and "p_positions (pm_st w') = (p_positions (pm_st w))((trader, i) \<mapsto>
         opened_position e i trader asset d collateral leverage price)"
      and "\<And>b. pm_oi b w' = pm_oi b w + (if b = d then collateral * u32_as_i128 leverage else 0)"
      and "vault_get_locked_liquidity w' = vault_get_locked_liquidity w + collateral * u32_as_i128 leverage"
      and "vault_get_total_deposits w' = vault_get_total_deposits w + fee"
      and "p_usdc (pm_st w) = Some usdc"
      and "tok_transfer tk (subcall e usdc) usdc trader (v_self (vault_st w)) (collateral + fee)
         (ledger w) = Inr (ledger w')"
      and "events w' = events w
         @ opened_events e (v_self (vault_st w)) i trader d collateral leverage price fee"
      and "v_shares (vault_st w') = v_shares (vault_st w)"
      and "v_total_shares (vault_st w') = v_total_shares (vault_st w)" and "same_wiring w w'"
    by (intro exI [of _ price] exI [of _ fee] exI [of _ usdc] conjI allI)
      (fact that guards next' count others)+
qed

lemma capped_pnl_eq_Inr:
  "capped_pnl pos price = Inr pnl \<longleftrightarrow>
     (\<exists>raw. calculate_pnl (pos_direction pos) (pos_size pos) (pos_entry_price pos) price = Inr raw \<and>
        i128_ok (- pos_collateral pos) \<and> pnl = max raw (- pos_collateral pos))"
proof -
  have "(if a < b then b else a) = max a b" for a b :: int by simp
  then show ?thesis unfolding capped_pnl_def bnd_eq_Inr i128_neg_eq_Inr by blast
qed

text \<open>
  C11. A trader's \<open>close_position\<close> refines the abstract closing step: the position disappears from
  the book, and the vault settles the profit at the oracle's price, with losses cut off at the
  collateral, and the close fee.  The result reported is the profit net of the fee.
\<close>

theorem close_refines_closing_step:
  assumes "pm_close_position tk e trader i asset w = Inr (r, w')"
  shows "\<exists>pos price raw fee. authorised e trader \<and> pos_asset pos = asset
       \<and> oracle_get_price_value (subcall e (o_self (oracle_st w))) asset w
           = Inr (price, oracle_bump_instance w)
       \<and> calculate_pnl (pos_direction pos) (pos_size pos) (pos_entry_price pos) price = Inr raw
       \<and> calculate_fee (pos_size pos) (pm_get_close_fee_rate w) = Inr fee
       \<and> r = max raw (- pos_collateral pos) - fee
       \<and> closed_out tk e trader i pos (max raw (- pos_collateral pos)) fee w w'"
  using assms by (rule pm_close_effect) (unfold capped_pnl_eq_Inr, blast)

text \<open>
  C13. \<open>liquidate_position\<close> refines the same closing step, with the same price and the same cap on
  the loss and without a fee, and returns the position's collateral and the capped profit.
\<close>

theorem liquidation_refines_closing_step:
  assumes "pm_liquidate_position tk e caller trader i asset w = Inr ((c, pnl), w')"
  shows "\<exists>pos price raw. authorised e caller \<and> p_liq_engine (pm_st w) = Some caller
       \<and> pos_asset pos = asset
       \<and> oracle_get_price_value (subcall e (o_self (oracle_st w))) asset w
           = Inr (price, oracle_bump_instance w)
       \<and> calculate_pnl (pos_direction pos) (pos_size pos) (pos_entry_price pos) price = Inr raw
       \<and> c = pos_collateral pos \<and> pnl = max raw (- pos_collateral pos)
       \<and> closed_out tk e trader i pos pnl 0 w w'"
  using assms by (rule pm_liquidate_effect) (unfold capped_pnl_eq_Inr, blast)

text \<open>The balances after a closing step, with a token that behaves as documented.\<close>

lemma closed_out_balances:
  assumes "sep41 tk" and "closed_out tk e trader i pos pnl fee w w'"
    and "v_usdc (vault_st w) = Some usdc" and "trader \<noteq> v_self (vault_st w)"
  shows "tok_balance tk usdc trader (ledger w')
           = tok_balance tk usdc trader (ledger w) + max 0 (pos_collateral pos + pnl - fee)"
    and "tok_balance tk usdc (v_self (vault_st w)) (ledger w')
           = tok_balance tk usdc (v_self (vault_st w)) (ledger w)
               - max 0 (pos_collateral pos + pnl - fee)"
  using closed_outD(15) [OF assms(2)] assms(3,4) sep41D(4) [OF assms(1)]
  by (auto simp: moved_def split: if_splits)

text \<open>
  C12. Closing pays the trader what is left of the collateral.  The profit is the rounded profit of
  the position at the price the oracle serves, cut off at the collateral when it is a loss, and
  the result \<open>r\<close> is that profit less the close fee.  The trader's balance grows by collateral plus
  \<open>r\<close>, or by nothing when that is negative, and the vault pays exactly that.
\<close>

theorem close_pays_remaining_equity:
  assumes "sep41 tk" and "pm_close_position tk e trader i asset w = Inr (r, w')"
    and "v_usdc (vault_st w) = Some usdc" and "trader \<noteq> v_self (vault_st w)"
  shows "\<exists>pos price raw fee. p_positions (pm_st w) (trader, i) = Some pos \<and> pos_asset pos = asset
     \<and> oracle_get_price_value (subcall e (o_self (oracle_st w))) asset w
         = Inr (price, oracle_bump_instance w)
     \<and> calculate_pnl (pos_direction pos) (pos_size pos) (pos_entry_price pos) price = Inr raw
     \<and> calculate_fee (pos_size pos) (pm_get_close_fee_rate w) = Inr fee
     \<and> r = max raw (- pos_collateral pos) - fee
     \<and> tok_balance tk usdc trader (ledger w')
         = tok_balance tk usdc trader (ledger w) + max 0 (pos_collateral pos + r)
     \<and> tok_balance tk usdc (v_self (vault_st w)) (ledger w')
         = tok_balance tk usdc (v_self (vault_st w)) (ledger w) - max 0 (pos_collateral pos + r)"
  using assms(2)
proof (rule pm_close_effect)
  fix pos price pnl fee
  assume asset: "pos_asset pos = asset"
    and q: "oracle_get_price_value (subcall e (o_self (oracle_st w))) asset w
             = Inr (price, oracle_bump_instance w)"
    and pnl: "capped_pnl pos price = Inr pnl" and r: "r = pnl - fee"
    and fee: "calculate_fee (pos_size pos) (pm_get_close_fee_rate w) = Inr fee"
    and step: "closed_out tk e trader i pos pnl fee w w'"
  have eq: "pos_collateral pos + pnl - fee = pos_collateral pos + r" using r by simp
  obtain raw where raw: "calculate_pnl (pos_direction pos) (pos_size pos) (pos_entry_price pos) price
      = Inr raw" and "pnl = max raw (- pos_collateral pos)"
    using pnl by (auto simp: capped_pnl_eq_Inr)
  then have "r = max raw (- pos_collateral pos) - fee" using r by simp
  then show ?thesis
    using closed_out_balances [OF assms(1) step assms(3,4), unfolded eq] closed_outD(1) [OF step]
      asset q raw fee by blast
qed

text \<open>
  C38. A total loss leaves the close fee unpaid but booked.  When the loss at the served price is at
  least the collateral, closing moves no token, yet the vault's deposits grow by the collateral
  and by the close fee: what the vault holds beyond the deposits and the collateral of the open
  positions falls by exactly the fee.
\<close>

theorem total_loss_books_unpaid_fee:
  assumes "pm_inv w" and "pm_close_position tk e trader i asset w = Inr (r, w')"
    and "p_positions (pm_st w) (trader, i) = Some pos"
    and "oracle_get_price_value (subcall e (o_self (oracle_st w))) asset w = Inr (price, w1)"
    and "calculate_pnl (pos_direction pos) (pos_size pos) (pos_entry_price pos) price = Inr raw"
    and "raw \<le> - pos_collateral pos"
    and "calculate_fee (pos_size pos) (pm_get_close_fee_rate w) = Inr fee"
  shows "ledger w' = ledger w
     \<and> vault_get_total_deposits w' = vault_get_total_deposits w + pos_collateral pos + fee
     \<and> tok_balance tk usdc vault (ledger w') - vault_get_total_deposits w'
           - msum pos_collateral (p_positions (pm_st w'))
         = tok_balance tk usdc vault (ledger w) - vault_get_total_deposits w
           - msum pos_collateral (p_positions (pm_st w)) - fee"
  using assms(2)
proof (rule pm_close_effect)
  fix pos' price' pnl fee'
  assume q: "oracle_get_price_value (subcall e (o_self (oracle_st w))) asset w
             = Inr (price', oracle_bump_instance w)"
    and pnl: "capped_pnl pos' price' = Inr pnl"
    and fee: "calculate_fee (pos_size pos') (pm_get_close_fee_rate w) = Inr fee'"
    and step: "closed_out tk e trader i pos' pnl fee' w w'"
  note c = closed_outD [OF step]
  have same: "pos' = pos" "price' = price" using c(1) assms(3,4) q by simp_all
  then have eqs: "fee' = fee" "pnl = - pos_collateral pos"
    using fee assms(5-7) pnl by (auto simp: capped_pnl_eq_Inr)
  have "0 \<le> pos_size pos"
    using pm_invD(2) [OF assms(1,3)] by (simp add: position_ok_def)
  then have "0 \<le> fee"
    using assms(7) by (auto simp: calculate_fee_eq_Inr intro!: sdiv_nonneg_nonneg)
  then have "ledger w' = ledger w" using c(15) by (simp add: same eqs)
  moreover have "msum pos_collateral (p_positions (pm_st w'))
      = msum pos_collateral (p_positions (pm_st w)) - pos_collateral pos"
    by (simp add: c(2) msum_del [OF pm_invD(1) [OF assms(1)]] assms(3))
  ultimately show ?thesis using c(6) by (simp add: eqs)
qed

lemma pnl_at_entry: "calculate_pnl d n entry entry = Inr r \<Longrightarrow> r = 0"
  by (simp add: calculate_pnl_eq_Inr favourable_move_def split: direction.splits)

text \<open>An open and a close leave the position counts as they were.\<close>

lemma count_restored:
  assumes "uint (pm_get_trader_position_count t w) + 1 < 2 ^ 64"
    and "p_counts (pm_st w1) = (p_counts (pm_st w))(t \<mapsto> pm_get_trader_position_count t w + 1)"
    and "p_counts (pm_st w2) =
       (let c = pm_get_trader_position_count t w1 in
        if 0 < c then (p_counts (pm_st w1))(t \<mapsto> c - 1) else p_counts (pm_st w1))"
  shows "pm_get_trader_position_count s w2 = pm_get_trader_position_count s w"
proof -
  have c: "pm_get_trader_position_count t w1 = pm_get_trader_position_count t w + 1"
    by (simp add: pm_get_trader_position_count_def [of t w1] assms(2))
  have "0 < pm_get_trader_position_count t w + 1"
    using uint_Suc_u64 [OF assms(1)] by (simp add: word_less_def)
  then have "p_counts (pm_st w2) = (p_counts (pm_st w))(t \<mapsto> pm_get_trader_position_count t w)"
    using assms(3) by (simp add: c assms(2))
  then show ?thesis by (simp add: pm_get_trader_position_count_def)
qed

text \<open>
  C24. Opening and closing at the same price is a round trip up to the fees: the book, the position
  counts, the open interest and the locked liquidity are as they were, the result reported is minus
  the close fee, and both fees are in the vault's deposits.  The trader's balance has fallen by the
  open fee and by the close fee, the latter as far as the collateral pays it, and the vault's has
  grown by the same amount.
\<close>

theorem open_close_round_trip:
  assumes "sep41 tk" and "p_usdc (pm_st w) = v_usdc (vault_st w)" and "trader \<noteq> v_self (vault_st w)"
    and "pm_open_position tk e trader asset d collateral leverage w = Inr (i, w1)"
    and "pm_close_position tk e' trader i asset w1 = Inr (r, w2)"
    and "p_positions (pm_st w) (trader, i) = None"
  shows "\<exists>open_fee close_fee usdc.
       calculate_fee (collateral * u32_as_i128 leverage) (pm_get_open_fee_rate w) = Inr open_fee
     \<and> calculate_fee (collateral * u32_as_i128 leverage) (pm_get_close_fee_rate w1) = Inr close_fee
     \<and> r = - close_fee \<and> p_positions (pm_st w2) = p_positions (pm_st w)
     \<and> (\<forall>t. pm_get_trader_position_count t w2 = pm_get_trader_position_count t w)
     \<and> (\<forall>b. pm_oi b w2 = pm_oi b w)
     \<and> vault_get_locked_liquidity w2 = vault_get_locked_liquidity w
     \<and> vault_get_total_deposits w2 = vault_get_total_deposits w + open_fee + close_fee
     \<and> p_usdc (pm_st w) = Some usdc
     \<and> tok_balance tk usdc trader (ledger w2)
         = tok_balance tk usdc trader (ledger w) - open_fee - min close_fee collateral
     \<and> tok_balance tk usdc (v_self (vault_st w)) (ledger w2)
         = tok_balance tk usdc (v_self (vault_st w)) (ledger w) + open_fee + min close_fee collateral"
  using assms(4)
proof (rule pm_open_effect)
  fix price fee usdc
  let ?p = "opened_position e i trader asset d collateral leverage price"
  let ?v = "v_self (vault_st w)"
  assume q: "oracle_get_price_value (subcall e (o_self (oracle_st w))) asset w
           = Inr (price, oracle_bump_instance w)"
    and fee: "calculate_fee (collateral * u32_as_i128 leverage) (pm_get_open_fee_rate w) = Inr fee"
    and size: "0 < collateral * u32_as_i128 leverage"
    and usdc: "p_usdc (pm_st w) = Some usdc"
    and t: "tok_transfer tk (subcall e usdc) usdc trader ?v (collateral + fee) (ledger w)
           = Inr (ledger w1)"
    and book: "p_positions (pm_st w1) = (p_positions (pm_st w))((trader, i) \<mapsto> ?p)"
    and oi: "\<And>b. pm_oi b w1 = pm_oi b w + (if b = d then collateral * u32_as_i128 leverage else 0)"
    and count: "uint (pm_get_trader_position_count trader w) + 1 < 2 ^ 64"
      "p_counts (pm_st w1) = (p_counts (pm_st w)) (trader \<mapsto> pm_get_trader_position_count trader w + 1)"
    and dep: "vault_get_total_deposits w1 = vault_get_total_deposits w + fee"
    and lock: "vault_get_locked_liquidity w1 = vault_get_locked_liquidity w + collateral * u32_as_i128 leverage"
    and wiring: "same_wiring w w1"
  have coll: "0 < collateral"
    using size u32_as_i128_nonneg [of leverage] by (auto simp: zero_less_mult_iff)
  have paid: "tok_balance tk usdc trader (ledger w1) = tok_balance tk usdc trader (ledger w) - (collateral + fee)"
      "tok_balance tk usdc ?v (ledger w1) = tok_balance tk usdc ?v (ledger w) + (collateral + fee)"
    using sep41D(4) [OF assms(1) t] assms(3) by (simp_all add: moved_def)
  show ?thesis
    using assms(5)
  proof (rule pm_close_effect)
    fix pos price' pnl close_fee
    assume q': "oracle_get_price_value (subcall e' (o_self (oracle_st w1))) asset w1
             = Inr (price', oracle_bump_instance w1)"
      and pnl: "capped_pnl pos price' = Inr pnl"
      and fee': "calculate_fee (pos_size pos) (pm_get_close_fee_rate w1) = Inr close_fee"
      and r: "r = pnl - close_fee" and step: "closed_out tk e' trader i pos pnl close_fee w1 w2"
    note c = closed_outD [OF step]
    have pos: "pos = ?p" using c(1) by (simp add: book)
    have "price' = price"
      using q q' same_wiringD(7) [OF wiring]
      by (auto simp: oracle_get_price_value_eq_Inr oracle_get_price_eq_Inr)
    then have pnl0: "pnl = 0"
      using pnl coll pnl_at_entry by (fastforce simp: capped_pnl_eq_Inr pos)
    have v: "v_usdc (vault_st w1) = Some usdc" "trader \<noteq> v_self (vault_st w1)"
      using usdc assms(2,3) by (simp_all add: same_wiringD [OF wiring])
    note bal = closed_out_balances [OF assms(1) step v, unfolded same_wiringD(1) [OF wiring] pos pnl0]
    have counts: "pm_get_trader_position_count s w2 = pm_get_trader_position_count s w" for s
      by (rule count_restored [OF count c(4)])
    show ?thesis
      using fee fee' r c(2,3,6,8) assms(6) bal paid usdc pnl0 counts
      by (auto simp: pos book oi dep lock side_def)
  qed
qed

section \<open>Errors\<close>

lemma calculate_fee_zero: "calculate_fee n 0 = Inr 0"
  by (simp add: calculate_fee_def u32_as_i128_def i128_mul_def i128_of_def i128_div_def)

text \<open>
  C39. A zero open fee, which \<open>initialize\<close> and \<open>set_fee_rates\<close> both accept, closes the exchange:
  \<open>open_position\<close> passes the fee to the vault's \<open>collect_fee\<close>, which refuses the amount zero, so no
  position can be opened.  The same holds for every position small enough for its fee to round to
  zero.
\<close>

theorem zero_open_fee_blocks_opening:
  assumes "calculate_fee (collateral * u32_as_i128 leverage) (pm_get_open_fee_rate w) = Inr 0
           \<or> pm_get_open_fee_rate w = 0"
  shows "\<exists>failure. pm_open_position tk e trader asset d collateral leverage w = Inl failure"
proof (cases "pm_open_position tk e trader asset d collateral leverage w")
  case (Inr r)
  obtain i w' where "r = (i, w')" by (cases r)
  then have run: "pm_open_position tk e trader asset d collateral leverage w = Inr (i, w')"
    using Inr by simp
  show ?thesis
    using run
  proof (rule pm_open_effect)
    fix price fee usdc
    assume "calculate_fee (collateral * u32_as_i128 leverage) (pm_get_open_fee_rate w) = Inr fee"
      and "0 < fee"
    then show ?thesis using assms by (auto simp: calculate_fee_zero)
  qed
qed simp

text \<open>
  C36. \<open>open_position\<close> checks in this order: the trader's signature, the minimum collateral, the
  leverage between one and the maximum; each failed check is its own error, before any price is
  read or token moved.
\<close>

theorem open_position_guards:
  assumes "\<not> authorised e trader \<or> collateral < pm_get_min_collateral w \<or> leverage = 0
     \<or> pm_get_max_leverage w < leverage"
  shows "pm_open_position tk e trader asset d collateral leverage w =
    Inl (if \<not> authorised e trader then Trap AuthFailed
         else if collateral < pm_get_min_collateral w then Err MinCollateralNotMet
         else Err InvalidLeverage)"
  using assms by (auto simp: pm_open_position_def Let_def require_auth_def)

text \<open>
  C35. A position that is not in the book cannot be closed, and neither can one of another asset
  than the call names: a trader's close and the engine's liquidation both answer
  \<open>PositionNotFound\<close> and \<open>AssetMismatch\<close>.  A stored position is closed under its own trader only.
\<close>

theorem closing_guards:
  assumes "pm_inv w" and "authorised e trader" and "authorised e engine"
    and "p_liq_engine (pm_st w) = Some engine"
  shows "case p_positions (pm_st w) (trader, i) of
      None \<Rightarrow> pm_close_position tk e trader i asset w = Inl (Err PositionNotFound)
        \<and> pm_liquidate_position tk e engine trader i asset w = Inl (Err PositionNotFound)
    | Some pos \<Rightarrow> pos_trader pos = trader \<and> (pos_asset pos \<noteq> asset \<longrightarrow>
        pm_close_position tk e trader i asset w = Inl (Err AssetMismatch)
        \<and> pm_liquidate_position tk e engine trader i asset w = Inl (Err AssetMismatch))"
proof (cases "p_positions (pm_st w) (trader, i)")
  case None
  then show ?thesis
    using assms
    by (simp add: pm_close_position_def pm_liquidate_position_def Let_def require_auth_def
        pm_get_liquidation_engine_def prod.case_eq_if)
next
  case (Some pos)
  then have "pos_trader pos = trader"
    using pm_invD(2) [OF assms(1)] by (auto simp: position_ok_def)
  then show ?thesis
    using assms Some
    by (simp add: pm_close_position_def pm_liquidate_position_def Let_def require_auth_def
        pm_get_liquidation_engine_def prod.case_eq_if)
qed

section \<open>Who may call what\<close>

text \<open>
  Only the liquidation engine, signed for, can liquidate: another caller gets
  \<open>Unauthorized\<close>, every call before the engine is set gets \<open>NotInitialized\<close>, and an unsigned
  call traps.
\<close>

theorem only_engine_liquidates:
  assumes "\<not> authorised e caller \<or> p_liq_engine (pm_st w) \<noteq> Some caller"
  shows "pm_liquidate_position tk e caller trader i asset w =
    Inl (if \<not> authorised e caller then Trap AuthFailed
         else if p_liq_engine (pm_st w) = None then Err NotInitialized else Err Unauthorized)"
  using assms
  by (cases "p_liq_engine (pm_st w)")
    (auto simp: pm_liquidate_position_def Let_def require_auth_def pm_get_liquidation_engine_def)

interpretation pm_fee_gate: admin_gate
  "\<lambda>e a. pm_set_fee_rates e a x y" "\<lambda>w. p_admin (pm_st w)"
  by unfold_locales
    (auto simp: pm_set_fee_rates_def require_auth_def Let_def pm_storage_defs inv_simps
      split: if_splits)

interpretation pm_leverage_gate: admin_gate
  "\<lambda>e a. pm_set_max_leverage e a x" "\<lambda>w. p_admin (pm_st w)"
  by unfold_locales
    (auto simp: pm_set_max_leverage_def require_auth_def Let_def pm_storage_defs inv_simps
      split: if_splits)

interpretation pm_engine_gate: admin_gate
  "\<lambda>e a. pm_set_liquidation_engine e a x" "\<lambda>w. p_admin (pm_st w)"
  by unfold_locales
    (auto simp: pm_set_liquidation_engine_def require_auth_def Let_def pm_storage_defs inv_simps
      split: if_splits)

interpretation pm_funding_gate: admin_gate
  "\<lambda>e a. pm_set_funding_address e a x" "\<lambda>w. p_admin (pm_st w)"
  by unfold_locales
    (auto simp: pm_set_funding_address_def require_auth_def Let_def pm_storage_defs inv_simps
      split: if_splits)

end
