(* ===== verification/Funding_Accounting.thy ===== *)
theory Funding_Accounting
  imports Funding_Rate Position_Book
begin

text \<open>
  What the funding rate contract promises: bounds and signs of the two rates, the growth of the
  cumulative indices, the interval between two applications, and the gate of its setters.
\<close>

section \<open>Reading open interest\<close>

lemma pm_bump_idem [simp]: "pm_bump_instance (pm_bump_instance w) = pm_bump_instance w"
  by (simp add: pm_bump_instance_def)

lemma fund_query_open_interest_eq_Inr:
  "fund_query_open_interest e w = Inr ((l, s), w') \<longleftrightarrow>
     f_pm (fund_st w) = Some (p_self (pm_st w)) \<and> l = pm_get_oi_long w \<and> s = pm_get_oi_short w \<and>
     w' = pm_bump_instance w"
  by (auto simp: fund_query_open_interest_def fund_get_position_manager_def inv_simps Let_def
      pm_view_open_interest_long_def pm_view_open_interest_short_def)

interpretation fund_interest: interest_source fund_query_open_interest pm_inv
proof
  fix w w' :: "('a, 'b) fund_world_scheme" and e l s
  assume "pm_inv w" and "fund_query_open_interest e w = Inr ((l, s), w')"
  then show "0 \<le> l \<and> 0 \<le> s"
    using pm_oi_nonneg [of w Long] pm_oi_nonneg [of w Short]
    by (auto simp: fund_query_open_interest_eq_Inr pm_oi_def)
qed

section \<open>The rates\<close>

lemma clamp_bounds: "lo \<le> hi \<Longrightarrow> lo \<le> clamp v lo hi \<and> clamp v lo hi \<le> hi"
  by (auto simp: clamp_def)

lemma fund_bump_frame [simp]:
  "pm_st (fund_bump_instance w) = pm_st w"
  "f_pm (fund_st (fund_bump_instance w)) = f_pm (fund_st w)"
  "fund_get_max_funding_rate (fund_bump_instance w) = fund_get_max_funding_rate w"
  "fund_get_funding_spread (fund_bump_instance w) = fund_get_funding_spread w"
  "fund_get_last_funding_time (fund_bump_instance w) = fund_get_last_funding_time w"
  "fund_get_funding_interval (fund_bump_instance w) = fund_get_funding_interval w"
  "fund_get_cumulative_funding_long (fund_bump_instance w) = fund_get_cumulative_funding_long w"
  "fund_get_cumulative_funding_short (fund_bump_instance w) = fund_get_cumulative_funding_short w"
  "fund_get_max_funding_rate (pm_bump_instance w) = fund_get_max_funding_rate w"
  "fund_get_funding_spread (pm_bump_instance w) = fund_get_funding_spread w"
  "fund_get_cumulative_funding_long (pm_bump_instance w) = fund_get_cumulative_funding_long w"
  "fund_get_cumulative_funding_short (pm_bump_instance w) = fund_get_cumulative_funding_short w"
  "pm_get_oi_long (fund_bump_instance w) = pm_get_oi_long w"
  "pm_get_oi_short (fund_bump_instance w) = pm_get_oi_short w"
  "fund_st (pm_bump_instance w) = fund_st w"
  by (simp_all add: fund_storage_defs pm_storage_defs)

text \<open>The skew of the book in basis points, before it is clamped.\<close>

abbreviation skew_bps :: "i128 \<Rightarrow> i128 \<Rightarrow> int" where
  "skew_bps l s \<equiv> ((l - s) * 10000) sdiv (l + s)"

abbreviation base_rate :: "i128 \<Rightarrow> i128 \<Rightarrow> ('t, 'm) fund_world_scheme \<Rightarrow> int" where
  "base_rate l s w \<equiv> clamp (skew_bps l s) (- u32_as_i128 (fund_get_max_funding_rate w))
     (u32_as_i128 (fund_get_max_funding_rate w))"

lemma fund_get_current_rate_effect:
  assumes "fund_get_current_rate e w = Inr ((lr, sr), w')"
  shows "w' = pm_bump_instance (fund_bump_instance w)"
    and "f_pm (fund_st w) = Some (p_self (pm_st w))"
    and "pm_get_oi_long w + pm_get_oi_short w = 0 \<Longrightarrow> lr = 0 \<and> sr = 0"
    and "pm_get_oi_long w + pm_get_oi_short w \<noteq> 0 \<Longrightarrow>
           lr = base_rate (pm_get_oi_long w) (pm_get_oi_short w) w
                + u32_as_i128 (fund_get_funding_spread w)
         \<and> sr = u32_as_i128 (fund_get_funding_spread w)
                - base_rate (pm_get_oi_long w) (pm_get_oi_short w) w"
  using assms
  by (auto simp: fund_get_current_rate_def inv_simps Let_def fund_query_open_interest_eq_Inr
      split: if_splits prod.splits)

lemma rates_add_up:
  assumes "fund_get_current_rate e w = Inr ((lr, sr), w')"
  shows "0 \<le> lr + sr"
  using fund_get_current_rate_effect(3,4) [OF assms]
    u32_as_i128_nonneg [of "fund_get_funding_spread w"]
  by (cases "pm_get_oi_long w + pm_get_oi_short w = 0") auto

lemma skew_bounds:
  assumes "0 \<le> l" and "0 \<le> s" and "l + s \<noteq> 0"
  shows "- 10000 \<le> skew_bps l s" and "skew_bps l s \<le> 10000"
    and "s \<le> l \<Longrightarrow> 0 \<le> skew_bps l s" and "l \<le> s \<Longrightarrow> skew_bps l s \<le> 0"
proof -
  have pos: "0 < l + s" using assms by simp
  show "- 10000 \<le> skew_bps l s" using assms pos by (intro sdiv_lower) (simp_all add: algebra_simps)
  show "skew_bps l s \<le> 10000" using assms pos by (intro sdiv_upper) (simp_all add: algebra_simps)
  show "s \<le> l \<Longrightarrow> 0 \<le> skew_bps l s" using pos by (intro sdiv_nonneg_nonneg) simp_all
  show "l \<le> s \<Longrightarrow> skew_bps l s \<le> 0" using pos by (intro sdiv_nonpos_nonpos) simp_all
qed

text \<open>
  C27. The funding rates of a book with open interest are the spread plus and minus one base
  rate: the base rate is at most \<open>MaxFundingRate\<close> in either direction and has the sign of the
  skew, so the side with more open interest never pays less than the spread, both sides together
  pay twice the spread, and a balanced book charges the spread to both.  Without open interest
  both rates are zero.
\<close>

theorem funding_rates_bounded:
  assumes "pm_inv w" and "fund_get_current_rate e w = Inr ((lr, sr), w')"
  shows "let l = pm_get_oi_long w; s = pm_get_oi_short w;
             cap = u32_as_i128 (fund_get_max_funding_rate w);
             spread = u32_as_i128 (fund_get_funding_spread w) in
     if l + s = 0 then lr = 0 \<and> sr = 0
     else lr + sr = 2 * spread \<and> \<bar>lr - spread\<bar> \<le> min cap 10000
        \<and> (s \<le> l \<longrightarrow> spread \<le> lr \<and> sr \<le> spread) \<and> (l \<le> s \<longrightarrow> spread \<le> sr \<and> lr \<le> spread)"
proof -
  let ?l = "pm_get_oi_long w" and ?s = "pm_get_oi_short w"
  let ?cap = "u32_as_i128 (fund_get_max_funding_rate w)"
  note eff = fund_get_current_rate_effect [OF assms(2)]
  have "fund_query_open_interest e w = Inr ((?l, ?s), pm_bump_instance w)"
    using eff(2) by (simp add: fund_query_open_interest_eq_Inr)
  then have nonneg: "0 \<le> ?l" "0 \<le> ?s"
    using fund_interest.query_nonneg [OF assms(1)] by blast+
  have cap: "0 \<le> ?cap" by simp
  show ?thesis
    using eff(3,4) skew_bounds [OF nonneg] cap
    by (cases "?l + ?s = 0") (auto simp: Let_def clamp_def)
qed

section \<open>Applying funding\<close>

lemma fund_apply_funding_effect:
  assumes "fund_apply_funding e keeper w = Inr w'"
  obtains lr sr w1 where
    "authorised e keeper"
    and "fund_get_last_funding_time w \<le> e_now e"
    and "fund_get_funding_interval w \<le> e_now e - fund_get_last_funding_time w"
    and "fund_get_current_rate e w = Inr ((lr, sr), w1)"
    and "fund_get_cumulative_funding_long w' = fund_get_cumulative_funding_long w + lr"
    and "fund_get_cumulative_funding_short w' = fund_get_cumulative_funding_short w + sr"
    and "fund_get_last_funding_time w' = e_now e"
    and "fund_get_funding_interval w' = fund_get_funding_interval w"
    and "pm_st w' = pm_st (pm_bump_instance w)" and "vault_st w' = vault_st w"
    and "ledger w' = ledger w" and "f_admin (fund_st w') = f_admin (fund_st w)"
    and "oracle_st w' = oracle_st w" and "f_pm (fund_st w') = f_pm (fund_st w)"
proof -
  have bump: "fund_bump_instance (fund_bump_instance w) = fund_bump_instance w"
    by (simp add: fund_bump_instance_def)
  have rate: "fund_get_current_rate e (fund_bump_instance w) = fund_get_current_rate e w"
    by (simp add: fund_get_current_rate_def bump)
  from assms obtain lr sr w1 l s where
    run: "authorised e keeper" "fund_get_last_funding_time w \<le> e_now e"
      "fund_get_funding_interval w \<le> e_now e - fund_get_last_funding_time w"
      "fund_get_current_rate e w = Inr ((lr, sr), w1)"
    and w': "w' = emit_funding_applied e lr sr
        (fund_get_cumulative_funding_long w1 + lr) (fund_get_cumulative_funding_short w1 + sr) l s
        (e_now e) (pm_bump_instance (fund_set_last_funding_time (e_now e)
          (fund_set_cumulative_funding_short (fund_get_cumulative_funding_short w1 + sr)
            (fund_set_cumulative_funding_long (fund_get_cumulative_funding_long w1 + lr) w1))))"
    by (auto simp: fund_apply_funding_def inv_simps Let_def rate not_less
        fund_query_open_interest_eq_Inr)
  note w1 = fund_get_current_rate_effect(1) [OF run(4)]
  show ?thesis
    by (rule that [OF run])
      (simp_all add: w' w1 emit_funding_applied_def publish_def fund_storage_defs pm_bump_instance_def)
qed

text \<open>
  C28. A successful \<open>apply_funding\<close> comes at least one interval after the last one, adds the
  current rate of each side to its cumulative index, restarts the interval at the ledger's time,
  and moves nothing: token balances, vault accounts and the book of positions are as before.
\<close>

theorem apply_funding_effect:
  assumes "fund_apply_funding e keeper w = Inr w'"
  shows "\<exists>lr sr w1. fund_get_current_rate e w = Inr ((lr, sr), w1)
     \<and> uint (fund_get_last_funding_time w) + uint (fund_get_funding_interval w) \<le> uint (e_now e)
     \<and> fund_get_cumulative_funding_long w' = fund_get_cumulative_funding_long w + lr
     \<and> fund_get_cumulative_funding_short w' = fund_get_cumulative_funding_short w + sr
     \<and> fund_get_last_funding_time w' = e_now e
     \<and> ledger w' = ledger w \<and> vault_st w' = vault_st w
     \<and> p_positions (pm_st w') = p_positions (pm_st w)"
  using assms
proof (rule fund_apply_funding_effect)
  fix lr sr w1
  assume time: "fund_get_last_funding_time w \<le> e_now e"
      "fund_get_funding_interval w \<le> e_now e - fund_get_last_funding_time w"
    and run: "fund_get_current_rate e w = Inr ((lr, sr), w1)"
      "fund_get_cumulative_funding_long w' = fund_get_cumulative_funding_long w + lr"
      "fund_get_cumulative_funding_short w' = fund_get_cumulative_funding_short w + sr"
      "fund_get_last_funding_time w' = e_now e" "pm_st w' = pm_st (pm_bump_instance w)"
      "vault_st w' = vault_st w" "ledger w' = ledger w"
  have "uint (e_now e - fund_get_last_funding_time w)
      = uint (e_now e) - uint (fund_get_last_funding_time w)"
    using time(1) by (simp add: uint_sub_lem word_le_def)
  then have "uint (fund_get_last_funding_time w) + uint (fund_get_funding_interval w) \<le> uint (e_now e)"
    using time(2) by (simp add: word_le_def)
  then show ?thesis using run by simp
qed

text \<open>
  Funding cannot be applied twice within one interval: after a successful application, every
  call that comes before the interval has passed answers \<open>FundingTooEarly\<close>, whoever signs it.
\<close>

theorem funding_once_per_interval:
  assumes "fund_apply_funding e keeper w = Inr w'" and "authorised e' keeper'"
    and "e_now e \<le> e_now e'" and "e_now e' - e_now e < fund_get_funding_interval w"
  shows "fund_apply_funding e' keeper' w' = Inl (Err FundingTooEarly)"
  using assms(1)
proof (rule fund_apply_funding_effect)
  assume "fund_get_last_funding_time w' = e_now e"
    and "fund_get_funding_interval w' = fund_get_funding_interval w"
  then show ?thesis
    using assms(2-4)
    by (simp add: fund_apply_funding_def Let_def require_auth_def u64_sub_def)
qed

section \<open>Every entry point\<close>

text \<open>The views that only extend the instance's time to live before they read.\<close>

datatype fund_view =
    ViewFundingLong
  | ViewFundingShort
  | ViewLastFunding

fun fund_read_view :: "fund_view \<Rightarrow> ('t, 'm) fund_world_scheme \<Rightarrow> ('t, 'm) fund_world_scheme" where
  "fund_read_view ViewFundingLong w = snd (fund_view_cumulative_funding_long w)"
| "fund_read_view ViewFundingShort w = snd (fund_view_cumulative_funding_short w)"
| "fund_read_view ViewLastFunding w = snd (fund_view_last_funding_time w)"

lemma fund_read_view_state [simp]: "fund_read_view q w = fund_bump_instance w"
  by (cases q) (simp_all add: Let_def fund_view_cumulative_funding_long_def
      fund_view_cumulative_funding_short_def fund_view_last_funding_time_def)

datatype fund_call =
    FInitialize address address u64 u32 u32
  | FApply address
  | FGetRate
  | FView fund_view
  | FSetInterval address u64
  | FSetMaxRate address u32

fun fund_exec ::
  "env \<times> fund_call \<Rightarrow> ('t, 'm) fund_world_scheme \<Rightarrow> ('t, 'm) fund_world_scheme res" where
  "fund_exec (e, FInitialize a p n m s) w = fund_initialize e a p n m s w"
| "fund_exec (e, FApply k) w = fund_apply_funding e k w"
| "fund_exec (e, FGetRate) w = bnd (fund_get_current_rate e w) (\<lambda>(_, w). Inr w)"
| "fund_exec (e, FView q) w = Inr (fund_read_view q w)"
| "fund_exec (e, FSetInterval a n) w = fund_set_funding_interval e a n w"
| "fund_exec (e, FSetMaxRate a m) w = fund_set_max_rate e a m w"

definition fund_inv :: "('t, 'm) fund_world_scheme \<Rightarrow> bool" where
  "fund_inv w \<longleftrightarrow>
     0 \<le> fund_get_cumulative_funding_long w + fund_get_cumulative_funding_short w \<and>
     (f_admin (fund_st w) \<noteq> None \<longrightarrow>
        fund_get_funding_interval w \<noteq> 0 \<and> fund_get_max_funding_rate w \<noteq> 0)"

lemma fund_inv_apply:
  assumes "fund_inv w" and "fund_apply_funding e k w = Inr w'"
  shows "fund_inv w'"
proof -
  have max: "fund_get_max_funding_rate w' = fund_get_max_funding_rate w"
    using assms(2) by (auto simp: fund_apply_funding_def inv_simps Let_def emit_funding_applied_def
        publish_def fund_query_open_interest_eq_Inr fund_get_max_funding_rate_def
        fund_storage_defs pm_bump_instance_def dest!: fund_get_current_rate_effect(1))
  show ?thesis
    using assms(2)
  proof (rule fund_apply_funding_effect)
    fix lr sr w1
    assume rate: "fund_get_current_rate e w = Inr ((lr, sr), w1)"
      and eff: "fund_get_cumulative_funding_long w' = fund_get_cumulative_funding_long w + lr"
        "fund_get_cumulative_funding_short w' = fund_get_cumulative_funding_short w + sr"
        "fund_get_funding_interval w' = fund_get_funding_interval w"
        "f_admin (fund_st w') = f_admin (fund_st w)"
    then show ?thesis
      using rates_add_up [OF rate] assms(1) max by (simp add: fund_inv_def)
  qed
qed

lemma fund_exec_keeps_inv:
  assumes "fund_inv w" and "fund_exec c w = Inr w'"
  shows "fund_inv w'"
proof (cases "(c, w)" rule: fund_exec.cases)
  case (2 e k w0)
  then show ?thesis using assms fund_inv_apply by auto
next
  case (3 e w0)
  then show ?thesis using assms
    by (auto simp: bnd_eq_Inr fund_inv_def fund_storage_defs pm_bump_instance_def
        dest!: fund_get_current_rate_effect(1))
qed (use assms in \<open>auto simp: fund_initialize_def fund_set_funding_interval_def
      fund_set_max_rate_def fund_inv_def Let_def inv_simps fund_storage_defs\<close>)

interpretation fund_machine: invariant_machine fund_exec fund_inv
  by unfold_locales (rule fund_exec_keeps_inv)

text \<open>
  C29. From a funding contract that was just deployed, whatever calls reach it and whatever the
  open interest is, the two cumulative indices never add up to less than zero: the spread only
  ever adds to what the two sides together owe.  Once initialised, the interval and the maximum
  rate are never zero.
\<close>

theorem funding_indices_never_pay_net:
  assumes "f_cum_long (fund_st w) = None" and "f_cum_short (fund_st w) = None"
    and "f_admin (fund_st w) = None"
  shows "let w' = run fund_exec calls w in
     0 \<le> fund_get_cumulative_funding_long w' + fund_get_cumulative_funding_short w'
   \<and> (f_admin (fund_st w') \<noteq> None \<longrightarrow>
        fund_get_funding_interval w' \<noteq> 0 \<and> fund_get_max_funding_rate w' \<noteq> 0)"
proof -
  have "fund_inv w" using assms by (simp add: fund_inv_def fund_storage_defs)
  then have "fund_inv (run fund_exec calls w)" by (rule fund_machine.run_keeps)
  then show ?thesis by (simp add: fund_inv_def Let_def)
qed

interpretation fund_interval_gate: admin_gate
  "\<lambda>e a. fund_set_funding_interval e a n" "\<lambda>w. f_admin (fund_st w)"
  by unfold_locales
    (auto simp: fund_set_funding_interval_def require_auth_def Let_def fund_storage_defs inv_simps
      split: if_splits)

interpretation fund_rate_gate: admin_gate
  "\<lambda>e a. fund_set_max_rate e a m" "\<lambda>w. f_admin (fund_st w)"
  by unfold_locales
    (auto simp: fund_set_max_rate_def require_auth_def Let_def fund_storage_defs inv_simps
      split: if_splits)

end
