(* ===== verification/Liquidation_Accounting.thy ===== *)
theory Liquidation_Accounting
  imports Liquidation_Engine Funding_Accounting
begin

text \<open>
  What the liquidation engine promises: it closes a position exactly when the margin ratio at the
  oracle's price is below the maintenance margin, in agreement with its own view, and its penalty
  and keeper reward are figures of the event it publishes.
\<close>

section \<open>States that differ in times to live only\<close>

definition same_books :: "('t, 'm) pm_world_scheme \<Rightarrow> ('t, 'm) pm_world_scheme \<Rightarrow> bool" where
  "same_books w w' \<longleftrightarrow> vault_st w' = vault_st w \<and> ledger w' = ledger w \<and>
     (oracle_st w')\<lparr>o_ttl := 0, o_price_ttl := (\<lambda>_. 0)\<rparr>
       = (oracle_st w)\<lparr>o_ttl := 0, o_price_ttl := (\<lambda>_. 0)\<rparr> \<and>
     (pm_st w')\<lparr>p_ttl := 0, p_position_ttl := (\<lambda>_. 0)\<rparr>
       = (pm_st w)\<lparr>p_ttl := 0, p_position_ttl := (\<lambda>_. 0)\<rparr>"

lemma same_booksD:
  assumes "same_books w w'"
  shows "vault_st w' = vault_st w" "ledger w' = ledger w"
    "o_self (oracle_st w') = o_self (oracle_st w)" "o_prices (oracle_st w') = o_prices (oracle_st w)"
    "o_admin (oracle_st w') = o_admin (oracle_st w)"
    "o_staleness (oracle_st w') = o_staleness (oracle_st w)"
    "p_self (pm_st w') = p_self (pm_st w)" "p_vault (pm_st w') = p_vault (pm_st w)"
    "p_oracle (pm_st w') = p_oracle (pm_st w)" "p_usdc (pm_st w') = p_usdc (pm_st w)"
    "p_admin (pm_st w') = p_admin (pm_st w)" "p_liq_engine (pm_st w') = p_liq_engine (pm_st w)"
    "p_positions (pm_st w') = p_positions (pm_st w)" "p_counts (pm_st w') = p_counts (pm_st w)"
    "p_next_id (pm_st w') = p_next_id (pm_st w)" "p_oi_long (pm_st w') = p_oi_long (pm_st w)"
    "p_oi_short (pm_st w') = p_oi_short (pm_st w)"
  using assms
  by (cases "oracle_st w"; cases "oracle_st w'"; cases "pm_st w"; cases "pm_st w'";
      simp add: same_books_def)+

lemma same_books_values:
  assumes "same_books w w'"
  shows "oracle_get_staleness_threshold w' = oracle_get_staleness_threshold w"
    "pm_oi d w' = pm_oi d w"
    "vault_get_total_deposits w' = vault_get_total_deposits w"
    "vault_get_locked_liquidity w' = vault_get_locked_liquidity w"
    "pm_get_trader_position_count t w' = pm_get_trader_position_count t w"
  using same_booksD [OF assms]
  by (simp_all add: oracle_get_staleness_threshold_def pm_oi_def pm_storage_defs
      vault_storage_defs split: direction.splits)

lemma same_books_refl: "same_books w w"
  by (simp add: same_books_def)

lemma same_books_trans: "same_books w w' \<Longrightarrow> same_books w' w'' \<Longrightarrow> same_books w w''"
  by (simp add: same_books_def)

text \<open>Every read only extends times to live.\<close>

lemma same_books_liq_bump: "same_books w (liq_bump_instance w') \<longleftrightarrow> same_books w w'"
  by (simp add: same_books_def liq_bump_instance_def)

lemma same_books_reads:
  "same_books w (oracle_bump_instance w') \<longleftrightarrow> same_books w w'"
  "same_books w (pm_bump_instance w') \<longleftrightarrow> same_books w w'"
  "same_books w (snd (pm_load_position t i w')) \<longleftrightarrow> same_books w w'"
  by (simp_all add: same_books_def oracle_bump_instance_def
      pm_bump_instance_def pm_load_position_def Let_def)

lemma closed_out_same_books:
  assumes "same_books w v" and "closed_out tk e t i pos pnl fee v v'" and "same_books v' w'"
  shows "closed_out tk e t i pos pnl fee w w'"
  using assms(2) same_booksD [OF assms(1)] same_booksD [OF assms(3)]
    same_books_values [OF assms(1)] same_books_values [OF assms(3)]
  unfolding closed_out_def same_wiring_def Let_def by (simp cong: if_cong)

section \<open>The price, the profit and the margin ratio\<close>

text \<open>The price the oracle serves at the ledger's time.\<close>

definition quoted :: "env \<Rightarrow> u32 \<Rightarrow> ('t, 'm) oracle_world_scheme \<Rightarrow> i128 \<Rightarrow> bool" where
  "quoted e asset w price \<longleftrightarrow> (\<exists>c. o_prices (oracle_st w) asset = Some c \<and> cp_price c = price \<and>
     cp_timestamp c \<le> e_now e \<and> e_now e - cp_timestamp c \<le> oracle_get_staleness_threshold w)"

lemma oracle_get_price_value_quoted:
  "oracle_get_price_value e asset w = Inr (p, w') \<longleftrightarrow>
     quoted e asset w p \<and> w' = oracle_bump_instance w"
  by (auto simp: oracle_get_price_value_eq_Inr oracle_get_price_eq_Inr quoted_def)

lemma quoted_subcall [simp]: "quoted (subcall e a) asset w p \<longleftrightarrow> quoted e asset w p"
  by (simp add: quoted_def)

lemma quoted_same_books: "same_books w w' \<Longrightarrow> quoted e asset w' p \<longleftrightarrow> quoted e asset w p"
  using same_booksD(4) [of w w'] same_books_values(1) [of w w'] by (simp add: quoted_def)

lemma quoted_unique: "quoted e asset w p \<Longrightarrow> quoted e asset w q \<Longrightarrow> p = q"
  by (auto simp: quoted_def)

text \<open>The margin ratio of a position at a price, and the facts behind a successful read of it.\<close>

abbreviation margin_bps :: "position \<Rightarrow> int \<Rightarrow> int" where
  "margin_bps pos raw \<equiv> ((pos_collateral pos + raw) * 10000) sdiv pos_size pos"

definition margin_at ::
  "env \<Rightarrow> address \<Rightarrow> u64 \<Rightarrow> u32 \<Rightarrow> ('t, 'm) pm_world_scheme \<Rightarrow> position \<Rightarrow> i128 \<Rightarrow> i128 \<Rightarrow> bool" where
  "margin_at e t i asset w pos price raw \<longleftrightarrow>
     p_positions (pm_st w) (t, i) = Some pos \<and> p_oracle (pm_st w) = Some (o_self (oracle_st w)) \<and>
     quoted e asset w price \<and>
     calculate_pnl (pos_direction pos) (pos_size pos) (pos_entry_price pos) price = Inr raw \<and>
     pos_size pos \<noteq> 0 \<and> i128_ok (pos_collateral pos + raw) \<and>
     i128_ok ((pos_collateral pos + raw) * 10000) \<and> i128_ok (margin_bps pos raw)"

lemma margin_at_same_books:
  "same_books w w' \<Longrightarrow> margin_at e t i asset w' pos price raw \<longleftrightarrow> margin_at e t i asset w pos price raw"
  using same_booksD [of w w'] quoted_same_books [of w w'] by (simp add: margin_at_def)

lemma margin_at_unique:
  "margin_at e t i asset w pos price raw \<Longrightarrow> margin_at e t i asset w pos' price' raw' \<Longrightarrow>
     pos' = pos \<and> price' = price \<and> raw' = raw"
  using quoted_unique [of e asset w price price'] by (auto simp: margin_at_def)

lemma pm_get_unrealized_quoted:
  "pm_get_unrealized_pnl e t i asset w = Inr (raw, w') \<longleftrightarrow>
     (\<exists>pos price. p_positions (pm_st w) (t, i) = Some pos \<and>
        p_oracle (pm_st w) = Some (o_self (oracle_st w)) \<and> quoted e asset w price \<and>
        calculate_pnl (pos_direction pos) (pos_size pos) (pos_entry_price pos) price = Inr raw) \<and>
     w' = oracle_bump_instance (loaded t i w)"
proof -
  have "same_books w (loaded t i w)" by (simp add: same_books_reads same_books_refl)
  note b = same_booksD [OF this] quoted_same_books [OF this]
  show ?thesis
    by (auto simp: pm_get_unrealized_pnl_eq_Inr pm_query_price_eq_Inr oracle_get_price_value_quoted b)
qed

lemma liq_bump_frame [simp]:
  "pm_st (liq_bump_instance w) = pm_st w" "oracle_st (liq_bump_instance w) = oracle_st w"
  "vault_st (liq_bump_instance w) = vault_st w" "ledger (liq_bump_instance w) = ledger w"
  "l_pm (liq_st (liq_bump_instance w)) = l_pm (liq_st w)"
  "l_oracle (liq_st (liq_bump_instance w)) = l_oracle (liq_st w)"
  "liq_get_maintenance_margin_rate (liq_bump_instance w) = liq_get_maintenance_margin_rate w"
  "liq_get_liquidation_penalty (liq_bump_instance w) = liq_get_liquidation_penalty w"
  "liq_get_keeper_reward (liq_bump_instance w) = liq_get_keeper_reward w"
  "liq_bump_instance (liq_bump_instance w) = liq_bump_instance w"
  by (simp_all add: liq_storage_defs)

lemma liq_get_margin_ratio_eq_Inr:
  "liq_get_margin_ratio e t i asset w = Inr (r, w') \<longleftrightarrow>
     l_pm (liq_st w) = Some (p_self (pm_st w)) \<and>
     (\<exists>pos price raw. margin_at e t i asset w pos price raw \<and> r = margin_bps pos raw) \<and>
     w' = oracle_bump_instance (loaded t i (loaded t i (liq_bump_instance w)))"
proof -
  have b: "same_books w (loaded t i (liq_bump_instance w))"
    by (simp add: same_books_reads same_books_liq_bump same_books_refl)
  show ?thesis
    unfolding liq_get_margin_ratio_def Let_def liq_get_position_manager_def prod.case_eq_if
    by (auto simp: inv_simps pm_get_position_eq_Inr pm_get_unrealized_quoted margin_at_def
        same_booksD [OF b] quoted_same_books [OF b] simp del: distrib_right_numeral) blast
qed

section \<open>Liquidation\<close>

text \<open>The state the engine hands to the position manager: three reads after its own bump.\<close>

abbreviation inspected ::
  "address \<Rightarrow> u64 \<Rightarrow> ('t, 'm) liq_world_scheme \<Rightarrow> ('t, 'm) liq_world_scheme" where
  "inspected t i w \<equiv> oracle_bump_instance (loaded t i
     (oracle_bump_instance (loaded t i (liq_bump_instance w))))"

lemma inspected_same_books: "same_books w (inspected t i w)"
  by (simp add: same_books_reads same_books_liq_bump same_books_refl)

lemma inspected_frame [simp]: "liq_st (inspected t i w) = liq_st (liq_bump_instance w)"
  by (simp add: oracle_bump_instance_def pm_bump_instance_def pm_load_position_def Let_def)

lemma liq_liquidateE:
  assumes "liq_liquidate tk e keeper t i asset w = Inr w'"
  obtains pos price raw c pnl w1 penalty reward where
    "authorised e keeper" and "l_pm (liq_st w) = Some (p_self (pm_st w))"
    and "l_oracle (liq_st w) = Some (o_self (oracle_st w))"
    and "margin_at e t i asset w pos price raw"
    and "margin_bps pos raw < u32_as_i128 (liq_get_maintenance_margin_rate w)"
    and "pm_liquidate_position tk (subcall e (p_self (pm_st w))) (e_self e) t i asset
           (inspected t i w) = Inr ((c, pnl), w1)"
    and "liq_capped_share c (u32_as_i128 (liq_get_liquidation_penalty w1)) (c + pnl) = Inr penalty"
    and "liq_capped_share c (u32_as_i128 (liq_get_keeper_reward w1)) (c + pnl) = Inr reward"
    and "w' = emit_liquidation e t i keeper price (margin_bps pos raw) penalty reward w1"
proof -
  let ?w1 = "loaded t i (liq_bump_instance w)"
  have b: "same_books w ?w1" "same_books w (oracle_bump_instance ?w1)"
    by (simp_all add: same_books_reads same_books_liq_bump same_books_refl)
  note bs = same_booksD [OF b(1)] same_booksD [OF b(2)] quoted_same_books [OF b(1)]
    quoted_same_books [OF b(2)]
  have m: "liq_get_maintenance_margin_rate (inspected t i w) = liq_get_maintenance_margin_rate w"
    by (simp add: liq_get_maintenance_margin_rate_def) (simp add: liq_bump_instance_def)
  have l: "l_oracle (liq_st ?w1) = l_oracle (liq_st w)"
    by (simp add: pm_bump_instance_def pm_load_position_def Let_def)
  show ?thesis
    using assms
    unfolding liq_liquidate_def Let_def liq_get_position_manager_def liq_get_oracle_def
      prod.case_eq_if
    by (auto simp: inv_simps pm_get_position_eq_Inr pm_get_unrealized_quoted
        oracle_get_price_value_quoted bs m l not_le simp del: distrib_right_numeral
        dest: quoted_unique intro!: that simp: margin_at_def)
qed

lemma vault_settle_keeps_liq:
  fixes w :: "('t, 'm) liq_world_scheme"
  assumes "vault_close_position_settlement tk e c t n m p f w = Inr w'"
  shows "liq_st w' = liq_st w" and "fund_st w' = fund_st w"
  using assms
  by (auto simp: vault_close_position_settlement_eq_Inr vault_emit_defs vault_storage_defs)

lemma pm_closing_keeps_liq:
  fixes w :: "('t, 'm) liq_world_scheme"
  shows "liq_st (oracle_bump_instance (loaded t i w)) = liq_st w"
    "liq_st (pm_remove_position t i w) = liq_st w"
    "liq_st (pm_drop_position_count t w) = liq_st w"
    "pm_sub_open_interest d n w = Inr w' \<Longrightarrow> liq_st w' = liq_st w"
  by (auto simp: oracle_bump_instance_def pm_bump_instance_def pm_load_position_def Let_def
      pm_remove_position_def pm_drop_position_count_def pm_set_trader_position_count_def
      pm_sub_open_interest_def pm_set_oi_long_def pm_set_oi_short_def inv_simps
      split: direction.splits)

lemma pm_liquidate_keeps_liq:
  fixes w :: "('t, 'm) liq_world_scheme"
  assumes "pm_liquidate_position tk e caller t i asset w = Inr ((c, pnl), w')"
  shows "liq_st w' = liq_st w"
  using assms
proof (rule pm_liquidate_positionE)
  fix pos price w1 w2 w3
  assume q: "pm_query_price e asset (loaded t i w) = Inr (price, w1)"
    and settle: "vault_close_position_settlement tk (subcall e (v_self (vault_st w1))) (e_self e) t
           (pos_size pos) (pos_collateral pos) pnl 0 w1 = Inr w2"
    and oi: "pm_sub_open_interest (pos_direction pos) (pos_size pos)
           (pm_remove_position t i w2) = Inr w3"
    and w': "w' = pm_drop_position_count t w3"
  show ?thesis
    using pm_query_price_state [OF q] vault_settle_keeps_liq(1) [OF settle]
      pm_closing_keeps_liq(4) [OF oi] by (simp add: w' pm_closing_keeps_liq)
qed

lemma liq_liquidate_effect:
  assumes "liq_liquidate tk e keeper t i asset w = Inr w'"
  obtains pos price raw w1 penalty reward where
    "authorised e keeper" and "l_pm (liq_st w) = Some (p_self (pm_st w))"
    and "margin_at e t i asset w pos price raw" and "pos_asset pos = asset"
    and "margin_bps pos raw < u32_as_i128 (liq_get_maintenance_margin_rate w)"
    and "p_liq_engine (pm_st w) = Some (e_self e)"
    and "closed_out tk (subcall e (p_self (pm_st w))) t i pos (max raw (- pos_collateral pos)) 0 w w'"
    and "liq_capped_share (pos_collateral pos) (u32_as_i128 (liq_get_liquidation_penalty w))
           (pos_collateral pos + max raw (- pos_collateral pos)) = Inr penalty"
    and "liq_capped_share (pos_collateral pos) (u32_as_i128 (liq_get_keeper_reward w))
           (pos_collateral pos + max raw (- pos_collateral pos)) = Inr reward"
    and "liq_st w' = liq_st (liq_bump_instance w)"
    and "w' = emit_liquidation e t i keeper price (margin_bps pos raw) penalty reward w1"
  using assms
proof (rule liq_liquidateE)
  fix pos price raw c pnl w1 penalty reward
  assume auth: "authorised e keeper" "l_pm (liq_st w) = Some (p_self (pm_st w))"
    and margin: "margin_at e t i asset w pos price raw"
      "margin_bps pos raw < u32_as_i128 (liq_get_maintenance_margin_rate w)"
    and run: "pm_liquidate_position tk (subcall e (p_self (pm_st w))) (e_self e) t i asset
           (inspected t i w) = Inr ((c, pnl), w1)"
    and shares: "liq_capped_share c (u32_as_i128 (liq_get_liquidation_penalty w1)) (c + pnl) = Inr penalty"
      "liq_capped_share c (u32_as_i128 (liq_get_keeper_reward w1)) (c + pnl) = Inr reward"
    and w': "w' = emit_liquidation e t i keeper price (margin_bps pos raw) penalty reward w1"
  note b = inspected_same_books [of w t i]
  have liq: "liq_st w1 = liq_st (liq_bump_instance w)"
    using pm_liquidate_keeps_liq [OF run] by simp
  have rates: "liq_get_liquidation_penalty w1 = liq_get_liquidation_penalty w"
      "liq_get_keeper_reward w1 = liq_get_keeper_reward w"
    by (simp_all add: liq_get_liquidation_penalty_def liq_get_keeper_reward_def liq)
      (simp_all add: liq_bump_instance_def)
  have ev: "same_books w1 w'" "liq_st w' = liq_st w1"
    by (simp_all add: w' emit_liquidation_def publish_def same_books_def)
  show ?thesis
    using run
  proof (rule pm_liquidate_effect)
    fix pos' price'
    assume engine: "p_liq_engine (pm_st (inspected t i w)) = Some (e_self e)"
      and asset: "pos_asset pos' = asset"
      and q: "oracle_get_price_value (subcall (subcall e (p_self (pm_st w)))
               (o_self (oracle_st (inspected t i w)))) asset (inspected t i w)
             = Inr (price', oracle_bump_instance (inspected t i w))"
      and pnl: "capped_pnl pos' price' = Inr pnl" and c: "c = pos_collateral pos'"
      and step: "closed_out tk (subcall e (p_self (pm_st w))) t i pos' pnl 0 (inspected t i w) w1"
    have pos: "pos' = pos"
      using closed_outD(1) [OF step] margin(1) by (simp add: same_booksD [OF b] margin_at_def)
    have "quoted e asset w price'"
      using q by (simp add: oracle_get_price_value_quoted quoted_same_books [OF b])
    then have "price' = price" using margin(1) quoted_unique by (auto simp: margin_at_def)
    then have pnl': "pnl = max raw (- pos_collateral pos)"
      using pnl margin(1) by (auto simp: capped_pnl_eq_Inr pos margin_at_def)
    show ?thesis
      using that [OF auth margin(1) asset [unfolded pos] margin(2), of penalty reward w1] engine
        closed_out_same_books [OF b step ev(1)] shares liq ev(2) w'
      by (simp add: same_booksD [OF b] pos pnl' c rates)
  qed
qed

section \<open>When a position is liquidated\<close>

lemma sdiv_less_mult:
  assumes "a sdiv b < c" and "0 < b" and "0 \<le> (c::int)"
  shows "a < c * b"
proof (rule ccontr)
  assume "\<not> a < c * b"
  then have "(c * b) sdiv b \<le> a sdiv b" using assms(2) by (intro sdiv_mono) simp_all
  then show False using assms(1) sdiv_exact [OF assms(2), of c] by simp
qed

text \<open>
  C8. A position is liquidated only when its collateral plus profit at the oracle's fresh price
  is below the maintenance margin of its size, only through the engine the position manager was
  given, and at that same price: the closing step settles the very profit the decision was made
  on, with losses cut off at the collateral and without a fee.
\<close>

theorem liquidation_only_below_maintenance:
  assumes "pm_inv w" and "liq_liquidate tk e keeper t i asset w = Inr w'"
  shows "\<exists>pos price raw. authorised e keeper \<and> p_positions (pm_st w) (t, i) = Some pos
     \<and> pos_asset pos = asset \<and> quoted e asset w price
     \<and> calculate_pnl (pos_direction pos) (pos_size pos) (pos_entry_price pos) price = Inr raw
     \<and> (pos_collateral pos + raw) * 10000
         < u32_as_i128 (liq_get_maintenance_margin_rate w) * pos_size pos
     \<and> p_liq_engine (pm_st w) = Some (e_self e)
     \<and> closed_out tk (subcall e (p_self (pm_st w))) t i pos (max raw (- pos_collateral pos)) 0 w w'"
  using assms(2)
proof (rule liq_liquidate_effect)
  fix pos price raw
  assume facts: "authorised e keeper" "p_liq_engine (pm_st w) = Some (e_self e)"
      "closed_out tk (subcall e (p_self (pm_st w))) t i pos (max raw (- pos_collateral pos)) 0 w w'"
      "pos_asset pos = asset"
    and m: "margin_at e t i asset w pos price raw"
    and less: "margin_bps pos raw < u32_as_i128 (liq_get_maintenance_margin_rate w)"
  have m': "p_positions (pm_st w) (t, i) = Some pos" "quoted e asset w price"
      "calculate_pnl (pos_direction pos) (pos_size pos) (pos_entry_price pos) price = Inr raw"
    using m by (auto simp: margin_at_def)
  have "0 < pos_size pos"
    using pm_invD(2) [OF assms(1) m'(1)] by (simp add: position_ok_def)
  then have "(pos_collateral pos + raw) * 10000
         < u32_as_i128 (liq_get_maintenance_margin_rate w) * pos_size pos"
    using less by (intro sdiv_less_mult) simp_all
  then show ?thesis using facts m' by blast
qed

lemma liq_is_liquidatable_eq_Inr:
  "liq_is_liquidatable e t i asset w = Inr (b, w') \<longleftrightarrow>
     l_pm (liq_st w) = Some (p_self (pm_st w)) \<and>
     (\<exists>pos price raw. margin_at e t i asset w pos price raw \<and>
        b = (margin_bps pos raw < u32_as_i128 (liq_get_maintenance_margin_rate w))) \<and>
     w' = oracle_bump_instance (loaded t i (loaded t i (liq_bump_instance w)))"
proof -
  have m: "margin_at e t i asset (liq_bump_instance w) pos price raw
      \<longleftrightarrow> margin_at e t i asset w pos price raw" for pos price raw
    by (rule margin_at_same_books) (simp add: same_books_liq_bump same_books_refl)
  show ?thesis
    by (auto simp: liq_is_liquidatable_def Let_def bnd_eq_Inr liq_get_margin_ratio_eq_Inr m)
qed

text \<open>A call that passes the guards of the engine, up to its decision and beyond.\<close>

lemma liq_liquidate_decided:
  assumes "authorised e keeper" and "l_pm (liq_st w) = Some (p_self (pm_st w))"
    and "l_oracle (liq_st w) = Some (o_self (oracle_st w))"
    and "margin_at e t i asset w pos price raw"
  shows "liq_liquidate tk e keeper t i asset w =
    (if u32_as_i128 (liq_get_maintenance_margin_rate w) \<le> margin_bps pos raw
     then Inl (Err NotLiquidatable)
     else bnd (pm_liquidate_position tk (subcall e (p_self (pm_st w))) (e_self e) t i asset
            (inspected t i w)) (\<lambda>((collateral, pnl), w).
       bnd (i128_add collateral pnl) (\<lambda>remaining_equity.
       bnd (liq_capped_share collateral (u32_as_i128 (liq_get_liquidation_penalty w))
              remaining_equity) (\<lambda>penalty.
       bnd (liq_capped_share collateral (u32_as_i128 (liq_get_keeper_reward w))
              remaining_equity) (\<lambda>keeper_reward.
       Inr (emit_liquidation e t i keeper price (margin_bps pos raw) penalty keeper_reward w))))))"
proof -
  let ?w1 = "loaded t i (liq_bump_instance w)"
  have b: "same_books w ?w1" "same_books w (oracle_bump_instance ?w1)"
    by (simp_all add: same_books_reads same_books_liq_bump same_books_refl)
  have l: "l_oracle (liq_st ?w1) = l_oracle (liq_st w)"
    by (simp add: pm_bump_instance_def pm_load_position_def Let_def)
  have pos: "pm_get_position t i (liq_bump_instance w) = Inr (pos, ?w1)"
    using assms(4) by (simp add: pm_get_position_eq_Inr margin_at_def)
  have price: "oracle_get_price_value (subcall e (o_self (oracle_st w))) asset ?w1
      = Inr (price, oracle_bump_instance ?w1)"
    using assms(4) by (simp add: oracle_get_price_value_quoted quoted_same_books [OF b(1)]
        margin_at_def)
  have pnl: "pm_get_unrealized_pnl (subcall e (p_self (pm_st w))) t i asset
      (oracle_bump_instance ?w1) = Inr (raw, inspected t i w)"
    using assms(4) by (auto simp: pm_get_unrealized_quoted quoted_same_books [OF b(2)]
        same_booksD [OF b(2)] margin_at_def)
  have m: "liq_get_maintenance_margin_rate (inspected t i w) = liq_get_maintenance_margin_rate w"
    by (simp add: liq_get_maintenance_margin_rate_def) (simp add: liq_bump_instance_def)
  have arith: "i128_add (pos_collateral pos) raw = Inr (pos_collateral pos + raw)"
      "i128_mul (pos_collateral pos + raw) 10000 = Inr ((pos_collateral pos + raw) * 10000)"
      "i128_div ((pos_collateral pos + raw) * 10000) (pos_size pos) = Inr (margin_bps pos raw)"
    using assms(4) unfolding margin_at_def i128_add_eq_Inr i128_mul_eq_Inr i128_div_eq_Inr
    by blast+
  show ?thesis
    using assms(1-3)
    by (simp add: liq_liquidate_def Let_def require_auth_def liq_get_position_manager_def
        liq_get_oracle_def contract_at_def pos price pnl m l arith same_booksD [OF b(1)]
        del: distrib_right_numeral)
qed

text \<open>
  C9. The engine's view and its action decide alike, for a keeper who signs and an engine that names
  the deployed oracle.  Where \<open>is_liquidatable\<close> answers false, \<open>liquidate\<close> is refused with
  \<open>NotLiquidatable\<close>.  Where it answers true, \<open>liquidate\<close> is never refused by the engine: it hands
  the position to the position manager, and its outcome is the position manager's, followed by the
  two figures of the event.  Where the view fails, \<open>liquidate\<close> fails too.
\<close>

theorem liquidate_agrees_with_view:
  assumes "authorised e keeper" and "l_oracle (liq_st w) = Some (o_self (oracle_st w))"
  shows "case liq_is_liquidatable e t i asset w of
      Inl failure \<Rightarrow> \<exists>failure'. liq_liquidate tk e keeper t i asset w = Inl failure'
    | Inr (liquidatable, w1) \<Rightarrow>
        if liquidatable then \<exists>price ratio. quoted e asset w price
          \<and> liq_get_margin_ratio e t i asset w = Inr (ratio, w1)
          \<and> liq_liquidate tk e keeper t i asset w =
            bnd (pm_liquidate_position tk (subcall e (p_self (pm_st w))) (e_self e) t i asset
              (inspected t i w)) (\<lambda>((collateral, pnl), w).
            bnd (i128_add collateral pnl) (\<lambda>remaining_equity.
            bnd (liq_capped_share collateral (u32_as_i128 (liq_get_liquidation_penalty w))
                   remaining_equity) (\<lambda>penalty.
            bnd (liq_capped_share collateral (u32_as_i128 (liq_get_keeper_reward w))
                   remaining_equity) (\<lambda>keeper_reward.
            Inr (emit_liquidation e t i keeper price ratio penalty keeper_reward w)))))
        else liq_liquidate tk e keeper t i asset w = Inl (Err NotLiquidatable)"
proof (cases "liq_is_liquidatable e t i asset w")
  case (Inl failure)
  have "liq_liquidate tk e keeper t i asset w \<noteq> Inr w'" for w'
  proof
    assume "liq_liquidate tk e keeper t i asset w = Inr w'"
    then have "\<exists>w1. liq_is_liquidatable e t i asset w = Inr (True, w1)"
      by (rule liq_liquidate_effect) (auto simp: liq_is_liquidatable_eq_Inr)
    then show False using Inl by simp
  qed
  then show ?thesis using Inl by (cases "liq_liquidate tk e keeper t i asset w") auto
next
  case (Inr r)
  obtain b w1 where r: "r = (b, w1)" by (cases r)
  then have view: "liq_is_liquidatable e t i asset w = Inr (b, w1)" using Inr by simp
  then obtain pos price raw where pm: "l_pm (liq_st w) = Some (p_self (pm_st w))"
    and m: "margin_at e t i asset w pos price raw"
    and b: "b = (margin_bps pos raw < u32_as_i128 (liq_get_maintenance_margin_rate w))"
    and w1: "w1 = oracle_bump_instance (loaded t i (loaded t i (liq_bump_instance w)))"
    by (auto simp: liq_is_liquidatable_eq_Inr)
  have ratio: "liq_get_margin_ratio e t i asset w = Inr (margin_bps pos raw, w1)"
    unfolding liq_get_margin_ratio_eq_Inr using pm m w1 by blast
  have "quoted e asset w price" using m by (simp add: margin_at_def)
  then show ?thesis
    using liq_liquidate_decided [OF assms(1) pm assms(2) m, of tk] ratio
    by (cases b) (auto simp: view b not_less)
qed

section \<open>Penalty and reward\<close>

lemma liq_capped_share_eq:
  assumes "liq_capped_share c bps eq = Inr x" and "0 \<le> c" and "0 \<le> bps"
  shows "x = min ((c * bps) sdiv 10000) (max 0 eq)"
proof -
  have "0 \<le> (c * bps) sdiv 10000" using assms by (intro sdiv_nonneg_nonneg) simp_all
  then show ?thesis
    using assms(1) by (auto simp: liq_capped_share_def inv_simps split: if_splits)
qed

text \<open>
  C14. The penalty and the keeper's reward are figures of the event only.  With the position's
  profit at the fresh price, a liquidation pays the trader the whole remaining equity, collateral
  plus that profit and never less than nothing, takes exactly that out of the vault, and leaves
  every other balance, the keeper's included, as it was.  The event it publishes last carries the
  price, the margin ratio at it, and the penalty and the reward: the stored rates' shares of the
  collateral, cut off at the remaining equity.
\<close>

theorem liquidation_pays_trader_not_keeper:
  assumes "sep41 tk" and "pm_inv w" and "v_usdc (vault_st w) = Some usdc"
    and "t \<noteq> v_self (vault_st w)" and "liq_liquidate tk e keeper t i asset w = Inr w'"
    and "a \<noteq> t" and "a \<noteq> v_self (vault_st w)"
  shows "\<exists>pos price raw penalty reward ev. p_positions (pm_st w) (t, i) = Some pos
     \<and> quoted e asset w price
     \<and> calculate_pnl (pos_direction pos) (pos_size pos) (pos_entry_price pos) price = Inr raw
     \<and> tok_balance tk usdc t (ledger w')
         = tok_balance tk usdc t (ledger w) + max 0 (pos_collateral pos + raw)
     \<and> tok_balance tk usdc (v_self (vault_st w)) (ledger w')
         = tok_balance tk usdc (v_self (vault_st w)) (ledger w) - max 0 (pos_collateral pos + raw)
     \<and> tok_balance tk usdc a (ledger w') = tok_balance tk usdc a (ledger w)
     \<and> events w' = ev @ [\<lparr>ev_contract = e_self e, ev_topics = [SSym ''liquidation'', SAddr t, SU64 i],
         ev_data = SVec [SAddr keeper, SI128 price, SI128 (margin_bps pos raw), SI128 penalty,
           SI128 reward]\<rparr>]
     \<and> penalty = min ((pos_collateral pos * u32_as_i128 (liq_get_liquidation_penalty w)) sdiv 10000)
         (max 0 (pos_collateral pos + raw))
     \<and> reward = min ((pos_collateral pos * u32_as_i128 (liq_get_keeper_reward w)) sdiv 10000)
         (max 0 (pos_collateral pos + raw))"
  using assms(5)
proof (rule liq_liquidate_effect)
  fix pos :: position and price raw w1 penalty reward
  let ?pnl = "max raw (- pos_collateral pos)"
  assume m: "margin_at e t i asset w pos price raw"
    and step: "closed_out tk (subcall e (p_self (pm_st w))) t i pos ?pnl 0 w w'"
    and shares: "liq_capped_share (pos_collateral pos) (u32_as_i128 (liq_get_liquidation_penalty w))
           (pos_collateral pos + ?pnl) = Inr penalty"
      "liq_capped_share (pos_collateral pos) (u32_as_i128 (liq_get_keeper_reward w))
           (pos_collateral pos + ?pnl) = Inr reward"
    and w': "w' = emit_liquidation e t i keeper price (margin_bps pos raw) penalty reward w1"
  have pos: "p_positions (pm_st w) (t, i) = Some pos" "quoted e asset w price"
      "calculate_pnl (pos_direction pos) (pos_size pos) (pos_entry_price pos) price = Inr raw"
    using m by (simp_all add: margin_at_def)
  have coll: "0 \<le> pos_collateral pos"
    using pm_invD(2) [OF assms(2) pos(1)] by (simp add: position_ok_def)
  have eq: "pos_collateral pos + ?pnl = max 0 (pos_collateral pos + raw)" by (simp add: max_def)
  have other: "tok_balance tk usdc a (ledger w') = tok_balance tk usdc a (ledger w)"
    using closed_outD(15) [OF step] assms(3,6,7) sep41D(4) [OF assms(1)]
    by (auto simp: moved_def split: if_splits)
  note figures = liq_capped_share_eq [OF shares(1) coll u32_as_i128_nonneg]
    liq_capped_share_eq [OF shares(2) coll u32_as_i128_nonneg]
  have ev: "events w' = events w1 @
      [\<lparr>ev_contract = e_self e, ev_topics = [SSym ''liquidation'', SAddr t, SU64 i],
         ev_data = SVec [SAddr keeper, SI128 price, SI128 (margin_bps pos raw), SI128 penalty,
           SI128 reward]\<rparr>]"
    by (simp add: w' emit_liquidation_def publish_def)
  have nonneg: "max 0 (max 0 (pos_collateral pos + raw)) = max 0 (pos_collateral pos + raw)" by simp
  show ?thesis
    using pos closed_out_balances [OF assms(1) step assms(3,4)] other figures ev
    unfolding eq diff_0_right nonneg by blast
qed

text \<open>
  The bound \<open>keeper_reward <= liquidation_penalty\<close> that \<open>initialize\<close> enforces is not kept: the
  admin's \<open>set_keeper_reward\<close> accepts every rate, also one above the penalty.
\<close>

theorem keeper_reward_can_exceed_penalty:
  assumes "l_admin (liq_st w) = Some admin" and "authorised e admin"
    and "liq_get_liquidation_penalty w < bps"
  shows "\<exists>w'. liq_set_keeper_reward e admin bps w = Inr w'
     \<and> liq_get_liquidation_penalty w' < liq_get_keeper_reward w'"
  using assms
  by (simp add: liq_set_keeper_reward_def Let_def require_auth_def liq_storage_defs)

interpretation liq_margin_gate: admin_gate
  "\<lambda>e a. liq_set_maintenance_margin e a x" "\<lambda>w. l_admin (liq_st w)"
  by unfold_locales
    (auto simp: liq_set_maintenance_margin_def require_auth_def Let_def liq_storage_defs inv_simps
      split: if_splits)

interpretation liq_penalty_gate: admin_gate
  "\<lambda>e a. liq_set_liquidation_penalty e a x" "\<lambda>w. l_admin (liq_st w)"
  by unfold_locales
    (auto simp: liq_set_liquidation_penalty_def require_auth_def Let_def liq_storage_defs inv_simps
      split: if_splits)

interpretation liq_reward_gate: admin_gate
  "\<lambda>e a. liq_set_keeper_reward e a x" "\<lambda>w. l_admin (liq_st w)"
  by unfold_locales
    (auto simp: liq_set_keeper_reward_def require_auth_def Let_def liq_storage_defs inv_simps
      split: if_splits)

end
