(* ===== verification/Perps_System.thy ===== *)
theory Perps_System
  imports Liquidation_Accounting
begin

text \<open>
  The five contracts as one system: transactions signed by accounts, the steps of the world
  around them, the states they reach, and the invariants that span contracts.
\<close>

section \<open>Transactions\<close>

datatype liq_call =
    LInitialize address address address u32 u32 u32
  | LLiquidate address address u64 u32
  | LGetMarginRatio address u64 u32
  | LIsLiquidatable address u64 u32
  | LSetMaintenanceMargin address u32
  | LSetLiquidationPenalty address u32
  | LSetKeeperReward address u32

fun liq_exec ::
  "'t token \<Rightarrow> env \<times> liq_call \<Rightarrow> ('t, 'm) liq_world_scheme \<Rightarrow> ('t, 'm) liq_world_scheme res" where
  "liq_exec tk (e, LInitialize a p orc m n r) w = liq_initialize a p orc m n r w"
| "liq_exec tk (e, LLiquidate k t i asset) w = liq_liquidate tk e k t i asset w"
| "liq_exec tk (e, LGetMarginRatio t i asset) w =
     bnd (liq_get_margin_ratio e t i asset w) (\<lambda>(_, w). Inr w)"
| "liq_exec tk (e, LIsLiquidatable t i asset) w =
     bnd (liq_is_liquidatable e t i asset w) (\<lambda>(_, w). Inr w)"
| "liq_exec tk (e, LSetMaintenanceMargin a x) w = liq_set_maintenance_margin e a x w"
| "liq_exec tk (e, LSetLiquidationPenalty a x) w = liq_set_liquidation_penalty e a x w"
| "liq_exec tk (e, LSetKeeperReward a x) w = liq_set_keeper_reward e a x w"

datatype tx =
    OracleTx oracle_call
  | VaultTx vault_call
  | PmTx pm_call
  | FundTx fund_call
  | LiqTx liq_call

text \<open>
  A transaction carries the ledger's time and the accounts that signed it, and enters one
  contract; no contract invokes that entry.
\<close>

abbreviation entry :: "u64 \<times> nat set \<Rightarrow> address \<Rightarrow> env" where
  "entry h c \<equiv> \<lparr>e_now = fst h, e_signers = Account ` snd h, e_invoker = None, e_self = c\<rparr>"

fun sys_exec ::
  "'t token \<Rightarrow> (u64 \<times> nat set) \<times> tx \<Rightarrow> ('t, 'm) liq_world_scheme \<Rightarrow> ('t, 'm) liq_world_scheme res" where
  "sys_exec tk (h, OracleTx c) w = oracle_exec (entry h (o_self (oracle_st w)), c) w"
| "sys_exec tk (h, VaultTx c) w = vault_exec tk (entry h (v_self (vault_st w)), c) w"
| "sys_exec tk (h, PmTx c) w = pm_exec tk (entry h (p_self (pm_st w)), c) w"
| "sys_exec tk (h, FundTx c) w = fund_exec (entry h (f_self (fund_st w)), c) w"
| "sys_exec tk (h, LiqTx c) w = liq_exec tk (entry h (l_self (liq_st w)), c) w"

lemma authorised_entry: "authorised (entry h c) a \<longleftrightarrow> a \<in> Account ` snd h"
  by (simp add: authorised_def)

lemma contract_never_signs: "\<not> authorised (entry h c) (Contract n)"
  by (auto simp: authorised_def)

section \<open>What a call leaves alone\<close>

text \<open>A call of the oracle adapter writes its own store and events.\<close>

lemma oracle_exec_frame:
  fixes w :: "('t, 'm) liq_world_scheme"
  assumes "oracle_exec c w = Inr w'"
  shows "vault_st w' = vault_st w" "pm_st w' = pm_st w" "fund_st w' = fund_st w"
    "liq_st w' = liq_st w" "ledger w' = ledger w"
    "o_self (oracle_st w') = o_self (oracle_st w)"
  using assms
  by (cases "(c, w)" rule: oracle_exec.cases;
      auto simp: bnd_eq_Inr oracle_set_price_eq_Inr oracle_get_price_eq_Inr
        oracle_get_price_value_eq_Inr oracle_initialize_def
        oracle_set_staleness_threshold_def inv_simps Let_def oracle_storage_defs
        emit_price_fetched_def publish_def)+

text \<open>A call of the funding contract or a view of the engine changes times to live of the others.\<close>

lemma fund_exec_frame:
  assumes "fund_exec c w = Inr w'"
  shows "same_books w w'"
proof (cases "(c, w)" rule: fund_exec.cases)
  case (2 e k w0)
  then have "fund_apply_funding e k w = Inr w'" using assms by simp
  then show ?thesis
    by (rule fund_apply_funding_effect) (simp add: same_books_def pm_bump_instance_def)
next
  case (3 e w0)
  then have "w' = pm_bump_instance (fund_bump_instance w)"
    using assms by (auto simp: bnd_eq_Inr dest: fund_get_current_rate_effect(1))
  then show ?thesis by (simp add: same_books_def pm_bump_instance_def fund_bump_instance_def)
qed (use assms in \<open>auto simp: fund_initialize_def fund_set_funding_interval_def same_books_def
      fund_set_max_rate_def Let_def inv_simps fund_storage_defs\<close>)

text \<open>The engine either liquidates or writes its own store.\<close>

lemma liq_exec_books:
  assumes "liq_exec tk (e, c) w = Inr w'" and "\<And>k t i asset. c \<noteq> LLiquidate k t i asset"
  shows "same_books w w'"
proof (cases c)
  case (LGetMarginRatio t i asset)
  then show ?thesis using assms
    by (auto simp: bnd_eq_Inr liq_get_margin_ratio_eq_Inr same_books_reads same_books_liq_bump
        same_books_refl)
next
  case (LIsLiquidatable t i asset)
  then show ?thesis using assms
    by (auto simp: bnd_eq_Inr liq_is_liquidatable_eq_Inr same_books_reads same_books_liq_bump
        same_books_refl)
qed (use assms in \<open>auto simp: liq_initialize_def liq_set_maintenance_margin_def
      liq_set_liquidation_penalty_def liq_set_keeper_reward_def same_books_def Let_def inv_simps
      liq_storage_defs\<close>)

lemma liq_exec_cases:
  assumes "liq_exec tk (e, c) w = Inr w'"
  obtains (books) "same_books w w'"
    | (liquidated) k t i asset where "c = LLiquidate k t i asset"
        and "liq_liquidate tk e k t i asset w = Inr w'"
proof (cases "\<exists>k t i asset. c = LLiquidate k t i asset")
  case True
  then show ?thesis using assms liquidated by auto
next
  case False
  then show ?thesis using books liq_exec_books [OF assms] by blast
qed

section \<open>The abstract exchange\<close>

text \<open>
  The specification the contracts implement together: six amounts and five kinds of step.  The
  label of a step is its shortfall, the part of a close fee that a position without equity left
  does not pay.
\<close>

record exchange =
  x_cash :: int
  x_deposits :: int
  x_locked :: int
  x_collateral :: int
  x_long :: int
  x_short :: int

definition x_add_interest :: "direction \<Rightarrow> int \<Rightarrow> exchange \<Rightarrow> exchange" where
  "x_add_interest d n s = (case d of Long \<Rightarrow> s\<lparr>x_long := x_long s + n\<rparr>
                                   | Short \<Rightarrow> s\<lparr>x_short := x_short s + n\<rparr>)"

inductive exchange_step :: "exchange \<Rightarrow> int \<Rightarrow> exchange \<Rightarrow> bool" where
  x_keep: "exchange_step s 0 s"
| x_receive: "0 \<le> a \<Longrightarrow> exchange_step s 0 (s\<lparr>x_cash := x_cash s + a\<rparr>)"
| x_deposit: "0 < a \<Longrightarrow>
    exchange_step s 0 (s\<lparr>x_cash := x_cash s + a, x_deposits := x_deposits s + a\<rparr>)"
| x_withdraw: "0 < u \<Longrightarrow> u \<le> x_deposits s \<Longrightarrow> u \<le> x_cash s \<Longrightarrow>
    exchange_step s 0 (s\<lparr>x_cash := x_cash s - u, x_deposits := x_deposits s - u\<rparr>)"
| x_open: "0 < c \<Longrightarrow> 0 < n \<Longrightarrow> 0 < f \<Longrightarrow>
    exchange_step s 0 (x_add_interest d n (s\<lparr>x_cash := x_cash s + (c + f),
      x_deposits := x_deposits s + f, x_locked := x_locked s + n,
      x_collateral := x_collateral s + c\<rparr>))"
| x_close: "0 < n \<Longrightarrow> n \<le> x_locked s \<Longrightarrow> - c \<le> pnl \<Longrightarrow> 0 \<le> f \<Longrightarrow>
    0 \<le> x_deposits s - pnl + f \<Longrightarrow> k = max 0 (f - (c + pnl)) \<Longrightarrow>
    exchange_step s k (x_add_interest d (- n) (s\<lparr>x_cash := x_cash s - max 0 (c + pnl - f),
      x_deposits := x_deposits s - pnl + f, x_locked := x_locked s - n,
      x_collateral := x_collateral s - c\<rparr>))"

inductive_cases exchange_stepE: "exchange_step s k s'"

inductive exchange_run :: "exchange \<Rightarrow> int \<Rightarrow> exchange \<Rightarrow> bool" where
  x_done: "exchange_run s 0 s"
| x_more: "exchange_run s k s' \<Longrightarrow> exchange_step s' k' s'' \<Longrightarrow> exchange_run s (k + k') s''"

text \<open>What the exchange holds beyond what it owes to LPs and to traders.\<close>

definition x_surplus :: "exchange \<Rightarrow> int" where
  "x_surplus s = x_cash s - x_deposits s - x_collateral s"

lemma x_interest_simps [simp]:
  "x_cash (x_add_interest d n s) = x_cash s" "x_deposits (x_add_interest d n s) = x_deposits s"
  "x_locked (x_add_interest d n s) = x_locked s"
  "x_collateral (x_add_interest d n s) = x_collateral s"
  "x_long (x_add_interest d n s) + x_short (x_add_interest d n s) = x_long s + x_short s + n"
  by (cases d; simp add: x_add_interest_def)+

lemma exchange_step_surplus:
  "exchange_step s k s' \<Longrightarrow> 0 \<le> k \<and> x_surplus s - k \<le> x_surplus s'"
  by (erule exchange_stepE) (auto simp: x_surplus_def max_def)

lemma exchange_step_locked:
  "exchange_step s k s' \<Longrightarrow> x_locked s' - (x_long s' + x_short s') = x_locked s - (x_long s + x_short s)"
  by (erule exchange_stepE) simp_all

lemma exchange_run_locked:
  "exchange_run s k s' \<Longrightarrow>
     x_locked s' - (x_long s' + x_short s') = x_locked s - (x_long s + x_short s)"
  by (induction rule: exchange_run.induct) (auto dest: exchange_step_locked)

section \<open>The abstraction\<close>

text \<open>\<open>u\<close> is the address of the collateral token.\<close>

definition books :: "'t token \<Rightarrow> address \<Rightarrow> ('t, 'm) pm_world_scheme \<Rightarrow> exchange" where
  "books tk u w = \<lparr>x_cash = tok_balance tk u (v_self (vault_st w)) (ledger w),
     x_deposits = vault_get_total_deposits w, x_locked = vault_get_locked_liquidity w,
     x_collateral = msum pos_collateral (p_positions (pm_st w)),
     x_long = pm_get_oi_long w, x_short = pm_get_oi_short w\<rparr>"

text \<open>
  How the contracts are wired: their addresses are contracts, the vault and the position manager
  use the token \<open>u\<close>, the vault trusts no other position manager, and positions belong to accounts.
\<close>

definition wired :: "address \<Rightarrow> ('t, 'm) pm_world_scheme \<Rightarrow> bool" where
  "wired u w \<longleftrightarrow> (\<exists>n. v_self (vault_st w) = Contract n) \<and> (\<exists>n. p_self (pm_st w) = Contract n) \<and>
     v_usdc (vault_st w) \<in> {None, Some u} \<and> p_usdc (pm_st w) \<in> {None, Some u} \<and>
     v_pm (vault_st w) \<in> {None, Some (p_self (pm_st w))} \<and>
     (\<forall>t i. (t, i) \<in> dom (p_positions (pm_st w)) \<longrightarrow> (\<exists>n. t = Account n))"

lemma wired_trader:
  "wired u w \<Longrightarrow> p_positions (pm_st w) (t, i) = Some p \<Longrightarrow> \<exists>n. t = Account n"
  unfolding wired_def by blast

definition sys_inv :: "address \<Rightarrow> ('t, 'm) pm_world_scheme \<Rightarrow> bool" where
  "sys_inv u w \<longleftrightarrow> wired u w \<and> vault_inv w \<and> pm_inv w \<and> oracle_priced w"

text \<open>
  The transactions that configure the addresses, which only the admin can make: what they must
  name.  Every other transaction is unrestricted.
\<close>

fun configures_for :: "address \<Rightarrow> address \<Rightarrow> tx \<Rightarrow> bool" where
  "configures_for u pm (VaultTx (VInitialize a u' m)) \<longleftrightarrow> u' = u"
| "configures_for u pm (VaultTx (VSetPositionManager a p)) \<longleftrightarrow> p = pm"
| "configures_for u pm (PmTx (PInitialize a v orc u' fo fc l m)) \<longleftrightarrow> u' = u"
| "configures_for u pm _ \<longleftrightarrow> True"

lemma books_cong:
  assumes "same_books w w'"
  shows "books tk u w' = books tk u w"
  using same_booksD [OF assms] same_books_values(3,4) [OF assms]
  by (simp add: books_def pm_get_oi_long_def pm_get_oi_short_def)

lemma sys_inv_same_books:
  assumes "sys_inv u w" and "same_books w w'"
  shows "sys_inv u w'"
proof -
  note b = same_booksD [OF assms(2)]
  have "vault_inv w'" by (rule vault_inv_cong [of w]) (use assms(1) b in \<open>auto simp: sys_inv_def\<close>)
  moreover have "pm_inv w'" by (rule pm_inv_cong [of w]) (use assms(1) b in \<open>auto simp: sys_inv_def\<close>)
  ultimately show ?thesis
    using assms(1) b by (simp add: sys_inv_def wired_def oracle_priced_def)
qed

section \<open>Every transaction is a step of the abstract exchange\<close>

lemma vault_pm_caller_refused:
  assumes "wired u w" and "vault_pm_caller c = Some a"
  shows "vault_exec tk (entry h (v_self (vault_st w)), c) w \<noteq> Inr w'"
proof -
  have "\<not> authorised (entry h (v_self (vault_st w))) a \<or> v_pm (vault_st w) \<noteq> Some a"
    using assms(1) by (auto simp: wired_def authorised_def)
  then have "vault_require_position_manager (entry h (v_self (vault_st w))) a
      (vault_bump_instance w) \<noteq> Inr x" for x
    by (auto simp: vault_require_position_manager_eq_Inr)
  then show ?thesis
    using assms(2)
    by (cases c) (auto simp: vault_lock_liquidity_def vault_unlock_liquidity_def
        vault_settle_pnl_def vault_close_position_settlement_def vault_collect_fee_def Let_def
        bnd_eq_Inr)
qed

lemma vault_deposit_frame:
  assumes "vault_deposit tk e d a w = Inr (s, w')"
  obtains usdc where "authorised e d" and "v_usdc (vault_st w) = Some usdc"
    and "tok_transfer tk (subcall e usdc) usdc d (e_self e) a (ledger w) = Inr (ledger w')"
    and "pm_st w' = pm_st w" and "oracle_st w' = oracle_st w"
    and "v_self (vault_st w') = v_self (vault_st w)" and "v_pm (vault_st w') = v_pm (vault_st w)"
    and "v_usdc (vault_st w') = v_usdc (vault_st w)"
  using assms by (auto simp: vault_deposit_eq_Inr vault_emit_defs vault_storage_defs Let_def)

lemma vault_withdraw_frame:
  assumes "vault_withdraw tk e d s w = Inr (a, w')"
  obtains usdc where "authorised e d" and "v_usdc (vault_st w) = Some usdc"
    and "tok_transfer tk (subcall e usdc) usdc (e_self e) d a (ledger w) = Inr (ledger w')"
    and "pm_st w' = pm_st w" and "oracle_st w' = oracle_st w"
    and "v_self (vault_st w') = v_self (vault_st w)" and "v_pm (vault_st w') = v_pm (vault_st w)"
    and "v_usdc (vault_st w') = v_usdc (vault_st w)"
  using assms by (auto simp: vault_withdraw_eq_Inr vault_emit_defs vault_storage_defs Let_def)

lemma vault_view_share_balance_frame:
  assumes "w' = snd (vault_view_share_balance a w)"
  shows "pm_st w' = pm_st w" "oracle_st w' = oracle_st w" "ledger w' = ledger w"
    "v_self (vault_st w') = v_self (vault_st w)" "v_usdc (vault_st w') = v_usdc (vault_st w)"
    "v_pm (vault_st w') = v_pm (vault_st w)"
    "vault_get_total_deposits w' = vault_get_total_deposits w"
    "vault_get_locked_liquidity w' = vault_get_locked_liquidity w"
  by (simp_all add: assms vault_view_share_balance_def vault_read_share_balance_def Let_def)
    (simp_all add: vault_storage_defs)

lemma vault_quiet_step:
  fixes w w' :: "('t, 'm) pm_world_scheme"
  assumes inv: "sys_inv u w" and vinv: "vault_inv w'"
    and "pm_st w' = pm_st w" and "oracle_st w' = oracle_st w" and "ledger w' = ledger w"
    and "v_self (vault_st w') = v_self (vault_st w)"
    and "v_usdc (vault_st w') \<in> {None, Some u}"
    and "v_pm (vault_st w') \<in> {None, Some (p_self (pm_st w))}"
    and "vault_get_total_deposits w' = vault_get_total_deposits w"
    and "vault_get_locked_liquidity w' = vault_get_locked_liquidity w"
  shows "sys_inv u w' \<and> exchange_step (books tk u w) 0 (books tk u w')"
proof
  have "pm_inv w'"
    by (rule pm_inv_cong [of w]) (use assms in \<open>auto simp: sys_inv_def\<close>)
  then show "sys_inv u w'"
    using assms by (simp add: sys_inv_def wired_def oracle_priced_def)
  have "books tk u w' = books tk u w"
    using assms by (simp add: books_def pm_get_oi_long_def pm_get_oi_short_def)
  then show "exchange_step (books tk u w) 0 (books tk u w')" by (simp add: x_keep)
qed

lemma vault_cash_step:
  fixes w w' :: "('t, 'm) pm_world_scheme"
  assumes inv: "sys_inv u w" and vinv: "vault_inv w'"
    and frame: "pm_st w' = pm_st w" "oracle_st w' = oracle_st w"
      "v_self (vault_st w') = v_self (vault_st w)" "v_pm (vault_st w') = v_pm (vault_st w)"
      "v_usdc (vault_st w') = v_usdc (vault_st w)"
    and lock: "vault_get_locked_liquidity w' = vault_get_locked_liquidity w"
  shows "sys_inv u w'" and "books tk u w' = (books tk u w)
     \<lparr>x_cash := tok_balance tk u (v_self (vault_st w)) (ledger w'),
      x_deposits := vault_get_total_deposits w'\<rparr>"
proof -
  have "pm_inv w'"
    by (rule pm_inv_cong [of w]) (use assms in \<open>auto simp: sys_inv_def\<close>)
  then show "sys_inv u w'"
    using assms by (simp add: sys_inv_def wired_def oracle_priced_def)
  show "books tk u w' = (books tk u w)
     \<lparr>x_cash := tok_balance tk u (v_self (vault_st w)) (ledger w'),
      x_deposits := vault_get_total_deposits w'\<rparr>"
    using assms by (simp add: books_def pm_get_oi_long_def pm_get_oi_short_def)
qed

lemma vault_tx_refines:
  fixes w w' :: "('t, 'm) pm_world_scheme"
  assumes tk: "sep41 tk" and inv: "sys_inv u w"
    and run: "vault_exec tk (entry h (v_self (vault_st w)), c) w = Inr w'"
    and conf: "configures_for u (p_self (pm_st w)) (VaultTx c)"
  shows "sys_inv u w' \<and> exchange_step (books tk u w) 0 (books tk u w')"
proof -
  have wired: "wired u w" and vinv: "vault_inv w" using inv by (simp_all add: sys_inv_def)
  have vinv': "vault_inv w'" using vault_exec_keeps_inv [OF vinv run] .
  have none: "vault_pm_caller c = None"
    using vault_pm_caller_refused [OF wired] run by (cases "vault_pm_caller c") blast+
  show ?thesis
  proof (cases c)
    case (VDeposit d a)
    then obtain s where dep: "vault_deposit tk (entry h (v_self (vault_st w))) d a w = Inr (s, w')"
      using run by (auto simp: bnd_eq_Inr)
    note eff = deposit_effect(1,5,6) [OF dep]
    show ?thesis
      using dep
    proof (rule vault_deposit_frame)
      fix usdc
      assume auth: "authorised (entry h (v_self (vault_st w))) d"
        and usdc: "v_usdc (vault_st w) = Some usdc"
        and t: "tok_transfer tk (subcall (entry h (v_self (vault_st w))) usdc) usdc d
             (e_self (entry h (v_self (vault_st w)))) a (ledger w) = Inr (ledger w')"
        and frame: "pm_st w' = pm_st w" "oracle_st w' = oracle_st w"
          "v_self (vault_st w') = v_self (vault_st w)" "v_pm (vault_st w') = v_pm (vault_st w)"
          "v_usdc (vault_st w') = v_usdc (vault_st w)"
      have "usdc = u" and "d \<noteq> v_self (vault_st w)"
        using wired usdc auth by (auto simp: wired_def authorised_def)
      then have cash: "tok_balance tk u (v_self (vault_st w)) (ledger w')
          = tok_balance tk u (v_self (vault_st w)) (ledger w) + a"
        using sep41D(4) [OF tk t, of "v_self (vault_st w)"] by (simp add: moved_def)
      note b = vault_cash_step [OF inv vinv' frame eff(3)]
      have "exchange_step (books tk u w) 0 ((books tk u w)\<lparr>x_cash := x_cash (books tk u w) + a,
          x_deposits := x_deposits (books tk u w) + a\<rparr>)"
        using eff(1) by (rule x_deposit)
      then show ?thesis
        using b(1) b(2) [of tk] eff(2) cash by (simp add: books_def)
    qed
  next
    case (VWithdraw d s)
    then obtain a where wd: "vault_withdraw tk (entry h (v_self (vault_st w))) d s w = Inr (a, w')"
      using run by (auto simp: bnd_eq_Inr)
    note eff = withdraw_effect(2,6,7) [OF wd]
    show ?thesis
      using wd
    proof (rule vault_withdraw_frame)
      fix usdc
      assume auth: "authorised (entry h (v_self (vault_st w))) d"
        and usdc: "v_usdc (vault_st w) = Some usdc"
        and t: "tok_transfer tk (subcall (entry h (v_self (vault_st w))) usdc) usdc
             (e_self (entry h (v_self (vault_st w)))) d a (ledger w) = Inr (ledger w')"
        and frame: "pm_st w' = pm_st w" "oracle_st w' = oracle_st w"
          "v_self (vault_st w') = v_self (vault_st w)" "v_pm (vault_st w') = v_pm (vault_st w)"
          "v_usdc (vault_st w') = v_usdc (vault_st w)"
      have u: "usdc = u" and d: "d \<noteq> v_self (vault_st w)"
        using wired usdc auth by (auto simp: wired_def authorised_def)
      then have cash: "tok_balance tk u (v_self (vault_st w)) (ledger w')
          = tok_balance tk u (v_self (vault_st w)) (ledger w) - a"
        using sep41D(4) [OF tk t, of "v_self (vault_st w)"] by (simp add: moved_def)
      have "a \<le> tok_balance tk u (v_self (vault_st w)) (ledger w)"
        using sep41D(3) [OF tk t] u by simp
      moreover have "a \<le> vault_get_total_deposits w"
        using vault_invD(3) [OF vinv'] eff(2) by simp
      moreover note b = vault_cash_step [OF inv vinv' frame eff(3)]
      ultimately have "exchange_step (books tk u w) 0 ((books tk u w)
          \<lparr>x_cash := x_cash (books tk u w) - a, x_deposits := x_deposits (books tk u w) - a\<rparr>)"
        using eff(1) by (intro x_withdraw) (simp_all add: books_def)
      then show ?thesis
        using b(1) b(2) [of tk] eff(2) cash by (simp add: books_def)
    qed
  next
    case (VInitialize a us m)
    then have un: "v_admin (vault_st w) = None"
      using run by (auto simp: vault_initialize_def vault_has_admin_def inv_simps)
    then have fresh: "vault_fresh (vault_st w)" using vinv by (simp add: vault_inv_def)
    show ?thesis
      by (rule vault_quiet_step [OF inv vinv'])
        (use run conf fresh wired VInitialize in \<open>auto simp: vault_initialize_def inv_simps Let_def
           vault_storage_defs vault_fresh_def wired_def\<close>)
  next
    case (VViewShareBalance a)
    then have "w' = snd (vault_view_share_balance a w)" using run by simp
    note frame = vault_view_share_balance_frame [OF this]
    show ?thesis
      by (rule vault_quiet_step [OF inv vinv']) (use wired in \<open>auto simp: frame wired_def\<close>)
  next
    case (VView q)
    then show ?thesis
      by (intro vault_quiet_step [OF inv vinv'])
        (use run wired in \<open>auto simp: vault_storage_defs wired_def\<close>)
  next
    case (VSetPositionManager a p)
    then show ?thesis
      by (intro vault_quiet_step [OF inv vinv'])
        (use run wired conf in \<open>auto simp: vault_set_position_manager_def Let_def inv_simps
           vault_storage_defs wired_def\<close>)
  next
    case (VSetMaxUtilization a m)
    then show ?thesis
      by (intro vault_quiet_step [OF inv vinv'])
        (use run wired conf in \<open>auto simp: vault_set_max_utilization_def Let_def inv_simps
           vault_storage_defs wired_def\<close>)
  qed (use none in simp_all)
qed

lemma vault_inv_trade:
  assumes "vault_inv w" and "v_pm (vault_st w) = Some c" and "same_wiring w w'"
    and "v_shares (vault_st w') = v_shares (vault_st w)"
    and "v_total_shares (vault_st w') = v_total_shares (vault_st w)"
    and "0 \<le> vault_get_total_deposits w'" and "0 \<le> vault_get_locked_liquidity w'"
  shows "vault_inv w'"
  by (rule vault_inv_pm_op [OF assms(1,2,4) same_wiringD(4) [OF assms(3)] assms(5-7)])

lemma fee_nonneg: "calculate_fee n bps = Inr f \<Longrightarrow> 0 \<le> n \<Longrightarrow> 0 \<le> f"
  by (auto simp: calculate_fee_eq_Inr intro!: sdiv_nonneg_nonneg)

text \<open>Closing, by the trader or by the engine.\<close>

lemma closed_out_refines:
  fixes w w' :: "('t, 'm) pm_world_scheme" and pos :: position
  assumes tk: "sep41 tk" and inv: "sys_inv u w"
    and step: "closed_out tk e t i pos pnl fee w w'"
    and floor: "- pos_collateral pos \<le> pnl" and fee: "0 \<le> fee"
  shows "sys_inv u w'" and
    "exchange_step (books tk u w) (max 0 (fee - (pos_collateral pos + pnl))) (books tk u w')"
proof -
  have wired: "wired u w" and vinv: "vault_inv w" and pinv: "pm_inv w" and priced: "oracle_priced w"
    using inv by (simp_all add: sys_inv_def)
  note c = closed_outD [OF step]
  note wr = same_wiringD [OF c(12)]
  have pos: "position_ok t i pos" using pm_invD(2) [OF pinv c(1)] .
  have lock: "0 \<le> vault_get_locked_liquidity w'" using c(8,9) by simp
  have "vault_inv w'"
    by (rule vault_inv_trade [OF vinv c(13) c(12) c(10) c(11) c(7) lock])
  moreover have "wired u w'"
    using wired by (auto simp: wired_def wr c(2))
  moreover have "oracle_priced w'" using priced by (simp add: oracle_priced_def wr)
  ultimately show "sys_inv u w'"
    using pm_inv_closed_out [OF pinv step] by (simp add: sys_inv_def)
  obtain n where "t = Account n" using wired_trader [OF wired c(1)] ..
  then have t: "t \<noteq> v_self (vault_st w)" using wired by (auto simp: wired_def)
  have cash: "tok_balance tk u (v_self (vault_st w)) (ledger w')
      = tok_balance tk u (v_self (vault_st w)) (ledger w) - max 0 (pos_collateral pos + pnl - fee)"
  proof (cases "0 < pos_collateral pos + pnl - fee")
    case True
    then obtain usdc where "v_usdc (vault_st w) = Some usdc" using c(15) by auto
    then have "v_usdc (vault_st w) = Some u" using wired by (auto simp: wired_def)
    then show ?thesis using closed_out_balances(2) [OF tk step _ t] by simp
  next
    case False
    then show ?thesis using c(15) by auto
  qed
  have coll: "msum pos_collateral (p_positions (pm_st w'))
      = msum pos_collateral (p_positions (pm_st w)) - pos_collateral pos"
    by (simp add: c(2) msum_del [OF pm_invD(1) [OF pinv]] c(1))
  have oi: "pm_get_oi_long w' = pm_get_oi_long w - side Long pos"
      "pm_get_oi_short w' = pm_get_oi_short w - side Short pos"
    using c(3) [of Long] c(3) [of Short] by (simp_all add: pm_oi_def)
  have "books tk u w' = x_add_interest (pos_direction pos) (- pos_size pos) ((books tk u w)
      \<lparr>x_cash := x_cash (books tk u w) - max 0 (pos_collateral pos + pnl - fee),
       x_deposits := x_deposits (books tk u w) - pnl + fee,
       x_locked := x_locked (books tk u w) - pos_size pos,
       x_collateral := x_collateral (books tk u w) - pos_collateral pos\<rparr>)"
    by (cases "pos_direction pos")
      (simp_all add: books_def x_add_interest_def wr cash coll oi c(6,8) side_def)
  also have "exchange_step (books tk u w) (max 0 (fee - (pos_collateral pos + pnl))) \<dots>"
    using pos floor fee c(6,7,9)
    by (intro x_close) (simp_all add: position_ok_def books_def)
  finally show "exchange_step (books tk u w) (max 0 (fee - (pos_collateral pos + pnl))) (books tk u w')" .
qed

lemma pm_open_refines:
  fixes w w' :: "('t, 'm) pm_world_scheme"
  assumes tk: "sep41 tk" and inv: "sys_inv u w"
    and run: "pm_open_position tk (entry h (p_self (pm_st w))) t asset d collateral leverage w
                = Inr (i, w')"
  shows "sys_inv u w' \<and> exchange_step (books tk u w) 0 (books tk u w')"
  using run
proof (rule pm_open_effect)
  fix price fee usdc
  let ?n = "collateral * u32_as_i128 leverage"
  assume auth: "authorised (entry h (p_self (pm_st w))) t"
    and size: "0 < ?n" and fee: "0 < fee"
    and vpm: "v_pm (vault_st w) = Some (e_self (entry h (p_self (pm_st w))))"
    and usdc: "p_usdc (pm_st w) = Some usdc"
    and transfer: "tok_transfer tk (subcall (entry h (p_self (pm_st w))) usdc) usdc t
           (v_self (vault_st w)) (collateral + fee) (ledger w) = Inr (ledger w')"
    and book: "p_positions (pm_st w') = (p_positions (pm_st w))((t, i) \<mapsto>
           opened_position (entry h (p_self (pm_st w))) i t asset d collateral leverage price)"
    and oi: "\<And>b. pm_oi b w' = pm_oi b w + (if b = d then ?n else 0)"
    and dep: "vault_get_total_deposits w' = vault_get_total_deposits w + fee"
    and lock: "vault_get_locked_liquidity w' = vault_get_locked_liquidity w + ?n"
    and shares: "v_shares (vault_st w') = v_shares (vault_st w)"
      "v_total_shares (vault_st w') = v_total_shares (vault_st w)"
    and wiring: "same_wiring w w'"
    and i: "i = pm_get_next_position_id w"
  have wired: "wired u w" and vinv: "vault_inv w" and pinv: "pm_inv w" and priced: "oracle_priced w"
    using inv by (simp_all add: sys_inv_def)
  note wr = same_wiringD [OF wiring]
  obtain n where n: "t = Account n" using auth by (auto simp: authorised_def)
  have "0 \<le> vault_get_total_deposits w'" "0 \<le> vault_get_locked_liquidity w'"
    using vault_invD(3,4) [OF vinv] size fee by (simp_all add: dep lock)
  then have "vault_inv w'" by (rule vault_inv_trade [OF vinv vpm wiring shares])
  moreover have "wired u w'" using wired n by (auto simp: wired_def wr book)
  moreover have "oracle_priced w'" using priced by (simp add: oracle_priced_def wr)
  ultimately have inv': "sys_inv u w'"
    using pm_inv_open [OF pinv priced run] by (simp add: sys_inv_def)
  have "usdc = u" and "t \<noteq> v_self (vault_st w)"
    using wired usdc n by (auto simp: wired_def)
  then have cash: "tok_balance tk u (v_self (vault_st w)) (ledger w')
      = tok_balance tk u (v_self (vault_st w)) (ledger w) + (collateral + fee)"
    using sep41D(4) [OF tk transfer, of "v_self (vault_st w)"] by (simp add: moved_def)
  have new: "p_positions (pm_st w) (t, i) = None"
    using pm_invD(3) [OF pinv, of t i] i by (cases "p_positions (pm_st w) (t, i)") auto
  have coll: "msum pos_collateral (p_positions (pm_st w'))
      = msum pos_collateral (p_positions (pm_st w)) + collateral"
    by (simp add: book msum_upd [OF pm_invD(1) [OF pinv]] new)
  have ois: "pm_get_oi_long w' = pm_get_oi_long w + (if d = Long then ?n else 0)"
      "pm_get_oi_short w' = pm_get_oi_short w + (if d = Short then ?n else 0)"
    using oi [of Long] oi [of Short] by (auto simp: pm_oi_def)
  have "books tk u w' = x_add_interest d ?n ((books tk u w)
      \<lparr>x_cash := x_cash (books tk u w) + (collateral + fee),
       x_deposits := x_deposits (books tk u w) + fee,
       x_locked := x_locked (books tk u w) + ?n,
       x_collateral := x_collateral (books tk u w) + collateral\<rparr>)"
    by (cases d) (simp_all add: books_def x_add_interest_def wr cash coll ois dep lock)
  moreover have "0 < collateral"
    using size u32_as_i128_nonneg [of leverage] by (auto simp: zero_less_mult_iff)
  ultimately show ?thesis
    using inv' x_open [of collateral ?n fee "books tk u w" d] size fee by simp
qed

lemma pm_quiet_step:
  fixes w w' :: "('t, 'm) pm_world_scheme"
  assumes inv: "sys_inv u w" and "pm_inv w' \<and> oracle_priced w'"
    and "vault_st w' = vault_st w" and "ledger w' = ledger w"
    and "p_self (pm_st w') = p_self (pm_st w)" and "p_usdc (pm_st w') \<in> {None, Some u}"
    and "p_positions (pm_st w') = p_positions (pm_st w)"
    and "pm_get_oi_long w' = pm_get_oi_long w" and "pm_get_oi_short w' = pm_get_oi_short w"
  shows "sys_inv u w' \<and> exchange_step (books tk u w) 0 (books tk u w')"
proof
  have "vault_inv w'"
    by (rule vault_inv_cong [of w]) (use assms in \<open>auto simp: sys_inv_def\<close>)
  then show "sys_inv u w'"
    using assms by (simp add: sys_inv_def wired_def)
  have "books tk u w' = books tk u w"
    using assms by (simp add: books_def vault_storage_defs)
  then show "exchange_step (books tk u w) 0 (books tk u w')" by (simp add: x_keep)
qed

lemma pm_initialize_quiet:
  fixes w w' :: "('t, 'm) pm_world_scheme"
  assumes "pm_inv w" and "pm_initialize a v orc us fo fc l m w = Inr w'"
  shows "vault_st w' = vault_st w" "ledger w' = ledger w" "p_self (pm_st w') = p_self (pm_st w)"
    "p_usdc (pm_st w') = Some us" "p_positions (pm_st w') = p_positions (pm_st w)"
    "pm_get_oi_long w' = pm_get_oi_long w" "pm_get_oi_short w' = pm_get_oi_short w"
proof -
  have "p_admin (pm_st w) = None"
    using assms(2) by (auto simp: pm_initialize_def pm_has_admin_def inv_simps)
  then have "p_positions (pm_st w) = (\<lambda>_. None)" using pm_invD(7) [OF assms(1)] by blast
  then have "pm_get_oi_long w = 0" "pm_get_oi_short w = 0"
    using pm_invD(5) [OF assms(1), of Long] pm_invD(5) [OF assms(1), of Short]
    by (simp_all add: pm_oi_def)
  then show "vault_st w' = vault_st w" "ledger w' = ledger w" "p_self (pm_st w') = p_self (pm_st w)"
    "p_usdc (pm_st w') = Some us" "p_positions (pm_st w') = p_positions (pm_st w)"
    "pm_get_oi_long w' = pm_get_oi_long w" "pm_get_oi_short w' = pm_get_oi_short w"
    using assms(2) by (auto simp: pm_initialize_def inv_simps Let_def pm_storage_defs)
qed

text \<open>
  The part of the close fee that a close leaves unpaid, read off the state the transaction runs in:
  the fee beyond the collateral and the profit, cut off at the collateral, of the position at the
  price the oracle serves.  No other transaction, a liquidation included, leaves anything unpaid.
\<close>

fun unpaid_fee :: "(u64 \<times> nat set) \<times> tx \<Rightarrow> ('t, 'm) pm_world_scheme \<Rightarrow> int" where
  "unpaid_fee (h, PmTx (PClose t i asset)) w =
     (case
        bnd (of_option (Err PositionNotFound) (p_positions (pm_st w) (t, i))) (\<lambda>pos.
        bnd (oracle_get_price_value (subcall (entry h (p_self (pm_st w))) (o_self (oracle_st w)))
               asset w) (\<lambda>(price, _).
        bnd (capped_pnl pos price) (\<lambda>pnl.
        bnd (calculate_fee (pos_size pos) (pm_get_close_fee_rate w)) (\<lambda>fee.
        Inr (max 0 (fee - (pos_collateral pos + pnl)))))))
      of Inl _ \<Rightarrow> 0 | Inr k \<Rightarrow> k)"
| "unpaid_fee _ w = 0"

text \<open>The calls of the position manager that trade.\<close>

fun pm_trades :: "pm_call \<Rightarrow> bool" where
  "pm_trades (POpen t k d c l) \<longleftrightarrow> True"
| "pm_trades (PClose t i k) \<longleftrightarrow> True"
| "pm_trades (PLiquidate c t i k) \<longleftrightarrow> True"
| "pm_trades _ \<longleftrightarrow> False"

lemma pm_admin_quiet:
  fixes w w' :: "('t, 'm) pm_world_scheme"
  assumes "pm_inv w" and "pm_exec tk (e, c) w = Inr w'" and "\<not> pm_trades c"
  shows "vault_st w' = vault_st w" "ledger w' = ledger w" "p_self (pm_st w') = p_self (pm_st w)"
    "p_positions (pm_st w') = p_positions (pm_st w)"
    "pm_get_oi_long w' = pm_get_oi_long w" "pm_get_oi_short w' = pm_get_oi_short w"
    "p_usdc (pm_st w') = (case c of PInitialize a v orc us fo fc l m \<Rightarrow> Some us
                                    | _ \<Rightarrow> p_usdc (pm_st w))"
  using assms pm_initialize_quiet [OF assms(1)]
  by (cases c; auto simp: bnd_eq_Inr pm_get_position_eq_Inr pm_get_unrealized_quoted
      oracle_bump_instance_def pm_set_fee_rates_def pm_set_max_leverage_def
      pm_set_liquidation_engine_def pm_set_funding_address_def Let_def inv_simps
      pm_get_oi_long_def pm_get_oi_short_def pm_load_bump_frame pm_bump_instance_def
      pm_get_admin_def pm_set_open_fee_rate_def pm_set_close_fee_rate_def
      pm_store_max_leverage_def pm_store_liquidation_engine_def pm_set_funding_def)+

lemma pm_tx_refines:
  fixes w w' :: "('t, 'm) pm_world_scheme"
  assumes tk: "sep41 tk" and inv: "sys_inv u w"
    and run: "pm_exec tk (entry h (p_self (pm_st w)), c) w = Inr w'"
    and conf: "configures_for u (p_self (pm_st w)) (PmTx c)"
  shows "sys_inv u w' \<and> exchange_step (books tk u w) (unpaid_fee (h, PmTx c) w) (books tk u w')"
proof -
  have pinv: "pm_inv w" and priced: "oracle_priced w" and wired: "wired u w"
    using inv by (simp_all add: sys_inv_def)
  have keep: "pm_inv w' \<and> oracle_priced w'" using pm_exec_keeps_book [OF _ run] pinv priced by blast
  show ?thesis
  proof (cases "pm_trades c")
    case False
    note q = pm_admin_quiet [OF pinv run False]
    have "p_usdc (pm_st w') \<in> {None, Some u}"
      using wired conf by (cases c) (simp_all add: q(7) wired_def)
    moreover have "unpaid_fee (h, PmTx c) w = 0" using False by (cases c) simp_all
    ultimately show ?thesis using pm_quiet_step [OF inv keep q(1-3) _ q(4-6)] by simp
  next
    case True
    then consider (o) t k d m l where "c = POpen t k d m l" | (c) t i k where "c = PClose t i k"
      | (l) a t i k where "c = PLiquidate a t i k"
      by (cases c) simp_all
    then show ?thesis
    proof cases
      case o
      then show ?thesis using run pm_open_refines [OF tk inv] by (fastforce simp: bnd_eq_Inr)
    next
      case c
      then obtain r where "pm_close_position tk (entry h (p_self (pm_st w))) t i k w = Inr (r, w')"
        using run by (auto simp: bnd_eq_Inr)
      then show ?thesis
      proof (rule pm_close_effect)
        fix pos price pnl fee
        assume q: "oracle_get_price_value (subcall (entry h (p_self (pm_st w)))
               (o_self (oracle_st w))) k w = Inr (price, oracle_bump_instance w)"
          and p: "capped_pnl pos price = Inr pnl"
          and f: "calculate_fee (pos_size pos) (pm_get_close_fee_rate w) = Inr fee"
          and step: "closed_out tk (entry h (p_self (pm_st w))) t i pos pnl fee w w'"
        have "0 \<le> fee"
          using fee_nonneg [OF f] pm_invD(2) [OF pinv closed_outD(1) [OF step]]
          by (simp add: position_ok_def)
        moreover have "- pos_collateral pos \<le> pnl" using p by (auto simp: capped_pnl_eq_Inr)
        moreover have "unpaid_fee (h, PmTx c) w = max 0 (fee - (pos_collateral pos + pnl))"
          by (simp add: c q p f closed_outD(1) [OF step])
        ultimately show ?thesis using closed_out_refines [OF tk inv step] by simp
      qed
    next
      case l
      then obtain m pnl where
        "pm_liquidate_position tk (entry h (p_self (pm_st w))) a t i k w = Inr ((m, pnl), w')"
        using run by (auto simp: bnd_eq_Inr)
      then show ?thesis
      proof (rule pm_liquidate_effect)
        fix pos price
        assume p: "capped_pnl pos price = Inr pnl"
          and step: "closed_out tk (entry h (p_self (pm_st w))) t i pos pnl 0 w w'"
        have "- pos_collateral pos \<le> pnl" using p by (auto simp: capped_pnl_eq_Inr)
        moreover from this have "max 0 (0 - (pos_collateral pos + pnl)) = 0" by simp
        ultimately show ?thesis using closed_out_refines [OF tk inv step] by (simp add: l)
      qed
    qed
  qed
qed

lemma oracle_tx_refines:
  fixes w w' :: "('t, 'm) liq_world_scheme"
  assumes inv: "sys_inv u w" and run: "oracle_exec c w = Inr w'"
  shows "sys_inv u w' \<and> exchange_step (books tk u w) 0 (books tk u w')"
proof -
  note f = oracle_exec_frame [OF run]
  have "pm_inv w'"
    by (rule pm_inv_cong [of w]) (use inv f in \<open>auto simp: sys_inv_def\<close>)
  moreover have "oracle_priced w'"
    using oracle_exec_keeps_priced [OF _ run] inv by (simp add: sys_inv_def)
  moreover have "wired u w'" using inv f by (simp add: sys_inv_def wired_def)
  ultimately show ?thesis using pm_quiet_step [OF inv, of w' tk] inv f
    by (simp add: sys_inv_def wired_def pm_get_oi_long_def pm_get_oi_short_def)
qed

lemma liq_tx_refines:
  fixes w w' :: "('t, 'm) liq_world_scheme"
  assumes tk: "sep41 tk" and inv: "sys_inv u w" and run: "liq_exec tk (e, c) w = Inr w'"
  shows "sys_inv u w' \<and> exchange_step (books tk u w) 0 (books tk u w')"
  using run
proof (cases rule: liq_exec_cases)
  case books
  then show ?thesis
    using sys_inv_same_books [OF inv books] books_cong [OF books, of tk u] x_keep [of "books tk u w"]
    by auto
next
  case (liquidated k t i asset)
  from liquidated(2) show ?thesis
  proof (rule liq_liquidate_effect)
    fix pos :: position and raw
    assume "closed_out tk (subcall e (p_self (pm_st w))) t i pos (max raw (- pos_collateral pos)) 0 w w'"
    note c = closed_out_refines [OF tk inv this]
    have "max 0 (0 - (pos_collateral pos + max raw (- pos_collateral pos))) = 0" by simp
    then show ?thesis using c by simp
  qed
qed

lemma tx_refines:
  fixes w w' :: "('t, 'm) liq_world_scheme"
  assumes tk: "sep41 tk" and inv: "sys_inv u w" and run: "sys_exec tk (h, x) w = Inr w'"
    and conf: "configures_for u (p_self (pm_st w)) x"
  shows "sys_inv u w' \<and> exchange_step (books tk u w) (unpaid_fee (h, x) w) (books tk u w')"
proof (cases x)
  case (OracleTx c)
  then have "oracle_exec (entry h (o_self (oracle_st w)), c) w = Inr w'" using run by simp
  then show ?thesis using oracle_tx_refines [OF inv] OracleTx by simp
next
  case (VaultTx c)
  then have "vault_exec tk (entry h (v_self (vault_st w)), c) w = Inr w'" using run by simp
  then show ?thesis using conf VaultTx vault_tx_refines [OF tk inv] by simp
next
  case (PmTx c)
  then have "pm_exec tk (entry h (p_self (pm_st w)), c) w = Inr w'" using run by simp
  then show ?thesis using conf PmTx pm_tx_refines [OF tk inv] by blast
next
  case (FundTx c)
  then have same: "same_books w w'" using run fund_exec_frame by auto
  then show ?thesis
    using sys_inv_same_books [OF inv same] books_cong [OF same, of tk u] x_keep [of "books tk u w"]
    by (simp add: FundTx)
next
  case (LiqTx c)
  then have "liq_exec tk (entry h (l_self (liq_st w)), c) w = Inr w'" using run by simp
  then show ?thesis using liq_tx_refines [OF tk inv] LiqTx by simp
qed

section \<open>Reachable states\<close>

text \<open>The \<open>i128\<close> arguments of a transaction are 128-bit integers.\<close>

fun tx_typed :: "tx \<Rightarrow> bool" where
  "tx_typed (OracleTx (OSetPrice a k p)) \<longleftrightarrow> i128_ok p"
| "tx_typed (VaultTx (VDeposit d a)) \<longleftrightarrow> i128_ok a"
| "tx_typed (VaultTx (VWithdraw d s)) \<longleftrightarrow> i128_ok s"
| "tx_typed (VaultTx (VLock c a)) \<longleftrightarrow> i128_ok a"
| "tx_typed (VaultTx (VUnlock c a)) \<longleftrightarrow> i128_ok a"
| "tx_typed (VaultTx (VSettlePnl c t p)) \<longleftrightarrow> i128_ok p"
| "tx_typed (VaultTx (VCloseSettlement c t n m p f)) \<longleftrightarrow>
     i128_ok n \<and> i128_ok m \<and> i128_ok p \<and> i128_ok f"
| "tx_typed (VaultTx (VCollectFee c a)) \<longleftrightarrow> i128_ok a"
| "tx_typed (PmTx (PInitialize a v orc u fo fc l m)) \<longleftrightarrow> i128_ok m"
| "tx_typed (PmTx (POpen t k d c l)) \<longleftrightarrow> i128_ok c"
| "tx_typed _ \<longleftrightarrow> True"

text \<open>
  A step of the world is a successful transaction (a failed one changes nothing), a move of other
  holders' tokens, which cannot take from the vault, or a cached price that expires from the
  oracle's temporary storage.
\<close>

inductive sys_step ::
  "'t token \<Rightarrow> address \<Rightarrow> ('t, 'm) liq_world_scheme \<Rightarrow> ('t, 'm) liq_world_scheme \<Rightarrow> bool"
  for tk :: "'t token" and u :: address where
  sys_tx: "configures_for u (p_self (pm_st w)) x \<Longrightarrow> tx_typed x \<Longrightarrow> sys_exec tk (h, x) w = Inr w' \<Longrightarrow>
    sys_step tk u w w'"
| sys_tokens: "tok_balance tk u (v_self (vault_st w)) (ledger w)
      \<le> tok_balance tk u (v_self (vault_st w)) t \<Longrightarrow> sys_step tk u w (w\<lparr>ledger := t\<rparr>)"
| sys_expiry: "sys_step tk u w (w\<lparr>oracle_st := (oracle_st w)
      \<lparr>o_prices := (o_prices (oracle_st w))(asset := None)\<rparr>\<rparr>)"

inductive sys_reach ::
  "'t token \<Rightarrow> address \<Rightarrow> ('t, 'm) liq_world_scheme \<Rightarrow> ('t, 'm) liq_world_scheme \<Rightarrow> bool"
  for tk :: "'t token" and u :: address and w0 :: "('t, 'm) liq_world_scheme" where
  reach_start: "sys_reach tk u w0 w0"
| reach_step: "sys_reach tk u w0 w \<Longrightarrow> sys_step tk u w w' \<Longrightarrow> sys_reach tk u w0 w'"

inductive_cases sys_stepE: "sys_step tk u w w'"

text \<open>A list of transactions that all succeed and configure the right addresses is a path.\<close>

fun sys_play ::
  "'t token \<Rightarrow> address \<Rightarrow> ((u64 \<times> nat set) \<times> tx) list \<Rightarrow> ('t, 'm) liq_world_scheme
    \<Rightarrow> ('t, 'm) liq_world_scheme res" where
  "sys_play tk u [] w = Inr w"
| "sys_play tk u ((h, x) # xs) w =
     (if configures_for u (p_self (pm_st w)) x \<and> tx_typed x
      then bnd (sys_exec tk (h, x) w) (sys_play tk u xs) else Inl (HostError 0))"

lemma sys_play_reach:
  "sys_reach tk u w0 w \<Longrightarrow> sys_play tk u xs w = Inr w' \<Longrightarrow> sys_reach tk u w0 w'"
proof (induction xs arbitrary: w)
  case (Cons hx xs)
  obtain h x where hx: "hx = (h, x)" by (cases hx)
  with Cons.prems obtain v where "configures_for u (p_self (pm_st w)) x" and "tx_typed x"
    and "sys_exec tk (h, x) w = Inr v" and v: "sys_play tk u xs v = Inr w'"
    by (cases h) (auto simp: bnd_eq_Inr split: if_splits)
  then have "sys_reach tk u w0 v"
    using reach_step [OF Cons.prems(1) sys_tx] by blast
  then show ?case using v by (rule Cons.IH)
qed simp

text \<open>
  The history of a state: the transactions that led to it, each with its time, its signers and the
  state it ran in.  The other steps of the world leave no record.
\<close>

inductive sys_history ::
  "'t token \<Rightarrow> address \<Rightarrow> ('t, 'm) liq_world_scheme
    \<Rightarrow> (((u64 \<times> nat set) \<times> tx) \<times> ('t, 'm) liq_world_scheme) list
    \<Rightarrow> ('t, 'm) liq_world_scheme \<Rightarrow> bool"
  for tk :: "'t token" and u :: address and w0 :: "('t, 'm) liq_world_scheme" where
  hist_start: "sys_history tk u w0 [] w0"
| hist_tx: "sys_history tk u w0 txs w \<Longrightarrow> configures_for u (p_self (pm_st w)) x \<Longrightarrow> tx_typed x \<Longrightarrow>
    sys_exec tk (h, x) w = Inr w' \<Longrightarrow> sys_history tk u w0 (txs @ [((h, x), w)]) w'"
| hist_tokens: "sys_history tk u w0 txs w \<Longrightarrow>
    tok_balance tk u (v_self (vault_st w)) (ledger w) \<le> tok_balance tk u (v_self (vault_st w)) t \<Longrightarrow>
    sys_history tk u w0 txs (w\<lparr>ledger := t\<rparr>)"
| hist_expiry: "sys_history tk u w0 txs w \<Longrightarrow> sys_history tk u w0 txs (w\<lparr>oracle_st := (oracle_st w)
      \<lparr>o_prices := (o_prices (oracle_st w))(asset := None)\<rparr>\<rparr>)"

text \<open>The reachable states are those with a history.\<close>

lemma sys_history_reach: "sys_history tk u w0 txs w \<Longrightarrow> sys_reach tk u w0 w"
  by (induction rule: sys_history.induct) (blast intro: reach_start reach_step sys_step.intros)+

lemma sys_reach_history: "sys_reach tk u w0 w \<Longrightarrow> \<exists>txs. sys_history tk u w0 txs w"
proof (induction rule: sys_reach.induct)
  case reach_start
  then show ?case using hist_start by blast
next
  case (reach_step w w')
  then obtain txs where hist: "sys_history tk u w0 txs w" by blast
  from reach_step.hyps(2) show ?case
  proof (cases rule: sys_step.cases)
    case (sys_tx x h)
    then show ?thesis using hist_tx [OF hist] by blast
  next
    case (sys_tokens t)
    then show ?thesis using hist_tokens [OF hist] by blast
  next
    case (sys_expiry asset)
    then show ?thesis using hist_expiry [OF hist, of asset] by blast
  qed
qed

lemma step_refines:
  fixes w w' :: "('t, 'm) liq_world_scheme"
  assumes tk: "sep41 tk" and inv: "sys_inv u w" and step: "sys_step tk u w w'"
  shows "\<exists>k. sys_inv u w' \<and> exchange_step (books tk u w) k (books tk u w')"
  using step
proof (cases rule: sys_step.cases)
  case (sys_tx x h)
  then show ?thesis using tx_refines [OF tk inv] by blast
next
  case (sys_tokens t)
  let ?a = "tok_balance tk u (v_self (vault_st w)) t
    - tok_balance tk u (v_self (vault_st w)) (ledger w)"
  have "vault_inv w'" by (rule vault_inv_cong [of w]) (use inv sys_tokens in \<open>auto simp: sys_inv_def\<close>)
  moreover have "pm_inv w'"
    by (rule pm_inv_cong [of w]) (use inv sys_tokens in \<open>auto simp: sys_inv_def\<close>)
  ultimately have "sys_inv u w'"
    using inv sys_tokens by (simp add: sys_inv_def wired_def oracle_priced_def)
  moreover have "books tk u w' = (books tk u w)\<lparr>x_cash := x_cash (books tk u w) + ?a\<rparr>"
    by (simp add: books_def sys_tokens pm_get_oi_long_def pm_get_oi_short_def)
  moreover have "exchange_step (books tk u w) 0 ((books tk u w)\<lparr>x_cash := x_cash (books tk u w) + ?a\<rparr>)"
    using sys_tokens(2) by (intro x_receive) simp
  ultimately show ?thesis by auto
next
  case (sys_expiry asset)
  have "vault_inv w'" by (rule vault_inv_cong [of w]) (use inv sys_expiry in \<open>auto simp: sys_inv_def\<close>)
  moreover have "pm_inv w'"
    by (rule pm_inv_cong [of w]) (use inv sys_expiry in \<open>auto simp: sys_inv_def\<close>)
  moreover have "oracle_priced w'" using inv by (simp add: sys_inv_def oracle_priced_def sys_expiry)
  ultimately have "sys_inv u w'" using inv sys_expiry by (simp add: sys_inv_def wired_def)
  moreover have "books tk u w' = books tk u w"
    by (simp add: books_def sys_expiry vault_storage_defs pm_get_oi_long_def pm_get_oi_short_def)
  ultimately show ?thesis using x_keep [of "books tk u w"] by auto
qed

lemma reach_refines:
  assumes tk: "sep41 tk" and "sys_inv u w0" and "sys_reach tk u w0 w"
  shows "\<exists>k. sys_inv u w \<and> exchange_run (books tk u w0) k (books tk u w)"
  using assms(3)
proof induction
  case reach_start
  then show ?case using assms(2) x_done by blast
next
  case (reach_step w w')
  then show ?case using step_refines [OF tk] x_more by blast
qed

text \<open>The state after deployment, before any contract is initialised.\<close>

definition sys_fresh :: "('t, 'm) liq_world_scheme \<Rightarrow> bool" where
  "sys_fresh w \<longleftrightarrow> (\<exists>n. v_self (vault_st w) = Contract n) \<and> (\<exists>n. p_self (pm_st w) = Contract n) \<and>
     v_admin (vault_st w) = None \<and> vault_fresh (vault_st w) \<and> pm_fresh (pm_st w) \<and>
     p_usdc (pm_st w) = None \<and> p_min_collateral (pm_st w) = None \<and>
     o_prices (oracle_st w) = (\<lambda>_. None) \<and>
     f_cum_long (fund_st w) = None \<and> f_cum_short (fund_st w) = None"

lemma sys_fresh_inv: "sys_fresh w \<Longrightarrow> sys_inv u w"
  by (auto simp: sys_fresh_def sys_inv_def wired_def oracle_priced_def vault_fresh_def pm_fresh_def
      intro: vault_fresh_inv pm_fresh_inv)

lemma sys_fresh_books: "sys_fresh w \<Longrightarrow> books tk u w =
    \<lparr>x_cash = tok_balance tk u (v_self (vault_st w)) (ledger w), x_deposits = 0, x_locked = 0,
     x_collateral = 0, x_long = 0, x_short = 0\<rparr>"
  by (simp add: sys_fresh_def books_def vault_fresh_def pm_fresh_def vault_storage_defs
      pm_get_oi_long_def pm_get_oi_short_def)

text \<open>The invariants of a reachable state.\<close>

lemma reach_inv:
  "sep41 tk \<Longrightarrow> sys_fresh w0 \<Longrightarrow> sys_reach tk u w0 w \<Longrightarrow> sys_inv u w"
  using reach_refines [OF _ sys_fresh_inv] by blast

lemma reach_locked:
  assumes "sep41 tk" and "sys_fresh w0" and "sys_reach tk u w0 w"
  shows "vault_get_locked_liquidity w = pm_get_oi_long w + pm_get_oi_short w"
proof -
  obtain k where run: "exchange_run (books tk u w0) k (books tk u w)"
    using reach_refines [OF assms(1) sys_fresh_inv [OF assms(2)] assms(3)] by blast
  show ?thesis
    using exchange_run_locked [OF run] unfolding sys_fresh_books [OF assms(2)]
    by (simp add: books_def)
qed

lemma open_interest_is_size:
  assumes "sys_inv u w"
  shows "pm_get_oi_long w + pm_get_oi_short w = msum pos_size (p_positions (pm_st w))"
proof -
  have "(\<lambda>p. side Long p + side Short p) = pos_size"
  proof
    fix p :: position
    show "side Long p + side Short p = pos_size p"
      by (cases "pos_direction p") (simp_all add: side_def)
  qed
  then show ?thesis
    using assms pm_invD(5) [of w Long] pm_invD(5) [of w Short] msum_add [of "side Long" "side Short" "p_positions (pm_st w)"]
    by (simp add: sys_inv_def pm_oi_def)
qed

section \<open>Properties of the system\<close>

text \<open>
  C5. The contracts refine the abstract exchange: in every reachable state, every step of the
  world changes the vault's cash, deposits and locked liquidity, the collateral held and the open
  interest of both directions as one step of the abstract exchange does.
\<close>

theorem system_refines_exchange:
  assumes "sep41 tk" and "sys_fresh w0" and "sys_reach tk u w0 w" and "sys_step tk u w w'"
  shows "\<exists>k. exchange_step (books tk u w) k (books tk u w')"
  using reach_refines [OF assms(1) sys_fresh_inv [OF assms(2)] assms(3)] step_refines [OF assms(1)]
    assms(4) by blast

text \<open>
  C2. In every reachable state of the five contracts, whatever the prices were at which positions
  were opened, closed and liquidated, the open interest of each direction is the sum of the sizes
  of the open positions of that direction, a trader's position count is the number of open
  positions of the trader, no two open positions share an identifier, and every open position is
  well-formed: stored under its own trader and identifier, with positive collateral and entry price
  and the size collateral times leverage.
\<close>

theorem position_book_invariant:
  assumes "sep41 tk" and "sys_fresh w0" and "sys_reach tk u w0 w"
  shows "let book = p_positions (pm_st w) in
     pm_get_oi_long w = msum (side Long) book \<and> pm_get_oi_short w = msum (side Short) book
   \<and> (\<forall>t. uint (pm_get_trader_position_count t w) = int (card {i. (t, i) \<in> dom book}))
   \<and> (\<forall>t t' i. (t, i) \<in> dom book \<and> (t', i) \<in> dom book \<longrightarrow> t = t')
   \<and> (\<forall>t i p. book (t, i) = Some p \<longrightarrow> position_ok t i p)"
proof -
  have inv: "pm_inv w" using reach_inv [OF assms] by (simp add: sys_inv_def)
  show ?thesis
    unfolding Let_def
    using pm_invD(2,4,6) [OF inv] pm_invD(5) [OF inv, of Long] pm_invD(5) [OF inv, of Short]
    by (simp add: pm_oi_def) blast
qed

text \<open>
  C3. In every reachable state the liquidity the vault has locked is the open interest, long plus
  short, of the position manager, and that is the sum of the sizes of the open positions.
\<close>

theorem locked_liquidity_is_open_interest:
  assumes "sep41 tk" and "sys_fresh w0" and "sys_reach tk u w0 w"
  shows "vault_get_locked_liquidity w = pm_get_oi_long w + pm_get_oi_short w
       \<and> vault_get_locked_liquidity w = msum pos_size (p_positions (pm_st w))"
  using reach_locked [OF assms] open_interest_is_size [OF reach_inv [OF assms]] by simp

text \<open>Along a history the surplus falls by no more than the fees left unpaid.\<close>

lemma history_surplus:
  assumes tk: "sep41 tk" and fresh: "sys_fresh w0" and hist: "sys_history tk u w0 txs w"
  shows "x_surplus (books tk u w0) - (\<Sum>(x, v)\<leftarrow>txs. unpaid_fee x v) \<le> x_surplus (books tk u w)"
  using hist
proof (induction rule: sys_history.induct)
  case hist_start
  then show ?case by simp
next
  case (hist_tx txs w x h w')
  have "sys_inv u w"
    by (rule reach_inv [OF tk fresh sys_history_reach [OF hist_tx.hyps(1)]])
  from exchange_step_surplus [OF conjunct2 [OF tx_refines [OF tk this hist_tx.hyps(4,2)]]]
  show ?case using hist_tx.IH by simp
next
  case (hist_tokens txs w t)
  then show ?case by (simp add: x_surplus_def books_def pm_get_oi_long_def pm_get_oi_short_def)
next
  case (hist_expiry txs w asset)
  then show ?case
    by (simp add: x_surplus_def books_def vault_storage_defs pm_get_oi_long_def pm_get_oi_short_def)
qed

text \<open>
  C4. What the exchange can lose.  In every state with a history from deployment, and every reachable
  state has one, the vault's cash covers the LPs' deposits and the traders' collateral up to the
  close fees that closes of that very history left unpaid for want of equity: each is the fee
  beyond the collateral and the capped profit of the position closed, at the price served in the
  state it was closed in.  No other transaction of the history, a liquidation included, uncovers
  anything, so a history without such a close leaves every claim covered.
\<close>

theorem cash_covers_claims_up_to_unpaid_fees:
  assumes "sep41 tk" and "sys_fresh w0" and "sys_history tk u w0 txs w"
    and "0 \<le> tok_balance tk u (v_self (vault_st w0)) (ledger w0)"
  shows "vault_get_total_deposits w + msum pos_collateral (p_positions (pm_st w))
           - (\<Sum>(x, v)\<leftarrow>txs. unpaid_fee x v)
         \<le> tok_balance tk u (v_self (vault_st w)) (ledger w)"
proof -
  have "0 \<le> x_surplus (books tk u w0)"
    using assms(4) by (simp add: sys_fresh_books [OF assms(2)] x_surplus_def)
  then show ?thesis
    using history_surplus [OF assms(1-3)] by (simp add: x_surplus_def books_def [of tk u w])
qed

section \<open>Configuration\<close>

text \<open>The admin a configuring call claims to come from, and the admin its contract stores.\<close>

fun claimed_admin :: "tx \<Rightarrow> address option" where
  "claimed_admin (OracleTx (OSetPrice a k p)) = Some a"
| "claimed_admin (OracleTx (OSetStaleness a n)) = Some a"
| "claimed_admin (VaultTx (VSetPositionManager a p)) = Some a"
| "claimed_admin (VaultTx (VSetMaxUtilization a m)) = Some a"
| "claimed_admin (PmTx (PSetFeeRates a fo fc)) = Some a"
| "claimed_admin (PmTx (PSetMaxLeverage a l)) = Some a"
| "claimed_admin (PmTx (PSetLiquidationEngine a l)) = Some a"
| "claimed_admin (PmTx (PSetFundingAddress a f)) = Some a"
| "claimed_admin (FundTx (FSetInterval a n)) = Some a"
| "claimed_admin (FundTx (FSetMaxRate a m)) = Some a"
| "claimed_admin (LiqTx (LSetMaintenanceMargin a x)) = Some a"
| "claimed_admin (LiqTx (LSetLiquidationPenalty a x)) = Some a"
| "claimed_admin (LiqTx (LSetKeeperReward a x)) = Some a"
| "claimed_admin _ = None"

fun stored_admin :: "tx \<Rightarrow> ('t, 'm) liq_world_scheme \<Rightarrow> address option" where
  "stored_admin (OracleTx c) w = o_admin (oracle_st w)"
| "stored_admin (VaultTx c) w = v_admin (vault_st w)"
| "stored_admin (PmTx c) w = p_admin (pm_st w)"
| "stored_admin (FundTx c) w = f_admin (fund_st w)"
| "stored_admin (LiqTx c) w = l_admin (liq_st w)"

lemmas admin_gates =
  oracle_price_gate.op_refused oracle_staleness_gate.op_refused vault_pm_gate.op_refused
  vault_util_gate.op_refused pm_fee_gate.op_refused pm_leverage_gate.op_refused
  pm_engine_gate.op_refused pm_funding_gate.op_refused fund_interval_gate.op_refused
  fund_rate_gate.op_refused liq_margin_gate.op_refused liq_penalty_gate.op_refused
  liq_reward_gate.op_refused

text \<open>
  C30. Every setter of the five contracts, the price feed included, is closed to everyone but the
  contract's stored admin with the admin's signature: an unsigned call traps, a signed call by
  another address is \<open>Unauthorized\<close>, and before \<open>initialize\<close> there is no admin and the call traps.
\<close>

theorem only_admin_configures:
  assumes "claimed_admin x = Some a" and "stored_admin x w \<noteq> Some a \<or> a \<notin> Account ` snd h"
  shows "sys_exec tk (h, x) w =
    Inl (if a \<notin> Account ` snd h then Trap AuthFailed
         else if stored_admin x w = None then Trap UnwrapNone else Err Unauthorized)"
proof -
  have "stored_admin x w \<noteq> Some a \<or> \<not> authorised (entry h c) a" for c
    using assms(2) by (simp add: authorised_entry)
  then show ?thesis
    using assms(1)
    by (cases x rule: claimed_admin.cases) (simp_all add: admin_gates authorised_entry)
qed

text \<open>The calls that initialise a contract.\<close>

fun initialises :: "tx \<Rightarrow> bool" where
  "initialises (OracleTx (OInitialize a n)) \<longleftrightarrow> True"
| "initialises (VaultTx (VInitialize a us m)) \<longleftrightarrow> True"
| "initialises (PmTx (PInitialize a v orc us fo fc l m)) \<longleftrightarrow> True"
| "initialises (FundTx (FInitialize a p n m s)) \<longleftrightarrow> True"
| "initialises (LiqTx (LInitialize a p orc m n r)) \<longleftrightarrow> True"
| "initialises _ \<longleftrightarrow> False"

text \<open>With an admin stored the call is refused; without one it stores an admin or fails.\<close>

lemma initialise_refused:
  assumes "initialises x" and "stored_admin x w \<noteq> None"
  shows "sys_exec tk (h, x) w = Inl (Err AlreadyInitialized)"
  using assms
  by (cases x rule: initialises.cases)
    (auto simp: oracle_initialize_def vault_initialize_def pm_initialize_def fund_initialize_def
      liq_initialize_def oracle_has_admin_def vault_has_admin_def pm_has_admin_def
      fund_has_admin_def liq_has_admin_def)

text \<open>
  C31. A contract is initialised once: with an admin stored, \<open>initialize\<close> of each of the five
  contracts answers \<open>AlreadyInitialized\<close> whatever its arguments, and a successful \<open>initialize\<close>
  stores an admin.  No signature counts: whoever comes first chooses the admin.
\<close>

theorem initialize_only_once:
  assumes "initialises x"
  shows "(stored_admin x w \<noteq> None \<longrightarrow> sys_exec tk (h, x) w = Inl (Err AlreadyInitialized))
       \<and> (\<forall>w'. sys_exec tk (h, x) w = Inr w' \<longrightarrow> stored_admin x w' \<noteq> None)
       \<and> (\<forall>signers. sys_exec tk ((fst h, signers), x) w = sys_exec tk (h, x) w)"
  using assms
  by (cases x rule: initialises.cases)
    (auto simp: oracle_initialize_def vault_initialize_def pm_initialize_def fund_initialize_def
      liq_initialize_def oracle_storage_defs vault_storage_defs pm_storage_defs fund_storage_defs
      liq_storage_defs Let_def)

end
