(* ===== verification/Stored_Range.thy ===== *)
theory Stored_Range
  imports Perps_System
begin

text \<open>
  The range of what is stored.  An \<open>i128\<close> is an \<open>int\<close> of the model, so the progress properties need
  it as a lemma that every reachable state stores 128-bit integers only: an operation that would
  leave the range traps before it stores.  On the way, what the calls of each contract leave alone.
\<close>

section \<open>Stores whose amounts are in range\<close>

definition oracle_ranged :: "oracle_store \<Rightarrow> bool" where
  "oracle_ranged s \<longleftrightarrow> (\<forall>asset c. o_prices s asset = Some c \<longrightarrow> i128_ok (cp_price c))"

definition vault_ranged :: "vault_store \<Rightarrow> bool" where
  "vault_ranged s \<longleftrightarrow> i128_ok (get_or 0 (v_total_shares s)) \<and> i128_ok (get_or 0 (v_total_deposits s)) \<and>
     i128_ok (get_or 0 (v_locked s)) \<and> (\<forall>a. i128_ok (get_or 0 (v_shares s a)))"

definition position_ranged :: "position \<Rightarrow> bool" where
  "position_ranged p \<longleftrightarrow> i128_ok (pos_size p) \<and> i128_ok (pos_collateral p) \<and>
     i128_ok (pos_entry_price p) \<and> i128_ok (pos_funding_index p)"

definition pm_ranged :: "pm_store \<Rightarrow> bool" where
  "pm_ranged s \<longleftrightarrow> i128_ok (get_or 0 (p_min_collateral s)) \<and> i128_ok (get_or 0 (p_oi_long s)) \<and>
     i128_ok (get_or 0 (p_oi_short s)) \<and> (\<forall>k p. p_positions s k = Some p \<longrightarrow> position_ranged p)"

definition fund_ranged :: "fund_store \<Rightarrow> bool" where
  "fund_ranged s \<longleftrightarrow> i128_ok (get_or 0 (f_cum_long s)) \<and> i128_ok (get_or 0 (f_cum_short s))"

definition sys_ranged :: "('t, 'm) liq_world_scheme \<Rightarrow> bool" where
  "sys_ranged w \<longleftrightarrow> oracle_ranged (oracle_st w) \<and> vault_ranged (vault_st w) \<and>
     pm_ranged (pm_st w) \<and> fund_ranged (fund_st w)"

lemmas ranged_defs = oracle_ranged_def vault_ranged_def pm_ranged_def fund_ranged_def

section \<open>The vault\<close>

lemma vault_ranged_bump [simp]:
  "vault_ranged (vault_st (vault_bump_instance w)) = vault_ranged (vault_st w)"
  by (simp add: vault_ranged_def vault_bump_instance_def)

lemma vault_ranged_lock:
  "vault_ranged (vault_st w) \<Longrightarrow> vault_lock_liquidity e c n w = Inr w' \<Longrightarrow> vault_ranged (vault_st w')"
  by (auto simp: vault_ranged_def vault_lock_liquidity_eq_Inr vault_emit_defs vault_storage_defs)

lemma vault_ranged_collect:
  "vault_ranged (vault_st w) \<Longrightarrow> vault_collect_fee e c n w = Inr w' \<Longrightarrow> vault_ranged (vault_st w')"
  by (auto simp: vault_ranged_def vault_collect_fee_eq_Inr vault_emit_defs vault_storage_defs)

lemma vault_ranged_settle:
  "vault_ranged (vault_st w) \<Longrightarrow> vault_close_position_settlement tk e c t n m p f w = Inr w' \<Longrightarrow>
     vault_ranged (vault_st w')"
  by (auto simp: vault_ranged_def vault_close_position_settlement_eq_Inr vault_emit_defs
      vault_storage_defs)

lemma vault_ranged_deposit:
  "vault_ranged (vault_st w) \<Longrightarrow> vault_deposit tk e d a w = Inr (s, w') \<Longrightarrow> vault_ranged (vault_st w')"
  by (auto simp: vault_ranged_def vault_deposit_eq_Inr vault_emit_defs vault_storage_defs Let_def)

lemma vault_ranged_withdraw:
  "vault_ranged (vault_st w) \<Longrightarrow> vault_withdraw tk e d s w = Inr (u, w') \<Longrightarrow> vault_ranged (vault_st w')"
  by (auto simp: vault_ranged_def vault_withdraw_eq_Inr vault_emit_defs vault_storage_defs Let_def)

lemma vault_ranged_settle_pnl:
  "vault_ranged (vault_st w) \<Longrightarrow> vault_settle_pnl tk e c t p w = Inr w' \<Longrightarrow> vault_ranged (vault_st w')"
  by (auto simp: vault_ranged_def vault_settle_pnl_def inv_simps Let_def vault_emit_defs
      vault_storage_defs split: if_splits)

lemma vault_ranged_unlock:
  "vault_ranged (vault_st w) \<Longrightarrow> vault_unlock_liquidity e c n w = Inr w' \<Longrightarrow> vault_ranged (vault_st w')"
  by (auto simp: vault_ranged_def vault_unlock_liquidity_eq_Inr vault_emit_defs vault_storage_defs)

lemma vault_ranged_initialize:
  "vault_ranged (vault_st w) \<Longrightarrow> vault_initialize a u m w = Inr w' \<Longrightarrow> vault_ranged (vault_st w')"
  by (auto simp: vault_ranged_def vault_initialize_def vault_storage_defs Let_def split: if_splits)

lemma vault_ranged_setters:
  "vault_ranged (vault_st w) \<Longrightarrow> vault_set_position_manager e a p w = Inr w' \<Longrightarrow> vault_ranged (vault_st w')"
  "vault_ranged (vault_st w) \<Longrightarrow> vault_set_max_utilization e a m w = Inr w' \<Longrightarrow> vault_ranged (vault_st w')"
  by (auto simp: vault_ranged_def vault_set_position_manager_def vault_set_max_utilization_def
      Let_def inv_simps vault_storage_defs)

lemma vault_ranged_read:
  "vault_ranged (vault_st w) \<Longrightarrow> vault_ranged (vault_st (snd (vault_read_share_balance a w)))"
  by (simp add: vault_ranged_def vault_read_share_balance_def Let_def)

lemma vault_exec_ranged:
  assumes "vault_ranged (vault_st w)" and "vault_exec tk (e, c) w = Inr w'"
  shows "vault_ranged (vault_st w')"
proof (cases c)
  case (VViewShareBalance a)
  then show ?thesis using assms
    by (auto simp: vault_view_share_balance_def intro: vault_ranged_read)
qed (use assms in \<open>auto simp: bnd_eq_Inr intro: vault_ranged_lock vault_ranged_unlock
      vault_ranged_collect vault_ranged_settle vault_ranged_deposit vault_ranged_withdraw
      vault_ranged_settle_pnl vault_ranged_initialize vault_ranged_setters\<close>)

section \<open>The position manager\<close>

lemma pm_query_ranged:
  assumes "oracle_ranged (oracle_st w)" and "pm_query_price e asset w = Inr (p, w')"
  shows "i128_ok p"
  using assms
  by (auto simp: oracle_ranged_def pm_query_price_eq_Inr oracle_get_price_value_eq_Inr
      oracle_get_price_eq_Inr)

lemma pm_ranged_bump [simp]: "pm_ranged (pm_st (pm_bump_instance w)) = pm_ranged (pm_st w)"
  by (simp add: pm_ranged_def pm_bump_instance_def)

lemma pm_ranged_load [simp]: "pm_ranged (pm_st (snd (pm_load_position t i w))) = pm_ranged (pm_st w)"
  by (simp add: pm_ranged_def pm_load_position_def Let_def)

lemma pm_ranged_add_oi:
  "pm_ranged (pm_st w) \<Longrightarrow> pm_add_open_interest d n w = Inr w' \<Longrightarrow> pm_ranged (pm_st w')"
  by (auto simp: pm_ranged_def pm_add_open_interest_def inv_simps pm_storage_defs
      split: direction.splits)

lemma pm_ranged_sub_oi:
  "pm_ranged (pm_st w) \<Longrightarrow> pm_sub_open_interest d n w = Inr w' \<Longrightarrow> pm_ranged (pm_st w')"
  by (auto simp: pm_ranged_def pm_sub_open_interest_def inv_simps pm_storage_defs
      split: direction.splits)

lemma pm_ranged_remove: "pm_ranged (pm_st w) \<Longrightarrow> pm_ranged (pm_st (pm_remove_position t i w))"
  by (auto simp: pm_ranged_def pm_remove_position_def)

lemma pm_ranged_drop [simp]: "pm_ranged (pm_st (pm_drop_position_count t w)) = pm_ranged (pm_st w)"
  by (simp add: pm_ranged_def pm_drop_position_count_def pm_set_trader_position_count_def Let_def)

lemma pm_ranged_close:
  assumes "pm_ranged (pm_st w)" and "vault_ranged (vault_st w)"
    and "pm_close_position tk e t i asset w = Inr (r, w')"
  shows "pm_ranged (pm_st w') \<and> vault_ranged (vault_st w')"
  using pm_close_positionE [OF assms(3)]
proof cases
  case (1 pos price w1 pnl fee w2 w3)
  note w1 = pm_query_loaded(1) [OF 1(5)]
  note w2 = vault_settle_frame [OF 1(10)]
  note w3 = pm_sub_open_interest_frame [OF 1(11)]
  have "vault_ranged (vault_st w2)"
    by (rule vault_ranged_settle [OF _ 1(10)]) (simp add: w1 assms)
  moreover have "pm_ranged (pm_st w3)"
    by (rule pm_ranged_sub_oi [OF pm_ranged_remove 1(11)])
      (simp add: w2 w1 assms oracle_bump_instance_def)
  ultimately show ?thesis
    by (simp add: 1(12) emit_position_closed_def publish_def w3 pm_drop_count_frame
        pm_remove_position_def)
qed

lemma pm_ranged_liquidate:
  assumes "pm_ranged (pm_st w)" and "vault_ranged (vault_st w)"
    and "pm_liquidate_position tk e c t i asset w = Inr ((m, p), w')"
  shows "pm_ranged (pm_st w') \<and> vault_ranged (vault_st w')"
  using pm_liquidate_positionE [OF assms(3)]
proof cases
  case (1 pos price w1 w2 w3)
  note w1 = pm_query_loaded(1) [OF 1(5)]
  note w2 = vault_settle_frame [OF 1(9)]
  note w3 = pm_sub_open_interest_frame [OF 1(10)]
  have "vault_ranged (vault_st w2)"
    by (rule vault_ranged_settle [OF _ 1(9)]) (simp add: w1 assms)
  moreover have "pm_ranged (pm_st w3)"
    by (rule pm_ranged_sub_oi [OF pm_ranged_remove 1(10)])
      (simp add: w2 w1 assms oracle_bump_instance_def)
  ultimately show ?thesis
    by (simp add: 1(11) w3 pm_drop_count_frame pm_remove_position_def)
qed

lemma position_ranged_iff [simp]:
  "position_ranged (opened_position e i t asset d c l p) \<longleftrightarrow>
     i128_ok (c * u32_as_i128 l) \<and> i128_ok c \<and> i128_ok p"
  by (auto simp: position_ranged_def)

lemma pm_open_size_ranged:
  "pm_open_position tk e t asset d c l w = Inr (i, w') \<Longrightarrow> i128_ok (c * u32_as_i128 l)"
  by (auto simp: pm_open_position_def inv_simps Let_def)

lemma pm_ranged_open:
  assumes st: "pm_ranged (pm_st w)" "vault_ranged (vault_st w)" "oracle_ranged (oracle_st w)"
    and c: "i128_ok c"
    and run: "pm_open_position tk e t asset d c l w = Inr (i, w')"
  shows "pm_ranged (pm_st w') \<and> vault_ranged (vault_st w')"
  using pm_open_positionE [OF run]
proof cases
  case (1 price fee usdc tok w2 w3 w4 w5)
  let ?w1 = "(oracle_bump_instance (pm_bump_instance w))\<lparr>ledger := tok\<rparr>"
  note w2 = vault_lock_frame [OF 1(10)] and w3 = vault_collect_frame [OF 1(11)]
  note w5 = pm_add_open_interest_frame [OF 1(13)]
  have w4: "w4 = w3\<lparr>pm_st := (pm_st w3)\<lparr>p_next_id := Some (i + 1)\<rparr>\<rparr>"
    using 1(12) by (simp add: pm_increment_eq_Inr)
  have "vault_ranged (vault_st w2)"
    by (rule vault_ranged_lock [OF _ 1(10)]) (simp add: st oracle_bump_instance_def)
  then have "vault_ranged (vault_st w3)" by (rule vault_ranged_collect [OF _ 1(11)])
  moreover have "i128_ok price"
    using pm_query_ranged [OF _ 1(5)] st by simp
  moreover have "pm_st w3 = pm_st (pm_bump_instance w)"
    by (simp add: w3 w2 oracle_bump_instance_def)
  then have "pm_ranged (pm_st w3)" using st by simp
  ultimately have "pm_ranged (pm_st (pm_save_position t i
      (opened_position e i t asset d c l price) w4))"
    using c pm_open_size_ranged [OF run] by (auto simp: pm_ranged_def w4 pm_save_position_def)
  then have "pm_ranged (pm_st w5)" by (rule pm_ranged_add_oi [OF _ 1(13)])
  then have "pm_ranged (pm_st w')"
    by (simp add: 1(15) pm_ranged_def emit_position_opened_def publish_def
        pm_set_trader_position_count_def)
  moreover have "vault_st w' = vault_st w3"
    by (simp add: 1(15) emit_position_opened_def publish_def pm_set_trader_position_count_def w5
        pm_save_position_def w4)
  ultimately show ?thesis using \<open>vault_ranged (vault_st w3)\<close> by simp
qed

lemma pm_ranged_config:
  "pm_ranged (pm_st w) \<Longrightarrow> i128_ok m \<Longrightarrow> pm_initialize a v orc u fo fc l m w = Inr w' \<Longrightarrow>
     pm_ranged (pm_st w') \<and> vault_st w' = vault_st w"
  "pm_ranged (pm_st w) \<Longrightarrow> pm_set_fee_rates e a fo fc w = Inr w' \<Longrightarrow>
     pm_ranged (pm_st w') \<and> vault_st w' = vault_st w"
  "pm_ranged (pm_st w) \<Longrightarrow> pm_set_max_leverage e a l w = Inr w' \<Longrightarrow>
     pm_ranged (pm_st w') \<and> vault_st w' = vault_st w"
  "pm_ranged (pm_st w) \<Longrightarrow> pm_set_liquidation_engine e a le w = Inr w' \<Longrightarrow>
     pm_ranged (pm_st w') \<and> vault_st w' = vault_st w"
  "pm_ranged (pm_st w) \<Longrightarrow> pm_set_funding_address e a fa w = Inr w' \<Longrightarrow>
     pm_ranged (pm_st w') \<and> vault_st w' = vault_st w"
  by (auto simp: pm_ranged_def pm_initialize_def pm_set_fee_rates_def pm_set_max_leverage_def
      pm_set_liquidation_engine_def pm_set_funding_address_def Let_def inv_simps pm_storage_defs
      split: if_splits)

lemma pm_ranged_views:
  "pm_ranged (pm_st w) \<Longrightarrow> pm_get_position t i w = Inr (p, w') \<Longrightarrow>
     pm_ranged (pm_st w') \<and> vault_st w' = vault_st w"
  "pm_ranged (pm_st w) \<Longrightarrow> pm_get_unrealized_pnl e t i asset w = Inr (r, w') \<Longrightarrow>
     pm_ranged (pm_st w') \<and> vault_st w' = vault_st w"
  by (auto simp: pm_get_position_eq_Inr pm_get_unrealized_quoted oracle_bump_instance_def)

lemma pm_exec_ranged:
  assumes st: "pm_ranged (pm_st w)" "vault_ranged (vault_st w)" "oracle_ranged (oracle_st w)"
    and typed: "tx_typed (PmTx c)" and run: "pm_exec tk (e, c) w = Inr w'"
  shows "pm_ranged (pm_st w') \<and> vault_ranged (vault_st w')"
proof (cases c)
  case (POpen t k d m l)
  then obtain i where "pm_open_position tk e t k d m l w = Inr (i, w')"
    using run by (auto simp: bnd_eq_Inr)
  then show ?thesis using pm_ranged_open [OF st] typed POpen by simp
next
  case (PClose t i k)
  then show ?thesis using run pm_ranged_close [OF st(1,2)] by (auto simp: bnd_eq_Inr)
next
  case (PLiquidate a t i k)
  then show ?thesis using run pm_ranged_liquidate [OF st(1,2)] by (auto simp: bnd_eq_Inr)
next
  case (PGetPosition t i)
  then show ?thesis using run st pm_ranged_views(1) [OF st(1)] by (auto simp: bnd_eq_Inr)
next
  case (PGetUnrealizedPnl t i k)
  then show ?thesis using run st pm_ranged_views(2) [OF st(1)] by (auto simp: bnd_eq_Inr)
qed (use run st typed in \<open>auto dest: pm_ranged_config\<close>)

section \<open>The oracle adapter and the funding contract\<close>

lemma oracle_exec_ranged:
  assumes "oracle_ranged (oracle_st w)" and "tx_typed (OracleTx c)"
    and "oracle_exec (e, c) w = Inr w'"
  shows "oracle_ranged (oracle_st w')"
  using assms
  by (cases c) (auto simp: oracle_ranged_def bnd_eq_Inr oracle_set_price_eq_Inr
      oracle_get_price_eq_Inr oracle_get_price_value_eq_Inr oracle_initialize_def oracle_set_staleness_threshold_def inv_simps
      Let_def oracle_storage_defs emit_price_fetched_def publish_def split: if_splits)

lemma fund_ranged_apply:
  assumes "fund_apply_funding e k w = Inr w'"
  shows "fund_ranged (fund_st w')"
  using assms
  by (auto simp: fund_apply_funding_def inv_simps Let_def fund_query_open_interest_eq_Inr
      fund_ranged_def emit_funding_applied_def publish_def fund_storage_defs pm_bump_instance_def)

lemma fund_exec_ranged:
  assumes "fund_ranged (fund_st w)" and "fund_exec (e, c) w = Inr w'"
  shows "fund_ranged (fund_st w')"
proof (cases c)
  case (FApply k)
  then show ?thesis using assms fund_ranged_apply by auto
next
  case FGetRate
  then show ?thesis using assms
    by (auto simp: bnd_eq_Inr fund_ranged_def fund_storage_defs
        dest!: fund_get_current_rate_effect(1))
qed (use assms in \<open>auto simp: fund_initialize_def fund_set_funding_interval_def fund_ranged_def
      fund_set_max_rate_def Let_def inv_simps fund_storage_defs split: if_splits\<close>)

text \<open>A change of times to live keeps the stored amounts.\<close>

lemma ranged_same_books:
  assumes "same_books w w'"
  shows "oracle_ranged (oracle_st w') = oracle_ranged (oracle_st w)"
    and "vault_ranged (vault_st w') = vault_ranged (vault_st w)"
    and "pm_ranged (pm_st w') = pm_ranged (pm_st w)"
proof -
  have "p_min_collateral (pm_st w') = p_min_collateral (pm_st w)"
    using assms by (cases "pm_st w"; cases "pm_st w'"; simp add: same_books_def)
  then show "oracle_ranged (oracle_st w') = oracle_ranged (oracle_st w)"
    and "vault_ranged (vault_st w') = vault_ranged (vault_st w)"
    and "pm_ranged (pm_st w') = pm_ranged (pm_st w)"
    using same_booksD [OF assms] by (simp_all add: oracle_ranged_def vault_ranged_def pm_ranged_def)
qed

section \<open>What each contract's transactions leave alone\<close>

definition vault_only :: "('t, 'm) vault_world_scheme \<Rightarrow> ('t, 'm) vault_world_scheme \<Rightarrow> bool" where
  "vault_only w w' \<longleftrightarrow>
     w' = w\<lparr>events := events w', ledger := ledger w', vault_st := vault_st w'\<rparr>"

lemma vault_only_refl [simp]: "vault_only w w"
  by (simp add: vault_only_def)

lemma vault_only_writes [simp]:
  "vault_only w (vault_bump_instance v) \<longleftrightarrow> vault_only w v"
  "vault_only w (snd (vault_read_share_balance a v)) \<longleftrightarrow> vault_only w v"
  "vault_only w (v\<lparr>ledger := t\<rparr>) \<longleftrightarrow> vault_only w v"
  "vault_only w (publish e topics d v) \<longleftrightarrow> vault_only w v"
  "vault_only w (vault_set_total_shares x v) \<longleftrightarrow> vault_only w v"
  "vault_only w (vault_set_total_deposits x v) \<longleftrightarrow> vault_only w v"
  "vault_only w (vault_set_locked_liquidity x v) \<longleftrightarrow> vault_only w v"
  "vault_only w (vault_set_share_balance a x v) \<longleftrightarrow> vault_only w v"
  "vault_only w (vault_set_admin y v) \<longleftrightarrow> vault_only w v"
  "vault_only w (vault_set_usdc_token y v) \<longleftrightarrow> vault_only w v"
  "vault_only w (vault_store_max_utilization m v) \<longleftrightarrow> vault_only w v"
  "vault_only w (vault_store_position_manager y v) \<longleftrightarrow> vault_only w v"
  by (cases w; cases v; simp add: vault_only_def vault_storage_defs publish_def Let_def)+

lemma vault_only_emits [simp]:
  "vault_only w (emit_deposit e d x s v) \<longleftrightarrow> vault_only w v"
  "vault_only w (emit_withdraw e d s x v) \<longleftrightarrow> vault_only w v"
  "vault_only w (emit_liquidity_locked e x v) \<longleftrightarrow> vault_only w v"
  "vault_only w (emit_liquidity_unlocked e x v) \<longleftrightarrow> vault_only w v"
  "vault_only w (emit_pnl_settled e d x v) \<longleftrightarrow> vault_only w v"
  "vault_only w (emit_fee_collected e x v) \<longleftrightarrow> vault_only w v"
  by (simp_all add: emit_deposit_def emit_withdraw_def emit_liquidity_locked_def
      emit_liquidity_unlocked_def emit_pnl_settled_def emit_fee_collected_def)

lemma vault_only_ops:
  "vault_initialize a u m w = Inr w' \<Longrightarrow> vault_only w w'"
  "vault_lock_liquidity e c n w = Inr w' \<Longrightarrow> vault_only w w'"
  "vault_unlock_liquidity e c n w = Inr w' \<Longrightarrow> vault_only w w'"
  "vault_collect_fee e c n w = Inr w' \<Longrightarrow> vault_only w w'"
  "vault_set_position_manager e a p' w = Inr w' \<Longrightarrow> vault_only w w'"
  "vault_set_max_utilization e a m w = Inr w' \<Longrightarrow> vault_only w w'"
  by (auto simp: vault_lock_liquidity_eq_Inr
      vault_unlock_liquidity_eq_Inr vault_collect_fee_eq_Inr vault_initialize_def
      vault_set_position_manager_def vault_set_max_utilization_def inv_simps Let_def
      split: if_splits)

lemma vault_only_transfers:
  "vault_deposit tk e d x w = Inr (s, w') \<Longrightarrow> vault_only w w'"
  "vault_withdraw tk e d s w = Inr (x, w') \<Longrightarrow> vault_only w w'"
  "vault_close_position_settlement tk e c t n x p f w = Inr w' \<Longrightarrow> vault_only w w'"
  by (force simp: vault_deposit_eq_Inr, force simp: vault_withdraw_eq_Inr,
     force simp: vault_close_position_settlement_eq_Inr)

lemma vault_only_settle_pnl:
  "vault_settle_pnl tk e c t x w = Inr w' \<Longrightarrow> vault_only w w'"
  by (auto simp: vault_settle_pnl_def inv_simps Let_def split: if_splits)

lemma vault_exec_only:
  assumes "vault_exec tk (e, c) w = Inr w'"
  shows "vault_only w w'"
  using assms
  by (cases c) (auto simp: bnd_eq_Inr vault_view_share_balance_def
      intro: vault_only_ops vault_only_transfers vault_only_settle_pnl)

lemma vault_only_frame:
  fixes w :: "('t, 'm) liq_world_scheme"
  assumes "vault_only w w'"
  shows "oracle_st w' = oracle_st w" "pm_st w' = pm_st w" "fund_st w' = fund_st w"
    "liq_st w' = liq_st w"
  using assms by (cases w; cases w'; simp add: vault_only_def)+

text \<open>The position manager writes its own store, the vault's, the oracle's time to live and the host.\<close>

definition pm_only :: "('t, 'm) pm_world_scheme \<Rightarrow> ('t, 'm) pm_world_scheme \<Rightarrow> bool" where
  "pm_only w w' \<longleftrightarrow> o_prices (oracle_st w') = o_prices (oracle_st w) \<and>
     o_staleness (oracle_st w') = o_staleness (oracle_st w) \<and>
     w' = w\<lparr>events := events w', ledger := ledger w', oracle_st := oracle_st w',
       vault_st := vault_st w', pm_st := pm_st w'\<rparr>"

lemma pm_only_refl [simp]: "pm_only w w"
  by (simp add: pm_only_def)

lemma pm_only_writes [simp]:
  "pm_only w (oracle_bump_instance v) \<longleftrightarrow> pm_only w v"
  "pm_only w (pm_bump_instance v) \<longleftrightarrow> pm_only w v"
  "pm_only w (snd (pm_load_position t i v)) \<longleftrightarrow> pm_only w v"
  "pm_only w (v\<lparr>ledger := x\<rparr>) \<longleftrightarrow> pm_only w v"
  "pm_only w (v\<lparr>pm_st := y\<rparr>) \<longleftrightarrow> pm_only w v"
  "pm_only w (publish e topics d v) \<longleftrightarrow> pm_only w v"
  by (cases w; cases v; simp add: pm_only_def oracle_bump_instance_def pm_bump_instance_def
      pm_load_position_def publish_def Let_def)+

lemma pm_only_sets [simp]:
  "pm_only w (pm_save_position t i p v) \<longleftrightarrow> pm_only w v"
  "pm_only w (pm_remove_position t i v) \<longleftrightarrow> pm_only w v"
  "pm_only w (pm_set_trader_position_count t n v) \<longleftrightarrow> pm_only w v"
  "pm_only w (pm_drop_position_count t v) \<longleftrightarrow> pm_only w v"
  "pm_only w (emit_position_opened e t i d sz c x l f v) \<longleftrightarrow> pm_only w v"
  "pm_only w (emit_position_closed e t i x r f v) \<longleftrightarrow> pm_only w v"
  by (simp_all add: pm_save_position_def pm_remove_position_def pm_set_trader_position_count_def
      pm_drop_position_count_def emit_position_opened_def emit_position_closed_def Let_def)

lemma pm_only_vault: "vault_only v v' \<Longrightarrow> pm_only w v \<Longrightarrow> pm_only w v'"
  unfolding vault_only_def pm_only_def by (cases w; cases v; cases v') simp

lemma pm_only_oi:
  "pm_add_open_interest d n v = Inr v' \<Longrightarrow> pm_only w v' \<longleftrightarrow> pm_only w v"
  "pm_sub_open_interest d n v = Inr v' \<Longrightarrow> pm_only w v' \<longleftrightarrow> pm_only w v"
  by (auto simp: pm_add_open_interest_def pm_sub_open_interest_def inv_simps pm_set_oi_long_def
      pm_set_oi_short_def split: direction.splits)

lemma pm_only_open:
  assumes "pm_open_position tk e t asset d c l w = Inr (i, w')"
  shows "pm_only w w'"
  using pm_open_positionE [OF assms]
proof cases
  case (1 price fee usdc tok w2 w3 w4 w5)
  have "pm_only w w2" by (rule pm_only_vault [OF vault_only_ops(2) [OF 1(10)]]) simp
  then have "pm_only w w3" by (rule pm_only_vault [OF vault_only_ops(4) [OF 1(11)]])
  then show ?thesis
    using 1(12) pm_only_oi(1) [OF 1(13)] by (simp add: 1(15) pm_increment_eq_Inr)
qed

lemma pm_only_close:
  assumes "pm_close_position tk e t i asset w = Inr (r, w')"
  shows "pm_only w w'"
  using pm_close_positionE [OF assms]
proof cases
  case (1 pos price w1 pnl fee w2 w3)
  have "pm_only w w2"
    by (rule pm_only_vault [OF vault_only_transfers(3) [OF 1(10)]])
      (simp add: pm_query_loaded(1) [OF 1(5)])
  then show ?thesis
    using pm_only_oi(2) [OF 1(11)] by (simp add: 1(12))
qed

lemma pm_only_liquidate:
  assumes "pm_liquidate_position tk e c t i asset w = Inr ((m, p), w')"
  shows "pm_only w w'"
  using pm_liquidate_positionE [OF assms]
proof cases
  case (1 pos price w1 w2 w3)
  have "pm_only w w2"
    by (rule pm_only_vault [OF vault_only_transfers(3) [OF 1(9)]])
      (simp add: pm_query_loaded(1) [OF 1(5)])
  then show ?thesis
    using pm_only_oi(2) [OF 1(10)] by (simp add: 1(11))
qed

lemma pm_only_config:
  "pm_initialize a v orc u fo fc l m w = Inr w' \<Longrightarrow> pm_only w w'"
  "pm_set_fee_rates e a fo fc w = Inr w' \<Longrightarrow> pm_only w w'"
  "pm_set_max_leverage e a l w = Inr w' \<Longrightarrow> pm_only w w'"
  "pm_set_liquidation_engine e a le w = Inr w' \<Longrightarrow> pm_only w w'"
  "pm_set_funding_address e a fa w = Inr w' \<Longrightarrow> pm_only w w'"
  by (auto simp: pm_initialize_def pm_set_fee_rates_def pm_set_max_leverage_def
      pm_set_liquidation_engine_def pm_set_funding_address_def Let_def inv_simps pm_set_admin_def
      pm_set_vault_def pm_set_oracle_def pm_set_usdc_token_def pm_set_open_fee_rate_def
      pm_set_close_fee_rate_def pm_store_max_leverage_def pm_set_min_collateral_def
      pm_set_oi_long_def pm_set_oi_short_def pm_store_liquidation_engine_def pm_set_funding_def
      split: if_splits)

lemma pm_exec_only:
  assumes "pm_exec tk (e, c) w = Inr w'"
  shows "pm_only w w'"
  using assms
  by (cases c) (auto simp: bnd_eq_Inr pm_get_position_eq_Inr pm_get_unrealized_quoted
      intro: pm_only_open pm_only_close pm_only_liquidate pm_only_config)

lemma pm_only_frame:
  fixes w :: "('t, 'm) liq_world_scheme"
  assumes "pm_only w w'"
  shows "fund_st w' = fund_st w" "liq_st w' = liq_st w"
    "o_prices (oracle_st w') = o_prices (oracle_st w)"
    "o_staleness (oracle_st w') = o_staleness (oracle_st w)"
  using assms by (cases w; cases w'; simp add: pm_only_def)+

section \<open>Every step of the world\<close>

lemma fund_st_reads [simp]:
  fixes w :: "('t, 'm) fund_world_scheme"
  shows "fund_st (oracle_bump_instance w) = fund_st w"
    "fund_st (snd (pm_load_position t i w)) = fund_st w"
  by (simp_all add: oracle_bump_instance_def pm_load_position_def Let_def)

lemma fund_st_liq_bump [simp]: "fund_st (liq_bump_instance w) = fund_st w"
  by (simp add: liq_bump_instance_def)

lemma liq_liquidate_ranged:
  assumes st: "sys_ranged w" and run: "liq_liquidate tk e k t i asset w = Inr w'"
  shows "sys_ranged w'"
  using run
proof (rule liq_liquidateE)
  fix pos price raw m pnl w1 penalty reward
  assume close: "pm_liquidate_position tk (subcall e (p_self (pm_st w))) (e_self e) t i asset
       (inspected t i w) = Inr ((m, pnl), w1)"
    and w': "w' = emit_liquidation e t i k price (margin_bps pos raw) penalty reward w1"
  note v = ranged_same_books [OF inspected_same_books [of w t i]]
  note frame = pm_only_frame [OF pm_only_liquidate [OF close]]
  have "pm_ranged (pm_st w1) \<and> vault_ranged (vault_st w1)"
    by (rule pm_ranged_liquidate [OF _ _ close]) (use st v in \<open>auto simp: sys_ranged_def\<close>)
  moreover have "oracle_ranged (oracle_st w1)"
    using st v(1) frame(3) by (simp add: sys_ranged_def oracle_ranged_def)
  moreover have "fund_st w1 = fund_st w" using frame(1) by simp
  ultimately show ?thesis
    using st by (simp add: sys_ranged_def w' emit_liquidation_def publish_def)
qed

lemma liq_exec_fund:
  assumes "liq_exec tk (e, c) w = Inr w'" and "\<And>k t i asset. c \<noteq> LLiquidate k t i asset"
  shows "fund_st w' = fund_st w"
proof (cases c)
  case (LGetMarginRatio t i asset)
  then show ?thesis using assms by (auto simp: bnd_eq_Inr liq_get_margin_ratio_eq_Inr)
next
  case (LIsLiquidatable t i asset)
  then show ?thesis using assms by (auto simp: bnd_eq_Inr liq_is_liquidatable_eq_Inr)
qed (use assms in \<open>auto simp: liq_initialize_def liq_set_maintenance_margin_def
      liq_set_liquidation_penalty_def liq_set_keeper_reward_def Let_def inv_simps liq_storage_defs
      split: if_splits\<close>)

lemma liq_exec_ranged:
  assumes st: "sys_ranged w" and run: "liq_exec tk (e, c) w = Inr w'"
  shows "sys_ranged w'"
proof (cases "\<exists>k t i asset. c = LLiquidate k t i asset")
  case True
  then show ?thesis using run liq_liquidate_ranged [OF st] by auto
next
  case False
  then have other: "\<And>k t i asset. c \<noteq> LLiquidate k t i asset" by blast
  show ?thesis
    using ranged_same_books [OF liq_exec_books [OF run other]] liq_exec_fund [OF run other] st
    by (simp add: sys_ranged_def)
qed

lemma tx_keeps_ranged:
  fixes w :: "('t, 'm) liq_world_scheme"
  assumes st: "sys_ranged w" and typed: "tx_typed x" and run: "sys_exec tk (h, x) w = Inr w'"
  shows "sys_ranged w'"
proof -
  have parts: "oracle_ranged (oracle_st w)" "vault_ranged (vault_st w)" "pm_ranged (pm_st w)"
      "fund_ranged (fund_st w)"
    using st by (simp_all add: sys_ranged_def)
  show ?thesis
  proof (cases x)
    case (OracleTx c)
    then have c: "oracle_exec (entry h (o_self (oracle_st w)), c) w = Inr w'" using run by simp
    show ?thesis
      using oracle_exec_ranged [OF parts(1) _ c] typed OracleTx oracle_exec_frame [OF c] parts
      by (simp add: sys_ranged_def)
  next
    case (VaultTx c)
    then have c: "vault_exec tk (entry h (v_self (vault_st w)), c) w = Inr w'" using run by simp
    show ?thesis
      using vault_exec_ranged [OF parts(2) c] vault_only_frame [OF vault_exec_only [OF c]] parts
      by (simp add: sys_ranged_def)
  next
    case (PmTx c)
    then have c: "pm_exec tk (entry h (p_self (pm_st w)), c) w = Inr w'" using run by simp
    show ?thesis
      using pm_exec_ranged [OF parts(3,2,1) _ c] typed PmTx pm_only_frame [OF pm_exec_only [OF c]]
        parts by (simp add: sys_ranged_def oracle_ranged_def)
  next
    case (FundTx c)
    then have c: "fund_exec (entry h (f_self (fund_st w)), c) w = Inr w'" using run by simp
    show ?thesis
      using fund_exec_ranged [OF parts(4) c] ranged_same_books [OF fund_exec_frame [OF c]] parts
      by (simp add: sys_ranged_def)
  next
    case (LiqTx c)
    then have "liq_exec tk (entry h (l_self (liq_st w)), c) w = Inr w'" using run by simp
    then show ?thesis by (rule liq_exec_ranged [OF st])
  qed
qed

lemma reach_ranged:
  assumes "sys_ranged w0" and "sys_reach tk u w0 w"
  shows "sys_ranged w"
  using assms(2)
proof induction
  case reach_start
  then show ?case using assms(1) .
next
  case (reach_step w w')
  from reach_step.hyps(2) show ?case
  proof (cases rule: sys_step.cases)
    case (sys_tx x h)
    then show ?thesis using tx_keeps_ranged reach_step.IH by blast
  next
    case (sys_tokens t)
    then show ?thesis using reach_step.IH by (simp add: sys_ranged_def)
  next
    case (sys_expiry asset)
    then show ?thesis using reach_step.IH by (auto simp: sys_ranged_def oracle_ranged_def)
  qed
qed

lemma sys_fresh_ranged: "sys_fresh w \<Longrightarrow> sys_ranged w"
  by (simp add: sys_fresh_def sys_ranged_def ranged_defs vault_fresh_def pm_fresh_def)

lemma sys_rangedD:
  assumes "sys_ranged w"
  shows "i128_ok (vault_get_total_shares w)" "i128_ok (vault_get_total_deposits w)"
    "i128_ok (vault_get_locked_liquidity w)" "i128_ok (vault_share_balance a w)"
    "i128_ok (pm_oi d w)"
    "o_prices (oracle_st w) asset = Some c \<Longrightarrow> i128_ok (cp_price c)"
    "p_positions (pm_st w) (t, i) = Some p \<Longrightarrow> position_ranged p"
    "i128_ok (fund_get_cumulative_funding_long w)" "i128_ok (fund_get_cumulative_funding_short w)"
  using assms
  by (auto simp: sys_ranged_def ranged_defs vault_storage_defs pm_oi_def pm_get_oi_long_def
      pm_get_oi_short_def fund_storage_defs split: direction.splits)

end
