(* ===== verification/Exit_Liveness.thy ===== *)
theory Exit_Liveness
  imports Stored_Range
begin

text \<open>
  Progress: who can always leave the exchange.  A trader can close a position, any keeper can
  liquidate one below the maintenance margin, and a liquidity provider can redeem shares when no
  liquidity is locked.  The hypotheses name what the contracts cannot guarantee themselves: the
  wiring the admin configured, a fresh price, cash that covers the claims, and a token that pays.
\<close>

section \<open>What progress relies on\<close>

text \<open>
  The documented behaviour of a token towards a holder that can receive it: an authorised transfer
  of an amount the payer has succeeds.
\<close>

definition payable :: "'t token \<Rightarrow> address \<Rightarrow> address \<Rightarrow> bool" where
  "payable tk u to \<longleftrightarrow> (\<forall>e from amount t. authorised e from \<longrightarrow> 0 \<le> amount \<longrightarrow>
     amount \<le> tok_balance tk u from t \<longrightarrow> (\<exists>t'. tok_transfer tk e u from to amount t = Inr t'))"

lemma payableD:
  "payable tk u to \<Longrightarrow> authorised e from \<Longrightarrow> 0 \<le> amount \<Longrightarrow> amount \<le> tok_balance tk u from t \<Longrightarrow>
     \<exists>t'. tok_transfer tk e u from to amount t = Inr t'"
  unfolding payable_def by blast

lemma plain_token_payable: "payable plain_token u to"
  by (auto simp: payable_def plain_token_def plain_transfer_def)

text \<open>The contracts wired to each other as a deployment does.\<close>

definition operational :: "address \<Rightarrow> ('t, 'm) liq_world_scheme \<Rightarrow> bool" where
  "operational u w \<longleftrightarrow>
     v_usdc (vault_st w) = Some u \<and> v_pm (vault_st w) = Some (p_self (pm_st w)) \<and>
     p_vault (pm_st w) = Some (v_self (vault_st w)) \<and>
     p_oracle (pm_st w) = Some (o_self (oracle_st w)) \<and>
     p_liq_engine (pm_st w) = Some (l_self (liq_st w)) \<and>
     l_pm (liq_st w) = Some (p_self (pm_st w)) \<and> l_oracle (liq_st w) = Some (o_self (oracle_st w))"

text \<open>The vault's cash covers the deposits of the LPs and the collateral of the traders.\<close>

definition solvent :: "'t token \<Rightarrow> address \<Rightarrow> ('t, 'm) liq_world_scheme \<Rightarrow> bool" where
  "solvent tk u w \<longleftrightarrow> vault_get_total_deposits w + msum pos_collateral (p_positions (pm_st w))
     \<le> tok_balance tk u (v_self (vault_st w)) (ledger w)"

section \<open>A position can be settled\<close>

lemma position_share:
  assumes inv: "pm_inv w" and pos: "p_positions (pm_st w) (t, i) = Some pos"
    and nonneg: "\<And>k p. p_positions (pm_st w) k = Some p \<Longrightarrow> 0 \<le> f p"
  shows "f pos \<le> msum f (p_positions (pm_st w))"
  using contrib_le_msum [where k = "(t, i)" and f = f, OF pm_invD(1) [OF inv] nonneg] pos by simp

lemma position_ok_at:
  "pm_inv w \<Longrightarrow> p_positions (pm_st w) k = Some p \<Longrightarrow>
     0 < pos_size p \<and> 0 < pos_collateral p \<and> 0 < pos_entry_price p \<and> pos_collateral p \<le> pos_size p"
proof -
  assume "pm_inv w" and "p_positions (pm_st w) k = Some p"
  then have ok: "position_ok (fst k) (snd k) p" using pm_invD(2) [of w "fst k" "snd k" p] by simp
  then have "0 < pos_collateral p" and "0 < pos_collateral p * u32_as_i128 (pos_leverage p)"
    by (auto simp: position_ok_def)
  then have "1 \<le> u32_as_i128 (pos_leverage p)" by (simp add: zero_less_mult_iff)
  then have "pos_collateral p * 1 \<le> pos_collateral p * u32_as_i128 (pos_leverage p)"
    using ok by (intro mult_left_mono) (auto simp: position_ok_def)
  then show ?thesis using ok by (simp add: position_ok_def)
qed

text \<open>
  The state a trader or a keeper acts on: reachable, wired and solvent, with an open position
  whose profit the LPs' deposits cover, and amounts far from the end of the range.
\<close>

definition exit_ready ::
  "'t token \<Rightarrow> address \<Rightarrow> ('t, 'm) liq_world_scheme \<Rightarrow> address \<Rightarrow> u64 \<Rightarrow> position \<Rightarrow> bool" where
  "exit_ready tk u w t i pos \<longleftrightarrow> sys_inv u w \<and> sys_ranged w \<and>
     vault_get_locked_liquidity w = msum pos_size (p_positions (pm_st w)) \<and>
     operational u w \<and> solvent tk u w \<and> payable tk u t \<and>
     p_positions (pm_st w) (t, i) = Some pos \<and> pos_size pos < 2 ^ 95 \<and>
     vault_get_total_deposits w < 2 ^ 126"

lemma exit_readyD:
  assumes "exit_ready tk u w t i pos"
  shows "pm_inv w" "vault_inv w" "sys_ranged w"
    "vault_get_locked_liquidity w = msum pos_size (p_positions (pm_st w))"
    "operational u w" "solvent tk u w" "payable tk u t"
    "p_positions (pm_st w) (t, i) = Some pos" "pos_size pos < 2 ^ 95"
    "vault_get_total_deposits w < 2 ^ 126"
  using assms by (auto simp: exit_ready_def sys_inv_def)

lemma exit_position:
  assumes "exit_ready tk u w t i pos"
  shows "0 < pos_size pos" "0 < pos_collateral pos" "pos_collateral pos \<le> pos_size pos"
  "pos_size pos \<le> vault_get_locked_liquidity w"
  "pos_size pos \<le> pm_oi (pos_direction pos) w"
  "pos_collateral pos \<le> msum pos_collateral (p_positions (pm_st w))"
proof -
  note r = exit_readyD [OF assms] and pm = exit_readyD(1) [OF assms]
  note open_pos = r(8) and ok = position_ok_at [OF pm]
  show "0 < pos_size pos" "0 < pos_collateral pos" "pos_collateral pos \<le> pos_size pos"
    using ok [OF open_pos] by simp_all
  show "pos_size pos \<le> vault_get_locked_liquidity w"
    unfolding r(4) using position_share [OF pm open_pos, of pos_size] ok by (simp add: less_imp_le)
  show "pos_collateral pos \<le> msum pos_collateral (p_positions (pm_st w))"
    using position_share [OF pm open_pos, of pos_collateral] ok by (simp add: less_imp_le)
  have "side (pos_direction pos) pos \<le> pm_oi (pos_direction pos) w"
    unfolding pm_invD(5) [OF pm] using ok
    by (intro position_share [OF pm open_pos]) (auto simp: side_def less_imp_le)
  then show "pos_size pos \<le> pm_oi (pos_direction pos) w" by (simp add: side_def)
qed

lemma settle_possible:
  assumes ready: "exit_ready tk u w t i pos" and "- pos_collateral pos \<le> pnl" and "pnl \<le> vault_get_total_deposits w"
    and "0 \<le> fee" and "fee < 2 ^ 114"
    and e: "e_self e = p_self (pm_st w)"
    and w1: "vault_st w1 = vault_st w" "ledger w1 = ledger w"
  shows "\<exists>w2. vault_close_position_settlement tk (subcall e (v_self (vault_st w))) (e_self e) t
      (pos_size pos) (pos_collateral pos) pnl fee w1 = Inr w2"
proof -
  let ?D = "vault_get_total_deposits w" and ?L = "vault_get_locked_liquidity w"
  let ?v = "v_self (vault_st w)" and ?n = "settlement_payout (pos_collateral pos) pnl fee"
  note r = exit_readyD [OF ready] and p = exit_position [OF ready]
  have reads: "vault_get_total_deposits w1 = ?D" "vault_get_locked_liquidity w1 = ?L"
    by (simp_all add: vault_storage_defs w1)
  have D: "0 \<le> ?D" using r(2) by (rule vault_invD(3))
  have L: "i128_ok ?L" by (rule sys_rangedD(3) [OF r(3)])
  have ok: "i128_ok (?L - pos_size pos)" "i128_ok (?D - pnl)" "i128_ok (?D - pnl + fee)"
      "i128_ok (pos_collateral pos + pnl)" "i128_ok ?n" "0 \<le> ?D - pnl + fee"
    using L D p assms(2-5) r(9,10) by (simp_all add: i128_ok_def)
  have "\<exists>t'. tok_transfer tk (subcall (subcall e ?v) u) u ?v t ?n (ledger w) = Inr t'" if "0 < ?n"
  proof (rule payableD [OF r(7)])
    show "authorised (subcall (subcall e ?v) u) ?v" by (simp add: authorised_def)
    show "?n \<le> tok_balance tk u ?v (ledger w)"
      using r(6) p(6) assms(3,4) by (simp add: solvent_def)
  qed (use that in simp)
  then show ?thesis
    using ok p(4) r(5)
    by (auto simp: vault_close_position_settlement_eq_Inr reads w1 operational_def e
        authorised_def)
qed

lemma interest_possible:
  assumes ready: "exit_ready tk u w t i pos" and "p_oi_long (pm_st w2) = p_oi_long (pm_st w)" and "p_oi_short (pm_st w2) = p_oi_short (pm_st w)"
  shows "\<exists>w3. pm_sub_open_interest (pos_direction pos) (pos_size pos) w2 = Inr w3"
proof -
  have "i128_ok (pm_oi (pos_direction pos) w)" by (rule sys_rangedD(5) [OF exit_readyD(3) [OF ready]])
  then have "i128_ok (pm_oi (pos_direction pos) w2 - pos_size pos)"
    using exit_position(1,5) [OF ready] pm_oi_cong [OF assms(2,3)] by (simp add: i128_ok_def)
  then show ?thesis
    by (cases "pos_direction pos") (auto simp: pm_sub_open_interest_def inv_simps pm_oi_def)
qed

section \<open>A trader can close, a keeper can liquidate\<close>

lemma capped_possible:
  assumes "calculate_pnl (pos_direction pos) (pos_size pos) (pos_entry_price pos) price = Inr raw"
    and "0 < pos_collateral pos" and "pos_collateral pos < 2 ^ 95"
  shows "capped_pnl pos price = Inr (max raw (- pos_collateral pos))"
proof -
  have "i128_neg (pos_collateral pos) = Inr (- pos_collateral pos)"
    using assms(2,3) by (simp add: inv_simps i128_ok_def)
  then show ?thesis using assms(1) by (simp add: capped_pnl_def max_def)
qed

lemma fee_possible:
  assumes "0 < n" and "n < 2 ^ 95"
  obtains f where "calculate_fee n bps = Inr f" and "0 \<le> f" and "f < 2 ^ 114"
proof -
  have bps: "u32_as_i128 bps < 2 ^ 32"
    using uint_bounded [of bps] by (simp add: u32_as_i128_def)
  have "n * u32_as_i128 bps \<le> n * 2 ^ 32" using assms bps by (intro mult_left_mono) auto
  also have "\<dots> < 2 ^ 95 * 2 ^ 32" using assms by (intro mult_strict_right_mono) auto
  finally have hi: "n * u32_as_i128 bps < 2 ^ 127" by simp
  have lo: "0 \<le> n * u32_as_i128 bps" using assms by simp
  let ?f = "n * u32_as_i128 bps div 10000"
  have "0 \<le> ?f" and "?f < 2 ^ 114" using lo hi by (simp_all add: pos_imp_zdiv_nonneg_iff)
  moreover have "calculate_fee n bps = Inr ?f"
    using lo hi calculation by (simp add: calculate_fee_eq_Inr i128_ok_def sdiv_nonneg)
  ultimately show ?thesis using that by blast
qed

lemma query_possible:
  assumes "quoted e asset w price" and "p_oracle (pm_st w) = Some (o_self (oracle_st w))"
  shows "pm_query_price e asset (loaded t i w) = Inr (price, oracle_bump_instance (loaded t i w))"
  using assms
  by (auto simp: pm_query_price_eq_Inr oracle_get_price_value_quoted quoted_def
      oracle_get_staleness_threshold_def)

lemma loaded_cells:
  "vault_st (oracle_bump_instance (loaded t i w)) = vault_st w"
  "ledger (oracle_bump_instance (loaded t i w)) = ledger w"
  "p_oi_long (pm_st (oracle_bump_instance (loaded t i w))) = p_oi_long (pm_st w)"
  "p_oi_short (pm_st (oracle_bump_instance (loaded t i w))) = p_oi_short (pm_st w)"
  "p_vault (pm_st (oracle_bump_instance (loaded t i w))) = p_vault (pm_st w)"
  by (simp_all add: oracle_bump_instance_def pm_bump_instance_def pm_load_position_def Let_def)

text \<open>The common part of both: the settlement and the update of open interest succeed.\<close>

lemma closing_possible:
  assumes ready: "exit_ready tk u w t i pos"
    and pnl: "- pos_collateral pos \<le> pnl" "pnl \<le> vault_get_total_deposits w"
    and fee: "0 \<le> fee" "fee < 2 ^ 114" and e: "e_self e = p_self (pm_st w)"
  obtains w2 w3 where
    "vault_close_position_settlement tk (subcall e (v_self (vault_st w))) (e_self e) t
       (pos_size pos) (pos_collateral pos) pnl fee (oracle_bump_instance (loaded t i w)) = Inr w2"
    and "pm_sub_open_interest (pos_direction pos) (pos_size pos) (pm_remove_position t i w2) = Inr w3"
proof -
  obtain w2 where w2: "vault_close_position_settlement tk (subcall e (v_self (vault_st w))) (e_self e) t
       (pos_size pos) (pos_collateral pos) pnl fee (oracle_bump_instance (loaded t i w)) = Inr w2"
    using settle_possible [OF ready pnl fee e loaded_cells(1,2)] by blast
  obtain w3 where "pm_sub_open_interest (pos_direction pos) (pos_size pos)
      (pm_remove_position t i w2) = Inr w3"
    using interest_possible [OF ready, of "pm_remove_position t i w2"] vault_settle_frame(1) [OF w2]
      loaded_cells(3,4) [of t i w] by (auto simp: pm_remove_position_def)
  then show ?thesis using w2 that by blast
qed

lemma pm_close_possible:
  assumes ready: "exit_ready tk u w t i pos" and auth: "authorised e t"
    and e: "e_self e = p_self (pm_st w)" and quote: "quoted e (pos_asset pos) w price"
    and raw: "calculate_pnl (pos_direction pos) (pos_size pos) (pos_entry_price pos) price = Inr raw"
    and covered: "raw \<le> vault_get_total_deposits w"
  shows "\<exists>r w'. pm_close_position tk e t i (pos_asset pos) w = Inr (r, w')"
proof -
  note r = exit_readyD [OF ready] and p = exit_position [OF ready]
  let ?pnl = "max raw (- pos_collateral pos)" and ?w1 = "oracle_bump_instance (loaded t i w)"
  have c: "pos_collateral pos < 2 ^ 95" using p(3) r(9) by linarith
  have D: "0 \<le> vault_get_total_deposits w" using r(2) by (rule vault_invD(3))
  obtain f where f: "calculate_fee (pos_size pos) (pm_get_close_fee_rate w) = Inr f"
      "0 \<le> f" "f < 2 ^ 114" using fee_possible [OF p(1) r(9)] by blast
  have pnl: "- pos_collateral pos \<le> ?pnl" "?pnl \<le> vault_get_total_deposits w"
    using covered p(2) D by auto
  obtain w2 w3 where close:
    "vault_close_position_settlement tk (subcall e (v_self (vault_st w))) (e_self e) t
       (pos_size pos) (pos_collateral pos) ?pnl f ?w1 = Inr w2"
    "pm_sub_open_interest (pos_direction pos) (pos_size pos) (pm_remove_position t i w2) = Inr w3"
    using closing_possible [OF ready pnl f(2,3) e] .
  have "position_ok t i pos" using pm_invD(2) [OF r(1) r(8)] .
  then have trader: "pos_trader pos = t" by (simp add: position_ok_def)
  have net: "i128_sub ?pnl f = Inr (?pnl - f)"
    unfolding i128_sub_eq_Inr i128_ok_def using pnl f(2,3) c r(10) by auto
  have "p_oracle (pm_st w) = Some (o_self (oracle_st w))"
    and vault: "pm_get_vault w = Inr (v_self (vault_st w))"
    using r(5) by (simp_all add: operational_def pm_get_vault_def)
  note query = query_possible [OF quote this(1), of t i]
  show ?thesis
    using auth
    by (simp add: pm_close_position_def Let_def require_auth_def prod.case_eq_if r(8) trader query
        capped_possible [OF raw p(2) c] f(1) net vault contract_at_def close)
qed

lemma pm_liquidate_possible:
  assumes ready: "exit_ready tk u w t i pos" and auth: "authorised e c"
    and engine: "p_liq_engine (pm_st w) = Some c"
    and e: "e_self e = p_self (pm_st w)" and quote: "quoted e (pos_asset pos) w price"
    and raw: "calculate_pnl (pos_direction pos) (pos_size pos) (pos_entry_price pos) price = Inr raw"
    and covered: "raw \<le> vault_get_total_deposits w"
  shows "\<exists>w'. pm_liquidate_position tk e c t i (pos_asset pos) w
           = Inr ((pos_collateral pos, max raw (- pos_collateral pos)), w')"
proof -
  note r = exit_readyD [OF ready] and p = exit_position [OF ready]
  let ?pnl = "max raw (- pos_collateral pos)" and ?w1 = "oracle_bump_instance (loaded t i w)"
  have col: "pos_collateral pos < 2 ^ 95" using p(3) r(9) by linarith
  have "0 \<le> vault_get_total_deposits w" using r(2) by (rule vault_invD(3))
  then have pnl: "- pos_collateral pos \<le> ?pnl" "?pnl \<le> vault_get_total_deposits w"
    using covered p(2) by auto
  obtain w2 w3 where close:
    "vault_close_position_settlement tk (subcall e (v_self (vault_st w))) (e_self e) t
       (pos_size pos) (pos_collateral pos) ?pnl 0 ?w1 = Inr w2"
    "pm_sub_open_interest (pos_direction pos) (pos_size pos) (pm_remove_position t i w2) = Inr w3"
    using closing_possible [OF ready pnl _ _ e, of 0] by auto
  have "p_oracle (pm_st w) = Some (o_self (oracle_st w))"
    and vault: "pm_get_vault w = Inr (v_self (vault_st w))"
    using r(5) by (simp_all add: operational_def pm_get_vault_def)
  note query = query_possible [OF quote this(1), of t i]
  show ?thesis
    using auth
    by (simp add: pm_liquidate_position_def Let_def require_auth_def prod.case_eq_if r(8) query
        capped_possible [OF raw p(2) col] vault contract_at_def close
        pm_get_liquidation_engine_def engine)
qed

lemma exit_ready_inspected:
  assumes "exit_ready tk u w t i pos"
  shows "exit_ready tk u (inspected t j w) t i pos"
proof -
  let ?v = "inspected t j w"
  note b = inspected_same_books [of w t j]
  note d = same_booksD [OF b] and v = same_books_values [OF b]
  have "sys_ranged ?v"
    using assms ranged_same_books [OF b] by (simp add: exit_ready_def sys_ranged_def)
  moreover have "operational u ?v"
    using assms by (simp add: exit_ready_def operational_def d) (simp add: liq_bump_instance_def)
  ultimately show ?thesis
    using assms sys_inv_same_books [OF _ b] by (simp add: exit_ready_def solvent_def d v)
qed

lemma capped_share_possible:
  assumes "0 \<le> c" and "c < 2 ^ 95"
  obtains x where "liq_capped_share c (u32_as_i128 bps) eq = Inr x"
proof -
  have "u32_as_i128 bps < 2 ^ 32"
    using uint_bounded [of bps] by (simp add: u32_as_i128_def)
  then have "c * u32_as_i128 bps \<le> c * 2 ^ 32" using assms by (intro mult_left_mono) auto
  also have "\<dots> < 2 ^ 95 * 2 ^ 32" using assms by (intro mult_strict_right_mono) auto
  finally have hi: "c * u32_as_i128 bps < 2 ^ 127" by simp
  have lo: "0 \<le> c * u32_as_i128 bps" using assms by simp
  have "0 \<le> c * u32_as_i128 bps div 10000" and "c * u32_as_i128 bps div 10000 < 2 ^ 127"
    using lo hi by (simp_all add: pos_imp_zdiv_nonneg_iff)
  then have "i128_mul c (u32_as_i128 bps) = Inr (c * u32_as_i128 bps)"
    and "i128_div (c * u32_as_i128 bps) 10000 = Inr (c * u32_as_i128 bps div 10000)"
    using lo hi by (simp_all add: inv_simps i128_ok_def sdiv_nonneg)
  then show ?thesis using that by (cases "0 < eq") (simp_all add: liq_capped_share_def)
qed

lemma liq_liquidate_possible:
  assumes ready: "exit_ready tk u w t i pos" and auth: "authorised e k"
    and e: "e_self e = l_self (liq_st w)"
    and view: "liq_is_liquidatable e t i (pos_asset pos) w = Inr (True, w1)"
    and quote: "quoted e (pos_asset pos) w price"
    and raw: "calculate_pnl (pos_direction pos) (pos_size pos) (pos_entry_price pos) price = Inr raw"
    and covered: "raw \<le> vault_get_total_deposits w"
  shows "\<exists>w'. liq_liquidate tk e k t i (pos_asset pos) w = Inr w'"
proof -
  note r = exit_readyD [OF ready] and p = exit_position [OF ready]
  let ?v = "inspected t i w" and ?a = "pos_asset pos"
  note b = inspected_same_books [of w t i]
  have ops: "l_pm (liq_st w) = Some (p_self (pm_st w))" "l_oracle (liq_st w) = Some (o_self (oracle_st w))"
      "p_liq_engine (pm_st w) = Some (l_self (liq_st w))"
    using r(5) by (simp_all add: operational_def)
  obtain pos' price' raw' where m: "margin_at e t i ?a w pos' price' raw'"
      "margin_bps pos' raw' < u32_as_i128 (liq_get_maintenance_margin_rate w)"
    using view by (auto simp: liq_is_liquidatable_eq_Inr)
  have "pos' = pos" and "price' = price"
    using m(1) r(8) quoted_unique [OF quote, of price'] by (auto simp: margin_at_def)
  moreover from this have "raw' = raw"
    using m(1) raw by (auto simp: margin_at_def)
  ultimately have same: "pos' = pos" "price' = price" "raw' = raw" by auto
  have d: "p_self (pm_st ?v) = p_self (pm_st w)" "p_liq_engine (pm_st ?v) = Some (e_self e)"
      "e_self (subcall e (p_self (pm_st w))) = p_self (pm_st ?v)"
      "vault_get_total_deposits ?v = vault_get_total_deposits w"
      "quoted (subcall e (p_self (pm_st w))) ?a ?v price"
    using same_booksD [OF b] same_books_values(3) [OF b] quoted_same_books [OF b] ops(3) e quote
    by simp_all
  obtain w2 where w2: "pm_liquidate_position tk (subcall e (p_self (pm_st w))) (e_self e) t i ?a ?v
      = Inr ((pos_collateral pos, max raw (- pos_collateral pos)), w2)"
    using pm_liquidate_possible [OF exit_ready_inspected [OF ready] _ d(2,3,5) raw]
      covered d(4) by (auto simp: authorised_def)
  have col: "0 \<le> pos_collateral pos" "pos_collateral pos < 2 ^ 95" using p(2,3) r(9) by auto
  have equity: "i128_add (pos_collateral pos) (max raw (- pos_collateral pos))
      = Inr (pos_collateral pos + max raw (- pos_collateral pos))"
    unfolding i128_add_eq_Inr i128_ok_def using col covered r(10) by auto
  obtain x y where
    "liq_capped_share (pos_collateral pos) (u32_as_i128 (liq_get_liquidation_penalty w2))
       (pos_collateral pos + max raw (- pos_collateral pos)) = Inr x"
    "liq_capped_share (pos_collateral pos) (u32_as_i128 (liq_get_keeper_reward w2))
       (pos_collateral pos + max raw (- pos_collateral pos)) = Inr y"
    using capped_share_possible [OF col] by metis
  then show ?thesis
    using liq_liquidate_decided [OF auth ops(1,2) m(1), of tk] m(2) by (simp add: same w2 equity)
qed

section \<open>Properties\<close>

lemma reach_exit_ready:
  assumes "sep41 tk" and "sys_fresh w0" and "sys_reach tk u w0 w"
    and "operational u w" and "solvent tk u w" and "payable tk u t"
    and "p_positions (pm_st w) (t, i) = Some pos" and "pos_size pos < 2 ^ 95"
    and "vault_get_total_deposits w < 2 ^ 126"
  shows "exit_ready tk u w t i pos"
  using assms reach_inv [OF assms(1-3)] reach_locked [OF assms(1-3)]
    open_interest_is_size [OF reach_inv [OF assms(1-3)]]
    reach_ranged [OF sys_fresh_ranged [OF assms(2)] assms(3)]
  by (simp add: exit_ready_def)

text \<open>
  C15. A trader can always leave: in every reachable state of a wired exchange whose cash covers
  the claims, the owner's signature closes an open position at a fresh price, as long as the
  profit is covered by the LPs' deposits.  No other contract, no admin and no other trader can
  prevent it, and a loss beyond the collateral does not either.
\<close>

theorem trader_can_always_close:
  assumes "sep41 tk" and "sys_fresh w0" and "sys_reach tk u w0 w"
    and "operational u w" and "solvent tk u w" and "payable tk u (Account n)"
    and "p_positions (pm_st w) (Account n, i) = Some pos" and "n \<in> snd h"
    and "quoted (entry h (p_self (pm_st w))) (pos_asset pos) w price"
    and "calculate_pnl (pos_direction pos) (pos_size pos) (pos_entry_price pos) price = Inr raw"
    and "raw \<le> vault_get_total_deposits w"
    and "pos_size pos < 2 ^ 95" and "vault_get_total_deposits w < 2 ^ 126"
  shows "\<exists>w'. sys_exec tk (h, PmTx (PClose (Account n) i (pos_asset pos))) w = Inr w'
            \<and> sys_step tk u w w' \<and> p_positions (pm_st w') (Account n, i) = None"
proof -
  have ready: "exit_ready tk u w (Account n) i pos"
    using reach_exit_ready assms by blast
  have auth: "authorised (entry h (p_self (pm_st w))) (Account n)"
    using assms(8) by (simp add: authorised_entry)
  obtain r w' where run: "pm_close_position tk (entry h (p_self (pm_st w))) (Account n) i
      (pos_asset pos) w = Inr (r, w')"
    using pm_close_possible [OF ready auth _ assms(9-11)] by auto
  have gone: "p_positions (pm_st w') (Account n, i) = None"
    using pm_close_effect [OF run] closed_outD(2) by (metis fun_upd_same)
  have "sys_exec tk (h, PmTx (PClose (Account n) i (pos_asset pos))) w = Inr w'"
    using run by simp
  then show ?thesis
    using gone sys_tx [of u w "PmTx (PClose (Account n) i (pos_asset pos))" tk h w'] by auto
qed

text \<open>
  C16. A position the engine's view reports as liquidatable can be liquidated at once by any
  keeper who signs; neither the trader nor the admin is needed.  The state must be reachable, the
  contracts wired to each other (\<open>operational\<close>), the vault's cash at least the deposits and the
  collateral (\<open>solvent\<close>), the trader one the token can pay (\<open>payable\<close>), the position's profit no
  more than the deposits, and the position's size and the deposits below 2 to the power of 95 and
  of 126.
\<close>

theorem liquidatable_position_can_be_liquidated:
  assumes "sep41 tk" and "sys_fresh w0" and "sys_reach tk u w0 w"
    and "operational u w" and "solvent tk u w" and "payable tk u t"
    and "p_positions (pm_st w) (t, i) = Some pos" and "k \<in> snd h"
    and "liq_is_liquidatable (entry h (l_self (liq_st w))) t i (pos_asset pos) w = Inr (True, w1)"
    and "quoted (entry h (l_self (liq_st w))) (pos_asset pos) w price"
    and "calculate_pnl (pos_direction pos) (pos_size pos) (pos_entry_price pos) price = Inr raw"
    and "raw \<le> vault_get_total_deposits w"
    and "pos_size pos < 2 ^ 95" and "vault_get_total_deposits w < 2 ^ 126"
  shows "\<exists>w'. sys_exec tk (h, LiqTx (LLiquidate (Account k) t i (pos_asset pos))) w = Inr w'
            \<and> sys_step tk u w w' \<and> p_positions (pm_st w') (t, i) = None"
proof -
  have ready: "exit_ready tk u w t i pos"
    using reach_exit_ready assms by blast
  have auth: "authorised (entry h (l_self (liq_st w))) (Account k)"
    using assms(8) by (simp add: authorised_entry)
  obtain w' where run: "liq_liquidate tk (entry h (l_self (liq_st w))) (Account k) t i
      (pos_asset pos) w = Inr w'"
    using liq_liquidate_possible [OF ready auth _ assms(9-12)] by auto
  have gone: "p_positions (pm_st w') (t, i) = None"
    using liq_liquidate_effect [OF run] closed_outD(2) by (metis fun_upd_same)
  have "sys_exec tk (h, LiqTx (LLiquidate (Account k) t i (pos_asset pos))) w = Inr w'"
    using run by simp
  then show ?thesis
    using gone sys_tx [of u w "LiqTx (LLiquidate (Account k) t i (pos_asset pos))" tk h w'] by auto
qed

lemma withdraw_possible:
  assumes inv: "vault_inv w" and usdc: "v_usdc (vault_st w) = Some u" and pays: "payable tk u d"
    and auth: "authorised e d" and e: "e_self e = v_self (vault_st w)"
    and idle: "vault_get_locked_liquidity w = 0"
    and cash: "vault_get_total_deposits w \<le> tok_balance tk u (v_self (vault_st w)) (ledger w)"
    and s: "0 < s" "s \<le> vault_share_balance d w"
    and worth: "vault_get_total_shares w \<le> s * vault_get_total_deposits w"
    and range: "s * vault_get_total_deposits w < 2 ^ 127" "i128_ok (vault_get_total_shares w)"
      "i128_ok (vault_get_total_deposits w)"
  shows "\<exists>w'. vault_withdraw tk e d s w
           = Inr (s * vault_get_total_deposits w div vault_get_total_shares w, w')"
proof -
  let ?S = "vault_get_total_shares w" and ?D = "vault_get_total_deposits w"
  let ?u = "s * ?D div ?S"
  note v = vault_invD [OF inv]
  have S: "0 < ?S" "s \<le> ?S" using s v(6) [of d] by linarith+
  have D: "0 < s * ?D" using worth S by linarith
  have u: "0 < ?u" "?u \<le> ?D"
  proof -
    have "1 * ?S \<le> s * ?D" using worth by simp
    then have "1 \<le> ?u" using S zdiv_mono1 [of "1 * ?S" "s * ?D" ?S] by simp
    then show "0 < ?u" by simp
    have "s * ?D \<le> ?S * ?D" using S v(3) by (intro mult_right_mono)
    then show "?u \<le> ?D" using S zdiv_mono1 [of "s * ?D" "?S * ?D" ?S] by simp
  qed
  have prod: "i128_ok (s * ?D)"
    unfolding i128_ok_def using range(1) D by linarith
  have ok: "i128_ok ?u" "i128_ok (?D - ?u)" "i128_ok (?S - s)"
      "i128_ok (vault_share_balance d w - s)"
    using range D u S s v(6) [of d] by (simp_all add: i128_ok_def)
  have calc: "calc_withdrawal_amount s ?S ?D = Inr ?u"
    using S D ok prod by (simp add: calc_withdrawal_amount_def inv_simps sdiv_nonneg)
  have "calc_utilization_bps 0 x = Inr 0" for x
    by (simp add: calc_utilization_bps_def i128_mul_def i128_div_def i128_of_def i128_as_u32_def)
  then have check: "vault_check_withdrawal 0 (?D - ?u) m = Inr ()" for m
    by (simp add: vault_check_withdrawal_eq_Inr)
  obtain t where "tok_transfer tk (subcall e u) u (e_self e) d ?u (ledger w) = Inr t"
    using payableD [OF pays, of "subcall e u" "e_self e" ?u "ledger w"] u cash e
    by (auto simp: authorised_def)
  then show ?thesis
    using auth s calc u ok check usdc idle by (auto simp: vault_withdraw_eq_Inr)
qed

lemma solvent_cash:
  assumes "pm_inv w" and "solvent tk u w"
  shows "vault_get_total_deposits w \<le> tok_balance tk u (v_self (vault_st w)) (ledger w)"
proof -
  have "0 \<le> msum pos_collateral (p_positions (pm_st w))"
    using position_ok_at [OF assms(1)] by (intro msum_nonneg) (simp add: less_imp_le)
  then show ?thesis using assms(2) by (simp add: solvent_def)
qed

text \<open>
  A liquidity provider can always redeem shares when no position is open: with no liquidity
  locked and cash that covers the claims, the holder's signature turns any number of the
  holder's shares that is worth at least one unit into the proportional part of the deposits.
\<close>

theorem idle_liquidity_can_be_withdrawn:
  assumes "sep41 tk" and "sys_fresh w0" and "sys_reach tk u w0 w"
    and "v_usdc (vault_st w) = Some u" and "solvent tk u w" and "payable tk u (Account n)"
    and "vault_get_locked_liquidity w = 0" and "n \<in> snd h"
    and "0 < s" and "s \<le> vault_share_balance (Account n) w"
    and "vault_get_total_shares w \<le> s * vault_get_total_deposits w"
    and "s * vault_get_total_deposits w < 2 ^ 127"
  shows "\<exists>w'. vault_withdraw tk (entry h (v_self (vault_st w))) (Account n) s w
             = Inr (s * vault_get_total_deposits w div vault_get_total_shares w, w')
           \<and> vault_share_balance (Account n) w' = vault_share_balance (Account n) w - s"
proof -
  have inv: "vault_inv w" "pm_inv w"
    using reach_inv [OF assms(1-3)] by (simp_all add: sys_inv_def)
  note cash = solvent_cash [OF inv(2) assms(5)]
  note r = sys_rangedD [OF reach_ranged [OF sys_fresh_ranged [OF assms(2)] assms(3)]]
  have auth: "authorised (entry h (v_self (vault_st w))) (Account n)"
    using assms(8) by (simp add: authorised_entry)
  obtain w' where run: "vault_withdraw tk (entry h (v_self (vault_st w))) (Account n) s w
      = Inr (s * vault_get_total_deposits w div vault_get_total_shares w, w')"
    using withdraw_possible [OF inv(1) assms(4,6) auth _ assms(7) cash assms(9-12) r(1,2)] by auto
  then show ?thesis using withdraw_effect(8) [OF run, of "Account n"] by auto
qed

end
