(* ===== verification/Test_Harness.thy ===== *)
theory Test_Harness
  imports Exit_Liveness
begin

text \<open>
  The harness of the integration tests, \<^verbatim>\<open>contracts/integration-tests/src/harness.rs\<close>: it deploys
  the five contracts, initialises and wires them, and offers the tests minting, liquidity, prices
  and time.  The test utilities of the Soroban SDK are a parameter.
\<close>

section \<open>The test environment\<close>

text \<open>
  What the harness uses of the SDK's test utilities: the addresses that \<open>Address::generate\<close> and
  \<open>Env::register\<close> hand out, one after the other, the time to live of a new entry, and the
  \<open>mint\<close> of the asset contract.
\<close>

record 't testutils =
  tu_generate :: "nat \<Rightarrow> address"
  tu_register :: "nat \<Rightarrow> address"
  tu_ttl :: u32
  tu_mint :: "env \<Rightarrow> address \<Rightarrow> address \<Rightarrow> i128 \<Rightarrow> 't \<Rightarrow> 't res"

record 't test_env =
  te_now :: u64
  te_generated :: nat
  te_registered :: nat
  te_world :: "'t liq_world"

text \<open>
  \<open>mock_all_auths\<close>: every address has signed.  A client calls the contract at its address.
\<close>

definition te_call :: "'t test_env \<Rightarrow> address \<Rightarrow> env" where
  "te_call te c = \<lparr>e_now = te_now te, e_signers = UNIV, e_invoker = None, e_self = c\<rparr>"

lemma te_call_time [simp]:
  "te_call (te\<lparr>te_world := w\<rparr>) c = te_call te c"
  "te_call (te\<lparr>te_generated := n\<rparr>) c = te_call te c"
  "te_call (te\<lparr>te_registered := n\<rparr>) c = te_call te c"
  by (simp_all add: te_call_def)

definition te_client ::
  "'t test_env \<Rightarrow> address \<Rightarrow> address \<Rightarrow> (env \<Rightarrow> 't liq_world \<Rightarrow> 't liq_world res) \<Rightarrow> 't test_env res" where
  "te_client te here a f =
     (if a = here then bnd (f (te_call te a) (te_world te)) (\<lambda>w. Inr (te\<lparr>te_world := w\<rparr>))
      else Inl (Trap MissingContract))"

definition te_generate :: "'t testutils \<Rightarrow> 't test_env \<Rightarrow> address \<times> 't test_env" where
  "te_generate tu te =
     (tu_generate tu (te_generated te), te\<lparr>te_generated := Suc (te_generated te)\<rparr>)"

text \<open>Registering a contract creates an instance with no storage.\<close>

definition te_register ::
  "'t testutils \<Rightarrow> (address \<Rightarrow> 't liq_world \<Rightarrow> 't liq_world) \<Rightarrow> 't test_env \<Rightarrow> address \<times> 't test_env" where
  "te_register tu place te =
     (let a = tu_register tu (te_registered te) in
      (a, te\<lparr>te_registered := Suc (te_registered te), te_world := place a (te_world te)\<rparr>))"

definition place_oracle :: "'t testutils \<Rightarrow> address \<Rightarrow> 't liq_world \<Rightarrow> 't liq_world" where
  "place_oracle tu a w = w\<lparr>oracle_st := \<lparr>o_self = a, o_admin = None, o_staleness = None,
     o_prices = (\<lambda>_. None), o_ttl = tu_ttl tu, o_price_ttl = (\<lambda>_. 0)\<rparr>\<rparr>"

definition place_vault :: "'t testutils \<Rightarrow> address \<Rightarrow> 't liq_world \<Rightarrow> 't liq_world" where
  "place_vault tu a w = w\<lparr>vault_st := \<lparr>v_self = a, v_admin = None, v_usdc = None,
     v_total_shares = None, v_total_deposits = None, v_locked = None, v_max_util = None,
     v_pm = None, v_shares = (\<lambda>_. None), v_ttl = tu_ttl tu, v_share_ttl = (\<lambda>_. 0)\<rparr>\<rparr>"

definition place_pm :: "'t testutils \<Rightarrow> address \<Rightarrow> 't liq_world \<Rightarrow> 't liq_world" where
  "place_pm tu a w = w\<lparr>pm_st := \<lparr>p_self = a, p_admin = None, p_vault = None, p_oracle = None,
     p_funding = None, p_liq_engine = None, p_usdc = None, p_next_id = None, p_open_fee = None,
     p_close_fee = None, p_max_leverage = None, p_min_collateral = None, p_oi_long = None,
     p_oi_short = None, p_positions = (\<lambda>_. None), p_counts = (\<lambda>_. None), p_ttl = tu_ttl tu,
     p_position_ttl = (\<lambda>_. 0)\<rparr>\<rparr>"

definition place_fund :: "'t testutils \<Rightarrow> address \<Rightarrow> 't liq_world \<Rightarrow> 't liq_world" where
  "place_fund tu a w = w\<lparr>fund_st := \<lparr>f_self = a, f_admin = None, f_pm = None, f_interval = None,
     f_max_rate = None, f_spread = None, f_cum_long = None, f_cum_short = None,
     f_last_time = None, f_ttl = tu_ttl tu\<rparr>\<rparr>"

definition place_liq :: "'t testutils \<Rightarrow> address \<Rightarrow> 't liq_world \<Rightarrow> 't liq_world" where
  "place_liq tu a w = w\<lparr>liq_st := \<lparr>l_self = a, l_admin = None, l_pm = None, l_oracle = None,
     l_maintenance = None, l_penalty = None, l_reward = None, l_ttl = tu_ttl tu\<rparr>\<rparr>"

lemmas place_defs = place_oracle_def place_vault_def place_pm_def place_fund_def place_liq_def

section \<open>The harness\<close>

text \<open>A client is the address it calls.\<close>

record 't test_harness =
  th_env :: "'t test_env"
  th_admin :: address
  th_usdc_address :: address
  th_vault :: address
  th_oracle :: address
  th_pm :: address
  th_le :: address
  th_funding :: address
  th_vault_address :: address

text \<open>\<open>TestHarness::setup\<close>; the argument \<open>te\<close> is \<open>Env::default()\<close>.\<close>

definition harness_setup :: "'t testutils \<Rightarrow> 't test_env \<Rightarrow> 't test_harness res" where
  "harness_setup tu te =
     (let (admin, te) = te_generate tu te;
          (usdc_admin, te) = te_generate tu te;
          (usdc_address, te) = te_register tu (\<lambda>_ w. w) te;
          (vault_address, te) = te_register tu (place_vault tu) te in
      bnd (te_client te (v_self (vault_st (te_world te))) vault_address
             (\<lambda>e. vault_initialize admin usdc_address 8000)) (\<lambda>te.
      let (oracle_address, te) = te_register tu (place_oracle tu) te in
      bnd (te_client te (o_self (oracle_st (te_world te))) oracle_address
             (\<lambda>e. oracle_initialize admin 300)) (\<lambda>te.
      let (pm_address, te) = te_register tu (place_pm tu) te in
      bnd (te_client te (p_self (pm_st (te_world te))) pm_address
             (\<lambda>e. pm_initialize admin vault_address oracle_address usdc_address 10 10 30 100000000))
        (\<lambda>te.
      let (le_address, te) = te_register tu (place_liq tu) te in
      bnd (te_client te (l_self (liq_st (te_world te))) le_address
             (\<lambda>e. liq_initialize admin pm_address oracle_address 500 250 50)) (\<lambda>te.
      let (funding_address, te) = te_register tu (place_fund tu) te in
      bnd (te_client te (f_self (fund_st (te_world te))) funding_address
             (\<lambda>e. fund_initialize e admin pm_address 3600 10 5)) (\<lambda>te.
      bnd (te_client te (v_self (vault_st (te_world te))) vault_address
             (\<lambda>e. vault_set_position_manager e admin pm_address)) (\<lambda>te.
      bnd (te_client te (p_self (pm_st (te_world te))) pm_address
             (\<lambda>e. pm_set_liquidation_engine e admin le_address)) (\<lambda>te.
      bnd (te_client te (p_self (pm_st (te_world te))) pm_address
             (\<lambda>e. pm_set_funding_address e admin funding_address)) (\<lambda>te.
      let te = te\<lparr>te_now := 1000\<rparr> in
      Inr \<lparr>th_env = te, th_admin = admin, th_usdc_address = usdc_address, th_vault = vault_address,
           th_oracle = oracle_address, th_pm = pm_address, th_le = le_address,
           th_funding = funding_address, th_vault_address = vault_address\<rparr>)))))))))"

definition harness_mint_usdc ::
  "'t testutils \<Rightarrow> 't test_harness \<Rightarrow> address \<Rightarrow> i128 \<Rightarrow> 't test_harness res" where
  "harness_mint_usdc tu h to amount =
     bnd (tu_mint tu (te_call (th_env h) (th_usdc_address h)) (th_usdc_address h) to amount
            (ledger (te_world (th_env h)))) (\<lambda>t.
     Inr (h\<lparr>th_env := (th_env h)\<lparr>te_world := (te_world (th_env h))\<lparr>ledger := t\<rparr>\<rparr>\<rparr>))"

definition harness_create_trader ::
  "'t testutils \<Rightarrow> 't test_harness \<Rightarrow> i128 \<Rightarrow> (address \<times> 't test_harness) res" where
  "harness_create_trader tu h usdc_amount =
     (let (trader, te) = te_generate tu (th_env h);
          h = h\<lparr>th_env := te\<rparr>
      in bnd (harness_mint_usdc tu h trader usdc_amount) (\<lambda>h. Inr (trader, h)))"

definition harness_add_liquidity ::
  "'t token \<Rightarrow> 't testutils \<Rightarrow> 't test_harness \<Rightarrow> i128 \<Rightarrow> (address \<times> 't test_harness) res" where
  "harness_add_liquidity tk tu h amount =
     (let (lp, te) = te_generate tu (th_env h);
          h = h\<lparr>th_env := te\<rparr>
      in bnd (harness_mint_usdc tu h lp amount) (\<lambda>h.
         bnd (te_client (th_env h) (v_self (vault_st (te_world (th_env h)))) (th_vault h)
                (\<lambda>e w. bnd (vault_deposit tk e lp amount w) (\<lambda>(_, w). Inr w))) (\<lambda>te.
         Inr (lp, h\<lparr>th_env := te\<rparr>))))"

definition harness_set_price :: "'t test_harness \<Rightarrow> u32 \<Rightarrow> i128 \<Rightarrow> 't test_harness res" where
  "harness_set_price h asset price =
     bnd (te_client (th_env h) (o_self (oracle_st (te_world (th_env h)))) (th_oracle h)
            (\<lambda>e. oracle_set_price e (th_admin h) asset price)) (\<lambda>te.
     Inr (h\<lparr>th_env := te\<rparr>))"

definition harness_usdc_balance :: "'t token \<Rightarrow> 't test_harness \<Rightarrow> address \<Rightarrow> i128" where
  "harness_usdc_balance tk h account =
     tok_balance tk (th_usdc_address h) account (ledger (te_world (th_env h)))"

definition harness_advance_time :: "'t test_harness \<Rightarrow> u64 \<Rightarrow> 't test_harness res" where
  "harness_advance_time h seconds =
     bnd (u64_add (te_now (th_env h)) seconds) (\<lambda>now.
     Inr (h\<lparr>th_env := (th_env h)\<lparr>te_now := now\<rparr>\<rparr>))"

section \<open>What setup deploys\<close>

text \<open>The addresses \<open>setup\<close> gets, in the order it asks for them.\<close>

abbreviation setup_admin :: "'t testutils \<Rightarrow> 't test_env \<Rightarrow> address" where
  "setup_admin tu te \<equiv> tu_generate tu (te_generated te)"

definition setup_contract :: "'t testutils \<Rightarrow> 't test_env \<Rightarrow> nat \<Rightarrow> address" where
  "setup_contract tu te k = tu_register tu (te_registered te + k)"

lemma contracts_in_order:
  "(n::nat) + 2 = Suc (Suc n)" "n + 3 = Suc (Suc (Suc n))" "n + 4 = Suc (Suc (Suc (Suc n)))"
  "n + 5 = Suc (Suc (Suc (Suc (Suc n))))" "n + 6 = Suc (Suc (Suc (Suc (Suc (Suc n)))))"
  by simp_all

text \<open>The initial world of a deployment: the five contracts registered, nothing stored.\<close>

definition registered_world :: "'t testutils \<Rightarrow> 't test_env \<Rightarrow> 't liq_world" where
  "registered_world tu te =
     place_fund tu (setup_contract tu te 5) (place_liq tu (setup_contract tu te 4)
       (place_pm tu (setup_contract tu te 3) (place_oracle tu (setup_contract tu te 2)
         (place_vault tu (setup_contract tu te 1) (te_world te)))))"

text \<open>The world after \<open>setup\<close>.\<close>

definition ready_world :: "'t testutils \<Rightarrow> 't test_env \<Rightarrow> 't liq_world" where
  "ready_world tu te = (te_world te)
     \<lparr>oracle_st := \<lparr>o_self = setup_contract tu te 2, o_admin = Some (setup_admin tu te),
        o_staleness = Some 300, o_prices = (\<lambda>_. None),
        o_ttl = extend_ttl 17280 518400 (tu_ttl tu), o_price_ttl = (\<lambda>_. 0)\<rparr>,
      vault_st := \<lparr>v_self = setup_contract tu te 1, v_admin = Some (setup_admin tu te),
        v_usdc = Some (setup_contract tu te 0), v_total_shares = Some 0,
        v_total_deposits = Some 0, v_locked = Some 0, v_max_util = Some 8000,
        v_pm = Some (setup_contract tu te 3), v_shares = (\<lambda>_. None),
        v_ttl = extend_ttl 17280 518400 (tu_ttl tu), v_share_ttl = (\<lambda>_. 0)\<rparr>,
      pm_st := \<lparr>p_self = setup_contract tu te 3, p_admin = Some (setup_admin tu te),
        p_vault = Some (setup_contract tu te 1), p_oracle = Some (setup_contract tu te 2),
        p_funding = Some (setup_contract tu te 5), p_liq_engine = Some (setup_contract tu te 4),
        p_usdc = Some (setup_contract tu te 0), p_next_id = None, p_open_fee = Some 10,
        p_close_fee = Some 10, p_max_leverage = Some 30, p_min_collateral = Some 100000000,
        p_oi_long = Some 0, p_oi_short = Some 0, p_positions = (\<lambda>_. None),
        p_counts = (\<lambda>_. None), p_ttl = extend_ttl 17280 518400 (tu_ttl tu),
        p_position_ttl = (\<lambda>_. 0)\<rparr>,
      fund_st := \<lparr>f_self = setup_contract tu te 5, f_admin = Some (setup_admin tu te),
        f_pm = Some (setup_contract tu te 3), f_interval = Some 3600, f_max_rate = Some 10,
        f_spread = Some 5, f_cum_long = Some 0, f_cum_short = Some 0,
        f_last_time = Some (te_now te), f_ttl = extend_ttl 17280 518400 (tu_ttl tu)\<rparr>,
      liq_st := \<lparr>l_self = setup_contract tu te 4, l_admin = Some (setup_admin tu te),
        l_pm = Some (setup_contract tu te 3), l_oracle = Some (setup_contract tu te 2),
        l_maintenance = Some 500, l_penalty = Some 250, l_reward = Some 50,
        l_ttl = extend_ttl 17280 518400 (tu_ttl tu)\<rparr>\<rparr>"

definition ready_harness :: "'t testutils \<Rightarrow> 't test_env \<Rightarrow> 't test_harness" where
  "ready_harness tu te =
     \<lparr>th_env = te\<lparr>te_now := 1000, te_generated := Suc (Suc (te_generated te)),
        te_registered := te_registered te + 6, te_world := ready_world tu te\<rparr>,
      th_admin = setup_admin tu te, th_usdc_address = setup_contract tu te 0,
      th_vault = setup_contract tu te 1, th_oracle = setup_contract tu te 2,
      th_pm = setup_contract tu te 3, th_le = setup_contract tu te 4,
      th_funding = setup_contract tu te 5, th_vault_address = setup_contract tu te 1\<rparr>"

text \<open>The transactions of \<open>setup\<close>.\<close>

definition setup_calls :: "'t testutils \<Rightarrow> 't test_env \<Rightarrow> tx list" where
  "setup_calls tu te =
     [VaultTx (VInitialize (setup_admin tu te) (setup_contract tu te 0) 8000),
      OracleTx (OInitialize (setup_admin tu te) 300),
      PmTx (PInitialize (setup_admin tu te) (setup_contract tu te 1) (setup_contract tu te 2)
        (setup_contract tu te 0) 10 10 30 100000000),
      LiqTx (LInitialize (setup_admin tu te) (setup_contract tu te 3) (setup_contract tu te 2)
        500 250 50),
      FundTx (FInitialize (setup_admin tu te) (setup_contract tu te 3) 3600 10 5),
      VaultTx (VSetPositionManager (setup_admin tu te) (setup_contract tu te 3)),
      PmTx (PSetLiquidationEngine (setup_admin tu te) (setup_contract tu te 4)),
      PmTx (PSetFundingAddress (setup_admin tu te) (setup_contract tu te 5))]"

lemmas setup_run =
  harness_setup_def te_generate_def te_register_def te_client_def te_call_def place_defs
  vault_initialize_def oracle_initialize_def pm_initialize_def liq_initialize_def
  fund_initialize_def vault_set_position_manager_def pm_set_liquidation_engine_def
  pm_set_funding_address_def require_auth_def authorised_def Let_def
  vault_storage_defs oracle_storage_defs pm_storage_defs liq_storage_defs fund_storage_defs
  perps_constants

lemma setup_ttl_idem [simp]:
  "extend_ttl 17280 518400 (extend_ttl 17280 518400 ttl) = extend_ttl 17280 518400 ttl"
  by (rule extend_ttl_idem) simp

lemma harness_setup_eq: "harness_setup tu te = Inr (ready_harness tu te)"
  by (simp add: setup_run ready_harness_def ready_world_def setup_contract_def
      contracts_in_order)

text \<open>
  The calls of \<open>setup\<close> are transactions of the system when the admin is an account that signs
  them: the state it leaves is a reachable one.
\<close>

lemma setup_play:
  assumes "setup_admin tu te = Account a"
  shows "sys_play tk (setup_contract tu te 0) (map (Pair (te_now te, {a})) (setup_calls tu te))
           (registered_world tu te) = Inr (ready_world tu te)"
  by (simp add: setup_run setup_calls_def registered_world_def ready_world_def assms i128_ok_def)

lemma registered_world_fresh:
  assumes "\<And>n. \<exists>k. tu_register tu n = Contract k"
  shows "sys_fresh (registered_world tu te)"
  using assms by (simp add: sys_fresh_def registered_world_def place_defs vault_fresh_def
      pm_fresh_def setup_contract_def)

lemmas ready_reads =
  ready_world_def vault_storage_defs oracle_storage_defs pm_storage_defs liq_storage_defs
  fund_storage_defs

lemma ready_world_inv:
  assumes "\<And>n. \<exists>k. tu_register tu n = Contract k"
  shows "sys_inv (setup_contract tu te 0) (ready_world tu te)"
proof -
  let ?w = "ready_world tu te"
  have "vault_inv ?w" by (simp add: vault_inv_def ready_reads)
  moreover have "pm_inv ?w"
    by (rule pm_invI) (auto simp: ready_reads pm_oi_def split: direction.splits)
  moreover have "oracle_priced ?w" by (simp add: oracle_priced_def ready_reads)
  moreover have "wired (setup_contract tu te 0) ?w"
    using assms by (simp add: wired_def ready_world_def setup_contract_def)
  ultimately show ?thesis by (simp add: sys_inv_def)
qed

lemma ready_config:
  "operational (setup_contract tu te 0) (ready_world tu te)"
  "o_admin (oracle_st (ready_world tu te)) = Some (setup_admin tu te)"
  "v_admin (vault_st (ready_world tu te)) = Some (setup_admin tu te)"
  "p_admin (pm_st (ready_world tu te)) = Some (setup_admin tu te)"
  "f_admin (fund_st (ready_world tu te)) = Some (setup_admin tu te)"
  "l_admin (liq_st (ready_world tu te)) = Some (setup_admin tu te)"
  "p_funding (pm_st (ready_world tu te)) = Some (setup_contract tu te 5)"
  "f_pm (fund_st (ready_world tu te)) = Some (setup_contract tu te 3)"
  "vault_get_max_utilization (ready_world tu te) = 8000"
  "oracle_get_staleness_threshold (ready_world tu te) = 300"
  "pm_get_max_leverage (ready_world tu te) = 30"
  "pm_get_min_collateral (ready_world tu te) = 100000000"
  "liq_get_maintenance_margin_rate (ready_world tu te) = 500"
  "fund_get_funding_interval (ready_world tu te) = 3600"
  "vault_get_total_deposits (ready_world tu te) = 0"
  "vault_get_total_shares (ready_world tu te) = 0"
  "vault_share_balance a (ready_world tu te) = 0"
  "vault_get_locked_liquidity (ready_world tu te) = 0"
  "p_positions (pm_st (ready_world tu te)) = (\<lambda>_. None)"
  "v_self (vault_st (ready_world tu te)) = setup_contract tu te 1"
  "ledger (ready_world tu te) = ledger (te_world te)"
  by (simp_all add: ready_reads operational_def)


section \<open>The operations of the harness\<close>

text \<open>
  The documented behaviour of \<open>mint\<close> of an asset contract whose admin has signed: it succeeds for
  a non-negative amount and adds it to the balance of the receiver.
\<close>

definition sac_mints :: "'t testutils \<Rightarrow> 't token \<Rightarrow> bool" where
  "sac_mints tu tk \<longleftrightarrow> (\<forall>e c to amount t. 0 \<le> amount \<longrightarrow>
     (\<exists>t'. tu_mint tu e c to amount t = Inr t' \<and> (\<forall>c' a. tok_balance tk c' a t' =
        tok_balance tk c' a t + (if c' = c \<and> a = to then amount else 0))))"

lemma sac_mintsD:
  assumes "sac_mints tu tk" and "0 \<le> amount"
  obtains t' where "tu_mint tu e c to amount t = Inr t'"
    and "tok_balance tk c to t' = tok_balance tk c to t + amount"
proof -
  obtain t' where "tu_mint tu e c to amount t = Inr t'"
    and "\<forall>c' a. tok_balance tk c' a t' =
          tok_balance tk c' a t + (if c' = c \<and> a = to then amount else 0)"
    using assms unfolding sac_mints_def by blast
  then show ?thesis using that by simp
qed

text \<open>The first liquidity of a deployment: the LP gets one share per unit deposited.\<close>

lemma first_liquidity:
  assumes "sac_mints tu tk" and pays: "payable tk (setup_contract tu te 0) (setup_contract tu te 1)"
    and "0 < amount" and "i128_ok amount"
    and "0 \<le> tok_balance tk (setup_contract tu te 0) (tu_generate tu (Suc (Suc (te_generated te))))
           (ledger (te_world te))"
  shows "\<exists>lp h. harness_add_liquidity tk tu (ready_harness tu te) amount = Inr (lp, h)
       \<and> vault_share_balance lp (te_world (th_env h)) = amount
       \<and> vault_get_total_shares (te_world (th_env h)) = amount
       \<and> vault_get_total_deposits (te_world (th_env h)) = amount"
proof -
  let ?lp = "tu_generate tu (Suc (Suc (te_generated te)))" and ?u = "setup_contract tu te 0"
  let ?v = "setup_contract tu te 1" and ?w = "ready_world tu te"
  let ?te = "(th_env (ready_harness tu te))\<lparr>te_generated := Suc (Suc (Suc (te_generated te)))\<rparr>"
  obtain t where mint: "tu_mint tu (te_call ?te ?u) ?u ?lp amount (ledger (te_world te)) = Inr t"
    and bal: "tok_balance tk ?u ?lp t = tok_balance tk ?u ?lp (ledger (te_world te)) + amount"
    using sac_mintsD [OF assms(1) less_imp_le [OF assms(3)]] .
  let ?e = "te_call ?te ?v" and ?wm = "?w\<lparr>ledger := t\<rparr>"
  have usdc: "v_usdc (vault_st ?w) = Some ?u"
    using ready_config(1) [of tu te] by (simp add: operational_def)
  obtain t' where "tok_transfer tk (subcall ?e ?u) ?u ?lp ?v amount t = Inr t'"
    using payableD [OF pays, of "subcall ?e ?u" ?lp amount t] assms(3,5) bal
    by (auto simp: authorised_def te_call_def)
  then obtain w' where dep: "vault_deposit tk ?e ?lp amount ?wm = Inr (amount, w')"
    using assms(3,4) usdc
    by (auto simp: vault_deposit_eq_Inr ready_config calc_shares_to_mint_def authorised_def
        te_call_def)
  note eff = deposit_effect(4,5) [OF dep] deposit_effect(7) [OF dep, of ?lp]
  have run: "harness_add_liquidity tk tu (ready_harness tu te) amount
      = Inr (?lp, (ready_harness tu te)\<lparr>th_env := ?te\<lparr>te_world := w'\<rparr>\<rparr>)"
    using mint dep
    by (simp add: harness_add_liquidity_def te_generate_def ready_harness_def
        harness_mint_usdc_def te_client_def Let_def ready_config)
  show ?thesis
    by (intro exI conjI, rule run) (simp_all add: eff ready_config)
qed

end
