(* ===== verification/Scenario.thy ===== *)
theory Scenario
  imports Perps_System
begin

text \<open>
  A deployed exchange to run the model on: one admin, one liquidity provider, one trader and one
  keeper, the five contracts wired to each other, and the plain token.  Each state is written out
  and each run that leads to it is computed by rewriting, so the scenario is also a test of the
  model: a long position is opened, closed, liquidated, and closed at a total loss.
\<close>

section \<open>The cast\<close>

abbreviation adm :: address where "adm \<equiv> Account 11"
abbreviation lp :: address where "lp \<equiv> Account 12"
abbreviation alice :: address where "alice \<equiv> Account 13"
abbreviation keeper :: address where "keeper \<equiv> Account 14"

abbreviation at_oracle :: address where "at_oracle \<equiv> Contract 21"
abbreviation at_vault :: address where "at_vault \<equiv> Contract 22"
abbreviation at_pm :: address where "at_pm \<equiv> Contract 23"
abbreviation at_fund :: address where "at_fund \<equiv> Contract 24"
abbreviation at_liq :: address where "at_liq \<equiv> Contract 25"
abbreviation at_usdc :: address where "at_usdc \<equiv> Contract 26"

text \<open>A call to contract \<open>c\<close> at time \<open>t\<close> signed by account \<open>n\<close>, and one a contract makes.\<close>

abbreviation call :: "u64 \<Rightarrow> nat \<Rightarrow> address \<Rightarrow> env" where
  "call t n c \<equiv> entry (t, {n}) c"

abbreviation internal_call :: "u64 \<Rightarrow> address \<Rightarrow> address \<Rightarrow> env" where
  "internal_call t from c \<equiv>
     \<lparr>e_now = t, e_signers = {}, e_invoker = Some from, e_self = c\<rparr>"

section \<open>Deployment\<close>

text \<open>Every contract deployed and none initialised; the LP and the trader hold the token.\<close>

definition deployed :: "balances liq_world" where
  "deployed =
     \<lparr>ledger = (\<lambda>c a. if c = at_usdc \<and> (a = lp \<or> a = alice) then 100000000000000 else 0),
      events = [],
      oracle_st = \<lparr>o_self = at_oracle, o_admin = None, o_staleness = None, o_prices = (\<lambda>_. None),
        o_ttl = 0, o_price_ttl = (\<lambda>_. 0)\<rparr>,
      vault_st = \<lparr>v_self = at_vault, v_admin = None, v_usdc = None, v_total_shares = None,
        v_total_deposits = None, v_locked = None, v_max_util = None, v_pm = None,
        v_shares = (\<lambda>_. None), v_ttl = 0, v_share_ttl = (\<lambda>_. 0)\<rparr>,
      pm_st = \<lparr>p_self = at_pm, p_admin = None, p_vault = None, p_oracle = None, p_funding = None,
        p_liq_engine = None, p_usdc = None, p_next_id = None, p_open_fee = None,
        p_close_fee = None, p_max_leverage = None, p_min_collateral = None, p_oi_long = None,
        p_oi_short = None, p_positions = (\<lambda>_. None), p_counts = (\<lambda>_. None), p_ttl = 0,
        p_position_ttl = (\<lambda>_. 0)\<rparr>,
      fund_st = \<lparr>f_self = at_fund, f_admin = None, f_pm = None, f_interval = None,
        f_max_rate = None, f_spread = None, f_cum_long = None, f_cum_short = None,
        f_last_time = None, f_ttl = 0\<rparr>,
      liq_st = \<lparr>l_self = at_liq, l_admin = None, l_pm = None, l_oracle = None,
        l_maintenance = None, l_penalty = None, l_reward = None, l_ttl = 0\<rparr>\<rparr>"

text \<open>The initialisation of the five contracts as the deployment script does it, a price of
  1000 for asset 1, and a deposit of 100 000 by the liquidity provider.\<close>

definition setup_script :: "((u64 \<times> nat set) \<times> tx) list" where
  "setup_script =
    [((1000, {11}), OracleTx (OInitialize adm 300)),
     ((1000, {11}), VaultTx (VInitialize adm at_usdc 8000)),
     ((1000, {11}), PmTx (PInitialize adm at_vault at_oracle at_usdc 10 10 30 100000000)),
     ((1000, {11}), FundTx (FInitialize adm at_pm 3600 10 5)),
     ((1000, {11}), LiqTx (LInitialize adm at_pm at_oracle 500 250 50)),
     ((1000, {11}), VaultTx (VSetPositionManager adm at_pm)),
     ((1000, {11}), PmTx (PSetLiquidationEngine adm at_liq)),
     ((1000, {11}), OracleTx (OSetPrice adm 1 10000000000)),
     ((1000, {12}), VaultTx (VDeposit lp 1000000000000))]"

section \<open>Running the model\<close>

lemma moved_eval:
  "f \<noteq> t \<Longrightarrow> moved b f t n f = b - n" "f \<noteq> t \<Longrightarrow> moved b f t n t = b + n"
  "a \<noteq> f \<Longrightarrow> a \<noteq> t \<Longrightarrow> moved b f t n a = b"
  by (simp_all add: moved_def)

lemma i128_ok_literal:
  "i128_ok x \<longleftrightarrow> - 170141183460469231731687303715884105728 \<le> x
    \<and> x \<le> 170141183460469231731687303715884105727"
  by (auto simp: i128_ok_def)

lemmas host_run =
  Let_def require_auth_def authorised_def contract_at_def subcall_def publish_def extend_ttl_def
  i128_add_def i128_sub_def i128_mul_def i128_neg_def i128_abs_def i128_div_def i128_of_def
  i128_ok_literal u64_add_def u64_sub_def token_transfer_def plain_token_def
  u32_as_i128_def i128_as_u32_def perps_constants moved_eval

lemmas oracle_run =
  oracle_storage_defs oracle_initialize_def oracle_set_price_def oracle_get_price_def
  oracle_get_price_value_def emit_price_fetched_def

lemmas vault_run =
  vault_storage_defs vault_emit_defs vault_event_vals vault_initialize_def vault_deposit_def vault_withdraw_def
  vault_lock_liquidity_def vault_collect_fee_def vault_require_position_manager_def
  vault_close_position_settlement_def vault_set_position_manager_def calc_shares_to_mint_def
  calc_withdrawal_amount_def calc_utilization_bps_def vault_check_withdrawal_def

lemmas pm_run =
  pm_storage_defs pm_initialize_def pm_open_position_def pm_close_position_def pm_query_price_def
  pm_get_position_def pm_get_unrealized_pnl_def pm_liquidate_position_def
  pm_add_open_interest_def pm_sub_open_interest_def pm_drop_position_count_def
  pm_set_liquidation_engine_def calculate_fee_def calculate_pnl_def capped_pnl_def
  emit_position_opened_def emit_position_closed_def

lemmas fund_run =
  fund_storage_defs fund_initialize_def fund_apply_funding_def fund_get_current_rate_def
  fund_query_open_interest_def pm_view_open_interest_long_def pm_view_open_interest_short_def
  clamp_def emit_funding_applied_def

lemmas liq_run =
  liq_storage_defs liq_initialize_def liq_liquidate_def liq_capped_share_def emit_liquidation_def

lemmas contracts_run = host_run oracle_run vault_run pm_run fund_run liq_run

lemmas model_run = contracts_run plain_transfer_def

text \<open>
  Call by value: what follows a step is simplified only once the step has run.
\<close>

lemma bnd_weak_cong: "m = m' \<Longrightarrow> bnd m f = bnd m' f"
  by simp

lemma Let_weak_cong: "a = b \<Longrightarrow> Let a f = Let b f"
  by simp

lemmas run_cong = bnd_weak_cong Let_weak_cong

text \<open>The token's ledger after a payment.\<close>

definition paid :: "address \<Rightarrow> address \<Rightarrow> i128 \<Rightarrow> balances \<Rightarrow> balances" where
  "paid payer payee n t = t(at_usdc := (\<lambda>a. moved (t at_usdc a) payer payee n a))"

section \<open>The exchange after deployment\<close>

definition live :: "balances liq_world" where
  "live =
     \<lparr>ledger = paid lp at_vault 1000000000000 (ledger deployed),
      events =
       [\<lparr>ev_contract = at_oracle, ev_topics = [SSym ''price_fetched'', SU32 1],
          ev_data = SVec [SI128 10000000000, SU64 1000]\<rparr>,
        \<lparr>ev_contract = at_vault, ev_topics = [SSym ''deposit''],
          ev_data = SMap [(''amount'', SI128 1000000000000), (''depositor'', SAddr lp),
            (''shares_minted'', SI128 1000000000000)]\<rparr>],
      oracle_st = \<lparr>o_self = at_oracle, o_admin = Some adm, o_staleness = Some 300,
        o_prices = [1 \<mapsto> \<lparr>cp_price = 10000000000, cp_timestamp = 1000\<rparr>], o_ttl = 518400,
        o_price_ttl = (\<lambda>_. 0)(1 := 200)\<rparr>,
      vault_st = \<lparr>v_self = at_vault, v_admin = Some adm, v_usdc = Some at_usdc,
        v_total_shares = Some 1000000000000, v_total_deposits = Some 1000000000000,
        v_locked = Some 0, v_max_util = Some 8000, v_pm = Some at_pm,
        v_shares = [lp \<mapsto> 1000000000000], v_ttl = 518400,
        v_share_ttl = (\<lambda>_. 0)(lp := 1036800)\<rparr>,
      pm_st = \<lparr>p_self = at_pm, p_admin = Some adm, p_vault = Some at_vault,
        p_oracle = Some at_oracle, p_funding = None, p_liq_engine = Some at_liq,
        p_usdc = Some at_usdc, p_next_id = None, p_open_fee = Some 10, p_close_fee = Some 10,
        p_max_leverage = Some 30, p_min_collateral = Some 100000000, p_oi_long = Some 0,
        p_oi_short = Some 0, p_positions = (\<lambda>_. None), p_counts = (\<lambda>_. None), p_ttl = 518400,
        p_position_ttl = (\<lambda>_. 0)\<rparr>,
      fund_st = \<lparr>f_self = at_fund, f_admin = Some adm, f_pm = Some at_pm, f_interval = Some 3600,
        f_max_rate = Some 10, f_spread = Some 5, f_cum_long = Some 0, f_cum_short = Some 0,
        f_last_time = Some 1000, f_ttl = 518400\<rparr>,
      liq_st = \<lparr>l_self = at_liq, l_admin = Some adm, l_pm = Some at_pm, l_oracle = Some at_oracle,
        l_maintenance = Some 500, l_penalty = Some 250, l_reward = Some 50, l_ttl = 518400\<rparr>\<rparr>"

lemma live_run: "sys_play plain_token at_usdc setup_script deployed = Inr live"
  by (simp add: setup_script_def deployed_def live_def paid_def model_run cong: run_cong)

lemma deployed_fresh: "sys_fresh deployed"
  by (simp add: sys_fresh_def deployed_def vault_fresh_def pm_fresh_def)

lemma live_reachable: "sys_reach plain_token at_usdc deployed live"
  using reach_start live_run by (rule sys_play_reach)

lemma reachable_inv: "sys_reach plain_token at_usdc deployed w \<Longrightarrow> sys_inv at_usdc w"
  using reach_refines [OF plain_token_sep41 sys_fresh_inv [OF deployed_fresh]] by blast

lemma live_self [simp]:
  "v_self (vault_st live) = at_vault" "p_self (pm_st live) = at_pm"
  "o_self (oracle_st live) = at_oracle" "l_self (liq_st live) = at_liq"
  by (simp_all add: live_def)

section \<open>A long position\<close>

text \<open>Collateral 100 at leverage 10 and price 1000: the fee of 10 basis points is one.\<close>

definition alices_position :: position where
  "alices_position =
     \<lparr>pos_id = 1, pos_trader = alice, pos_asset = 1, pos_direction = Long, pos_size = 10000000000,
      pos_collateral = 1000000000, pos_entry_price = 10000000000, pos_leverage = 10,
      pos_funding_index = 0, pos_opened_at = 1100\<rparr>"

definition opened :: "balances liq_world" where
  "opened = live
     \<lparr>ledger := paid alice at_vault 1010000000 (ledger live),
      events := events live @
       [\<lparr>ev_contract = at_vault, ev_topics = [SSym ''liquidity_locked''],
          ev_data = SMap [(''amount'', SI128 10000000000)]\<rparr>,
        \<lparr>ev_contract = at_vault, ev_topics = [SSym ''fee_collected''],
          ev_data = SMap [(''amount'', SI128 10000000)]\<rparr>,
        \<lparr>ev_contract = at_pm, ev_topics = [SSym ''position_opened'', SAddr alice, SU64 1],
          ev_data = SVec [SDir Long, SI128 10000000000, SI128 1000000000, SI128 10000000000,
            SU32 10, SI128 10000000]\<rparr>],
      vault_st := (vault_st live)
       \<lparr>v_total_deposits := Some 1000010000000, v_locked := Some 10000000000\<rparr>,
      pm_st := (pm_st live)
       \<lparr>p_next_id := Some 2, p_oi_long := Some 10000000000,
        p_positions := [(alice, 1) \<mapsto> alices_position], p_counts := [alice \<mapsto> 1],
        p_position_ttl := (\<lambda>_. 0)((alice, 1) := 1036800)\<rparr>\<rparr>"

lemma opened_run:
  "pm_open_position plain_token (call 1100 13 at_pm) alice 1 Long 1000000000 10 live = Inr (1, opened)"
  by (simp add: opened_def live_def deployed_def alices_position_def paid_def model_run cong: run_cong)

lemma opened_reachable: "sys_reach plain_token at_usdc deployed opened"
proof (rule reach_step [OF live_reachable])
  have "sys_exec plain_token ((1100, {13}), PmTx (POpen alice 1 Long 1000000000 10)) live = Inr opened"
    using opened_run by simp
  then show "sys_step plain_token at_usdc live opened" by (rule sys_tx [rotated 2]) (simp_all add: i128_ok_def)
qed

text \<open>At the same price the trader gets the collateral back less the fee.\<close>

definition closed :: "balances liq_world" where
  "closed = opened
     \<lparr>ledger := paid at_vault alice 990000000 (ledger opened),
      events := events opened @
       [\<lparr>ev_contract = at_vault, ev_topics = [SSym ''pnl_settled''],
          ev_data = SMap [(''pnl'', SI128 0), (''trader'', SAddr alice)]\<rparr>,
        \<lparr>ev_contract = at_vault, ev_topics = [SSym ''fee_collected''],
          ev_data = SMap [(''amount'', SI128 10000000)]\<rparr>,
        \<lparr>ev_contract = at_pm, ev_topics = [SSym ''position_closed'', SAddr alice, SU64 1],
          ev_data = SVec [SI128 10000000000, SI128 (- 10000000), SI128 10000000]\<rparr>],
      vault_st := (vault_st opened)
       \<lparr>v_total_deposits := Some 1000020000000, v_locked := Some 0\<rparr>,
      pm_st := (pm_st opened)
       \<lparr>p_oi_long := Some 0, p_positions := (\<lambda>_. None), p_counts := [alice \<mapsto> 0]\<rparr>\<rparr>"

lemma closed_run:
  "pm_close_position plain_token (call 1120 13 at_pm) alice 1 1 opened = Inr (- 10000000, closed)"
  by (simp add: closed_def opened_def live_def deployed_def alices_position_def paid_def model_run cong: run_cong)

section \<open>A price drop and a liquidation\<close>

text \<open>At 940 the margin ratio is 400 basis points, below the maintenance margin of 500.\<close>

definition crashed :: "balances liq_world" where
  "crashed = opened
     \<lparr>events := events opened @
       [\<lparr>ev_contract = at_oracle, ev_topics = [SSym ''price_fetched'', SU32 1],
          ev_data = SVec [SI128 9400000000, SU64 1150]\<rparr>],
      oracle_st := (oracle_st opened)
       \<lparr>o_prices := [1 \<mapsto> \<lparr>cp_price = 9400000000, cp_timestamp = 1150\<rparr>]\<rparr>\<rparr>"

lemma crashed_run:
  "sys_exec plain_token ((1150, {11}), OracleTx (OSetPrice adm 1 9400000000)) opened = Inr crashed"
  by (simp add: crashed_def opened_def live_def host_run oracle_run)

lemma crashed_reachable: "sys_reach plain_token at_usdc deployed crashed"
  by (rule reach_step [OF opened_reachable sys_tx [OF _ _ crashed_run]]) (simp_all add: i128_ok_def)

definition liquidated :: "balances liq_world" where
  "liquidated = crashed
     \<lparr>ledger := paid at_vault alice 400000000 (ledger crashed),
      events := events crashed @
       [\<lparr>ev_contract = at_vault, ev_topics = [SSym ''pnl_settled''],
          ev_data = SMap [(''pnl'', SI128 (- 600000000)), (''trader'', SAddr alice)]\<rparr>,
        \<lparr>ev_contract = at_vault, ev_topics = [SSym ''fee_collected''],
          ev_data = SMap [(''amount'', SI128 0)]\<rparr>,
        \<lparr>ev_contract = at_liq, ev_topics = [SSym ''liquidation'', SAddr alice, SU64 1],
          ev_data = SVec [SAddr keeper, SI128 9400000000, SI128 400, SI128 25000000,
            SI128 5000000]\<rparr>],
      vault_st := (vault_st crashed)
       \<lparr>v_total_deposits := Some 1000610000000, v_locked := Some 0\<rparr>,
      pm_st := (pm_st crashed)
       \<lparr>p_oi_long := Some 0, p_positions := (\<lambda>_. None), p_counts := [alice \<mapsto> 0]\<rparr>\<rparr>"

lemma liquidated_run:
  "liq_liquidate plain_token (call 1160 14 at_liq) keeper alice 1 1 crashed = Inr liquidated"
  by (simp add: liquidated_def crashed_def opened_def live_def deployed_def alices_position_def
      paid_def model_run cong: run_cong)

section \<open>A total loss\<close>

text \<open>The price halves and the trader closes: the collateral is lost and the close fee unpaid.\<close>

definition ruin_script :: "((u64 \<times> nat set) \<times> tx) list" where
  "ruin_script =
    [((1150, {11}), OracleTx (OSetPrice adm 1 5000000000)),
     ((1160, {13}), PmTx (PClose alice 1 1))]"

definition ruined :: "balances liq_world" where
  "ruined = opened
     \<lparr>events := events opened @
       [\<lparr>ev_contract = at_oracle, ev_topics = [SSym ''price_fetched'', SU32 1],
          ev_data = SVec [SI128 5000000000, SU64 1150]\<rparr>,
        \<lparr>ev_contract = at_vault, ev_topics = [SSym ''pnl_settled''],
          ev_data = SMap [(''pnl'', SI128 (- 1000000000)), (''trader'', SAddr alice)]\<rparr>,
        \<lparr>ev_contract = at_vault, ev_topics = [SSym ''fee_collected''],
          ev_data = SMap [(''amount'', SI128 10000000)]\<rparr>,
        \<lparr>ev_contract = at_pm, ev_topics = [SSym ''position_closed'', SAddr alice, SU64 1],
          ev_data = SVec [SI128 5000000000, SI128 (- 1010000000), SI128 10000000]\<rparr>],
      oracle_st := (oracle_st opened)
       \<lparr>o_prices := [1 \<mapsto> \<lparr>cp_price = 5000000000, cp_timestamp = 1150\<rparr>]\<rparr>,
      vault_st := (vault_st opened)
       \<lparr>v_total_deposits := Some 1001020000000, v_locked := Some 0\<rparr>,
      pm_st := (pm_st opened)
       \<lparr>p_oi_long := Some 0, p_positions := (\<lambda>_. None), p_counts := [alice \<mapsto> 0]\<rparr>\<rparr>"

lemma ruined_run: "sys_play plain_token at_usdc ruin_script opened = Inr ruined"
  by (simp add: ruin_script_def ruined_def opened_def live_def deployed_def alices_position_def
      paid_def model_run cong: run_cong)

lemma ruined_reachable: "sys_reach plain_token at_usdc deployed ruined"
  using opened_reachable ruined_run by (rule sys_play_reach)

text \<open>
  The books of the vault can exceed its cash.  In a state reached by ordinary transactions of a
  correctly configured exchange, no position is open and the deposits the vault accounts to its
  LPs are more than the tokens it holds: the settlement of a total loss books the close fee as
  income although nothing was left to pay it.
\<close>

lemma deposits_can_exceed_cash:
  "\<exists>w. sys_reach plain_token at_usdc deployed w \<and> vault_get_locked_liquidity w = 0
     \<and> tok_balance plain_token at_usdc at_vault (ledger w) < vault_get_total_deposits w"
  by (rule exI [of _ ruined])
    (simp add: ruined_reachable, simp add: ruined_def opened_def live_def deployed_def paid_def
      vault_storage_defs plain_token_def moved_def)

end
