(* ===== verification/Lifecycle_Tests.thy ===== *)
theory Lifecycle_Tests
  imports Test_Harness Scenario
begin

text \<open>
  Lifecycle tests of the repository, \<^verbatim>\<open>contracts/integration-tests/src/test_lifecycle.rs\<close>, run on
  the model: every call and every assertion of the test, in its order, on the harness with the
  plain token.  The model computes the numbers the tests assert, to the last unit.
\<close>

section \<open>Clients\<close>

text \<open>A call of a client that returns a value and the harness after it.\<close>

definition invoke ::
  "'t test_harness \<Rightarrow> address \<Rightarrow> address \<Rightarrow> (env \<Rightarrow> 't liq_world \<Rightarrow> ('a \<times> 't liq_world) res)
    \<Rightarrow> ('a \<times> 't test_harness) res" where
  "invoke h here a f =
     (if a = here
      then bnd (f (te_call (th_env h) a) (te_world (th_env h))) (\<lambda>(x, w).
           Inr (x, h\<lparr>th_env := (th_env h)\<lparr>te_world := w\<rparr>\<rparr>))
      else Inl (Trap MissingContract))"

definition vault_client ::
  "'t test_harness \<Rightarrow> (env \<Rightarrow> 't liq_world \<Rightarrow> ('a \<times> 't liq_world) res) \<Rightarrow> ('a \<times> 't test_harness) res" where
  "vault_client h = invoke h (v_self (vault_st (te_world (th_env h)))) (th_vault h)"

definition pm_client ::
  "'t test_harness \<Rightarrow> (env \<Rightarrow> 't liq_world \<Rightarrow> ('a \<times> 't liq_world) res) \<Rightarrow> ('a \<times> 't test_harness) res" where
  "pm_client h = invoke h (p_self (pm_st (te_world (th_env h)))) (th_pm h)"

definition le_client ::
  "'t test_harness \<Rightarrow> (env \<Rightarrow> 't liq_world \<Rightarrow> ('a \<times> 't liq_world) res) \<Rightarrow> ('a \<times> 't test_harness) res" where
  "le_client h = invoke h (l_self (liq_st (te_world (th_env h)))) (th_le h)"

definition fund_client ::
  "'t test_harness \<Rightarrow> (env \<Rightarrow> 't liq_world \<Rightarrow> ('a \<times> 't liq_world) res) \<Rightarrow> ('a \<times> 't test_harness) res" where
  "fund_client h = invoke h (f_self (fund_st (te_world (th_env h)))) (th_funding h)"

text \<open>A failed assertion panics and ends the test, as any other failure does; a test passes when it
  runs to its end.\<close>

definition check :: "bool \<Rightarrow> 'a res \<Rightarrow> 'a res" where
  "check b r = (if b then r else Inl (HostError 99))"

type_synonym 't token_test = "'t token \<Rightarrow> 't testutils \<Rightarrow> 't test_env \<Rightarrow> bool"
type_synonym 't utils_test = "'t testutils \<Rightarrow> 't test_env \<Rightarrow> bool"

definition passes :: "unit res \<Rightarrow> bool" where
  "passes r \<longleftrightarrow> r = Inr ()"

lemma check_simps [simp]: "check True r = r"
  by (simp add: check_def)

lemma check_weak_cong: "b = c \<Longrightarrow> check b r = check c r"
  by simp

section \<open>A token and test utilities to run them with\<close>

definition plain_mint :: "env \<Rightarrow> address \<Rightarrow> address \<Rightarrow> i128 \<Rightarrow> balances \<Rightarrow> balances res" where
  "plain_mint e c to amount t =
     (if amount < 0 then Inl (HostError 8)
      else Inr (t(c := (t c)(to := t c to + amount))))"

definition plain_utils :: "balances testutils" where
  "plain_utils = \<lparr>tu_generate = Account, tu_register = Contract, tu_ttl = 4096,
     tu_mint = plain_mint\<rparr>"

lemma plain_utils_mints: "sac_mints plain_utils plain_token"
  by (simp add: sac_mints_def plain_utils_def plain_mint_def plain_token_def)

definition plain_env :: "balances test_env" where
  "plain_env = \<lparr>te_now = 0, te_generated = 0, te_registered = 0,
     te_world = deployed\<lparr>ledger := \<lambda>_ _. 0\<rparr>\<rparr>"

section \<open>The tests\<close>

definition test_long_position_profit_lifecycle :: "'t token_test" where
  "test_long_position_profit_lifecycle tk tu te = passes (
     bnd (harness_setup tu te) (\<lambda>h.
     bnd (harness_add_liquidity tk tu h 1000000000000) (\<lambda>(lp, h).
     bnd (harness_set_price h 0 10000000000) (\<lambda>h.
     bnd (harness_create_trader tu h 5000000000) (\<lambda>(trader, h).
     bnd (pm_client h (\<lambda>e. pm_open_position tk e trader 0 Long 1000000000 10)) (\<lambda>(pos_id, h).
     check (pos_id = 1) (
     bnd (vault_client h (\<lambda>e w. Inr (vault_view_locked_liquidity w))) (\<lambda>(locked, h).
     check (locked = 10000000000) (
     check (harness_usdc_balance tk h trader = 3990000000) (
     bnd (harness_set_price h 0 12000000000) (\<lambda>h.
     bnd (pm_client h (\<lambda>e. pm_close_position tk e trader pos_id 0)) (\<lambda>(pnl, h).
     check (pnl = 1990000000) (
     check (harness_usdc_balance tk h trader = 6980000000) (
     bnd (vault_client h (\<lambda>e w. Inr (vault_view_locked_liquidity w))) (\<lambda>(locked, h).
     check (locked = 0) (
     bnd (vault_client h (\<lambda>e w. Inr (vault_view_total_deposits w))) (\<lambda>(vault_deposits, h).
     check (vault_deposits = 998020000000) (
     bnd (vault_client h (\<lambda>e w. Inr (vault_view_share_balance lp w))) (\<lambda>(lp_shares, h).
     bnd (vault_client h (\<lambda>e. vault_withdraw tk e lp lp_shares)) (\<lambda>(withdrawn, h).
     check (withdrawn = 998020000000) (Inr ())))))))))))))))))))))"

definition test_short_position_profit_lifecycle :: "'t token_test" where
  "test_short_position_profit_lifecycle tk tu te = passes (
     bnd (harness_setup tu te) (\<lambda>h.
     bnd (harness_add_liquidity tk tu h 1000000000000) (\<lambda>(_, h).
     bnd (harness_set_price h 0 10000000000) (\<lambda>h.
     bnd (harness_create_trader tu h 5000000000) (\<lambda>(trader, h).
     bnd (pm_client h (\<lambda>e. pm_open_position tk e trader 0 Short 1000000000 10)) (\<lambda>(pos_id, h).
     bnd (harness_set_price h 0 8500000000) (\<lambda>h.
     bnd (pm_client h (\<lambda>e. pm_close_position tk e trader pos_id 0)) (\<lambda>(pnl, h).
     check (pnl = 1490000000) (
     bnd (pm_client h (\<lambda>e w. Inr (pm_view_trader_position_count trader w))) (\<lambda>(count, h).
     check (count = 0) (
     bnd (pm_client h (\<lambda>e w. Inr (pm_view_open_interest_short w))) (\<lambda>(oi, h).
     check (oi = 0) (Inr ())))))))))))))"

definition test_trader_loss_goes_to_vault :: "'t token_test" where
  "test_trader_loss_goes_to_vault tk tu te = passes (
     bnd (harness_setup tu te) (\<lambda>h.
     bnd (harness_add_liquidity tk tu h 1000000000000) (\<lambda>(lp, h).
     bnd (harness_set_price h 0 10000000000) (\<lambda>h.
     bnd (harness_create_trader tu h 5000000000) (\<lambda>(trader, h).
     bnd (pm_client h (\<lambda>e. pm_open_position tk e trader 0 Long 1000000000 10)) (\<lambda>(pos_id, h).
     bnd (harness_set_price h 0 9500000000) (\<lambda>h.
     bnd (pm_client h (\<lambda>e. pm_close_position tk e trader pos_id 0)) (\<lambda>(pnl, h).
     check (pnl = - 510000000) (
     check (harness_usdc_balance tk h trader = 4480000000) (
     bnd (vault_client h (\<lambda>e w. Inr (vault_view_total_deposits w))) (\<lambda>(vault_deposits, h).
     check (vault_deposits = 1000520000000) (
     bnd (vault_client h (\<lambda>e. vault_view_share_price)) (\<lambda>(share_price, h).
     check (10000000 < share_price) (
     bnd (vault_client h (\<lambda>e w. Inr (vault_view_share_balance lp w))) (\<lambda>(lp_shares, h).
     bnd (vault_client h (\<lambda>e. vault_withdraw tk e lp lp_shares)) (\<lambda>(withdrawn, h).
     check (withdrawn = 1000520000000) (Inr ())))))))))))))))))"

definition test_liquidation_full_flow :: "'t token_test" where
  "test_liquidation_full_flow tk tu te = passes (
     bnd (harness_setup tu te) (\<lambda>h.
     bnd (harness_add_liquidity tk tu h 1000000000000) (\<lambda>(_, h).
     bnd (harness_set_price h 0 10000000000) (\<lambda>h.
     bnd (harness_create_trader tu h 5000000000) (\<lambda>(trader, h).
     bnd (pm_client h (\<lambda>e. pm_open_position tk e trader 0 Long 1000000000 10)) (\<lambda>(_, h).
     bnd (harness_set_price h 0 9200000000) (\<lambda>h.
     bnd (le_client h (\<lambda>e. liq_is_liquidatable e trader 1 0)) (\<lambda>(liquidatable, h).
     check liquidatable (
     let (keeper, te) = te_generate tu (th_env h); h = h\<lparr>th_env := te\<rparr> in
     bnd (le_client h (\<lambda>e w. bnd (liq_liquidate tk e keeper trader 1 0 w) (\<lambda>w. Inr ((), w)))) (\<lambda>(_, h).
     bnd (pm_client h (\<lambda>e w. Inr (pm_view_trader_position_count trader w))) (\<lambda>(count, h).
     check (count = 0) (
     bnd (pm_client h (\<lambda>e w. Inr (pm_view_open_interest_long w))) (\<lambda>(oi, h).
     check (oi = 0) (
     bnd (vault_client h (\<lambda>e w. Inr (vault_view_locked_liquidity w))) (\<lambda>(locked, h).
     check (locked = 0) (Inr ()))))))))))))))))"

definition test_funding_rate_application :: "'t token_test" where
  "test_funding_rate_application tk tu te = passes (
     bnd (harness_setup tu te) (\<lambda>h.
     bnd (harness_add_liquidity tk tu h 1000000000000) (\<lambda>(_, h).
     bnd (harness_set_price h 0 10000000000) (\<lambda>h.
     bnd (harness_create_trader tu h 5000000000) (\<lambda>(trader1, h).
     bnd (harness_create_trader tu h 5000000000) (\<lambda>(trader2, h).
     bnd (pm_client h (\<lambda>e. pm_open_position tk e trader1 0 Long 1000000000 10)) (\<lambda>(_, h).
     bnd (pm_client h (\<lambda>e. pm_open_position tk e trader2 0 Short 1000000000 5)) (\<lambda>(_, h).
     bnd (pm_client h (\<lambda>e w. Inr (pm_view_open_interest_long w))) (\<lambda>(oi_long, h).
     check (oi_long = 10000000000) (
     bnd (pm_client h (\<lambda>e w. Inr (pm_view_open_interest_short w))) (\<lambda>(oi_short, h).
     check (oi_short = 5000000000) (
     bnd (fund_client h fund_get_current_rate) (\<lambda>((long_rate, short_rate), h).
     check (long_rate = 15) (check (short_rate = - 5) (
     let (keeper, te) = te_generate tu (th_env h); h = h\<lparr>th_env := te\<rparr> in
     check (isl (fund_client h (\<lambda>e w. bnd (fund_apply_funding e keeper w) (\<lambda>w. Inr ((), w))))) (
     bnd (harness_advance_time h 3601) (\<lambda>h.
     bnd (fund_client h (\<lambda>e w. bnd (fund_apply_funding e keeper w) (\<lambda>w. Inr ((), w)))) (\<lambda>(_, h).
     bnd (fund_client h (\<lambda>e w. Inr (fund_view_cumulative_funding_long w))) (\<lambda>(cum_long, h).
     check (cum_long = 15) (
     bnd (fund_client h (\<lambda>e w. Inr (fund_view_cumulative_funding_short w))) (\<lambda>(cum_short, h).
     check (cum_short = - 5) (Inr ()))))))))))))))))))))))"

definition test_multiple_traders_concurrent_positions :: "'t token_test" where
  "test_multiple_traders_concurrent_positions tk tu te = passes (
     bnd (harness_setup tu te) (\<lambda>h.
     bnd (harness_add_liquidity tk tu h 5000000000000) (\<lambda>(_, h).
     bnd (harness_set_price h 0 10000000000) (\<lambda>h.
     bnd (harness_create_trader tu h 10000000000) (\<lambda>(trader_a, h).
     bnd (harness_create_trader tu h 10000000000) (\<lambda>(trader_b, h).
     bnd (harness_create_trader tu h 10000000000) (\<lambda>(trader_c, h).
     bnd (pm_client h (\<lambda>e. pm_open_position tk e trader_a 0 Long 2000000000 10)) (\<lambda>(pos_a, h).
     bnd (pm_client h (\<lambda>e. pm_open_position tk e trader_b 0 Short 3000000000 5)) (\<lambda>(pos_b, h).
     bnd (pm_client h (\<lambda>e. pm_open_position tk e trader_c 0 Long 1000000000 20)) (\<lambda>(pos_c, h).
     bnd (pm_client h (\<lambda>e w. Inr (pm_view_open_interest_long w))) (\<lambda>(oi_long, h).
     check (oi_long = 40000000000) (
     bnd (pm_client h (\<lambda>e w. Inr (pm_view_open_interest_short w))) (\<lambda>(oi_short, h).
     check (oi_short = 15000000000) (
     bnd (harness_set_price h 0 10500000000) (\<lambda>h.
     bnd (pm_client h (\<lambda>e. pm_close_position tk e trader_a pos_a 0)) (\<lambda>(pnl_a, h).
     bnd (pm_client h (\<lambda>e. pm_close_position tk e trader_b pos_b 0)) (\<lambda>(pnl_b, h).
     bnd (pm_client h (\<lambda>e. pm_close_position tk e trader_c pos_c 0)) (\<lambda>(pnl_c, h).
     check (pnl_a = 980000000) (
     check (pnl_b = - 765000000) (
     check (pnl_c = 980000000) (
     bnd (pm_client h (\<lambda>e w. Inr (pm_view_open_interest_long w))) (\<lambda>(oi_long, h).
     check (oi_long = 0) (
     bnd (pm_client h (\<lambda>e w. Inr (pm_view_open_interest_short w))) (\<lambda>(oi_short, h).
     check (oi_short = 0) (
     bnd (vault_client h (\<lambda>e w. Inr (vault_view_locked_liquidity w))) (\<lambda>(locked, h).
     check (locked = 0) (Inr ())))))))))))))))))))))))))))"

definition test_lp_utilization_limit :: "'t token_test" where
  "test_lp_utilization_limit tk tu te = passes (
     bnd (harness_setup tu te) (\<lambda>h.
     bnd (harness_add_liquidity tk tu h 100000000000) (\<lambda>(_, h).
     bnd (harness_set_price h 0 10000000000) (\<lambda>h.
     bnd (harness_create_trader tu h 50000000000) (\<lambda>(trader, h).
     bnd (pm_client h (\<lambda>e. pm_open_position tk e trader 0 Long 8000000000 10)) (\<lambda>(_, h).
     bnd (vault_client h (\<lambda>e. vault_view_utilization)) (\<lambda>(util, h).
     check (util \<le> 8000) (
     bnd (harness_add_liquidity tk tu h 10000000000) (\<lambda>(lp2, h).
     bnd (vault_client h (\<lambda>e w. Inr (vault_view_share_balance lp2 w))) (\<lambda>(lp2_shares, h).
     bnd (vault_client h (\<lambda>e w. Inr (vault_view_total_deposits w))) (\<lambda>(total_deposits, h).
     bnd (vault_client h (\<lambda>e w. Inr (vault_view_locked_liquidity w))) (\<lambda>(locked, h).
     check (locked \<le> total_deposits) (
     check (locked = 80000000000) (
     bnd (harness_set_price h 0 10000000000) (\<lambda>h.
     bnd (pm_client h (\<lambda>e. pm_close_position tk e trader 1 0)) (\<lambda>(_, h).
     bnd (vault_client h (\<lambda>e w. Inr (vault_view_locked_liquidity w))) (\<lambda>(locked, h).
     check (locked = 0) (
     bnd (vault_client h (\<lambda>e. vault_withdraw tk e lp2 lp2_shares)) (\<lambda>(_, h).
     Inr ())))))))))))))))))))"

lemmas harness_run =
  harness_add_liquidity_def harness_mint_usdc_def harness_create_trader_def harness_set_price_def
  harness_usdc_balance_def harness_advance_time_def te_generate_def te_client_def te_call_def
  invoke_def vault_client_def pm_client_def le_client_def fund_client_def passes_def

text \<open>The state after \<open>setup\<close>, written out.\<close>

lemma harness_setup_of:
  "plain_utils = tu \<Longrightarrow> plain_env = te \<Longrightarrow>
     harness_setup plain_utils plain_env = Inr (ready_harness tu te)"
  by (simp add: harness_setup_eq)

lemmas plain_setup = harness_setup_of [OF plain_utils_def plain_env_def, simplified
  ready_harness_def ready_world_def setup_contract_def deployed_def extend_ttl_def, simplified]

lemma plain_utils_simps:
  "tu_generate plain_utils = Account" "tu_register plain_utils = Contract"
  "tu_ttl plain_utils = 4096" "tu_mint plain_utils = plain_mint"
  by (simp_all add: plain_utils_def)

text \<open>A transfer of the plain token, with the two balances it leaves.\<close>

lemma plain_transfer_run:
  "from \<noteq> to \<Longrightarrow> plain_transfer e c from to n t =
     (if \<not> authorised e from then Inl (Trap AuthFailed)
      else if n < 0 \<or> t c from < n then Inl (HostError 10)
      else Inr (t(c := (t c)(from := t c from - n, to := t c to + n))))"
  by (auto simp: plain_transfer_def moved_def fun_eq_iff)

lemmas test_run =
  harness_run plain_setup plain_utils_simps plain_mint_def plain_transfer_run contracts_run
  vault_view_locked_liquidity_def vault_view_total_deposits_def vault_view_share_balance_def
  vault_view_share_price_def calc_share_price_def pm_view_trader_position_count_def
  liq_is_liquidatable_def liq_get_margin_ratio_def fund_view_cumulative_funding_long_def
  fund_view_cumulative_funding_short_def

text \<open>
  States are values: the simplifier does not look into one that is written out, which makes a run
  as cheap in a large state as in a small one.
\<close>

lemmas host_value = refl [of
  "\<lparr>ledger = a, events = b, \<dots> = x\<rparr>"
  for a b x]

lemmas oracle_store_value = refl [of
  "\<lparr>o_self = a, o_admin = b, o_staleness = c, o_prices = d, o_ttl = e, o_price_ttl = f,
    \<dots> = x\<rparr>"
  for a b c d e f x]

lemmas vault_store_value = refl [of
  "\<lparr>v_self = a, v_admin = b, v_usdc = c, v_total_shares = d, v_total_deposits = e,
    v_locked = f, v_max_util = g, v_pm = h, v_shares = i, v_ttl = j, v_share_ttl = k,
    \<dots> = x\<rparr>"
  for a b c d e f g h i j k x]

lemmas pm_store_value = refl [of
  "\<lparr>p_self = a, p_admin = b, p_vault = c, p_oracle = d, p_funding = e, p_liq_engine = f,
    p_usdc = g, p_next_id = h, p_open_fee = i, p_close_fee = j, p_max_leverage = k,
    p_min_collateral = l, p_oi_long = m, p_oi_short = n, p_positions = y, p_counts = p,
    p_ttl = q, p_position_ttl = r, \<dots> = x\<rparr>"
  for a b c d e f g h i j k l m n y p q r x]

lemmas fund_store_value = refl [of
  "\<lparr>f_self = a, f_admin = b, f_pm = c, f_interval = d, f_max_rate = e, f_spread = f,
    f_cum_long = g, f_cum_short = h, f_last_time = i, f_ttl = j, \<dots> = x\<rparr>"
  for a b c d e f g h i j x]

lemmas liq_store_value = refl [of
  "\<lparr>l_self = a, l_admin = b, l_pm = c, l_oracle = d, l_maintenance = e, l_penalty = f,
    l_reward = g, l_ttl = h, \<dots> = x\<rparr>"
  for a b c d e f g h x]

lemmas test_env_value = refl [of
  "\<lparr>te_now = a, te_generated = b, te_registered = c, te_world = d, \<dots> = x\<rparr>"
  for a b c d x]

lemmas test_harness_value = refl [of
  "\<lparr>th_env = a, th_admin = b, th_usdc_address = c, th_vault = d, th_oracle = e, th_pm = f,
    th_le = g, th_funding = h, th_vault_address = i, \<dots> = x\<rparr>"
  for a b c d e f g h i x]

lemmas test_cong =
  run_cong check_weak_cong host_value oracle_store_value vault_store_value pm_store_value
  fund_store_value liq_store_value test_env_value test_harness_value

lemma long_profit_passes: "test_long_position_profit_lifecycle plain_token plain_utils plain_env"
  by (simp add: test_long_position_profit_lifecycle_def test_run cong: test_cong)

lemma short_profit_passes: "test_short_position_profit_lifecycle plain_token plain_utils plain_env"
  by (simp add: test_short_position_profit_lifecycle_def test_run cong: test_cong)

lemma trader_loss_passes: "test_trader_loss_goes_to_vault plain_token plain_utils plain_env"
  by (simp add: test_trader_loss_goes_to_vault_def test_run cong: test_cong)

lemma liquidation_flow_passes: "test_liquidation_full_flow plain_token plain_utils plain_env"
  by (simp add: test_liquidation_full_flow_def test_run cong: test_cong)

lemma multiple_traders_passes:
  "test_multiple_traders_concurrent_positions plain_token plain_utils plain_env"
  by (simp add: test_multiple_traders_concurrent_positions_def test_run cong: test_cong)

lemma utilization_limit_passes: "test_lp_utilization_limit plain_token plain_utils plain_env"
  by (simp add: test_lp_utilization_limit_def test_run vault_view_utilization_def cong: test_cong)

lemma funding_application_passes: "test_funding_rate_application plain_token plain_utils plain_env"
  by (simp add: test_funding_rate_application_def test_run cong: test_cong)

end
