(* ===== verification/Access_Tests.thy ===== *)
theory Access_Tests
  imports Lifecycle_Tests
begin

text \<open>
  The access-control tests of the repository,
  \<^verbatim>\<open>contracts/integration-tests/src/test_access_control.rs\<close>, on the model.  A test that must panic
  with a contract error is a run that ends with the error of that code.  The tests that only need
  the harness pass for every token and all test utilities that never hand out an address twice.
\<close>

section \<open>Tests that must panic\<close>

definition panics_with :: "u32 \<Rightarrow> 'a res \<Rightarrow> bool" where
  "panics_with code r = (case r of Inl (Err err) \<Rightarrow> perps_error_code err = code | _ \<Rightarrow> False)"

lemma panics_with_simps [simp]:
  "panics_with code (Inl (Err err)) \<longleftrightarrow> perps_error_code err = code"
  by (simp add: panics_with_def)

definition h_generate :: "'t testutils \<Rightarrow> 't test_harness \<Rightarrow> address \<times> 't test_harness" where
  "h_generate tu h = (let (a, te) = te_generate tu (th_env h) in (a, h\<lparr>th_env := te\<rparr>))"

text \<open>A call that returns no value.\<close>

definition no_value :: "('w \<Rightarrow> 'w res) \<Rightarrow> 'w \<Rightarrow> (unit \<times> 'w) res" where
  "no_value f w = bnd (f w) (\<lambda>w. Inr ((), w))"

definition oracle_client ::
  "'t test_harness \<Rightarrow> (env \<Rightarrow> 't liq_world \<Rightarrow> ('a \<times> 't liq_world) res) \<Rightarrow> ('a \<times> 't test_harness) res" where
  "oracle_client h = invoke h (o_self (oracle_st (te_world (th_env h)))) (th_oracle h)"

section \<open>Calls by an attacker\<close>

definition test_vault_lock_unauthorized :: "'t utils_test" where
  "test_vault_lock_unauthorized tu te = panics_with 11 (
     bnd (harness_setup tu te) (\<lambda>h.
     let (attacker, h) = h_generate tu h in
     vault_client h (\<lambda>e. no_value (vault_lock_liquidity e attacker 10000000000))))"

definition test_vault_unlock_unauthorized :: "'t utils_test" where
  "test_vault_unlock_unauthorized tu te = panics_with 11 (
     bnd (harness_setup tu te) (\<lambda>h.
     let (attacker, h) = h_generate tu h in
     vault_client h (\<lambda>e. no_value (vault_unlock_liquidity e attacker 10000000000))))"

definition test_vault_settle_pnl_unauthorized :: "'t token_test" where
  "test_vault_settle_pnl_unauthorized tk tu te = panics_with 11 (
     bnd (harness_setup tu te) (\<lambda>h.
     let (attacker, h) = h_generate tu h; (trader, h) = h_generate tu h in
     vault_client h (\<lambda>e. no_value (vault_settle_pnl tk e attacker trader 1000000000))))"

definition test_vault_collect_fee_unauthorized :: "'t utils_test" where
  "test_vault_collect_fee_unauthorized tu te = panics_with 11 (
     bnd (harness_setup tu te) (\<lambda>h.
     let (attacker, h) = h_generate tu h in
     vault_client h (\<lambda>e. no_value (vault_collect_fee e attacker 1000000000))))"

definition test_vault_set_position_manager_unauthorized :: "'t utils_test" where
  "test_vault_set_position_manager_unauthorized tu te = panics_with 11 (
     bnd (harness_setup tu te) (\<lambda>h.
     let (attacker, h) = h_generate tu h; (fake_pm, h) = h_generate tu h in
     vault_client h (\<lambda>e. no_value (vault_set_position_manager e attacker fake_pm))))"

definition test_oracle_set_price_unauthorized :: "'t utils_test" where
  "test_oracle_set_price_unauthorized tu te = panics_with 11 (
     bnd (harness_setup tu te) (\<lambda>h.
     let (attacker, h) = h_generate tu h in
     oracle_client h (\<lambda>e. no_value (oracle_set_price e attacker 0 10000000000))))"

definition test_pm_set_fee_rates_unauthorized :: "'t utils_test" where
  "test_pm_set_fee_rates_unauthorized tu te = panics_with 11 (
     bnd (harness_setup tu te) (\<lambda>h.
     let (attacker, h) = h_generate tu h in
     pm_client h (\<lambda>e. no_value (pm_set_fee_rates e attacker 50 50))))"

definition test_pm_set_max_leverage_unauthorized :: "'t utils_test" where
  "test_pm_set_max_leverage_unauthorized tu te = panics_with 11 (
     bnd (harness_setup tu te) (\<lambda>h.
     let (attacker, h) = h_generate tu h in
     pm_client h (\<lambda>e. no_value (pm_set_max_leverage e attacker 50))))"

definition test_le_set_maintenance_margin_unauthorized :: "'t utils_test" where
  "test_le_set_maintenance_margin_unauthorized tu te = panics_with 11 (
     bnd (harness_setup tu te) (\<lambda>h.
     let (attacker, h) = h_generate tu h in
     le_client h (\<lambda>e. no_value (liq_set_maintenance_margin e attacker 1000))))"

definition test_funding_set_interval_unauthorized :: "'t utils_test" where
  "test_funding_set_interval_unauthorized tu te = panics_with 11 (
     bnd (harness_setup tu te) (\<lambda>h.
     let (attacker, h) = h_generate tu h in
     fund_client h (\<lambda>e. no_value (fund_set_funding_interval e attacker 7200))))"

section \<open>Initialising twice\<close>

definition test_vault_double_initialize :: "'t utils_test" where
  "test_vault_double_initialize tu te = panics_with 2 (
     bnd (harness_setup tu te) (\<lambda>h.
     let (attacker, h) = h_generate tu h; (fake_token, h) = h_generate tu h in
     vault_client h (\<lambda>e. no_value (vault_initialize attacker fake_token 8000))))"

definition test_pm_double_initialize :: "'t utils_test" where
  "test_pm_double_initialize tu te = panics_with 2 (
     bnd (harness_setup tu te) (\<lambda>h.
     let (attacker, h) = h_generate tu h; (fake, h) = h_generate tu h in
     pm_client h (\<lambda>e. no_value (pm_initialize attacker fake fake fake 10 10 30 100000000))))"

section \<open>The admin, and the engine's entry point\<close>

definition test_admin_can_update_config :: "'t token_test" where
  "test_admin_can_update_config tk tu te = passes (
     bnd (harness_setup tu te) (\<lambda>h.
     let adm = th_admin h in
     bnd (pm_client h (\<lambda>e. no_value (pm_set_fee_rates e adm 20 20))) (\<lambda>(_, h).
     bnd (pm_client h (\<lambda>e. no_value (pm_set_max_leverage e adm 50))) (\<lambda>(_, h).
     bnd (vault_client h (\<lambda>e. no_value (vault_set_max_utilization e adm 9000))) (\<lambda>(_, h).
     bnd (oracle_client h (\<lambda>e. no_value (oracle_set_staleness_threshold e adm 600))) (\<lambda>(_, h).
     bnd (le_client h (\<lambda>e. no_value (liq_set_maintenance_margin e adm 800))) (\<lambda>(_, h).
     bnd (le_client h (\<lambda>e. no_value (liq_set_liquidation_penalty e adm 300))) (\<lambda>(_, h).
     bnd (le_client h (\<lambda>e. no_value (liq_set_keeper_reward e adm 100))) (\<lambda>(_, h).
     bnd (fund_client h (\<lambda>e. no_value (fund_set_funding_interval e adm 7200))) (\<lambda>(_, h).
     bnd (fund_client h (\<lambda>e. no_value (fund_set_max_rate e adm 20))) (\<lambda>(_, h).
     bnd (harness_add_liquidity tk tu h 1000000000000) (\<lambda>(_, h).
     bnd (harness_set_price h 0 10000000000) (\<lambda>h.
     bnd (harness_create_trader tu h 5000000000) (\<lambda>(trader, h).
     bnd (pm_client h (\<lambda>e. pm_open_position tk e trader 0 Long 100000000 50)) (\<lambda>(pos_id, h).
     bnd (pm_client h (\<lambda>e. pm_get_position trader pos_id)) (\<lambda>(pos, h).
     check (pos_size pos = 5000000000) (Inr ())))))))))))))))))"

text \<open>This test only expects some panic.\<close>

definition test_pm_liquidate_position_unauthorized_caller ::
  "'t token_test" where
  "test_pm_liquidate_position_unauthorized_caller tk tu te = isl (
     bnd (harness_setup tu te) (\<lambda>h.
     bnd (harness_add_liquidity tk tu h 1000000000000) (\<lambda>(_, h).
     bnd (harness_set_price h 0 10000000000) (\<lambda>h.
     bnd (harness_create_trader tu h 5000000000) (\<lambda>(trader, h).
     bnd (pm_client h (\<lambda>e. pm_open_position tk e trader 0 Long 1000000000 10)) (\<lambda>(_, h).
     let (attacker, h) = h_generate tu h in
     pm_client h (\<lambda>e. pm_liquidate_position tk e attacker trader 1 0)))))))"

section \<open>They pass\<close>

text \<open>Addresses are handed out once.\<close>

definition fresh_addresses :: "'t testutils \<Rightarrow> bool" where
  "fresh_addresses tu \<longleftrightarrow> (\<forall>m n. tu_generate tu m = tu_generate tu n \<longleftrightarrow> m = n)
     \<and> (\<forall>m n. tu_generate tu m \<noteq> tu_register tu n)"

lemma plain_utils_fresh: "fresh_addresses plain_utils"
  by (simp add: fresh_addresses_def plain_utils_def)

lemmas client_run = h_generate_def no_value_def oracle_client_def

lemmas any_client_run =
  client_run vault_client_def pm_client_def le_client_def fund_client_def invoke_def
  te_generate_def te_call_def harness_setup_eq ready_harness_def ready_world_def
  setup_contract_def host_run vault_require_position_manager_def

lemmas attacked_ops =
  vault_lock_liquidity_def vault_unlock_liquidity_def vault_settle_pnl_def vault_collect_fee_def
  vault_set_position_manager_def oracle_set_price_def pm_set_fee_rates_def pm_set_max_leverage_def
  liq_set_maintenance_margin_def fund_set_funding_interval_def vault_initialize_def
  pm_initialize_def vault_storage_defs oracle_storage_defs pm_storage_defs liq_storage_defs
  fund_storage_defs

lemma attacker_tests_pass:
  assumes "fresh_addresses tu"
  shows "test_vault_lock_unauthorized tu te"
    and "test_vault_unlock_unauthorized tu te"
    and "test_vault_settle_pnl_unauthorized tk tu te"
    and "test_vault_collect_fee_unauthorized tu te"
    and "test_vault_set_position_manager_unauthorized tu te"
    and "test_oracle_set_price_unauthorized tu te"
    and "test_pm_set_fee_rates_unauthorized tu te"
    and "test_pm_set_max_leverage_unauthorized tu te"
    and "test_le_set_maintenance_margin_unauthorized tu te"
    and "test_funding_set_interval_unauthorized tu te"
  using assms
  by (simp_all add: test_vault_lock_unauthorized_def
      test_vault_unlock_unauthorized_def
      test_vault_settle_pnl_unauthorized_def
      test_vault_collect_fee_unauthorized_def
      test_vault_set_position_manager_unauthorized_def
      test_oracle_set_price_unauthorized_def
      test_pm_set_fee_rates_unauthorized_def
      test_pm_set_max_leverage_unauthorized_def
      test_le_set_maintenance_margin_unauthorized_def
      test_funding_set_interval_unauthorized_def
      any_client_run attacked_ops fresh_addresses_def)

lemma double_initialize_tests_pass:
  "test_vault_double_initialize tu te" "test_pm_double_initialize tu te"
  by (simp_all add: test_vault_double_initialize_def test_pm_double_initialize_def any_client_run
      attacked_ops)

lemma admin_test_passes: "test_admin_can_update_config plain_token plain_utils plain_env"
  by (simp add: test_admin_can_update_config_def test_run client_run attacked_ops
      vault_set_max_utilization_def oracle_set_staleness_threshold_def
      liq_set_liquidation_penalty_def liq_set_keeper_reward_def fund_set_max_rate_def cong: test_cong)

lemma unauthorized_caller_test_passes:
  "test_pm_liquidate_position_unauthorized_caller plain_token plain_utils plain_env"
  by (simp add: test_pm_liquidate_position_unauthorized_caller_def test_run client_run cong: test_cong)

end
