(* ===== verification/Unit_Harness.thy ===== *)
theory Unit_Harness
  imports Access_Tests
begin

text \<open>
  The set-up functions of the unit tests of the contracts
  (\<^verbatim>\<open>contracts/<contract>/src/test.rs\<close>): each deploys the contract under test and the ones it calls,
  without the rest of the exchange.  They are evaluated once, for the plain token.
\<close>

section \<open>One contract\<close>

text \<open>A call of a client that returns a value and the environment after it.\<close>

definition te_invoke ::
  "'t test_env \<Rightarrow> address \<Rightarrow> address \<Rightarrow> (env \<Rightarrow> 't liq_world \<Rightarrow> ('a \<times> 't liq_world) res)
    \<Rightarrow> ('a \<times> 't test_env) res" where
  "te_invoke te here a f =
     (if a = here
      then bnd (f (te_call te a) (te_world te)) (\<lambda>(x, w). Inr (x, te\<lparr>te_world := w\<rparr>))
      else Inl (Trap MissingContract))"

definition oracle_of :: "'t test_env \<Rightarrow> address \<Rightarrow> (env \<Rightarrow> 't liq_world \<Rightarrow> ('a \<times> 't liq_world) res)
    \<Rightarrow> ('a \<times> 't test_env) res" where
  "oracle_of te = te_invoke te (o_self (oracle_st (te_world te)))"

definition vault_of :: "'t test_env \<Rightarrow> address \<Rightarrow> (env \<Rightarrow> 't liq_world \<Rightarrow> ('a \<times> 't liq_world) res)
    \<Rightarrow> ('a \<times> 't test_env) res" where
  "vault_of te = te_invoke te (v_self (vault_st (te_world te)))"

text \<open>The mint of the asset contract, and a change of the ledger's time.\<close>

definition te_mint ::
  "'t testutils \<Rightarrow> 't test_env \<Rightarrow> address \<Rightarrow> address \<Rightarrow> i128 \<Rightarrow> 't test_env res" where
  "te_mint tu te usdc to amount =
     bnd (tu_mint tu (te_call te usdc) usdc to amount (ledger (te_world te))) (\<lambda>t.
     Inr (te\<lparr>te_world := (te_world te)\<lparr>ledger := t\<rparr>\<rparr>))"

definition te_balance :: "'t token \<Rightarrow> 't test_env \<Rightarrow> address \<Rightarrow> address \<Rightarrow> i128" where
  "te_balance tk te usdc account = tok_balance tk usdc account (ledger (te_world te))"

definition oracle_test_setup ::
  "'t testutils \<Rightarrow> 't test_env \<Rightarrow> ('t test_env \<times> address \<times> address) res" where
  "oracle_test_setup tu te =
     (let (admin, te) = te_generate tu te;
          (contract_id, te) = te_register tu (place_oracle tu) te in
      bnd (te_client te (o_self (oracle_st (te_world te))) contract_id
             (\<lambda>e. oracle_initialize admin 300)) (\<lambda>te.
      Inr (te, contract_id, admin)))"

definition vault_test_setup ::
  "'t testutils \<Rightarrow> 't test_env \<Rightarrow> ('t test_env \<times> address \<times> address \<times> address) res" where
  "vault_test_setup tu te =
     (let (admin, te) = te_generate tu te;
          (usdc_admin, te) = te_generate tu te;
          (usdc_address, te) = te_register tu (\<lambda>_ w. w) te;
          (vault_id, te) = te_register tu (place_vault tu) te in
      bnd (te_client te (v_self (vault_st (te_world te))) vault_id
             (\<lambda>e. vault_initialize admin usdc_address 8000)) (\<lambda>te.
      Inr (te, vault_id, admin, usdc_address)))"

section \<open>Vault, oracle and position manager\<close>

record 't pm_setup =
  ts_env :: "'t test_env"
  ts_admin :: address
  ts_usdc_address :: address
  ts_vault :: address
  ts_oracle :: address
  ts_pm :: address

definition ts_vault_client :: "('t, 'm) pm_setup_scheme
    \<Rightarrow> (env \<Rightarrow> 't liq_world \<Rightarrow> ('a \<times> 't liq_world) res) \<Rightarrow> ('a \<times> ('t, 'm) pm_setup_scheme) res" where
  "ts_vault_client s f = bnd (vault_of (ts_env s) (ts_vault s) f) (\<lambda>(x, te). Inr (x, s\<lparr>ts_env := te\<rparr>))"

definition ts_pm_client :: "('t, 'm) pm_setup_scheme
    \<Rightarrow> (env \<Rightarrow> 't liq_world \<Rightarrow> ('a \<times> 't liq_world) res) \<Rightarrow> ('a \<times> ('t, 'm) pm_setup_scheme) res" where
  "ts_pm_client s f =
     bnd (te_invoke (ts_env s) (p_self (pm_st (te_world (ts_env s)))) (ts_pm s) f) (\<lambda>(x, te).
     Inr (x, s\<lparr>ts_env := te\<rparr>))"

definition ts_generate ::
  "'t testutils \<Rightarrow> ('t, 'm) pm_setup_scheme \<Rightarrow> address \<times> ('t, 'm) pm_setup_scheme" where
  "ts_generate tu s = (let (a, te) = te_generate tu (ts_env s) in (a, s\<lparr>ts_env := te\<rparr>))"

definition ts_mint_usdc :: "'t testutils \<Rightarrow> ('t, 'm) pm_setup_scheme \<Rightarrow> address \<Rightarrow> i128
    \<Rightarrow> ('t, 'm) pm_setup_scheme res" where
  "ts_mint_usdc tu s to amount =
     bnd (te_mint tu (ts_env s) (ts_usdc_address s) to amount) (\<lambda>te. Inr (s\<lparr>ts_env := te\<rparr>))"

definition ts_create_trader :: "'t testutils \<Rightarrow> ('t, 'm) pm_setup_scheme \<Rightarrow> i128
    \<Rightarrow> (address \<times> ('t, 'm) pm_setup_scheme) res" where
  "ts_create_trader tu s amount =
     (let (trader, s) = ts_generate tu s in
      bnd (ts_mint_usdc tu s trader amount) (\<lambda>s. Inr (trader, s)))"

definition ts_add_liquidity :: "'t token \<Rightarrow> 't testutils \<Rightarrow> ('t, 'm) pm_setup_scheme \<Rightarrow> i128
    \<Rightarrow> (address \<times> ('t, 'm) pm_setup_scheme) res" where
  "ts_add_liquidity tk tu s amount =
     (let (lp, s) = ts_generate tu s in
      bnd (ts_mint_usdc tu s lp amount) (\<lambda>s.
      bnd (ts_vault_client s (\<lambda>e. vault_deposit tk e lp amount)) (\<lambda>(_, s).
      Inr (lp, s))))"

definition ts_set_price ::
  "('t, 'm) pm_setup_scheme \<Rightarrow> u32 \<Rightarrow> i128 \<Rightarrow> ('t, 'm) pm_setup_scheme res" where
  "ts_set_price s asset price =
     bnd (te_client (ts_env s) (o_self (oracle_st (te_world (ts_env s)))) (ts_oracle s)
            (\<lambda>e. oracle_set_price e (ts_admin s) asset price)) (\<lambda>te.
     Inr (s\<lparr>ts_env := te\<rparr>))"

text \<open>The contracts the three setups begin with.\<close>

definition deploy_trading :: "'t testutils \<Rightarrow> 't test_env \<Rightarrow> 't pm_setup res" where
  "deploy_trading tu te =
     (let (admin, te) = te_generate tu te;
          (usdc_admin, te) = te_generate tu te;
          (usdc_address, te) = te_register tu (\<lambda>_ w. w) te;
          (vault_address, te) = te_register tu (place_vault tu) te in
      bnd (te_client te (v_self (vault_st (te_world te))) vault_address
             (\<lambda>e. vault_initialize admin usdc_address 8000)) (\<lambda>te.
      let (oracle_address, te) = te_register tu (place_oracle tu) te in
      bnd (te_client te (o_self (oracle_st (te_world te))) oracle_address
             (\<lambda>e. oracle_initialize admin 300)) (\<lambda>te.
      let (pm_address, te) = te_register tu (place_pm tu) te in
      bnd (te_client te (p_self (pm_st (te_world te))) pm_address
             (\<lambda>e. pm_initialize admin vault_address oracle_address usdc_address 10 10 30 100000000))
        (\<lambda>te.
      Inr \<lparr>ts_env = te, ts_admin = admin, ts_usdc_address = usdc_address, ts_vault = vault_address,
           ts_oracle = oracle_address, ts_pm = pm_address\<rparr>))))"

definition wire_vault :: "('t, 'm) pm_setup_scheme \<Rightarrow> ('t, 'm) pm_setup_scheme res" where
  "wire_vault s =
     bnd (te_client (ts_env s) (v_self (vault_st (te_world (ts_env s)))) (ts_vault s)
            (\<lambda>e. vault_set_position_manager e (ts_admin s) (ts_pm s))) (\<lambda>te.
     Inr (s\<lparr>ts_env := te\<rparr>))"

definition pm_test_setup :: "'t testutils \<Rightarrow> 't test_env \<Rightarrow> 't pm_setup res" where
  "pm_test_setup tu te =
     bnd (deploy_trading tu te) (\<lambda>s.
     bnd (wire_vault s) (\<lambda>s.
     Inr (s\<lparr>ts_env := (ts_env s)\<lparr>te_now := 1000\<rparr>\<rparr>)))"

section \<open>With the liquidation engine, with the funding contract\<close>

record 't le_setup = "'t pm_setup" +
  ts_le :: address

definition ts_le_client :: "'t le_setup
    \<Rightarrow> (env \<Rightarrow> 't liq_world \<Rightarrow> ('a \<times> 't liq_world) res) \<Rightarrow> ('a \<times> 't le_setup) res" where
  "ts_le_client s f =
     bnd (te_invoke (ts_env s) (l_self (liq_st (te_world (ts_env s)))) (ts_le s) f) (\<lambda>(x, te).
     Inr (x, s\<lparr>ts_env := te\<rparr>))"

definition deploy_liquidation :: "'t testutils \<Rightarrow> 't test_env \<Rightarrow> 't le_setup res" where
  "deploy_liquidation tu te =
     bnd (deploy_trading tu te) (\<lambda>s.
     let (le_address, te) = te_register tu (place_liq tu) (ts_env s) in
     bnd (te_client te (l_self (liq_st (te_world te))) le_address
            (\<lambda>e. liq_initialize (ts_admin s) (ts_pm s) (ts_oracle s) 500 250 50)) (\<lambda>te.
     bnd (wire_vault (pm_setup.extend (s\<lparr>ts_env := te\<rparr>) (le_setup.fields le_address))) (\<lambda>s.
     bnd (te_client (ts_env s) (p_self (pm_st (te_world (ts_env s)))) (ts_pm s)
            (\<lambda>e. pm_set_liquidation_engine e (ts_admin s) (ts_le s))) (\<lambda>te.
     Inr (s\<lparr>ts_env := te\<lparr>te_now := 1000\<rparr>\<rparr>)))))"

definition le_test_setup :: "'t token \<Rightarrow> 't testutils \<Rightarrow> 't test_env \<Rightarrow> 't le_setup res" where
  "le_test_setup tk tu te =
     bnd (deploy_liquidation tu te) (\<lambda>s.
     bnd (ts_add_liquidity tk tu s 1000000000000) (\<lambda>(_, s).
     Inr s))"

record 't funding_setup = "'t pm_setup" +
  ts_funding :: address

definition ts_funding_client :: "'t funding_setup
    \<Rightarrow> (env \<Rightarrow> 't liq_world \<Rightarrow> ('a \<times> 't liq_world) res) \<Rightarrow> ('a \<times> 't funding_setup) res" where
  "ts_funding_client s f =
     bnd (te_invoke (ts_env s) (f_self (fund_st (te_world (ts_env s)))) (ts_funding s) f) (\<lambda>(x, te).
     Inr (x, s\<lparr>ts_env := te\<rparr>))"

definition deploy_funding :: "'t testutils \<Rightarrow> 't test_env \<Rightarrow> 't funding_setup res" where
  "deploy_funding tu te =
     bnd (deploy_trading tu te) (\<lambda>s.
     let (funding_address, te) = te_register tu (place_fund tu) (ts_env s);
         te = te\<lparr>te_now := 1000\<rparr> in
     bnd (te_client te (f_self (fund_st (te_world te))) funding_address
            (\<lambda>e. fund_initialize e (ts_admin s) (ts_pm s) 3600 100 5)) (\<lambda>te.
     wire_vault (pm_setup.extend (s\<lparr>ts_env := te\<rparr>) (funding_setup.fields funding_address))))"

definition funding_test_setup :: "'t token \<Rightarrow> 't testutils \<Rightarrow> 't test_env \<Rightarrow> 't funding_setup res" where
  "funding_test_setup tk tu te =
     bnd (deploy_funding tu te) (\<lambda>s.
     bnd (ts_add_liquidity tk tu s 1000000000000) (\<lambda>(_, s).
     ts_set_price s 0 10000000000))"

section \<open>The states the tests start from\<close>

lemmas unit_run =
  te_invoke_def oracle_of_def vault_of_def te_mint_def te_balance_def te_register_def
  ts_vault_client_def ts_pm_client_def ts_generate_def ts_mint_usdc_def ts_create_trader_def
  ts_add_liquidity_def ts_set_price_def ts_le_client_def ts_funding_client_def
  te_generate_def te_client_def te_call_def plain_mint_def plain_transfer_run
  contracts_run no_value_def panics_with_def passes_def plain_utils_simps

lemmas deployment_run =
  unit_run wire_vault_def place_defs deployed_def pm_setup.defs le_setup.defs
  funding_setup.defs

lemma setup_at:
  "plain_utils = tu \<Longrightarrow> plain_env = te \<Longrightarrow> f tu te = r \<Longrightarrow> f plain_utils plain_env = r"
  by simp

lemmas oracle_setup_run = setup_at [where f = oracle_test_setup,
  OF plain_utils_def plain_env_def oracle_test_setup_def, simplified deployment_run, simplified]

lemmas vault_setup_run = setup_at [where f = vault_test_setup,
  OF plain_utils_def plain_env_def vault_test_setup_def, simplified deployment_run, simplified]

lemmas deploy_trading_run = setup_at [where f = deploy_trading,
  OF plain_utils_def plain_env_def deploy_trading_def, simplified deployment_run, simplified]

lemmas pm_setup_run = pm_test_setup_def [of plain_utils plain_env,
  simplified deploy_trading_run deployment_run, simplified]

lemmas deploy_liquidation_run = deploy_liquidation_def [of plain_utils plain_env,
  simplified deploy_trading_run deployment_run, simplified]

lemmas deploy_funding_run = deploy_funding_def [of plain_utils plain_env,
  simplified deploy_trading_run deployment_run, simplified]

text \<open>The setups of a test are values as well.\<close>

lemmas pm_setup_value = refl [of
  "\<lparr>ts_env = a, ts_admin = b, ts_usdc_address = c, ts_vault = d, ts_oracle = e, ts_pm = f,
    \<dots> = x\<rparr>"
  for a b c d e f x]

lemmas unit_cong = test_cong pm_setup_value

lemmas unit_setup_run =
  oracle_setup_run vault_setup_run pm_setup_run le_test_setup_def deploy_liquidation_run
  funding_test_setup_def deploy_funding_run

end
