(* ===== verification/Contract_Tests.thy ===== *)
theory Contract_Tests
  imports Unit_Harness
begin

text \<open>
  The unit tests of the oracle adapter and of the vault, \<^verbatim>\<open>contracts/oracle-adapter/src/test.rs\<close>
  and \<^verbatim>\<open>contracts/vault/src/test.rs\<close>, run on the model: every call and every assertion of a test,
  in its order.
\<close>

lemmas contract_run =
  unit_run unit_setup_run oracle_set_staleness_threshold_def vault_view_total_shares_def
  vault_view_total_deposits_def vault_view_locked_liquidity_def vault_view_share_balance_def
  vault_view_available_liquidity_def vault_view_utilization_def vault_view_share_price_def
  calc_share_price_def vault_unlock_liquidity_def vault_settle_pnl_def

section \<open>The oracle adapter\<close>

definition oracle_test_initialize :: "'t utils_test" where
  "oracle_test_initialize tu te = passes (
     bnd (oracle_test_setup tu te) (\<lambda>(te, client, admin).
     Inr ()))"

definition oracle_test_initialize_twice_fails :: "'t utils_test" where
  "oracle_test_initialize_twice_fails tu te = panics_with 2 (
     bnd (oracle_test_setup tu te) (\<lambda>(te, client, admin).
     oracle_of te client (\<lambda>e. no_value (oracle_initialize admin 300))))"

definition oracle_test_set_and_get_price :: "'t utils_test" where
  "oracle_test_set_and_get_price tu te = passes (
     bnd (oracle_test_setup tu te) (\<lambda>(te, client, admin).
     let te = te\<lparr>te_now := 1000\<rparr> in
     bnd (oracle_of te client (\<lambda>e. no_value (oracle_set_price e admin 0 1500000))) (\<lambda>(_, te).
     bnd (oracle_of te client (\<lambda>e. oracle_get_price e 0)) (\<lambda>(cached, te).
     check (cp_price cached = 1500000) (
     check (cp_timestamp cached = 1000) (
     Inr ()))))))"

definition oracle_test_get_price_value :: "'t utils_test" where
  "oracle_test_get_price_value tu te = passes (
     bnd (oracle_test_setup tu te) (\<lambda>(te, client, admin).
     let te = te\<lparr>te_now := 1000\<rparr> in
     bnd (oracle_of te client (\<lambda>e. no_value (oracle_set_price e admin 1 5000000000000))) (\<lambda>(_, te).
     bnd (oracle_of te client (\<lambda>e. oracle_get_price_value e 1)) (\<lambda>(price, te).
     check (price = 5000000000000) (
     Inr ())))))"

definition oracle_test_get_price_stale :: "'t utils_test" where
  "oracle_test_get_price_stale tu te = panics_with 8 (
     bnd (oracle_test_setup tu te) (\<lambda>(te, client, admin).
     let te = te\<lparr>te_now := 1000\<rparr> in
     bnd (oracle_of te client (\<lambda>e. no_value (oracle_set_price e admin 0 1500000))) (\<lambda>(_, te).
     let te = te\<lparr>te_now := 1400\<rparr> in
     oracle_of te client (\<lambda>e. oracle_get_price e 0))))"

definition oracle_test_get_price_missing :: "'t utils_test" where
  "oracle_test_get_price_missing tu te = panics_with 8 (
     bnd (oracle_test_setup tu te) (\<lambda>(te, client, admin).
     oracle_of te client (\<lambda>e. oracle_get_price e 5)))"

definition oracle_test_set_price_unauthorized :: "'t utils_test" where
  "oracle_test_set_price_unauthorized tu te = panics_with 11 (
     bnd (oracle_test_setup tu te) (\<lambda>(te, client, admin).
     let te = te\<lparr>te_now := 1000\<rparr> in
     let (rando, te) = te_generate tu te in
     oracle_of te client (\<lambda>e. no_value (oracle_set_price e rando 0 1500000))))"

definition oracle_test_update_staleness_threshold :: "'t utils_test" where
  "oracle_test_update_staleness_threshold tu te = passes (
     bnd (oracle_test_setup tu te) (\<lambda>(te, client, admin).
     let te = te\<lparr>te_now := 1000\<rparr> in
     bnd (oracle_of te client (\<lambda>e. no_value (oracle_set_price e admin 0 1500000))) (\<lambda>(_, te).
     let te = te\<lparr>te_now := 1500\<rparr> in
     bnd (oracle_of te client (\<lambda>e. no_value (oracle_set_staleness_threshold e admin 600))) (\<lambda>(_, te).
     bnd (oracle_of te client (\<lambda>e. oracle_get_price e 0)) (\<lambda>(cached, te).
     check (cp_price cached = 1500000) (
     Inr ()))))))"

lemma oracle_test_initialize_passes:
  "oracle_test_initialize plain_utils plain_env"
  by (simp add: oracle_test_initialize_def contract_run cong: unit_cong)

lemma oracle_test_initialize_twice_fails_passes:
  "oracle_test_initialize_twice_fails plain_utils plain_env"
  by (simp add: oracle_test_initialize_twice_fails_def contract_run cong: unit_cong)

lemma oracle_test_set_and_get_price_passes:
  "oracle_test_set_and_get_price plain_utils plain_env"
  by (simp add: oracle_test_set_and_get_price_def contract_run cong: unit_cong)

lemma oracle_test_get_price_value_passes:
  "oracle_test_get_price_value plain_utils plain_env"
  by (simp add: oracle_test_get_price_value_def contract_run cong: unit_cong)

lemma oracle_test_get_price_stale_passes:
  "oracle_test_get_price_stale plain_utils plain_env"
  by (simp add: oracle_test_get_price_stale_def contract_run cong: unit_cong)

lemma oracle_test_get_price_missing_passes:
  "oracle_test_get_price_missing plain_utils plain_env"
  by (simp add: oracle_test_get_price_missing_def contract_run cong: unit_cong)

lemma oracle_test_set_price_unauthorized_passes:
  "oracle_test_set_price_unauthorized plain_utils plain_env"
  by (simp add: oracle_test_set_price_unauthorized_def contract_run cong: unit_cong)

lemma oracle_test_update_staleness_threshold_passes:
  "oracle_test_update_staleness_threshold plain_utils plain_env"
  by (simp add: oracle_test_update_staleness_threshold_def contract_run cong: unit_cong)

section \<open>The vault\<close>

definition vault_test_initialize :: "'t utils_test" where
  "vault_test_initialize tu te = passes (
     bnd (vault_test_setup tu te) (\<lambda>(te, vault, admin, usdc).
     bnd (vault_of te vault (\<lambda>e w. Inr (vault_view_total_shares w))) (\<lambda>(total_shares, te).
     check (total_shares = 0) (
     bnd (vault_of te vault (\<lambda>e w. Inr (vault_view_total_deposits w))) (\<lambda>(total_deposits, te).
     check (total_deposits = 0) (
     bnd (vault_of te vault (\<lambda>e w. Inr (vault_view_locked_liquidity w))) (\<lambda>(locked_liquidity, te).
     check (locked_liquidity = 0) (
     Inr ()))))))))"

definition vault_test_initialize_twice_fails :: "'t utils_test" where
  "vault_test_initialize_twice_fails tu te = panics_with 2 (
     bnd (vault_test_setup tu te) (\<lambda>(te, vault, admin, usdc).
     vault_of te vault (\<lambda>e. no_value (vault_initialize admin usdc 8000))))"

definition vault_test_deposit_first_lp :: "'t token_test" where
  "vault_test_deposit_first_lp tk tu te = passes (
     bnd (vault_test_setup tu te) (\<lambda>(te, vault, admin, usdc).
     let (lp, te) = te_generate tu te in
     bnd (te_mint tu te usdc lp 10000000000) (\<lambda>te.
     bnd (vault_of te vault (\<lambda>e. vault_deposit tk e lp 10000000000)) (\<lambda>(shares, te).
     check (shares = 10000000000) (
     bnd (vault_of te vault (\<lambda>e w. Inr (vault_view_total_shares w))) (\<lambda>(total_shares, te).
     check (total_shares = 10000000000) (
     bnd (vault_of te vault (\<lambda>e w. Inr (vault_view_total_deposits w))) (\<lambda>(total_deposits, te).
     check (total_deposits = 10000000000) (
     bnd (vault_of te vault (\<lambda>e w. Inr (vault_view_share_balance lp w))) (\<lambda>(share_balance, te).
     check (share_balance = 10000000000) (
     check (te_balance tk te usdc lp = 0) (
     Inr ()))))))))))))"

definition vault_test_deposit_second_lp :: "'t token_test" where
  "vault_test_deposit_second_lp tk tu te = passes (
     bnd (vault_test_setup tu te) (\<lambda>(te, vault, admin, usdc).
     let (lp1, te) = te_generate tu te in
     bnd (te_mint tu te usdc lp1 10000000000) (\<lambda>te.
     bnd (vault_of te vault (\<lambda>e. vault_deposit tk e lp1 10000000000)) (\<lambda>(_, te).
     let (lp2, te) = te_generate tu te in
     bnd (te_mint tu te usdc lp2 5000000000) (\<lambda>te.
     bnd (vault_of te vault (\<lambda>e. vault_deposit tk e lp2 5000000000)) (\<lambda>(shares, te).
     check (shares = 5000000000) (
     bnd (vault_of te vault (\<lambda>e w. Inr (vault_view_total_shares w))) (\<lambda>(total_shares, te).
     check (total_shares = 15000000000) (
     bnd (vault_of te vault (\<lambda>e w. Inr (vault_view_total_deposits w))) (\<lambda>(total_deposits, te).
     check (total_deposits = 15000000000) (
     bnd (vault_of te vault (\<lambda>e w. Inr (vault_view_share_balance lp2 w))) (\<lambda>(share_balance, te).
     check (share_balance = 5000000000) (
     Inr ())))))))))))))"

definition vault_test_deposit_zero_amount :: "'t token_test" where
  "vault_test_deposit_zero_amount tk tu te = panics_with 5 (
     bnd (vault_test_setup tu te) (\<lambda>(te, vault, admin, usdc).
     let (lp, te) = te_generate tu te in
     vault_of te vault (\<lambda>e. vault_deposit tk e lp 0)))"

definition vault_test_withdraw_full :: "'t token_test" where
  "vault_test_withdraw_full tk tu te = passes (
     bnd (vault_test_setup tu te) (\<lambda>(te, vault, admin, usdc).
     let (lp, te) = te_generate tu te in
     bnd (te_mint tu te usdc lp 10000000000) (\<lambda>te.
     bnd (vault_of te vault (\<lambda>e. vault_deposit tk e lp 10000000000)) (\<lambda>(_, te).
     bnd (vault_of te vault (\<lambda>e. vault_withdraw tk e lp 10000000000)) (\<lambda>(returned, te).
     check (returned = 10000000000) (
     bnd (vault_of te vault (\<lambda>e w. Inr (vault_view_total_shares w))) (\<lambda>(total_shares, te).
     check (total_shares = 0) (
     bnd (vault_of te vault (\<lambda>e w. Inr (vault_view_total_deposits w))) (\<lambda>(total_deposits, te).
     check (total_deposits = 0) (
     bnd (vault_of te vault (\<lambda>e w. Inr (vault_view_share_balance lp w))) (\<lambda>(share_balance, te).
     check (share_balance = 0) (
     check (te_balance tk te usdc lp = 10000000000) (
     Inr ())))))))))))))"

definition vault_test_withdraw_partial :: "'t token_test" where
  "vault_test_withdraw_partial tk tu te = passes (
     bnd (vault_test_setup tu te) (\<lambda>(te, vault, admin, usdc).
     let (lp, te) = te_generate tu te in
     bnd (te_mint tu te usdc lp 10000000000) (\<lambda>te.
     bnd (vault_of te vault (\<lambda>e. vault_deposit tk e lp 10000000000)) (\<lambda>(_, te).
     bnd (vault_of te vault (\<lambda>e. vault_withdraw tk e lp 4000000000)) (\<lambda>(returned, te).
     check (returned = 4000000000) (
     bnd (vault_of te vault (\<lambda>e w. Inr (vault_view_total_shares w))) (\<lambda>(total_shares, te).
     check (total_shares = 6000000000) (
     bnd (vault_of te vault (\<lambda>e w. Inr (vault_view_total_deposits w))) (\<lambda>(total_deposits, te).
     check (total_deposits = 6000000000) (
     bnd (vault_of te vault (\<lambda>e w. Inr (vault_view_share_balance lp w))) (\<lambda>(share_balance, te).
     check (share_balance = 6000000000) (
     Inr ()))))))))))))"

definition vault_test_withdraw_exceeds_balance :: "'t token_test" where
  "vault_test_withdraw_exceeds_balance tk tu te = panics_with 3 (
     bnd (vault_test_setup tu te) (\<lambda>(te, vault, admin, usdc).
     let (lp, te) = te_generate tu te in
     bnd (te_mint tu te usdc lp 10000000000) (\<lambda>te.
     bnd (vault_of te vault (\<lambda>e. vault_deposit tk e lp 10000000000)) (\<lambda>(_, te).
     vault_of te vault (\<lambda>e. vault_withdraw tk e lp 15000000000)))))"

definition vault_test_withdraw_exceeds_utilization :: "'t token_test" where
  "vault_test_withdraw_exceeds_utilization tk tu te = panics_with 9 (
     bnd (vault_test_setup tu te) (\<lambda>(te, vault, admin, usdc).
     let (pm, te) = te_generate tu te in
     bnd (vault_of te vault (\<lambda>e. no_value (vault_set_position_manager e admin pm))) (\<lambda>(_, te).
     let (lp, te) = te_generate tu te in
     bnd (te_mint tu te usdc lp 10000000000) (\<lambda>te.
     bnd (vault_of te vault (\<lambda>e. vault_deposit tk e lp 10000000000)) (\<lambda>(_, te).
     bnd (vault_of te vault (\<lambda>e. no_value (vault_lock_liquidity e pm 5000000000))) (\<lambda>(_, te).
     vault_of te vault (\<lambda>e. vault_withdraw tk e lp 8000000000)))))))"

definition vault_test_lock_unlock_liquidity :: "'t token_test" where
  "vault_test_lock_unlock_liquidity tk tu te = passes (
     bnd (vault_test_setup tu te) (\<lambda>(te, vault, admin, usdc).
     let (pm, te) = te_generate tu te in
     bnd (vault_of te vault (\<lambda>e. no_value (vault_set_position_manager e admin pm))) (\<lambda>(_, te).
     let (lp, te) = te_generate tu te in
     bnd (te_mint tu te usdc lp 10000000000) (\<lambda>te.
     bnd (vault_of te vault (\<lambda>e. vault_deposit tk e lp 10000000000)) (\<lambda>(_, te).
     bnd (vault_of te vault (\<lambda>e. no_value (vault_lock_liquidity e pm 3000000000))) (\<lambda>(_, te).
     bnd (vault_of te vault (\<lambda>e w. Inr (vault_view_locked_liquidity w))) (\<lambda>(locked_liquidity, te).
     check (locked_liquidity = 3000000000) (
     bnd (vault_of te vault (\<lambda>e. vault_view_available_liquidity)) (\<lambda>(available_liquidity, te).
     check (available_liquidity = 7000000000) (
     bnd (vault_of te vault (\<lambda>e. vault_view_utilization)) (\<lambda>(utilization, te).
     check (utilization = 3000) (
     bnd (vault_of te vault (\<lambda>e. no_value (vault_unlock_liquidity e pm 3000000000))) (\<lambda>(_, te).
     bnd (vault_of te vault (\<lambda>e w. Inr (vault_view_locked_liquidity w))) (\<lambda>(locked_liquidity, te).
     check (locked_liquidity = 0) (
     bnd (vault_of te vault (\<lambda>e. vault_view_available_liquidity)) (\<lambda>(available_liquidity, te).
     check (available_liquidity = 10000000000) (
     Inr ())))))))))))))))))"

definition vault_test_lock_exceeds_max_utilization :: "'t token_test" where
  "vault_test_lock_exceeds_max_utilization tk tu te = panics_with 9 (
     bnd (vault_test_setup tu te) (\<lambda>(te, vault, admin, usdc).
     let (pm, te) = te_generate tu te in
     bnd (vault_of te vault (\<lambda>e. no_value (vault_set_position_manager e admin pm))) (\<lambda>(_, te).
     let (lp, te) = te_generate tu te in
     bnd (te_mint tu te usdc lp 10000000000) (\<lambda>te.
     bnd (vault_of te vault (\<lambda>e. vault_deposit tk e lp 10000000000)) (\<lambda>(_, te).
     vault_of te vault (\<lambda>e. no_value (vault_lock_liquidity e pm 9000000000)))))))"

definition vault_test_settle_positive_pnl :: "'t token_test" where
  "vault_test_settle_positive_pnl tk tu te = passes (
     bnd (vault_test_setup tu te) (\<lambda>(te, vault, admin, usdc).
     let (pm, te) = te_generate tu te in
     bnd (vault_of te vault (\<lambda>e. no_value (vault_set_position_manager e admin pm))) (\<lambda>(_, te).
     let (lp, te) = te_generate tu te in
     bnd (te_mint tu te usdc lp 10000000000) (\<lambda>te.
     bnd (vault_of te vault (\<lambda>e. vault_deposit tk e lp 10000000000)) (\<lambda>(_, te).
     let (trader, te) = te_generate tu te in
     bnd (vault_of te vault (\<lambda>e. no_value (vault_settle_pnl tk e pm trader 1000000000))) (\<lambda>(_, te).
     bnd (vault_of te vault (\<lambda>e w. Inr (vault_view_total_deposits w))) (\<lambda>(total_deposits, te).
     check (total_deposits = 9000000000) (
     check (te_balance tk te usdc trader = 1000000000) (
     Inr ())))))))))"

definition vault_test_settle_negative_pnl :: "'t token_test" where
  "vault_test_settle_negative_pnl tk tu te = passes (
     bnd (vault_test_setup tu te) (\<lambda>(te, vault, admin, usdc).
     let (pm, te) = te_generate tu te in
     bnd (vault_of te vault (\<lambda>e. no_value (vault_set_position_manager e admin pm))) (\<lambda>(_, te).
     let (lp, te) = te_generate tu te in
     bnd (te_mint tu te usdc lp 10000000000) (\<lambda>te.
     bnd (vault_of te vault (\<lambda>e. vault_deposit tk e lp 10000000000)) (\<lambda>(_, te).
     let (trader, te) = te_generate tu te in
     bnd (vault_of te vault (\<lambda>e. no_value (vault_settle_pnl tk e pm trader (- 1000000000)))) (\<lambda>(_, te).
     bnd (vault_of te vault (\<lambda>e w. Inr (vault_view_total_deposits w))) (\<lambda>(total_deposits, te).
     check (total_deposits = 11000000000) (
     Inr ()))))))))"

definition vault_test_unauthorized_lock :: "'t token_test" where
  "vault_test_unauthorized_lock tk tu te = panics_with 11 (
     bnd (vault_test_setup tu te) (\<lambda>(te, vault, admin, usdc).
     let (pm, te) = te_generate tu te in
     bnd (vault_of te vault (\<lambda>e. no_value (vault_set_position_manager e admin pm))) (\<lambda>(_, te).
     let (lp, te) = te_generate tu te in
     bnd (te_mint tu te usdc lp 10000000000) (\<lambda>te.
     bnd (vault_of te vault (\<lambda>e. vault_deposit tk e lp 10000000000)) (\<lambda>(_, te).
     let (rando, te) = te_generate tu te in
     vault_of te vault (\<lambda>e. no_value (vault_lock_liquidity e rando 1000000000)))))))"

definition vault_test_share_price_after_trader_loss :: "'t token_test" where
  "vault_test_share_price_after_trader_loss tk tu te = passes (
     bnd (vault_test_setup tu te) (\<lambda>(te, vault, admin, usdc).
     let (pm, te) = te_generate tu te in
     bnd (vault_of te vault (\<lambda>e. no_value (vault_set_position_manager e admin pm))) (\<lambda>(_, te).
     let (lp, te) = te_generate tu te in
     bnd (te_mint tu te usdc lp 10000000000) (\<lambda>te.
     bnd (vault_of te vault (\<lambda>e. vault_deposit tk e lp 10000000000)) (\<lambda>(_, te).
     bnd (vault_of te vault (\<lambda>e. vault_view_share_price)) (\<lambda>(share_price, te).
     check (share_price = 10000000) (
     let (trader, te) = te_generate tu te in
     bnd (vault_of te vault (\<lambda>e. no_value (vault_settle_pnl tk e pm trader (- 2000000000)))) (\<lambda>(_, te).
     bnd (vault_of te vault (\<lambda>e. vault_view_share_price)) (\<lambda>(share_price, te).
     check (share_price = 12000000) (
     Inr ()))))))))))"

definition vault_test_share_price_after_trader_win :: "'t token_test" where
  "vault_test_share_price_after_trader_win tk tu te = passes (
     bnd (vault_test_setup tu te) (\<lambda>(te, vault, admin, usdc).
     let (pm, te) = te_generate tu te in
     bnd (vault_of te vault (\<lambda>e. no_value (vault_set_position_manager e admin pm))) (\<lambda>(_, te).
     let (lp, te) = te_generate tu te in
     bnd (te_mint tu te usdc lp 10000000000) (\<lambda>te.
     bnd (vault_of te vault (\<lambda>e. vault_deposit tk e lp 10000000000)) (\<lambda>(_, te).
     let (trader, te) = te_generate tu te in
     bnd (vault_of te vault (\<lambda>e. no_value (vault_settle_pnl tk e pm trader 2000000000))) (\<lambda>(_, te).
     bnd (vault_of te vault (\<lambda>e. vault_view_share_price)) (\<lambda>(share_price, te).
     check (share_price = 8000000) (
     Inr ()))))))))"

definition vault_test_fee_collection :: "'t token_test" where
  "vault_test_fee_collection tk tu te = passes (
     bnd (vault_test_setup tu te) (\<lambda>(te, vault, admin, usdc).
     let (pm, te) = te_generate tu te in
     bnd (vault_of te vault (\<lambda>e. no_value (vault_set_position_manager e admin pm))) (\<lambda>(_, te).
     let (lp, te) = te_generate tu te in
     bnd (te_mint tu te usdc lp 10000000000) (\<lambda>te.
     bnd (vault_of te vault (\<lambda>e. vault_deposit tk e lp 10000000000)) (\<lambda>(_, te).
     bnd (vault_of te vault (\<lambda>e. no_value (vault_collect_fee e pm 100000000))) (\<lambda>(_, te).
     bnd (vault_of te vault (\<lambda>e w. Inr (vault_view_total_deposits w))) (\<lambda>(total_deposits, te).
     check (total_deposits = 10100000000) (
     bnd (vault_of te vault (\<lambda>e. vault_view_share_price)) (\<lambda>(share_price, te).
     check (share_price = 10100000) (
     Inr ()))))))))))"

lemma vault_test_initialize_passes:
  "vault_test_initialize plain_utils plain_env"
  by (simp add: vault_test_initialize_def contract_run cong: unit_cong)

lemma vault_test_initialize_twice_fails_passes:
  "vault_test_initialize_twice_fails plain_utils plain_env"
  by (simp add: vault_test_initialize_twice_fails_def contract_run cong: unit_cong)

lemma vault_test_deposit_first_lp_passes:
  "vault_test_deposit_first_lp plain_token plain_utils plain_env"
  by (simp add: vault_test_deposit_first_lp_def contract_run cong: unit_cong)

lemma vault_test_deposit_second_lp_passes:
  "vault_test_deposit_second_lp plain_token plain_utils plain_env"
  by (simp add: vault_test_deposit_second_lp_def contract_run cong: unit_cong)

lemma vault_test_deposit_zero_amount_passes:
  "vault_test_deposit_zero_amount plain_token plain_utils plain_env"
  by (simp add: vault_test_deposit_zero_amount_def contract_run cong: unit_cong)

lemma vault_test_withdraw_full_passes:
  "vault_test_withdraw_full plain_token plain_utils plain_env"
  by (simp add: vault_test_withdraw_full_def contract_run cong: unit_cong)

lemma vault_test_withdraw_partial_passes:
  "vault_test_withdraw_partial plain_token plain_utils plain_env"
  by (simp add: vault_test_withdraw_partial_def contract_run cong: unit_cong)

lemma vault_test_withdraw_exceeds_balance_passes:
  "vault_test_withdraw_exceeds_balance plain_token plain_utils plain_env"
  by (simp add: vault_test_withdraw_exceeds_balance_def contract_run cong: unit_cong)

lemma vault_test_withdraw_exceeds_utilization_passes:
  "vault_test_withdraw_exceeds_utilization plain_token plain_utils plain_env"
  by (simp add: vault_test_withdraw_exceeds_utilization_def contract_run cong: unit_cong)

lemma vault_test_lock_unlock_liquidity_passes:
  "vault_test_lock_unlock_liquidity plain_token plain_utils plain_env"
  by (simp add: vault_test_lock_unlock_liquidity_def contract_run cong: unit_cong)

lemma vault_test_lock_exceeds_max_utilization_passes:
  "vault_test_lock_exceeds_max_utilization plain_token plain_utils plain_env"
  by (simp add: vault_test_lock_exceeds_max_utilization_def contract_run cong: unit_cong)

lemma vault_test_settle_positive_pnl_passes:
  "vault_test_settle_positive_pnl plain_token plain_utils plain_env"
  by (simp add: vault_test_settle_positive_pnl_def contract_run cong: unit_cong)

lemma vault_test_settle_negative_pnl_passes:
  "vault_test_settle_negative_pnl plain_token plain_utils plain_env"
  by (simp add: vault_test_settle_negative_pnl_def contract_run cong: unit_cong)

lemma vault_test_unauthorized_lock_passes:
  "vault_test_unauthorized_lock plain_token plain_utils plain_env"
  by (simp add: vault_test_unauthorized_lock_def contract_run cong: unit_cong)

lemma vault_test_share_price_after_trader_loss_passes:
  "vault_test_share_price_after_trader_loss plain_token plain_utils plain_env"
  by (simp add: vault_test_share_price_after_trader_loss_def contract_run cong: unit_cong)

lemma vault_test_share_price_after_trader_win_passes:
  "vault_test_share_price_after_trader_win plain_token plain_utils plain_env"
  by (simp add: vault_test_share_price_after_trader_win_def contract_run cong: unit_cong)

lemma vault_test_fee_collection_passes:
  "vault_test_fee_collection plain_token plain_utils plain_env"
  by (simp add: vault_test_fee_collection_def contract_run cong: unit_cong)

end
