(* ===== verification/Trading_Tests.thy ===== *)
theory Trading_Tests
  imports Unit_Harness
begin

text \<open>
  The unit tests of the position manager, the liquidation engine and the funding contract,
  \<^verbatim>\<open>src/test.rs\<close> of each, run on the model: every call and every assertion of a test, in its order.
\<close>

lemmas trading_run =
  unit_run unit_setup_run pm_view_trader_position_count_def liq_is_liquidatable_def
  liq_get_margin_ratio_def fund_view_cumulative_funding_long_def
  fund_view_cumulative_funding_short_def fund_view_last_funding_time_def

section \<open>The position manager\<close>

definition pm_test_open_position_long :: "'t token_test" where
  "pm_test_open_position_long tk tu te = passes (
     bnd (pm_test_setup tu te) (\<lambda>s.
     bnd (ts_add_liquidity tk tu s 100000000000) (\<lambda>(_, s).
     bnd (ts_set_price s 0 1500000) (\<lambda>s.
     let (trader, s) = ts_generate tu s in
     bnd (ts_mint_usdc tu s trader 2000000000) (\<lambda>s.
     bnd (ts_pm_client s (\<lambda>e. pm_open_position tk e trader 0 Long 1000000000 10)) (\<lambda>(pos_id, s).
     check (pos_id = 1) (
     bnd (ts_pm_client s (\<lambda>e. pm_get_position trader pos_id)) (\<lambda>(pos, s).
     check (pos_collateral pos = 1000000000) (
     check (pos_size pos = 10000000000) (
     check (pos_leverage pos = 10) (
     check (pos_entry_price pos = 1500000) (
     check (pos_direction pos = Long) (
     bnd (ts_pm_client s (\<lambda>e w. Inr (pm_view_open_interest_long w))) (\<lambda>(oi_long, s).
     check (oi_long = 10000000000) (
     bnd (ts_pm_client s (\<lambda>e w. Inr (pm_view_open_interest_short w))) (\<lambda>(oi_short, s).
     check (oi_short = 0) (
     bnd (ts_pm_client s (\<lambda>e w. Inr (pm_view_trader_position_count trader w))) (\<lambda>(count, s).
     check (count = 1) (
     Inr ())))))))))))))))))))"

definition pm_test_open_position_short :: "'t token_test" where
  "pm_test_open_position_short tk tu te = passes (
     bnd (pm_test_setup tu te) (\<lambda>s.
     bnd (ts_add_liquidity tk tu s 100000000000) (\<lambda>(_, s).
     bnd (ts_set_price s 0 1500000) (\<lambda>s.
     let (trader, s) = ts_generate tu s in
     bnd (ts_mint_usdc tu s trader 2000000000) (\<lambda>s.
     bnd (ts_pm_client s (\<lambda>e. pm_open_position tk e trader 0 Short 1000000000 5)) (\<lambda>(pos_id, s).
     bnd (ts_pm_client s (\<lambda>e. pm_get_position trader pos_id)) (\<lambda>(pos, s).
     check (pos_direction pos = Short) (
     check (pos_size pos = 5000000000) (
     bnd (ts_pm_client s (\<lambda>e w. Inr (pm_view_open_interest_short w))) (\<lambda>(oi_short, s).
     check (oi_short = 5000000000) (
     Inr ())))))))))))"

definition pm_test_open_leverage_too_high :: "'t token_test" where
  "pm_test_open_leverage_too_high tk tu te = panics_with 6 (
     bnd (pm_test_setup tu te) (\<lambda>s.
     bnd (ts_add_liquidity tk tu s 100000000000) (\<lambda>(_, s).
     bnd (ts_set_price s 0 1500000) (\<lambda>s.
     let (trader, s) = ts_generate tu s in
     bnd (ts_mint_usdc tu s trader 2000000000) (\<lambda>s.
     ts_pm_client s (\<lambda>e. pm_open_position tk e trader 0 Long 1000000000 31))))))"

definition pm_test_open_insufficient_collateral :: "'t token_test" where
  "pm_test_open_insufficient_collateral tk tu te = panics_with 15 (
     bnd (pm_test_setup tu te) (\<lambda>s.
     bnd (ts_add_liquidity tk tu s 100000000000) (\<lambda>(_, s).
     bnd (ts_set_price s 0 1500000) (\<lambda>s.
     let (trader, s) = ts_generate tu s in
     bnd (ts_mint_usdc tu s trader 2000000000) (\<lambda>s.
     ts_pm_client s (\<lambda>e. pm_open_position tk e trader 0 Long 50000000 10))))))"

definition pm_test_close_long_profit :: "'t token_test" where
  "pm_test_close_long_profit tk tu te = passes (
     bnd (pm_test_setup tu te) (\<lambda>s.
     bnd (ts_add_liquidity tk tu s 100000000000) (\<lambda>(_, s).
     bnd (ts_set_price s 0 10000000000) (\<lambda>s.
     let (trader, s) = ts_generate tu s in
     bnd (ts_mint_usdc tu s trader 2000000000) (\<lambda>s.
     bnd (ts_pm_client s (\<lambda>e. pm_open_position tk e trader 0 Long 1000000000 10)) (\<lambda>(pos_id, s).
     bnd (ts_set_price s 0 11000000000) (\<lambda>s.
     bnd (ts_pm_client s (\<lambda>e. pm_close_position tk e trader pos_id 0)) (\<lambda>(net_pnl, s).
     check (net_pnl = 990000000) (
     bnd (ts_pm_client s (\<lambda>e w. Inr (pm_view_trader_position_count trader w))) (\<lambda>(count, s).
     check (count = 0) (
     bnd (ts_pm_client s (\<lambda>e w. Inr (pm_view_open_interest_long w))) (\<lambda>(oi_long, s).
     check (oi_long = 0) (
     Inr ())))))))))))))"

definition pm_test_close_long_loss :: "'t token_test" where
  "pm_test_close_long_loss tk tu te = passes (
     bnd (pm_test_setup tu te) (\<lambda>s.
     bnd (ts_add_liquidity tk tu s 100000000000) (\<lambda>(_, s).
     bnd (ts_set_price s 0 10000000000) (\<lambda>s.
     let (trader, s) = ts_generate tu s in
     bnd (ts_mint_usdc tu s trader 2000000000) (\<lambda>s.
     bnd (ts_pm_client s (\<lambda>e. pm_open_position tk e trader 0 Long 1000000000 10)) (\<lambda>(pos_id, s).
     bnd (ts_set_price s 0 9500000000) (\<lambda>s.
     bnd (ts_pm_client s (\<lambda>e. pm_close_position tk e trader pos_id 0)) (\<lambda>(net_pnl, s).
     check (net_pnl = - 510000000) (
     Inr ())))))))))"

definition pm_test_close_short_profit :: "'t token_test" where
  "pm_test_close_short_profit tk tu te = passes (
     bnd (pm_test_setup tu te) (\<lambda>s.
     bnd (ts_add_liquidity tk tu s 100000000000) (\<lambda>(_, s).
     bnd (ts_set_price s 0 10000000000) (\<lambda>s.
     let (trader, s) = ts_generate tu s in
     bnd (ts_mint_usdc tu s trader 2000000000) (\<lambda>s.
     bnd (ts_pm_client s (\<lambda>e. pm_open_position tk e trader 0 Short 1000000000 10)) (\<lambda>(pos_id, s).
     bnd (ts_set_price s 0 9000000000) (\<lambda>s.
     bnd (ts_pm_client s (\<lambda>e. pm_close_position tk e trader pos_id 0)) (\<lambda>(net_pnl, s).
     check (net_pnl = 990000000) (
     Inr ())))))))))"

definition pm_test_close_short_loss :: "'t token_test" where
  "pm_test_close_short_loss tk tu te = passes (
     bnd (pm_test_setup tu te) (\<lambda>s.
     bnd (ts_add_liquidity tk tu s 100000000000) (\<lambda>(_, s).
     bnd (ts_set_price s 0 10000000000) (\<lambda>s.
     let (trader, s) = ts_generate tu s in
     bnd (ts_mint_usdc tu s trader 2000000000) (\<lambda>s.
     bnd (ts_pm_client s (\<lambda>e. pm_open_position tk e trader 0 Short 1000000000 10)) (\<lambda>(pos_id, s).
     bnd (ts_set_price s 0 10500000000) (\<lambda>s.
     bnd (ts_pm_client s (\<lambda>e. pm_close_position tk e trader pos_id 0)) (\<lambda>(net_pnl, s).
     check (net_pnl = - 510000000) (
     Inr ())))))))))"

definition pm_test_close_nonexistent_position :: "'t token_test" where
  "pm_test_close_nonexistent_position tk tu te = panics_with 7 (
     bnd (pm_test_setup tu te) (\<lambda>s.
     let (trader, s) = ts_generate tu s in
     ts_pm_client s (\<lambda>e. pm_close_position tk e trader 999 0)))"

definition pm_test_fee_calculation :: "'t token_test" where
  "pm_test_fee_calculation tk tu te = passes (
     bnd (pm_test_setup tu te) (\<lambda>s.
     bnd (ts_add_liquidity tk tu s 100000000000) (\<lambda>(_, s).
     bnd (ts_set_price s 0 10000000000) (\<lambda>s.
     let (trader, s) = ts_generate tu s in
     bnd (ts_mint_usdc tu s trader 5000000000) (\<lambda>s.
     bnd (ts_pm_client s (\<lambda>e. pm_open_position tk e trader 0 Long 1000000000 10)) (\<lambda>(_, s).
     check (te_balance tk (ts_env s) (ts_usdc_address s) trader = 3990000000) (
     Inr ())))))))"

definition pm_test_multiple_positions :: "'t token_test" where
  "pm_test_multiple_positions tk tu te = passes (
     bnd (pm_test_setup tu te) (\<lambda>s.
     bnd (ts_add_liquidity tk tu s 500000000000) (\<lambda>(_, s).
     bnd (ts_set_price s 0 10000000000) (\<lambda>s.
     let (trader, s) = ts_generate tu s in
     bnd (ts_mint_usdc tu s trader 10000000000) (\<lambda>s.
     bnd (ts_pm_client s (\<lambda>e. pm_open_position tk e trader 0 Long 1000000000 10)) (\<lambda>(pos1, s).
     bnd (ts_pm_client s (\<lambda>e. pm_open_position tk e trader 0 Short 1000000000 5)) (\<lambda>(pos2, s).
     check (pos1 = 1) (
     check (pos2 = 2) (
     bnd (ts_pm_client s (\<lambda>e w. Inr (pm_view_trader_position_count trader w))) (\<lambda>(count, s).
     check (count = 2) (
     bnd (ts_pm_client s (\<lambda>e w. Inr (pm_view_open_interest_long w))) (\<lambda>(oi_long, s).
     check (oi_long = 10000000000) (
     bnd (ts_pm_client s (\<lambda>e w. Inr (pm_view_open_interest_short w))) (\<lambda>(oi_short, s).
     check (oi_short = 5000000000) (
     bnd (ts_set_price s 0 10000000000) (\<lambda>s.
     bnd (ts_pm_client s (\<lambda>e. pm_close_position tk e trader pos1 0)) (\<lambda>(_, s).
     bnd (ts_pm_client s (\<lambda>e w. Inr (pm_view_trader_position_count trader w))) (\<lambda>(count, s).
     check (count = 1) (
     bnd (ts_pm_client s (\<lambda>e w. Inr (pm_view_open_interest_long w))) (\<lambda>(oi_long, s).
     check (oi_long = 0) (
     bnd (ts_pm_client s (\<lambda>e w. Inr (pm_view_open_interest_short w))) (\<lambda>(oi_short, s).
     check (oi_short = 5000000000) (
     Inr ())))))))))))))))))))))))"

definition pm_test_unrealized_pnl :: "'t token_test" where
  "pm_test_unrealized_pnl tk tu te = passes (
     bnd (pm_test_setup tu te) (\<lambda>s.
     bnd (ts_add_liquidity tk tu s 100000000000) (\<lambda>(_, s).
     bnd (ts_set_price s 0 10000000000) (\<lambda>s.
     let (trader, s) = ts_generate tu s in
     bnd (ts_mint_usdc tu s trader 2000000000) (\<lambda>s.
     bnd (ts_pm_client s (\<lambda>e. pm_open_position tk e trader 0 Long 1000000000 10)) (\<lambda>(pos_id, s).
     bnd (ts_set_price s 0 12000000000) (\<lambda>s.
     bnd (ts_pm_client s (\<lambda>e. pm_get_unrealized_pnl e trader pos_id 0)) (\<lambda>(pnl, s).
     check (pnl = 2000000000) (
     Inr ())))))))))"

lemma pm_test_open_position_long_passes:
  "pm_test_open_position_long plain_token plain_utils plain_env"
  by (simp add: pm_test_open_position_long_def trading_run cong: unit_cong)

lemma pm_test_open_position_short_passes:
  "pm_test_open_position_short plain_token plain_utils plain_env"
  by (simp add: pm_test_open_position_short_def trading_run cong: unit_cong)

lemma pm_test_open_leverage_too_high_passes:
  "pm_test_open_leverage_too_high plain_token plain_utils plain_env"
  by (simp add: pm_test_open_leverage_too_high_def trading_run cong: unit_cong)

lemma pm_test_open_insufficient_collateral_passes:
  "pm_test_open_insufficient_collateral plain_token plain_utils plain_env"
  by (simp add: pm_test_open_insufficient_collateral_def trading_run cong: unit_cong)

lemma pm_test_close_long_profit_passes:
  "pm_test_close_long_profit plain_token plain_utils plain_env"
  by (simp add: pm_test_close_long_profit_def trading_run cong: unit_cong)

lemma pm_test_close_long_loss_passes:
  "pm_test_close_long_loss plain_token plain_utils plain_env"
  by (simp add: pm_test_close_long_loss_def trading_run cong: unit_cong)

lemma pm_test_close_short_profit_passes:
  "pm_test_close_short_profit plain_token plain_utils plain_env"
  by (simp add: pm_test_close_short_profit_def trading_run cong: unit_cong)

lemma pm_test_close_short_loss_passes:
  "pm_test_close_short_loss plain_token plain_utils plain_env"
  by (simp add: pm_test_close_short_loss_def trading_run cong: unit_cong)

lemma pm_test_close_nonexistent_position_passes:
  "pm_test_close_nonexistent_position plain_token plain_utils plain_env"
  by (simp add: pm_test_close_nonexistent_position_def trading_run cong: unit_cong)

lemma pm_test_fee_calculation_passes:
  "pm_test_fee_calculation plain_token plain_utils plain_env"
  by (simp add: pm_test_fee_calculation_def trading_run cong: unit_cong)

lemma pm_test_multiple_positions_passes:
  "pm_test_multiple_positions plain_token plain_utils plain_env"
  by (simp add: pm_test_multiple_positions_def trading_run cong: unit_cong)

lemma pm_test_unrealized_pnl_passes:
  "pm_test_unrealized_pnl plain_token plain_utils plain_env"
  by (simp add: pm_test_unrealized_pnl_def trading_run cong: unit_cong)

section \<open>The liquidation engine\<close>

definition liq_test_healthy_position_not_liquidatable :: "'t token_test" where
  "liq_test_healthy_position_not_liquidatable tk tu te = passes (
     bnd (le_test_setup tk tu te) (\<lambda>s.
     bnd (ts_set_price s 0 10000000000) (\<lambda>s.
     bnd (ts_create_trader tu s 5000000000) (\<lambda>(trader, s).
     bnd (ts_pm_client s (\<lambda>e. pm_open_position tk e trader 0 Long 1000000000 10)) (\<lambda>(_, s).
     bnd (ts_le_client s (\<lambda>e. liq_is_liquidatable e trader 1 0)) (\<lambda>(is_liq, s).
     check (\<not> is_liq) (
     Inr ())))))))"

definition liq_test_margin_ratio_calculation :: "'t token_test" where
  "liq_test_margin_ratio_calculation tk tu te = passes (
     bnd (le_test_setup tk tu te) (\<lambda>s.
     bnd (ts_set_price s 0 10000000000) (\<lambda>s.
     bnd (ts_create_trader tu s 5000000000) (\<lambda>(trader, s).
     bnd (ts_pm_client s (\<lambda>e. pm_open_position tk e trader 0 Long 1000000000 10)) (\<lambda>(_, s).
     bnd (ts_le_client s (\<lambda>e. liq_get_margin_ratio e trader 1 0)) (\<lambda>(ratio, s).
     check (ratio = 1000) (
     bnd (ts_set_price s 0 9500000000) (\<lambda>s.
     bnd (ts_le_client s (\<lambda>e. liq_get_margin_ratio e trader 1 0)) (\<lambda>(ratio, s).
     check (ratio = 500) (
     Inr ()))))))))))"

definition liq_test_underwater_position_liquidatable :: "'t token_test" where
  "liq_test_underwater_position_liquidatable tk tu te = passes (
     bnd (le_test_setup tk tu te) (\<lambda>s.
     bnd (ts_set_price s 0 10000000000) (\<lambda>s.
     bnd (ts_create_trader tu s 5000000000) (\<lambda>(trader, s).
     bnd (ts_pm_client s (\<lambda>e. pm_open_position tk e trader 0 Long 1000000000 10)) (\<lambda>(_, s).
     bnd (ts_set_price s 0 9400000000) (\<lambda>s.
     bnd (ts_le_client s (\<lambda>e. liq_is_liquidatable e trader 1 0)) (\<lambda>(is_liq, s).
     check (is_liq) (
     Inr ()))))))))"

definition liq_test_liquidate_long_position :: "'t token_test" where
  "liq_test_liquidate_long_position tk tu te = passes (
     bnd (le_test_setup tk tu te) (\<lambda>s.
     bnd (ts_set_price s 0 10000000000) (\<lambda>s.
     bnd (ts_create_trader tu s 5000000000) (\<lambda>(trader, s).
     bnd (ts_pm_client s (\<lambda>e. pm_open_position tk e trader 0 Long 1000000000 10)) (\<lambda>(_, s).
     bnd (ts_set_price s 0 9200000000) (\<lambda>s.
     let (keeper, s) = ts_generate tu s in
     bnd (ts_le_client s (\<lambda>e. no_value (liq_liquidate tk e keeper trader 1 0))) (\<lambda>(_, s).
     bnd (ts_pm_client s (\<lambda>e w. Inr (pm_view_trader_position_count trader w))) (\<lambda>(count, s).
     check (count = 0) (
     bnd (ts_pm_client s (\<lambda>e w. Inr (pm_view_open_interest_long w))) (\<lambda>(oi_long, s).
     check (oi_long = 0) (
     Inr ())))))))))))"

definition liq_test_liquidate_short_position :: "'t token_test" where
  "liq_test_liquidate_short_position tk tu te = passes (
     bnd (le_test_setup tk tu te) (\<lambda>s.
     bnd (ts_set_price s 0 10000000000) (\<lambda>s.
     bnd (ts_create_trader tu s 5000000000) (\<lambda>(trader, s).
     bnd (ts_pm_client s (\<lambda>e. pm_open_position tk e trader 0 Short 1000000000 10)) (\<lambda>(_, s).
     bnd (ts_set_price s 0 10800000000) (\<lambda>s.
     let (keeper, s) = ts_generate tu s in
     bnd (ts_le_client s (\<lambda>e. no_value (liq_liquidate tk e keeper trader 1 0))) (\<lambda>(_, s).
     bnd (ts_pm_client s (\<lambda>e w. Inr (pm_view_trader_position_count trader w))) (\<lambda>(count, s).
     check (count = 0) (
     bnd (ts_pm_client s (\<lambda>e w. Inr (pm_view_open_interest_short w))) (\<lambda>(oi_short, s).
     check (oi_short = 0) (
     Inr ())))))))))))"

definition liq_test_liquidate_healthy_position_fails :: "'t token_test" where
  "liq_test_liquidate_healthy_position_fails tk tu te = panics_with 10 (
     bnd (le_test_setup tk tu te) (\<lambda>s.
     bnd (ts_set_price s 0 10000000000) (\<lambda>s.
     bnd (ts_create_trader tu s 5000000000) (\<lambda>(trader, s).
     bnd (ts_pm_client s (\<lambda>e. pm_open_position tk e trader 0 Long 1000000000 10)) (\<lambda>(_, s).
     let (keeper, s) = ts_generate tu s in
     ts_le_client s (\<lambda>e. no_value (liq_liquidate tk e keeper trader 1 0)))))))"

definition liq_test_margin_ratio_with_profit :: "'t token_test" where
  "liq_test_margin_ratio_with_profit tk tu te = passes (
     bnd (le_test_setup tk tu te) (\<lambda>s.
     bnd (ts_set_price s 0 10000000000) (\<lambda>s.
     bnd (ts_create_trader tu s 5000000000) (\<lambda>(trader, s).
     bnd (ts_pm_client s (\<lambda>e. pm_open_position tk e trader 0 Long 1000000000 10)) (\<lambda>(_, s).
     bnd (ts_set_price s 0 11000000000) (\<lambda>s.
     bnd (ts_le_client s (\<lambda>e. liq_get_margin_ratio e trader 1 0)) (\<lambda>(ratio, s).
     check (ratio = 2000) (
     bnd (ts_le_client s (\<lambda>e. liq_is_liquidatable e trader 1 0)) (\<lambda>(is_liq, s).
     check (\<not> is_liq) (
     Inr ()))))))))))"

definition liq_test_deeply_underwater_position :: "'t token_test" where
  "liq_test_deeply_underwater_position tk tu te = passes (
     bnd (le_test_setup tk tu te) (\<lambda>s.
     bnd (ts_set_price s 0 10000000000) (\<lambda>s.
     bnd (ts_create_trader tu s 5000000000) (\<lambda>(trader, s).
     bnd (ts_pm_client s (\<lambda>e. pm_open_position tk e trader 0 Long 1000000000 10)) (\<lambda>(_, s).
     bnd (ts_set_price s 0 8500000000) (\<lambda>s.
     bnd (ts_le_client s (\<lambda>e. liq_get_margin_ratio e trader 1 0)) (\<lambda>(ratio, s).
     check (ratio = - 500) (
     bnd (ts_le_client s (\<lambda>e. liq_is_liquidatable e trader 1 0)) (\<lambda>(is_liq, s).
     check (is_liq) (
     let (keeper, s) = ts_generate tu s in
     bnd (ts_le_client s (\<lambda>e. no_value (liq_liquidate tk e keeper trader 1 0))) (\<lambda>(_, s).
     bnd (ts_pm_client s (\<lambda>e w. Inr (pm_view_trader_position_count trader w))) (\<lambda>(count, s).
     check (count = 0) (
     Inr ())))))))))))))"

definition liq_test_boundary_maintenance_margin :: "'t token_test" where
  "liq_test_boundary_maintenance_margin tk tu te = passes (
     bnd (le_test_setup tk tu te) (\<lambda>s.
     bnd (ts_set_price s 0 10000000000) (\<lambda>s.
     bnd (ts_create_trader tu s 5000000000) (\<lambda>(trader, s).
     bnd (ts_pm_client s (\<lambda>e. pm_open_position tk e trader 0 Long 1000000000 10)) (\<lambda>(_, s).
     bnd (ts_set_price s 0 9500000000) (\<lambda>s.
     bnd (ts_le_client s (\<lambda>e. liq_is_liquidatable e trader 1 0)) (\<lambda>(is_liq, s).
     check (\<not> is_liq) (
     bnd (ts_set_price s 0 9490000000) (\<lambda>s.
     bnd (ts_le_client s (\<lambda>e. liq_is_liquidatable e trader 1 0)) (\<lambda>(is_liq, s).
     check (is_liq) (
     Inr ())))))))))))"

lemma liq_test_healthy_position_not_liquidatable_passes:
  "liq_test_healthy_position_not_liquidatable plain_token plain_utils plain_env"
  by (simp add: liq_test_healthy_position_not_liquidatable_def trading_run cong: unit_cong)

lemma liq_test_margin_ratio_calculation_passes:
  "liq_test_margin_ratio_calculation plain_token plain_utils plain_env"
  by (simp add: liq_test_margin_ratio_calculation_def trading_run cong: unit_cong)

lemma liq_test_underwater_position_liquidatable_passes:
  "liq_test_underwater_position_liquidatable plain_token plain_utils plain_env"
  by (simp add: liq_test_underwater_position_liquidatable_def trading_run cong: unit_cong)

lemma liq_test_liquidate_long_position_passes:
  "liq_test_liquidate_long_position plain_token plain_utils plain_env"
  by (simp add: liq_test_liquidate_long_position_def trading_run cong: unit_cong)

lemma liq_test_liquidate_short_position_passes:
  "liq_test_liquidate_short_position plain_token plain_utils plain_env"
  by (simp add: liq_test_liquidate_short_position_def trading_run cong: unit_cong)

lemma liq_test_liquidate_healthy_position_fails_passes:
  "liq_test_liquidate_healthy_position_fails plain_token plain_utils plain_env"
  by (simp add: liq_test_liquidate_healthy_position_fails_def trading_run cong: unit_cong)

lemma liq_test_margin_ratio_with_profit_passes:
  "liq_test_margin_ratio_with_profit plain_token plain_utils plain_env"
  by (simp add: liq_test_margin_ratio_with_profit_def trading_run cong: unit_cong)

lemma liq_test_deeply_underwater_position_passes:
  "liq_test_deeply_underwater_position plain_token plain_utils plain_env"
  by (simp add: liq_test_deeply_underwater_position_def trading_run cong: unit_cong)

lemma liq_test_boundary_maintenance_margin_passes:
  "liq_test_boundary_maintenance_margin plain_token plain_utils plain_env"
  by (simp add: liq_test_boundary_maintenance_margin_def trading_run cong: unit_cong)

section \<open>The funding contract\<close>

definition fund_test_zero_oi_zero_rate :: "'t token_test" where
  "fund_test_zero_oi_zero_rate tk tu te = passes (
     bnd (funding_test_setup tk tu te) (\<lambda>s.
     bnd (ts_funding_client s fund_get_current_rate) (\<lambda>((long_rate, short_rate), s).
     check (long_rate = 0) (
     check (short_rate = 0) (
     Inr ())))))"

definition fund_test_balanced_oi_spread_only :: "'t token_test" where
  "fund_test_balanced_oi_spread_only tk tu te = passes (
     bnd (funding_test_setup tk tu te) (\<lambda>s.
     bnd (ts_create_trader tu s 5000000000) (\<lambda>(t1, s).
     bnd (ts_create_trader tu s 5000000000) (\<lambda>(t2, s).
     bnd (ts_pm_client s (\<lambda>e. pm_open_position tk e t1 0 Long 1000000000 10)) (\<lambda>(_, s).
     bnd (ts_pm_client s (\<lambda>e. pm_open_position tk e t2 0 Short 1000000000 10)) (\<lambda>(_, s).
     bnd (ts_funding_client s fund_get_current_rate) (\<lambda>((long_rate, short_rate), s).
     check (long_rate = 5) (
     check (short_rate = 5) (
     Inr ())))))))))"

definition fund_test_long_heavy_positive_rate :: "'t token_test" where
  "fund_test_long_heavy_positive_rate tk tu te = passes (
     bnd (funding_test_setup tk tu te) (\<lambda>s.
     bnd (ts_create_trader tu s 5000000000) (\<lambda>(t1, s).
     bnd (ts_create_trader tu s 5000000000) (\<lambda>(t2, s).
     bnd (ts_pm_client s (\<lambda>e. pm_open_position tk e t1 0 Long 2000000000 10)) (\<lambda>(_, s).
     bnd (ts_pm_client s (\<lambda>e. pm_open_position tk e t2 0 Short 1000000000 10)) (\<lambda>(_, s).
     bnd (ts_funding_client s fund_get_current_rate) (\<lambda>((long_rate, short_rate), s).
     check (long_rate = 105) (
     check (short_rate = - 95) (
     Inr ())))))))))"

definition fund_test_short_heavy_negative_rate :: "'t token_test" where
  "fund_test_short_heavy_negative_rate tk tu te = passes (
     bnd (funding_test_setup tk tu te) (\<lambda>s.
     bnd (ts_create_trader tu s 5000000000) (\<lambda>(t1, s).
     bnd (ts_create_trader tu s 5000000000) (\<lambda>(t2, s).
     bnd (ts_pm_client s (\<lambda>e. pm_open_position tk e t1 0 Long 1000000000 10)) (\<lambda>(_, s).
     bnd (ts_pm_client s (\<lambda>e. pm_open_position tk e t2 0 Short 2000000000 10)) (\<lambda>(_, s).
     bnd (ts_funding_client s fund_get_current_rate) (\<lambda>((long_rate, short_rate), s).
     check (long_rate = - 95) (
     check (short_rate = 105) (
     Inr ())))))))))"

definition fund_test_apply_funding_updates_indices :: "'t token_test" where
  "fund_test_apply_funding_updates_indices tk tu te = passes (
     bnd (funding_test_setup tk tu te) (\<lambda>s.
     bnd (ts_create_trader tu s 5000000000) (\<lambda>(t1, s).
     bnd (ts_create_trader tu s 5000000000) (\<lambda>(t2, s).
     bnd (ts_pm_client s (\<lambda>e. pm_open_position tk e t1 0 Long 2000000000 10)) (\<lambda>(_, s).
     bnd (ts_pm_client s (\<lambda>e. pm_open_position tk e t2 0 Short 1000000000 10)) (\<lambda>(_, s).
     bnd (ts_funding_client s (\<lambda>e w. Inr (fund_view_cumulative_funding_long w))) (\<lambda>(cum_long, s).
     check (cum_long = 0) (
     bnd (ts_funding_client s (\<lambda>e w. Inr (fund_view_cumulative_funding_short w))) (\<lambda>(cum_short, s).
     check (cum_short = 0) (
     let s = s\<lparr>ts_env := (ts_env s)\<lparr>te_now := 1000 + 3600\<rparr>\<rparr>; (keeper, s) = ts_generate tu s in
     bnd (ts_funding_client s (\<lambda>e. no_value (fund_apply_funding e keeper))) (\<lambda>(_, s).
     bnd (ts_funding_client s (\<lambda>e w. Inr (fund_view_cumulative_funding_long w))) (\<lambda>(cum_long, s).
     check (cum_long = 105) (
     bnd (ts_funding_client s (\<lambda>e w. Inr (fund_view_cumulative_funding_short w))) (\<lambda>(cum_short, s).
     check (cum_short = - 95) (
     bnd (ts_funding_client s (\<lambda>e w. Inr (fund_view_last_funding_time w))) (\<lambda>(last, s).
     check (last = 4600) (
     Inr ())))))))))))))))))"

definition fund_test_apply_too_early :: "'t token_test" where
  "fund_test_apply_too_early tk tu te = panics_with 16 (
     bnd (funding_test_setup tk tu te) (\<lambda>s.
     bnd (ts_create_trader tu s 5000000000) (\<lambda>(t1, s).
     bnd (ts_pm_client s (\<lambda>e. pm_open_position tk e t1 0 Long 1000000000 10)) (\<lambda>(_, s).
     let s = s\<lparr>ts_env := (ts_env s)\<lparr>te_now := 1000 + 1800\<rparr>\<rparr>; (keeper, s) = ts_generate tu s in
     ts_funding_client s (\<lambda>e. no_value (fund_apply_funding e keeper))))))"

definition fund_test_cumulative_indices_accumulate :: "'t token_test" where
  "fund_test_cumulative_indices_accumulate tk tu te = passes (
     bnd (funding_test_setup tk tu te) (\<lambda>s.
     bnd (ts_create_trader tu s 5000000000) (\<lambda>(t1, s).
     bnd (ts_create_trader tu s 5000000000) (\<lambda>(t2, s).
     bnd (ts_pm_client s (\<lambda>e. pm_open_position tk e t1 0 Long 2000000000 10)) (\<lambda>(_, s).
     bnd (ts_pm_client s (\<lambda>e. pm_open_position tk e t2 0 Short 1000000000 10)) (\<lambda>(_, s).
     let (keeper, s) = ts_generate tu s; s = s\<lparr>ts_env := (ts_env s)\<lparr>te_now := 1000 + 3600\<rparr>\<rparr> in
     bnd (ts_funding_client s (\<lambda>e. no_value (fund_apply_funding e keeper))) (\<lambda>(_, s).
     bnd (ts_funding_client s (\<lambda>e w. Inr (fund_view_cumulative_funding_long w))) (\<lambda>(cum_long, s).
     check (cum_long = 105) (
     let s = s\<lparr>ts_env := (ts_env s)\<lparr>te_now := 1000 + 7200\<rparr>\<rparr> in
     bnd (ts_funding_client s (\<lambda>e. no_value (fund_apply_funding e keeper))) (\<lambda>(_, s).
     bnd (ts_funding_client s (\<lambda>e w. Inr (fund_view_cumulative_funding_long w))) (\<lambda>(cum_long, s).
     check (cum_long = 210) (
     bnd (ts_funding_client s (\<lambda>e w. Inr (fund_view_cumulative_funding_short w))) (\<lambda>(cum_short, s).
     check (cum_short = - 190) (
     Inr ()))))))))))))))"

definition fund_test_max_rate_clamped :: "'t token_test" where
  "fund_test_max_rate_clamped tk tu te = passes (
     bnd (funding_test_setup tk tu te) (\<lambda>s.
     bnd (ts_create_trader tu s 5000000000) (\<lambda>(t1, s).
     bnd (ts_pm_client s (\<lambda>e. pm_open_position tk e t1 0 Long 1000000000 10)) (\<lambda>(_, s).
     bnd (ts_funding_client s fund_get_current_rate) (\<lambda>((long_rate, _), s).
     check (long_rate = 105) (
     Inr ()))))))"

lemma fund_test_zero_oi_zero_rate_passes:
  "fund_test_zero_oi_zero_rate plain_token plain_utils plain_env"
  by (simp add: fund_test_zero_oi_zero_rate_def trading_run cong: unit_cong)

lemma fund_test_balanced_oi_spread_only_passes:
  "fund_test_balanced_oi_spread_only plain_token plain_utils plain_env"
  by (simp add: fund_test_balanced_oi_spread_only_def trading_run cong: unit_cong)

lemma fund_test_long_heavy_positive_rate_passes:
  "fund_test_long_heavy_positive_rate plain_token plain_utils plain_env"
  by (simp add: fund_test_long_heavy_positive_rate_def trading_run cong: unit_cong)

lemma fund_test_short_heavy_negative_rate_passes:
  "fund_test_short_heavy_negative_rate plain_token plain_utils plain_env"
  by (simp add: fund_test_short_heavy_negative_rate_def trading_run cong: unit_cong)

lemma fund_test_apply_funding_updates_indices_passes:
  "fund_test_apply_funding_updates_indices plain_token plain_utils plain_env"
  by (simp add: fund_test_apply_funding_updates_indices_def trading_run cong: unit_cong)

lemma fund_test_apply_too_early_passes:
  "fund_test_apply_too_early plain_token plain_utils plain_env"
  by (simp add: fund_test_apply_too_early_def trading_run cong: unit_cong)

lemma fund_test_cumulative_indices_accumulate_passes:
  "fund_test_cumulative_indices_accumulate plain_token plain_utils plain_env"
  by (simp add: fund_test_cumulative_indices_accumulate_def trading_run cong: unit_cong)

lemma fund_test_max_rate_clamped_passes:
  "fund_test_max_rate_clamped plain_token plain_utils plain_env"
  by (simp add: fund_test_max_rate_clamped_def trading_run cong: unit_cong)

end
