(* ===== verification/Custody.thy ===== *)
theory Custody
  imports Stored_Range
begin

text \<open>
  Custody: whose consent moves what.  A transaction takes tokens from an account, burns its shares
  or ends its position only with that account's signature; the one exception is the liquidation
  of a position below the maintenance margin.
\<close>

section \<open>Payments\<close>

text \<open>A payment of the token contract \<open>c\<close>, as a call of its \<open>transfer\<close> that succeeded.\<close>

definition pays ::
  "'t token \<Rightarrow> address \<Rightarrow> address \<Rightarrow> address \<Rightarrow> i128 \<Rightarrow> 't \<Rightarrow> 't \<Rightarrow> bool" where
  "pays tk c payer payee n t t' \<longleftrightarrow> (\<exists>e. tok_transfer tk e c payer payee n t = Inr t')"

lemma paysI: "tok_transfer tk e c payer payee n t = Inr t' \<Longrightarrow> pays tk c payer payee n t t'"
  by (auto simp: pays_def)

text \<open>Only the payer's balance of that token falls, and by the amount.\<close>

lemma pays_loss:
  assumes "sep41 tk" and "pays tk c payer payee n t t'"
    and "tok_balance tk c' a t' < tok_balance tk c' a t"
  shows "c' = c \<and> a = payer \<and> tok_balance tk c a t' = tok_balance tk c a t - n"
proof -
  obtain e where run: "tok_transfer tk e c payer payee n t = Inr t'"
    using assms(2) by (auto simp: pays_def)
  have bal: "tok_balance tk c' a t' =
      (if c' = c then moved (tok_balance tk c a t) payer payee n a else tok_balance tk c' a t)"
    using assms(1) run unfolding sep41_def by blast
  then show ?thesis
    using assms(3) sep41D(2) [OF assms(1) run] by (auto simp: moved_def split: if_splits)
qed

text \<open>What a call of the vault can do to the ledger.\<close>

lemma vault_settle_pnl_payment:
  assumes "vault_settle_pnl tk e c t pnl w = Inr w'"
  shows "ledger w' = ledger w \<or> (\<exists>u n. pays tk u (e_self e) t n (ledger w) (ledger w'))"
  using assms
  by (auto simp: vault_settle_pnl_def inv_simps Let_def vault_storage_defs vault_emit_defs
      split: if_splits dest: paysI)

lemma vault_exec_payment:
  assumes "vault_exec tk (e, c) w = Inr w'"
  obtains (still) "ledger w' = ledger w"
    | (paid_in) d amount u where "c = VDeposit d amount" and "authorised e d"
        and "v_usdc (vault_st w) = Some u"
        and "pays tk u d (e_self e) amount (ledger w) (ledger w')"
    | (paid_out) u payee n where "pays tk u (e_self e) payee n (ledger w) (ledger w')"
proof (cases c)
  case (VDeposit d amount)
  then show ?thesis
    using assms paid_in [OF VDeposit]
    by (auto simp: bnd_eq_Inr vault_deposit_eq_Inr vault_emit_defs dest: paysI)
next
  case (VWithdraw d s)
  then show ?thesis
    using assms paid_out
    by (auto simp: bnd_eq_Inr vault_withdraw_eq_Inr vault_emit_defs dest: paysI)
next
  case (VSettlePnl a t p)
  then show ?thesis
    using assms vault_settle_pnl_payment still paid_out by (simp, blast)
next
  case (VCloseSettlement a t n m p f)
  then show ?thesis
    using assms still paid_out
    by (auto simp: vault_close_position_settlement_eq_Inr vault_emit_defs
        split: if_splits dest: paysI)
qed (use assms still in \<open>auto simp: bnd_eq_Inr vault_lock_liquidity_eq_Inr
      vault_unlock_liquidity_eq_Inr vault_collect_fee_eq_Inr vault_initialize_def
      vault_set_position_manager_def vault_set_max_utilization_def vault_view_share_balance_def
      inv_simps Let_def vault_emit_defs vault_storage_defs split: if_splits\<close>)

text \<open>What a settlement pays, the vault pays.\<close>

lemma closed_out_payment:
  assumes "closed_out tk e t i pos pnl fee w w'"
  shows "ledger w' = ledger w
    \<or> (\<exists>u n. pays tk u (v_self (vault_st w)) t n (ledger w) (ledger w'))"
  using closed_outD(15) [OF assms] by (auto split: if_splits intro: paysI)

lemma pm_quiet_ledger:
  assumes "pm_exec tk (e, c) w = Inr w'" and "\<not> pm_trades c"
  shows "ledger w' = ledger w"
  using assms
  by (cases c; auto simp: bnd_eq_Inr pm_get_position_eq_Inr pm_get_unrealized_quoted
      oracle_bump_instance_def pm_set_fee_rates_def pm_set_max_leverage_def pm_initialize_def
      pm_set_liquidation_engine_def pm_set_funding_address_def Let_def inv_simps
      pm_load_bump_frame pm_storage_defs)+

lemma pm_exec_payment:
  assumes run: "pm_exec tk (e, c) w = Inr w'"
  obtains (still) "ledger w' = ledger w"
    | (paid_in) t asset d collateral l u fee where "c = POpen t asset d collateral l"
        and "authorised e t" and "p_usdc (pm_st w) = Some u"
        and "calculate_fee (collateral * u32_as_i128 l) (pm_get_open_fee_rate w) = Inr fee"
        and "pays tk u t (v_self (vault_st w)) (collateral + fee) (ledger w) (ledger w')"
    | (paid_out) u payee n where "pays tk u (v_self (vault_st w)) payee n (ledger w) (ledger w')"
proof (cases c)
  case (POpen t asset d collateral l)
  then obtain i where "pm_open_position tk e t asset d collateral l w = Inr (i, w')"
    using run by (auto simp: bnd_eq_Inr)
  then show ?thesis
    by (rule pm_open_effect) (use paid_in [OF POpen] in \<open>blast intro: paysI\<close>)
next
  case (PClose t i asset)
  then obtain r where "pm_close_position tk e t i asset w = Inr (r, w')"
    using run by (auto simp: bnd_eq_Inr)
  then show ?thesis
    by (rule pm_close_effect) (use closed_out_payment still paid_out in blast)
next
  case (PLiquidate a t i asset)
  then obtain m pnl where "pm_liquidate_position tk e a t i asset w = Inr ((m, pnl), w')"
    using run by (auto simp: bnd_eq_Inr)
  then show ?thesis
    by (rule pm_liquidate_effect) (use closed_out_payment still paid_out in blast)
qed (use pm_quiet_ledger [OF run] still in simp_all)

lemma liq_exec_payment:
  assumes "liq_exec tk (e, c) w = Inr w'"
  obtains (still) "ledger w' = ledger w"
    | (paid_out) u payee n where "pays tk u (v_self (vault_st w)) payee n (ledger w) (ledger w')"
  using assms
proof (cases rule: liq_exec_cases)
  case books
  then show ?thesis using same_booksD(2) still by blast
next
  case (liquidated k t i asset)
  from liquidated(2) show ?thesis
    by (rule liq_liquidate_effect) (use closed_out_payment still paid_out in blast)
qed

section \<open>Share balances\<close>

lemma vault_op_shares:
  "vault_close_position_settlement tk e c t n m p f w = Inr w' \<Longrightarrow>
     v_shares (vault_st w') = v_shares (vault_st w)"
  "vault_settle_pnl tk e c t p w = Inr w' \<Longrightarrow> v_shares (vault_st w') = v_shares (vault_st w)"
  by (auto simp: vault_close_position_settlement_eq_Inr vault_emit_defs vault_storage_defs)
    (auto simp: vault_settle_pnl_def inv_simps Let_def vault_emit_defs vault_storage_defs
      split: if_splits)

lemma vault_exec_shares:
  assumes "vault_exec tk (e, c) w = Inr w'"
    and "vault_share_balance a w' < vault_share_balance a w"
  shows "\<exists>s. c = VWithdraw a s \<and> authorised e a \<and> 0 < s
           \<and> vault_share_balance a w' = vault_share_balance a w - s"
proof (cases c)
  case (VDeposit d n)
  then obtain s where "vault_deposit tk e d n w = Inr (s, w')"
    using assms(1) by (auto simp: bnd_eq_Inr)
  from deposit_effect(2) [OF this] deposit_effect(7) [OF this, of a] show ?thesis
    using assms(2) by (auto split: if_splits)
next
  case (VWithdraw d s)
  then obtain u where run: "vault_withdraw tk e d s w = Inr (u, w')"
    using assms(1) by (auto simp: bnd_eq_Inr)
  then have "authorised e d" by (simp add: vault_withdraw_eq_Inr)
  then show ?thesis
    using withdraw_effect(1) [OF run] withdraw_effect(8) [OF run, of a] assms(2) VWithdraw
    by (auto split: if_splits)
next
  case (VSettlePnl b t p)
  then show ?thesis using assms vault_op_shares(2) by (fastforce simp: vault_share_balance_def)
next
  case (VCloseSettlement b t n m p f)
  then show ?thesis using assms vault_op_shares(1) by (fastforce simp: vault_share_balance_def)
qed (use assms in \<open>auto simp: bnd_eq_Inr vault_lock_liquidity_eq_Inr
      vault_unlock_liquidity_eq_Inr vault_collect_fee_eq_Inr vault_initialize_def
      vault_set_position_manager_def vault_set_max_utilization_def vault_view_share_balance_def
      inv_simps Let_def vault_emit_defs vault_storage_defs split: if_splits\<close>)

lemma closed_out_shares:
  "closed_out tk e t i pos pnl fee w w' \<Longrightarrow> vault_share_balance a w' = vault_share_balance a w"
  using closed_outD(10) by (fastforce simp: vault_share_balance_def)

lemma pm_exec_shares:
  assumes run: "pm_exec tk (e, c) w = Inr w'"
  shows "vault_share_balance a w' = vault_share_balance a w"
proof (cases c)
  case (POpen t asset d collateral l)
  then obtain i where "pm_open_position tk e t asset d collateral l w = Inr (i, w')"
    using run by (auto simp: bnd_eq_Inr)
  then show ?thesis by (rule pm_open_effect) (simp add: vault_share_balance_def)
next
  case (PClose t i asset)
  then obtain r where "pm_close_position tk e t i asset w = Inr (r, w')"
    using run by (auto simp: bnd_eq_Inr)
  then show ?thesis by (rule pm_close_effect) (rule closed_out_shares)
next
  case (PLiquidate b t i asset)
  then obtain m pnl where "pm_liquidate_position tk e b t i asset w = Inr ((m, pnl), w')"
    using run by (auto simp: bnd_eq_Inr)
  then show ?thesis by (rule pm_liquidate_effect) (rule closed_out_shares)
qed (use run in \<open>auto simp: bnd_eq_Inr pm_get_position_eq_Inr pm_get_unrealized_quoted
      oracle_bump_instance_def pm_set_fee_rates_def pm_set_max_leverage_def pm_initialize_def
      pm_set_liquidation_engine_def pm_set_funding_address_def Let_def inv_simps
      pm_load_bump_frame pm_storage_defs vault_share_balance_def\<close>)

lemma liq_exec_shares:
  assumes "liq_exec tk (e, c) w = Inr w'"
  shows "vault_share_balance a w' = vault_share_balance a w"
  using assms
proof (cases rule: liq_exec_cases)
  case books
  then show ?thesis by (simp add: vault_share_balance_def same_booksD(1))
next
  case (liquidated k t i asset)
  from liquidated(2) show ?thesis by (rule liq_liquidate_effect) (rule closed_out_shares)
qed

section \<open>Positions\<close>

text \<open>What a call of the position manager does to one position of the book.\<close>

lemma pm_exec_position:
  assumes inv: "pm_inv w" and run: "pm_exec tk (e, c) w = Inr w'"
    and pos: "p_positions (pm_st w) (t, i) = Some pos"
  obtains (kept) "p_positions (pm_st w') (t, i) = Some pos"
    | (closed) "c = PClose t i (pos_asset pos)" and "authorised e t"
        and "p_positions (pm_st w') (t, i) = None"
    | (liquidated) a where "c = PLiquidate a t i (pos_asset pos)" and "authorised e a"
        and "p_liq_engine (pm_st w) = Some a" and "p_positions (pm_st w') (t, i) = None"
proof (cases c)
  case (POpen t' asset d collateral l)
  then obtain j where "pm_open_position tk e t' asset d collateral l w = Inr (j, w')"
    using run by (auto simp: bnd_eq_Inr)
  then show ?thesis
  proof (rule pm_open_effect)
    fix price fee u
    assume "j = pm_get_next_position_id w"
      and "p_positions (pm_st w') = (p_positions (pm_st w))((t', j) \<mapsto>
             opened_position e j t' asset d collateral l price)"
    moreover from this have "(t, i) \<noteq> (t', j)" using pm_invD(3) [OF inv pos] by auto
    ultimately have "p_positions (pm_st w') (t, i) = Some pos" using pos by auto
    then show ?thesis by (rule kept)
  qed
next
  case (PClose t' j asset)
  then obtain r where "pm_close_position tk e t' j asset w = Inr (r, w')"
    using run by (auto simp: bnd_eq_Inr)
  then show ?thesis
  proof (rule pm_close_effect)
    fix pos' price pnl fee
    assume c: "authorised e t'" "pos_asset pos' = asset"
      and step: "closed_out tk e t' j pos' pnl fee w w'"
    show ?thesis
      using closed_outD(1,2) [OF step] pos kept closed c PClose
      by (cases "(t', j) = (t, i)") auto
  qed
next
  case (PLiquidate a t' j asset)
  then obtain m pnl where "pm_liquidate_position tk e a t' j asset w = Inr ((m, pnl), w')"
    using run by (auto simp: bnd_eq_Inr)
  then show ?thesis
  proof (rule pm_liquidate_effect)
    fix pos' price
    assume c: "authorised e a" "p_liq_engine (pm_st w) = Some a" "pos_asset pos' = asset"
      and step: "closed_out tk e t' j pos' pnl 0 w w'"
    show ?thesis
      using closed_outD(1,2) [OF step] pos kept liquidated c PLiquidate
      by (cases "(t', j) = (t, i)") auto
  qed
qed (use pm_admin_quiet(4) [OF inv run] pos kept in simp_all)

section \<open>Properties\<close>

lemma liq_exec_position:
  assumes inv: "pm_inv w" and run: "liq_exec tk (entry h c, lc) w = Inr w'"
    and pos: "p_positions (pm_st w) (t, i) = Some pos"
  shows "p_positions (pm_st w') (t, i) = Some pos
   \<or> p_positions (pm_st w') (t, i) = None \<and> (\<exists>k price raw. lc = LLiquidate k t i (pos_asset pos)
      \<and> k \<in> Account ` snd h \<and> quoted (entry h c) (pos_asset pos) w price
      \<and> calculate_pnl (pos_direction pos) (pos_size pos) (pos_entry_price pos) price = Inr raw
      \<and> (pos_collateral pos + raw) * 10000
          < u32_as_i128 (liq_get_maintenance_margin_rate w) * pos_size pos)"
  using run
proof (cases rule: liq_exec_cases)
  case books
  then show ?thesis using pos by (simp add: same_booksD)
next
  case (liquidated k t' j asset)
  from liquidated(2) show ?thesis
  proof (rule liq_liquidate_effect)
    fix pos' price raw
    assume auth: "authorised (entry h c) k" and asset: "pos_asset pos' = asset"
      and m: "margin_at (entry h c) t' j asset w pos' price raw"
      and less: "margin_bps pos' raw < u32_as_i128 (liq_get_maintenance_margin_rate w)"
      and step: "closed_out tk (subcall (entry h c) (p_self (pm_st w))) t' j pos'
        (max raw (- pos_collateral pos')) 0 w w'"
    show ?thesis
    proof (cases "(t', j) = (t, i)")
      case True
      then have same: "pos' = pos" using closed_outD(1) [OF step] pos by simp
      have "0 < pos_size pos" using pm_invD(2) [OF inv pos] by (simp add: position_ok_def)
      then have "(pos_collateral pos + raw) * 10000
          < u32_as_i128 (liq_get_maintenance_margin_rate w) * pos_size pos"
        using less same by (intro sdiv_less_mult) simp_all
      then show ?thesis
        using True same auth asset m liquidated(1) closed_outD(2) [OF step]
        by (auto simp: authorised_entry margin_at_def)
    next
      case False
      then show ?thesis using pos closed_outD(2) [OF step] by auto
    qed
  qed
qed

text \<open>
  C6. Nobody else can spend an account's tokens.  Whatever the token, the time, the prices and the
  state of the contracts, a transaction lowers the balance of an account only when the account
  signed it, and only in two ways: a deposit of that amount into the vault, or the opening of a
  position for that collateral and the open fee.
\<close>

theorem tokens_leave_only_when_signed:
  assumes "sep41 tk" and "v_self (vault_st w) = Contract v"
    and "sys_exec tk (h, x) w = Inr w'"
    and "tok_balance tk c (Account n) (ledger w') < tok_balance tk c (Account n) (ledger w)"
  shows "n \<in> snd h \<and> (\<exists>amount.
     (x = VaultTx (VDeposit (Account n) amount) \<and> v_usdc (vault_st w) = Some c
      \<and> tok_balance tk c (Account n) (ledger w') = tok_balance tk c (Account n) (ledger w) - amount)
   \<or> (\<exists>asset d l fee. x = PmTx (POpen (Account n) asset d amount l) \<and> p_usdc (pm_st w) = Some c
      \<and> calculate_fee (amount * u32_as_i128 l) (pm_get_open_fee_rate w) = Inr fee
      \<and> tok_balance tk c (Account n) (ledger w')
          = tok_balance tk c (Account n) (ledger w) - (amount + fee)))"
proof -
  note loss = pays_loss [OF assms(1) _ assms(4)]
  show ?thesis
  proof (cases x)
    case (OracleTx oc)
    then show ?thesis using assms(3,4) oracle_exec_frame(5) by fastforce
  next
    case (VaultTx vc)
    then have "vault_exec tk (entry h (v_self (vault_st w)), vc) w = Inr w'" using assms(3) by simp
    then show ?thesis
      by (cases rule: vault_exec_payment)
        (use assms(2,4) VaultTx in \<open>auto simp: authorised_entry dest!: loss\<close>)
  next
    case (PmTx pc)
    then have "pm_exec tk (entry h (p_self (pm_st w)), pc) w = Inr w'" using assms(3) by simp
    then show ?thesis
      by (cases rule: pm_exec_payment)
        (use assms(2,4) PmTx in \<open>auto simp: authorised_entry dest!: loss\<close>)
  next
    case (FundTx fc)
    then have "same_books w w'" using assms(3) fund_exec_frame by fastforce
    then show ?thesis using assms(4) by (simp add: same_booksD(2))
  next
    case (LiqTx lc)
    then have "liq_exec tk (entry h (l_self (liq_st w)), lc) w = Inr w'" using assms(3) by simp
    then show ?thesis
      by (cases rule: liq_exec_payment) (use assms(2,4) in \<open>auto dest!: loss\<close>)
  qed
qed

text \<open>
  C21. Nobody else can burn a provider's shares: a transaction that lowers a share balance is a
  withdrawal the holder signed, and it lowers the balance by the shares it names.
\<close>

theorem shares_burned_only_by_holder:
  assumes "sys_exec tk (h, x) w = Inr w'"
    and "vault_share_balance a w' < vault_share_balance a w"
  shows "\<exists>s. x = VaultTx (VWithdraw a s) \<and> a \<in> Account ` snd h \<and> 0 < s
           \<and> vault_share_balance a w' = vault_share_balance a w - s"
proof (cases x)
  case (OracleTx oc)
  then show ?thesis
    using assms oracle_exec_frame(1) by (fastforce simp: vault_share_balance_def)
next
  case (VaultTx vc)
  then show ?thesis
    using assms vault_exec_shares [of tk "entry h (v_self (vault_st w))" vc w w' a]
    by (simp add: authorised_entry)
next
  case (PmTx pc)
  then show ?thesis using assms pm_exec_shares by fastforce
next
  case (FundTx fc)
  then have "same_books w w'" using assms(1) fund_exec_frame by fastforce
  then show ?thesis using assms(2) by (simp add: vault_share_balance_def same_booksD(1))
next
  case (LiqTx lc)
  then show ?thesis using assms liq_exec_shares by fastforce
qed

text \<open>
  C7. Nobody else can end a trader's position.  In every reachable state whose position manager has
  the modelled liquidation engine, deployed at a contract address, as its liquidator, a step of the world leaves an open position as it
  is, to the last field, or removes it; and it removes it only by a close its owner signed or by a
  signed liquidation at a fresh price that puts it below the maintenance margin.
\<close>

theorem positions_end_by_owner_or_margin:
  assumes "sep41 tk" and "sys_fresh w0" and "sys_reach tk u w0 w" and "sys_step tk u w w'"
    and "p_liq_engine (pm_st w) = Some (l_self (liq_st w))" and "l_self (liq_st w) = Contract l"
    and "p_positions (pm_st w) (t, i) = Some pos"
  shows "p_positions (pm_st w') (t, i) = Some pos
   \<or> p_positions (pm_st w') (t, i) = None \<and> (\<exists>h x. sys_exec tk (h, x) w = Inr w'
      \<and> (x = PmTx (PClose t i (pos_asset pos)) \<and> t \<in> Account ` snd h
       \<or> (\<exists>k price raw. x = LiqTx (LLiquidate k t i (pos_asset pos)) \<and> k \<in> Account ` snd h
          \<and> quoted (entry h (l_self (liq_st w))) (pos_asset pos) w price
          \<and> calculate_pnl (pos_direction pos) (pos_size pos) (pos_entry_price pos) price = Inr raw
          \<and> (pos_collateral pos + raw) * 10000
              < u32_as_i128 (liq_get_maintenance_margin_rate w) * pos_size pos)))"
  using assms(4)
proof (rule sys_stepE)
  fix h x
  assume run: "sys_exec tk (h, x) w = Inr w'"
  have inv: "pm_inv w" using reach_inv [OF assms(1-3)] by (simp add: sys_inv_def)
  show ?thesis
  proof (cases x)
    case (PmTx c)
    then have "pm_exec tk (entry h (p_self (pm_st w)), c) w = Inr w'" using run by simp
    then have "p_positions (pm_st w') (t, i) = Some pos \<or> p_positions (pm_st w') (t, i) = None
        \<and> c = PClose t i (pos_asset pos) \<and> t \<in> Account ` snd h"
      by (rule pm_exec_position [OF inv _ assms(7)])
        (use assms(5,6) in \<open>auto simp: authorised_entry\<close>)
    then show ?thesis using run PmTx by blast
  next
    case (LiqTx c)
    then have "liq_exec tk (entry h (l_self (liq_st w)), c) w = Inr w'" using run by simp
    note cases = liq_exec_position [OF inv this assms(7)]
    show ?thesis
    proof (cases "p_positions (pm_st w') (t, i) = Some pos")
      case False
      then have "\<exists>x. sys_exec tk (h, x) w = Inr w' \<and> (\<exists>k price raw. x = LiqTx (LLiquidate k t i (pos_asset pos))
          \<and> k \<in> Account ` snd h \<and> quoted (entry h (l_self (liq_st w))) (pos_asset pos) w price
          \<and> calculate_pnl (pos_direction pos) (pos_size pos) (pos_entry_price pos) price = Inr raw
          \<and> (pos_collateral pos + raw) * 10000
              < u32_as_i128 (liq_get_maintenance_margin_rate w) * pos_size pos)"
        using cases run unfolding LiqTx by (intro exI [of _ "LiqTx c"]) auto
      then show ?thesis using cases False by blast
    qed simp
  next
    case (OracleTx c)
    then show ?thesis using run assms(7) oracle_exec_frame(2) by fastforce
  next
    case (VaultTx c)
    then show ?thesis using run assms(7) vault_only_frame(2) [OF vault_exec_only] by fastforce
  next
    case (FundTx c)
    then have "same_books w w'" using run fund_exec_frame by fastforce
    then show ?thesis using assms(7) by (simp add: same_booksD)
  qed
qed (use assms(7) in simp_all)

end
