(* ===== verification/Histories.thy ===== *)
theory Histories
  imports Stored_Range
begin

text \<open>
  What lasts along every history: a cached price until it is set again or expires, and the admin
  of a contract for ever.
\<close>

section \<open>Prices\<close>

fun sets_price :: "u32 \<Rightarrow> tx \<Rightarrow> bool" where
  "sets_price asset (OracleTx (OSetPrice a k p)) \<longleftrightarrow> k = asset"
| "sets_price asset _ \<longleftrightarrow> False"

text \<open>Only \<open>set_price\<close> of that asset writes an asset's price.\<close>

lemma oracle_exec_price:
  assumes "oracle_exec (e, c) w = Inr w'" and "\<not> sets_price asset (OracleTx c)"
  shows "o_prices (oracle_st w') asset = o_prices (oracle_st w) asset"
  using assms
  by (cases c) (auto simp: bnd_eq_Inr oracle_set_price_eq_Inr oracle_get_price_eq_Inr
      oracle_get_price_value_eq_Inr oracle_initialize_def oracle_set_staleness_threshold_def
      inv_simps Let_def oracle_storage_defs emit_price_fetched_def publish_def split: if_splits)

lemma liq_liquidate_wiring: "liq_liquidate tk e k t i asset w = Inr w' \<Longrightarrow> same_wiring w w'"
  by (erule liq_liquidate_effect) (rule closed_outD(12))

lemma tx_keeps_price:
  fixes w :: "('t, 'm) liq_world_scheme"
  assumes "sys_exec tk (h, x) w = Inr w'" and "\<not> sets_price asset x"
  shows "o_prices (oracle_st w') asset = o_prices (oracle_st w) asset"
proof (cases x)
  case (OracleTx c)
  then show ?thesis using assms oracle_exec_price by fastforce
next
  case (VaultTx c)
  then show ?thesis using assms(1) vault_only_frame(1) [OF vault_exec_only] by fastforce
next
  case (PmTx c)
  then show ?thesis using assms(1) pm_exec_prices by fastforce
next
  case (FundTx c)
  then have "same_books w w'" using assms(1) fund_exec_frame by fastforce
  then show ?thesis by (simp add: same_booksD)
next
  case (LiqTx c)
  then have "liq_exec tk (entry h (l_self (liq_st w)), c) w = Inr w'" using assms(1) by simp
  then show ?thesis
  proof (cases rule: liq_exec_cases)
    case books
    then show ?thesis by (simp add: same_booksD)
  next
    case (liquidated k t i asset')
    then show ?thesis using liq_liquidate_wiring same_wiringD(7) by fastforce
  qed
qed

lemma history_keeps_price:
  assumes "sys_history tk u w1 txs w2" and "\<forall>((h, x), v) \<in> set txs. \<not> sets_price asset x"
  shows "o_prices (oracle_st w2) asset \<in> {None, o_prices (oracle_st w1) asset}"
  using assms
proof (induction rule: sys_history.induct)
  case (hist_tx txs w x h w')
  then show ?case using tx_keeps_price [OF hist_tx.hyps(4)] by simp
qed auto

text \<open>
  C34. A price is served back as it was set, or not at all.  Once the admin has set the price of an
  asset, it is cached, at least 100 ledgers away from expiry, and no other asset's price has
  changed.  Whatever happens after that except a new price for the asset, every later read answers
  that very price with the time it was set, or \<open>StalePrice\<close>: the former exactly when the entry has
  not expired and its age is within the staleness threshold of the time of the read.
\<close>

theorem oracle_set_get_round_trip:
  assumes "oracle_set_price e a asset p w = Inr w1"
    and "sys_history tk u w1 txs w2" and "\<forall>((h, x), v) \<in> set txs. \<not> sets_price asset x"
    and "e_now e \<le> e_now e'"
  shows "o_prices (oracle_st w1)
       = (o_prices (oracle_st w))(asset \<mapsto> \<lparr>cp_price = p, cp_timestamp = e_now e\<rparr>)
     \<and> 100 \<le> o_price_ttl (oracle_st w1) asset
     \<and> oracle_get_price e' asset w2 =
         (if o_prices (oracle_st w2) asset \<noteq> None
             \<and> e_now e' - e_now e \<le> oracle_get_staleness_threshold w2
          then Inr (\<lparr>cp_price = p, cp_timestamp = e_now e\<rparr>, oracle_bump_instance w2)
          else Inl (Err StalePrice))"
proof -
  have set: "o_prices (oracle_st w1)
       = (o_prices (oracle_st w))(asset \<mapsto> \<lparr>cp_price = p, cp_timestamp = e_now e\<rparr>)"
      "100 \<le> o_price_ttl (oracle_st w1) asset"
    using assms(1)
    by (auto simp: oracle_set_price_eq_Inr emit_price_fetched_def publish_def
        oracle_set_cached_price_def intro: extend_ttl_ge)
  have "o_prices (oracle_st w2) asset \<in> {None, Some \<lparr>cp_price = p, cp_timestamp = e_now e\<rparr>}"
    using history_keeps_price [OF assms(2,3)] set(1) by simp
  then show ?thesis
    using set assms(4)
    by (auto simp: oracle_get_price_def oracle_get_cached_price_def Let_def u64_sub_def)
qed

section \<open>Admins\<close>

text \<open>Each contract's own calls keep its admin.\<close>

lemma oracle_exec_admin:
  "oracle_exec (e, c) w = Inr w' \<Longrightarrow> o_admin (oracle_st w) = Some a \<Longrightarrow> o_admin (oracle_st w') = Some a"
  by (cases c) (auto simp: bnd_eq_Inr oracle_set_price_eq_Inr oracle_get_price_eq_Inr
      oracle_get_price_value_eq_Inr oracle_initialize_def oracle_set_staleness_threshold_def
      inv_simps Let_def oracle_storage_defs emit_price_fetched_def publish_def split: if_splits)

lemma vault_exec_admin:
  assumes "vault_exec tk (e, c) w = Inr w'" and "v_admin (vault_st w) = Some a"
  shows "v_admin (vault_st w') = Some a"
proof (cases c)
  case (VSettlePnl b t p)
  then show ?thesis using assms vault_settle_pnl_effect(7) by fastforce
next
  case (VCloseSettlement b t n m p f)
  then show ?thesis using assms
    by (auto simp: vault_close_position_settlement_eq_Inr vault_emit_defs vault_storage_defs)
next
  case (VDeposit d n)
  then show ?thesis using assms
    by (auto simp: bnd_eq_Inr vault_deposit_eq_Inr vault_emit_defs vault_storage_defs Let_def)
next
  case (VWithdraw d n)
  then show ?thesis using assms
    by (auto simp: bnd_eq_Inr vault_withdraw_eq_Inr vault_emit_defs vault_storage_defs Let_def)
qed (use assms in \<open>auto simp: vault_lock_liquidity_eq_Inr vault_unlock_liquidity_eq_Inr
      vault_collect_fee_eq_Inr vault_initialize_def vault_set_position_manager_def
      vault_set_max_utilization_def vault_view_share_balance_def vault_read_share_balance_def
      inv_simps Let_def vault_emit_defs vault_storage_defs split: if_splits\<close>)

lemma fund_exec_admin:
  assumes "fund_exec (e, c) w = Inr w'" and "f_admin (fund_st w) = Some a"
  shows "f_admin (fund_st w') = Some a"
proof (cases c)
  case (FApply k)
  then have "fund_apply_funding e k w = Inr w'" using assms(1) by simp
  then show ?thesis by (rule fund_apply_funding_effect) (simp add: assms(2))
next
  case FGetRate
  then show ?thesis using assms
    by (auto simp: bnd_eq_Inr fund_storage_defs dest!: fund_get_current_rate_effect(1))
qed (use assms in \<open>auto simp: fund_initialize_def fund_set_funding_interval_def fund_set_max_rate_def
      Let_def inv_simps fund_storage_defs\<close>)

lemma liq_exec_admin:
  assumes "liq_exec tk (e, c) w = Inr w'" and "l_admin (liq_st w) = Some a"
  shows "l_admin (liq_st w') = Some a"
proof (cases c)
  case (LLiquidate k t i asset)
  then have "liq_liquidate tk e k t i asset w = Inr w'" using assms(1) by simp
  then show ?thesis
    by (rule liq_liquidate_effect) (use assms(2) in \<open>simp add: liq_bump_instance_def\<close>)
next
  case (LGetMarginRatio t i asset)
  then show ?thesis using assms
    by (auto simp: bnd_eq_Inr liq_get_margin_ratio_eq_Inr oracle_bump_instance_def
        pm_bump_instance_def pm_load_position_def Let_def liq_bump_instance_def)
next
  case (LIsLiquidatable t i asset)
  then show ?thesis using assms
    by (auto simp: bnd_eq_Inr liq_is_liquidatable_eq_Inr oracle_bump_instance_def
        pm_bump_instance_def pm_load_position_def Let_def liq_bump_instance_def)
qed (use assms in \<open>auto simp: liq_initialize_def liq_set_maintenance_margin_def
      liq_set_liquidation_penalty_def liq_set_keeper_reward_def Let_def inv_simps
      liq_storage_defs\<close>)

lemma pm_exec_admins:
  assumes run: "pm_exec tk (e, c) w = Inr w'"
  shows "o_admin (oracle_st w') = o_admin (oracle_st w) \<and> v_admin (vault_st w') = v_admin (vault_st w)
       \<and> (p_admin (pm_st w) = Some a \<longrightarrow> p_admin (pm_st w') = Some a)"
proof (cases "pm_trades c")
  case True
  then have "same_wiring w w'"
    using run by (cases c) (auto simp: bnd_eq_Inr elim!: pm_open_effect pm_close_effect
        pm_liquidate_effect dest: closed_outD(12))
  then show ?thesis by (simp add: same_wiringD)
next
  case False
  then show ?thesis
    using run
    by (cases c; auto simp: bnd_eq_Inr pm_get_position_eq_Inr pm_get_unrealized_quoted
        oracle_bump_instance_def pm_set_fee_rates_def pm_set_max_leverage_def pm_initialize_def
        pm_set_liquidation_engine_def pm_set_funding_address_def Let_def inv_simps
        pm_load_bump_frame pm_storage_defs)
qed

text \<open>No call writes the admin of a contract it does not enter.\<close>

lemma fund_exec_liq:
  fixes w :: "('t, 'm) liq_world_scheme"
  assumes "fund_exec (e, c) w = Inr w'"
  shows "liq_st w' = liq_st w"
proof (cases c)
  case (FApply k)
  then show ?thesis using assms
    by (auto simp: fund_apply_funding_def inv_simps Let_def emit_funding_applied_def publish_def
        fund_query_open_interest_eq_Inr fund_storage_defs pm_bump_instance_def
        dest!: fund_get_current_rate_effect(1))
next
  case FGetRate
  then show ?thesis using assms
    by (auto simp: bnd_eq_Inr fund_storage_defs pm_bump_instance_def
        dest!: fund_get_current_rate_effect(1))
qed (use assms in \<open>auto simp: fund_initialize_def fund_set_funding_interval_def fund_set_max_rate_def
      Let_def inv_simps fund_storage_defs\<close>)

lemma liq_liquidate_fund:
  fixes w :: "('t, 'm) liq_world_scheme"
  assumes "liq_liquidate tk e k t i asset w = Inr w'"
  shows "fund_st w' = fund_st w"
  using assms
proof (rule liq_liquidateE)
  fix pos price raw m pnl w1 penalty reward
  assume close: "pm_liquidate_position tk (subcall e (p_self (pm_st w))) (e_self e) t i asset
       (inspected t i w) = Inr ((m, pnl), w1)"
    and w': "w' = emit_liquidation e t i k price (margin_bps pos raw) penalty reward w1"
  show ?thesis
    using pm_only_frame(1) [OF pm_only_liquidate [OF close]]
    by (simp add: w' emit_liquidation_def publish_def)
qed

lemma tx_keeps_admin:
  fixes w :: "('t, 'm) liq_world_scheme"
  assumes run: "sys_exec tk (h, y) w = Inr w'" and adm: "stored_admin x w = Some a"
  shows "stored_admin x w' = Some a"
proof (cases y)
  case (OracleTx c)
  then have "oracle_exec (entry h (o_self (oracle_st w)), c) w = Inr w'" using run by simp
  then show ?thesis
    using adm oracle_exec_admin oracle_exec_frame(1-4) by (cases x) fastforce+
next
  case (VaultTx c)
  then have "vault_exec tk (entry h (v_self (vault_st w)), c) w = Inr w'" using run by simp
  note this vault_only_frame [OF vault_exec_only [OF this]]
  then show ?thesis using adm vault_exec_admin by (cases x) fastforce+
next
  case (PmTx c)
  then have c: "pm_exec tk (entry h (p_self (pm_st w)), c) w = Inr w'" using run by simp
  show ?thesis
    using adm pm_exec_admins [OF c, of a] pm_only_frame(1,2) [OF pm_exec_only [OF c]]
    by (cases x) simp_all
next
  case (FundTx c)
  then have c: "fund_exec (entry h (f_self (fund_st w)), c) w = Inr w'" using run by simp
  show ?thesis
    using adm fund_exec_admin [OF c] fund_exec_liq [OF c] same_booksD(1,5,11) [OF fund_exec_frame [OF c]]
    by (cases x) simp_all
next
  case (LiqTx c)
  then have c: "liq_exec tk (entry h (l_self (liq_st w)), c) w = Inr w'" using run by simp
  show ?thesis
  proof (cases "\<exists>k t i asset. c = LLiquidate k t i asset")
    case True
    then obtain k t i asset where
      "liq_liquidate tk (entry h (l_self (liq_st w))) k t i asset w = Inr w'" using c by auto
    then show ?thesis
      using adm liq_exec_admin [OF c] same_wiringD(4,6,12) [OF liq_liquidate_wiring] liq_liquidate_fund
      by (cases x) fastforce+
  next
    case False
    then have other: "\<And>k t i asset. c \<noteq> LLiquidate k t i asset" by blast
    show ?thesis
      using adm liq_exec_admin [OF c] same_booksD(1,5,11) [OF liq_exec_books [OF c other]]
        liq_exec_fund [OF c other]
      by (cases x) simp_all
  qed
qed

text \<open>
  C22. An admin is for ever.  Once a contract has stored an admin, it keeps that admin in every state
  that can be reached, whoever signs whatever, and every later \<open>initialize\<close> of the contract is
  refused with \<open>AlreadyInitialized\<close>: there is no way to change, to drop or to take over the role.
\<close>

theorem admin_is_permanent:
  assumes "sys_reach tk u w w'" and "stored_admin x w = Some a"
  shows "stored_admin x w' = Some a
       \<and> (initialises x \<longrightarrow> (\<forall>h. sys_exec tk (h, x) w' = Inl (Err AlreadyInitialized)))"
proof -
  have "stored_admin x w' = Some a"
    using assms(1)
  proof induction
    case reach_start
    then show ?case by (rule assms(2))
  next
    case (reach_step v v')
    from reach_step.hyps(2) show ?case
    proof (cases rule: sys_step.cases)
      case (sys_tx y h)
      then show ?thesis using tx_keeps_admin reach_step.IH by blast
    qed (use reach_step.IH in \<open>cases x; simp\<close>)+
  qed
  then show ?thesis using initialise_refused [of x w' tk] by simp
qed

end
