(* ===== verification/Wind_Down.thy ===== *)
theory Wind_Down
  imports Exit_Liveness
begin

text \<open>
  The vault can be wound down: when no position is open, all liquidity providers can redeem all
  their shares one after the other, in any order, and the last of them leaves an empty vault.
\<close>

section \<open>One holder leaves\<close>

text \<open>The state the holders redeem from, with the facts that one redemption keeps.\<close>

definition redeemable :: "'t token \<Rightarrow> address \<Rightarrow> ('t, 'm) liq_world_scheme \<Rightarrow> bool" where
  "redeemable tk u w \<longleftrightarrow> vault_inv w \<and> v_usdc (vault_st w) = Some u
     \<and> (\<exists>c. v_self (vault_st w) = Contract c) \<and> vault_get_locked_liquidity w = 0
     \<and> vault_get_total_deposits w \<le> tok_balance tk u (v_self (vault_st w)) (ledger w)
     \<and> vault_get_total_shares w * vault_get_total_deposits w < 2 ^ 127
     \<and> i128_ok (vault_get_total_shares w) \<and> i128_ok (vault_get_total_deposits w)"

lemma redeemableD:
  assumes "redeemable tk u w"
  shows "vault_inv w" "v_usdc (vault_st w) = Some u" "\<exists>c. v_self (vault_st w) = Contract c"
    "vault_get_locked_liquidity w = 0"
    "vault_get_total_deposits w \<le> tok_balance tk u (v_self (vault_st w)) (ledger w)"
    "vault_get_total_shares w * vault_get_total_deposits w < 2 ^ 127"
    "i128_ok (vault_get_total_shares w)" "i128_ok (vault_get_total_deposits w)"
  using assms by (auto simp: redeemable_def)

lemma withdraw_wiring:
  assumes "vault_withdraw tk e d s w = Inr (x, w')"
  shows "v_usdc (vault_st w') = v_usdc (vault_st w)" "v_self (vault_st w') = v_self (vault_st w)"
    "\<exists>us. v_usdc (vault_st w) = Some us
        \<and> tok_transfer tk (subcall e us) us (e_self e) d x (ledger w) = Inr (ledger w')"
  using assms by (auto simp: vault_withdraw_eq_Inr vault_emit_defs vault_storage_defs Let_def)

text \<open>A redemption never lowers what a share is worth: the others keep their claim.\<close>

lemma claims_kept:
  assumes "u * S \<le> s * D" and "S \<le> r * D" and "0 < S" and "0 \<le> S - s" and "0 \<le> r"
  shows "S - s \<le> r * (D - u :: int)"
proof -
  have "(S - s) * S \<le> (S - s) * (r * D)" using assms by (intro mult_left_mono)
  also have "\<dots> = r * (S * D - s * D)" by (simp add: algebra_simps)
  also have "\<dots> \<le> r * (S * D - u * S)" using assms by (intro mult_left_mono) auto
  also have "\<dots> = r * (D - u) * S" by (simp add: algebra_simps)
  finally show ?thesis using assms(3) by simp
qed

lemma withdraw_redeemable:
  assumes tk: "sep41 tk" and r: "redeemable tk u w" and e: "e_self e = v_self (vault_st w)"
    and run: "vault_withdraw tk e (Account n) s w = Inr (x, w')"
  shows "redeemable tk u w'"
    and "tok_balance tk u (v_self (vault_st w')) (ledger w')
           = tok_balance tk u (v_self (vault_st w)) (ledger w) - x"
    and "x * vault_get_total_shares w \<le> s * vault_get_total_deposits w"
    and "s \<le> vault_get_total_shares w"
proof -
  let ?S = "vault_get_total_shares w" and ?D = "vault_get_total_deposits w"
  note d = redeemableD [OF r] and f = withdraw_effect [OF run] and v = vault_invD [OF d(1)]
  show s: "s \<le> ?S" using f(3) v(6) [of "Account n"] by linarith
  note b = withdrawal_bounds [OF f(4,2,1) s v(3)]
  show "x * ?S \<le> s * ?D" by (rule b(1))
  obtain c where c: "v_self (vault_st w) = Contract c" using d(3) ..
  have "tok_transfer tk (subcall e u) u (v_self (vault_st w)) (Account n) x (ledger w)
      = Inr (ledger w')"
    using withdraw_wiring(3) [OF run] d(2) e by auto
  from sep41D(4) [OF tk this, of "v_self (vault_st w)"]
  show bal: "tok_balance tk u (v_self (vault_st w')) (ledger w')
           = tok_balance tk u (v_self (vault_st w)) (ledger w) - x"
    by (simp add: withdraw_wiring(2) [OF run] c moved_def)
  have "(?S - s) * (?D - x) \<le> ?S * ?D"
    using f(1,2) s b(2) v(3,7) by (intro mult_mono) auto
  moreover have "i128_ok (?S - s)" "i128_ok (?D - x)"
    using d(7,8) f(1,2) s b(2) by (auto simp: i128_ok_def)
  ultimately show "redeemable tk u w'"
    using d(2-6) vault_inv_withdraw [OF d(1) run]
    by (simp add: redeemable_def withdraw_wiring(1,2) [OF run] f(5-7) bal [unfolded withdraw_wiring(2) [OF run]])
qed

lemma redeem_step:
  assumes tk: "sep41 tk" and r: "redeemable tk u w" and pays: "payable tk u (Account n)"
    and s: "0 < vault_share_balance (Account n) w"
    and worth: "vault_get_total_shares w
                  \<le> vault_share_balance (Account n) w * vault_get_total_deposits w"
  shows "\<exists>w'. vault_withdraw tk (entry (t, {n}) (v_self (vault_st w))) (Account n)
           (vault_share_balance (Account n) w) w
         = Inr (vault_share_balance (Account n) w * vault_get_total_deposits w
                  div vault_get_total_shares w, w')"
proof -
  let ?s = "vault_share_balance (Account n) w"
  note d = redeemableD [OF r] and v = vault_invD [OF redeemableD(1) [OF r]]
  have "?s * vault_get_total_deposits w \<le> vault_get_total_shares w * vault_get_total_deposits w"
    using v(3) v(6) [of "Account n"] by (intro mult_right_mono)
  then have "?s * vault_get_total_deposits w < 2 ^ 127" using d(6) by linarith
  then show ?thesis
    by (intro withdraw_possible [OF d(1,2) pays _ _ d(4,5) s _ worth _ d(7,8)])
      (simp_all add: authorised_def)
qed

section \<open>All of them leave\<close>

text \<open>Every holder in turn signs the withdrawal of the whole balance.\<close>

definition redemptions ::
  "u64 \<Rightarrow> ('t, 'm) liq_world_scheme \<Rightarrow> nat list \<Rightarrow> ((u64 \<times> nat set) \<times> tx) list" where
  "redemptions t w ns = map (\<lambda>n. ((t, {n}),
     VaultTx (VWithdraw (Account n) (vault_share_balance (Account n) w)))) ns"

lemma redemptions_cong:
  "(\<And>n. n \<in> set ns \<Longrightarrow> vault_share_balance (Account n) w' = vault_share_balance (Account n) w) \<Longrightarrow>
     redemptions t w' ns = redemptions t w ns"
  by (simp add: redemptions_def)

lemma no_holder_no_shares:
  assumes "vault_inv w" and "\<And>a. vault_share_balance a w = 0"
  shows "vault_get_total_shares w = 0"
proof -
  have "contrib (\<lambda>x. x) (v_shares (vault_st w) a) = 0" for a
    using assms(2) [of a] by (simp add: contrib_id vault_share_balance_def)
  then have "v = 0" if "v_shares (vault_st w) a = Some v" for a v
    using that by (metis contrib_id get_or_simps(2))
  then have "msum (\<lambda>x. x) (v_shares (vault_st w)) = 0"
    unfolding msum_def by (intro sum.neutral) auto
  then show ?thesis using vault_invD(2) [OF assms(1)] by simp
qed

lemma redemptions_empty_vault:
  assumes "sep41 tk" and "redeemable tk u w" and "distinct ns"
    and "\<And>a. 0 < vault_share_balance a w \<longleftrightarrow> a \<in> Account ` set ns"
    and "\<And>n. n \<in> set ns \<Longrightarrow> payable tk u (Account n)"
    and "\<And>n. n \<in> set ns \<Longrightarrow> vault_get_total_shares w
           \<le> vault_share_balance (Account n) w * vault_get_total_deposits w"
  shows "\<exists>w'. sys_play tk u (redemptions t w ns) w = Inr w' \<and> redeemable tk u w'
     \<and> (\<forall>a. vault_share_balance a w' = 0) \<and> vault_get_total_shares w' = 0
     \<and> (ns \<noteq> [] \<longrightarrow> vault_get_total_deposits w' = 0)
     \<and> tok_balance tk u (v_self (vault_st w')) (ledger w') - vault_get_total_deposits w'
         = tok_balance tk u (v_self (vault_st w)) (ledger w) - vault_get_total_deposits w"
  using assms(2-)
proof (induction ns arbitrary: w)
  case Nil
  note v = vault_invD [OF redeemableD(1) [OF Nil.prems(1)]]
  have zero: "vault_share_balance a w = 0" for a
    using Nil.prems(3) [of a] v(5) [of a] by simp
  then have "vault_get_total_shares w = 0"
    by (rule no_holder_no_shares [OF redeemableD(1) [OF Nil.prems(1)]])
  then show ?case using Nil.prems(1) zero by (simp add: redemptions_def)
next
  case (Cons n ns)
  let ?s = "vault_share_balance (Account n) w"
  let ?S = "vault_get_total_shares w" and ?D = "vault_get_total_deposits w"
  note r = redeemableD [OF Cons.prems(1)] and v = vault_invD [OF redeemableD(1) [OF Cons.prems(1)]]
  have s: "0 < ?s" using Cons.prems(3) by simp
  define x where "x = ?s * ?D div ?S"
  obtain w1 where run: "vault_withdraw tk (entry (t, {n}) (v_self (vault_st w))) (Account n) ?s w
      = Inr (x, w1)"
    using redeem_step [OF assms(1) Cons.prems(1) _ s] Cons.prems(4,5) unfolding x_def
    by (metis list.set_intros(1))
  note f = withdraw_effect [OF run]
  note k = withdraw_redeemable [OF assms(1) Cons.prems(1) _ run, simplified]
  have S: "0 < ?S" using s k(4) by linarith
  have bal: "vault_share_balance a w1 = (if a = Account n then 0 else vault_share_balance a w)" for a
    using f(8) [of a] by simp
  have same: "redemptions t w1 ns = redemptions t w ns"
    using Cons.prems(2) by (intro redemptions_cong) (auto simp: bal)
  have holders: "0 < vault_share_balance a w1 \<longleftrightarrow> a \<in> Account ` set ns" for a
    using Cons.prems(2,3) by (auto simp: bal)
  have worth: "vault_get_total_shares w1
      \<le> vault_share_balance (Account m) w1 * vault_get_total_deposits w1" if "m \<in> set ns" for m
  proof -
    have "m \<noteq> n" using that Cons.prems(2) by auto
    then show ?thesis
      using claims_kept [OF k(3) Cons.prems(5) S _ v(5), of m] that k(4)
      by (simp add: bal f(5,6))
  qed
  obtain w' where w': "sys_play tk u (redemptions t w1 ns) w1 = Inr w'" "redeemable tk u w'"
      "\<forall>a. vault_share_balance a w' = 0" "vault_get_total_shares w' = 0"
      "ns \<noteq> [] \<longrightarrow> vault_get_total_deposits w' = 0"
      "tok_balance tk u (v_self (vault_st w')) (ledger w') - vault_get_total_deposits w'
         = tok_balance tk u (v_self (vault_st w1)) (ledger w1) - vault_get_total_deposits w1"
    using Cons.IH [OF k(1) _ holders _ worth] Cons.prems(2,4) by auto
  have "i128_ok ?s" using r(7) s k(4) by (auto simp: i128_ok_def)
  then have play: "sys_play tk u (redemptions t w (n # ns)) w = Inr w'"
    using run w'(1) by (simp add: redemptions_def same [unfolded redemptions_def])
  have "vault_get_total_deposits w' = 0"
  proof (cases "ns = []")
    case True
    have "vault_get_total_shares w1 = 0"
      using holders vault_invD(5) [OF redeemableD(1) [OF k(1)]]
      by (intro no_holder_no_shares [OF redeemableD(1) [OF k(1)]]) (auto simp: True order.antisym not_less)
    then have "?s = ?S" by (simp add: f(5))
    then have "vault_get_total_deposits w1 = 0" using S x_def by (simp add: f(6))
    then show ?thesis using w'(1) True by (simp add: redemptions_def)
  qed (use w'(5) in simp)
  then show ?case using play w'(2-4,6) k(2) f(6) by auto
qed

section \<open>Property\<close>

text \<open>
  C17. All liquidity providers can leave.  In every reachable state with no liquidity locked and
  cash that covers the claims, the holders of shares can all redeem their whole balance, one after
  the other and in any order, each with only the own signature: none of the withdrawals fails, the
  vault ends without shares and without deposits, and it has paid out exactly its deposits.
  Nobody's exit can spoil another's.  Each holder must be one the token can pay and must hold
  shares worth at least one unit of the token (a withdrawal that rounds to zero is refused), and
  the product of total shares and deposits must be below 2 to the power of 127.
\<close>

theorem all_providers_can_leave:
  assumes "sep41 tk" and "sys_fresh w0" and "sys_reach tk u w0 w"
    and "v_usdc (vault_st w) = Some u" and "solvent tk u w"
    and "vault_get_locked_liquidity w = 0" and "0 < vault_get_total_shares w"
    and "distinct ns" and "\<And>a. 0 < vault_share_balance a w \<longleftrightarrow> a \<in> Account ` set ns"
    and "\<And>n. n \<in> set ns \<Longrightarrow> payable tk u (Account n)"
    and "\<And>n. n \<in> set ns \<Longrightarrow> vault_get_total_shares w
           \<le> vault_share_balance (Account n) w * vault_get_total_deposits w"
    and "vault_get_total_shares w * vault_get_total_deposits w < 2 ^ 127"
  shows "\<exists>w'. sys_play tk u (redemptions t w ns) w = Inr w' \<and> sys_reach tk u w0 w'
     \<and> (\<forall>a. vault_share_balance a w' = 0) \<and> vault_get_total_shares w' = 0
     \<and> vault_get_total_deposits w' = 0
     \<and> tok_balance tk u (v_self (vault_st w')) (ledger w')
         = tok_balance tk u (v_self (vault_st w)) (ledger w) - vault_get_total_deposits w"
proof -
  have inv: "sys_inv u w" by (rule reach_inv [OF assms(1-3)])
  have ranged: "sys_ranged w" by (rule reach_ranged [OF sys_fresh_ranged [OF assms(2)] assms(3)])
  have r: "redeemable tk u w"
    using inv assms(4,6,12) sys_rangedD(1,2) [OF ranged] solvent_cash [OF _ assms(5)]
    by (auto simp: redeemable_def sys_inv_def wired_def)
  have "ns \<noteq> []"
  proof
    assume "ns = []"
    then have "vault_share_balance a w = 0" for a
      using assms(9) [of a] vault_invD(5) [OF redeemableD(1) [OF r], of a] by simp
    then show False using no_holder_no_shares [OF redeemableD(1) [OF r]] assms(7) by simp
  qed
  then show ?thesis
    using redemptions_empty_vault [OF assms(1) r assms(8-11), of t] sys_play_reach [OF assms(3)]
    by fastforce
qed

end
