(* ===== verification/Opening_Margin.thy ===== *)
theory Opening_Margin
  imports Stored_Range
begin

text \<open>
  How close to liquidation a position is when it is opened: its margin ratio is the reciprocal of
  its leverage, whatever the asset, the price, the direction and the size.
\<close>

lemma quoted_cong:
  "o_prices (oracle_st w') = o_prices (oracle_st w) \<Longrightarrow>
   o_staleness (oracle_st w') = o_staleness (oracle_st w) \<Longrightarrow> e_now e' = e_now e \<Longrightarrow>
   quoted e' asset w' p \<longleftrightarrow> quoted e asset w p"
  by (simp add: quoted_def oracle_get_staleness_threshold_def)

lemma sdiv_common:
  assumes "0 < c" and "0 < (b::int)" and "0 \<le> a"
  shows "(c * a) sdiv (c * b) = a div b"
  using assms by (simp add: sdiv_nonneg)

text \<open>At the price it was opened at, a well-formed position has the margin ratio of its leverage.\<close>

lemma margin_at_entry:
  assumes ok: "position_ok t i pos"
    and pos: "p_positions (pm_st w) (t, i) = Some pos"
    and orc: "p_oracle (pm_st w) = Some (o_self (oracle_st w))"
    and quote: "quoted e asset w (pos_entry_price pos)"
    and range: "pos_collateral pos * 10000 < 2 ^ 127"
  shows "margin_at e t i asset w pos (pos_entry_price pos) 0"
    and "margin_bps pos 0 = 10000 div u32_as_i128 (pos_leverage pos)"
proof -
  let ?c = "pos_collateral pos" and ?l = "u32_as_i128 (pos_leverage pos)"
  have p: "0 < ?c" "0 < pos_entry_price pos" "0 < pos_size pos" "pos_size pos = ?c * ?l"
    using ok by (simp_all add: position_ok_def)
  then have l: "0 < ?l" by (simp add: zero_less_mult_iff)
  show ratio: "margin_bps pos 0 = 10000 div ?l"
    using sdiv_common [OF p(1) l, of 10000] by (simp add: p(4))
  have "calculate_pnl (pos_direction pos) (pos_size pos) (pos_entry_price pos) (pos_entry_price pos)
      = Inr 0"
    using p(2) by (simp add: calculate_pnl_eq_Inr favourable_move_def i128_ok_def
        split: direction.splits)
  moreover have "10000 div ?l \<le> 10000" and "0 \<le> 10000 div ?l"
    using l zdiv_mono2 [of 10000 1 ?l] by (simp_all add: pos_imp_zdiv_nonneg_iff)
  moreover have "i128_ok ?c" and "i128_ok (?c * 10000)"
    using p(1) range by (simp_all add: i128_ok_def)
  ultimately show "margin_at e t i asset w pos (pos_entry_price pos) 0"
    using pos orc quote p(3) unfolding margin_at_def ratio by (simp add: i128_ok_def)
qed

text \<open>
  C25. Whether a new position can be liquidated at once depends on the leverage alone.  In the very
  ledger a position is opened in, the engine's view answers, and it calls the position
  liquidatable exactly when 10000 divided by the leverage is below the maintenance margin: with
  the margin of 500 basis points the contracts are deployed with, every leverage from 21 to the
  maximum of 30 opens a position anyone may liquidate.
\<close>

theorem opened_liquidatable_iff_leverage:
  assumes "pm_inv w" and "oracle_priced w"
    and "pm_open_position tk e t asset d collateral leverage w = Inr (i, w')"
    and "l_pm (liq_st w) = Some (p_self (pm_st w))" and "e_now e' = e_now e"
    and "collateral * 10000 < 2 ^ 127"
  shows "\<exists>w1. liq_is_liquidatable e' t i asset w' =
     Inr (10000 div u32_as_i128 leverage < u32_as_i128 (liq_get_maintenance_margin_rate w), w1)"
  using assms(3)
proof (rule pm_open_effect)
  fix price fee usdc
  let ?p = "opened_position e i t asset d collateral leverage price"
  assume orc: "p_oracle (pm_st w) = Some (o_self (oracle_st w))"
    and quote: "oracle_get_price_value (subcall e (o_self (oracle_st w))) asset w
           = Inr (price, oracle_bump_instance w)"
    and book: "p_positions (pm_st w') = (p_positions (pm_st w))((t, i) \<mapsto> ?p)"
    and wiring: "same_wiring w w'"
  note frame = pm_only_frame [OF pm_only_open [OF assms(3)]]
  have stored: "p_positions (pm_st w') (t, i) = Some ?p" by (simp add: book)
  have ok: "position_ok t i ?p"
    using pm_invD(2) [OF pm_inv_open [OF assms(1-3)] stored] .
  have "quoted e' asset w' price"
    using quote by (simp add: oracle_get_price_value_quoted quoted_cong [OF frame(3,4) assms(5)])
  then have m: "margin_at e' t i asset w' ?p price 0"
      "margin_bps ?p 0 = 10000 div u32_as_i128 leverage"
    using margin_at_entry [OF ok stored] orc assms(6) same_wiringD(5,10) [OF wiring] by auto
  have "liq_get_maintenance_margin_rate w' = liq_get_maintenance_margin_rate w"
    and "l_pm (liq_st w') = Some (p_self (pm_st w'))"
    using assms(4) same_wiringD(8) [OF wiring]
    by (simp_all add: liq_get_maintenance_margin_rate_def frame(2))
  then show ?thesis
    using m unfolding liq_is_liquidatable_eq_Inr by metis
qed

end
