(* ===== verification/Storage_Ttl.thy ===== *)
theory Storage_Ttl
  imports Stored_Range
begin

text \<open>
  Times to live: every call leaves the instances of the contracts it runs in, and the persistent
  entries it reads or writes through the storage helpers, with at least the threshold of ledgers
  to live.
\<close>

section \<open>Live instances\<close>

definition oracle_alive :: "('t, 'm) oracle_world_scheme \<Rightarrow> bool" where
  "oracle_alive w \<longleftrightarrow> INSTANCE_TTL_THRESHOLD \<le> o_ttl (oracle_st w)"

definition vault_alive :: "('t, 'm) vault_world_scheme \<Rightarrow> bool" where
  "vault_alive w \<longleftrightarrow> INSTANCE_TTL_THRESHOLD \<le> v_ttl (vault_st w)"

definition pm_alive :: "('t, 'm) pm_world_scheme \<Rightarrow> bool" where
  "pm_alive w \<longleftrightarrow> INSTANCE_TTL_THRESHOLD \<le> p_ttl (pm_st w)"

definition fund_alive :: "('t, 'm) fund_world_scheme \<Rightarrow> bool" where
  "fund_alive w \<longleftrightarrow> INSTANCE_TTL_THRESHOLD \<le> f_ttl (fund_st w)"

definition liq_alive :: "('t, 'm) liq_world_scheme \<Rightarrow> bool" where
  "liq_alive w \<longleftrightarrow> INSTANCE_TTL_THRESHOLD \<le> l_ttl (liq_st w)"

lemmas alive_defs = oracle_alive_def vault_alive_def pm_alive_def fund_alive_def liq_alive_def

text \<open>Each bump revives its contract, and no other write touches an instance's time to live.\<close>

lemma alive_bumps [simp]:
  "oracle_alive (oracle_bump_instance w)" "vault_alive (vault_bump_instance v)"
  "pm_alive (pm_bump_instance p)" "fund_alive (fund_bump_instance f)"
  "liq_alive (liq_bump_instance l)"
  by (simp_all add: alive_defs oracle_bump_instance_def vault_bump_instance_def pm_bump_instance_def
      fund_bump_instance_def liq_bump_instance_def instance_ttl_ge)

lemma oracle_alive_writes [simp]:
  "oracle_alive (publish e topics d w) \<longleftrightarrow> oracle_alive w"
  "oracle_alive (oracle_set_admin a w) \<longleftrightarrow> oracle_alive w"
  "oracle_alive (oracle_store_staleness_threshold n w) \<longleftrightarrow> oracle_alive w"
  "oracle_alive (oracle_set_cached_price k c w) \<longleftrightarrow> oracle_alive w"
  "oracle_alive (emit_price_fetched e k p t w) \<longleftrightarrow> oracle_alive w"
  by (simp_all add: oracle_alive_def publish_def oracle_storage_defs emit_price_fetched_def)

lemma vault_alive_writes [simp]:
  "vault_alive (publish e topics d w) \<longleftrightarrow> vault_alive w"
  "vault_alive (w\<lparr>ledger := t\<rparr>) \<longleftrightarrow> vault_alive w"
  "vault_alive (oracle_bump_instance w) \<longleftrightarrow> vault_alive w"
  "vault_alive (snd (vault_read_share_balance a w)) \<longleftrightarrow> vault_alive w"
  "vault_alive (vault_set_total_shares x w) \<longleftrightarrow> vault_alive w"
  "vault_alive (vault_set_total_deposits x w) \<longleftrightarrow> vault_alive w"
  "vault_alive (vault_set_locked_liquidity x w) \<longleftrightarrow> vault_alive w"
  "vault_alive (vault_set_share_balance a x w) \<longleftrightarrow> vault_alive w"
  "vault_alive (vault_set_admin y w) \<longleftrightarrow> vault_alive w"
  "vault_alive (vault_set_usdc_token y w) \<longleftrightarrow> vault_alive w"
  "vault_alive (vault_store_max_utilization m w) \<longleftrightarrow> vault_alive w"
  "vault_alive (vault_store_position_manager y w) \<longleftrightarrow> vault_alive w"
  by (simp_all add: vault_alive_def publish_def oracle_bump_instance_def vault_storage_defs Let_def)

lemma vault_alive_emits [simp]:
  "vault_alive (emit_deposit e d x s w) \<longleftrightarrow> vault_alive w"
  "vault_alive (emit_withdraw e d s x w) \<longleftrightarrow> vault_alive w"
  "vault_alive (emit_liquidity_locked e x w) \<longleftrightarrow> vault_alive w"
  "vault_alive (emit_liquidity_unlocked e x w) \<longleftrightarrow> vault_alive w"
  "vault_alive (emit_pnl_settled e d x w) \<longleftrightarrow> vault_alive w"
  "vault_alive (emit_fee_collected e x w) \<longleftrightarrow> vault_alive w"
  by (simp_all add: emit_deposit_def emit_withdraw_def emit_liquidity_locked_def
      emit_liquidity_unlocked_def emit_pnl_settled_def emit_fee_collected_def)

section \<open>The vault\<close>

lemma vault_alive_ops:
  "vault_initialize a u m w = Inr w' \<Longrightarrow> vault_alive w'"
  "vault_lock_liquidity e c n w = Inr w' \<Longrightarrow> vault_alive w'"
  "vault_unlock_liquidity e c n w = Inr w' \<Longrightarrow> vault_alive w'"
  "vault_collect_fee e c n w = Inr w' \<Longrightarrow> vault_alive w'"
  "vault_set_position_manager e a a2 w = Inr w' \<Longrightarrow> vault_alive w'"
  "vault_set_max_utilization e a m w = Inr w' \<Longrightarrow> vault_alive w'"
  "vault_deposit tk e d x w = Inr (s, w') \<Longrightarrow> vault_alive w'"
  "vault_withdraw tk e d s w = Inr (x, w') \<Longrightarrow> vault_alive w'"
  "vault_close_position_settlement tk e c t n x p f w = Inr w' \<Longrightarrow> vault_alive w'"
  "vault_settle_pnl tk e c t x w = Inr w' \<Longrightarrow> vault_alive w'"
  by (auto simp: vault_lock_liquidity_eq_Inr vault_unlock_liquidity_eq_Inr vault_collect_fee_eq_Inr
      vault_initialize_def vault_set_position_manager_def vault_set_max_utilization_def
      vault_deposit_eq_Inr vault_withdraw_eq_Inr vault_close_position_settlement_eq_Inr
      vault_settle_pnl_def inv_simps Let_def split: if_splits)

lemma vault_exec_alive: "vault_exec tk (e, c) w = Inr w' \<Longrightarrow> vault_alive w'"
  by (cases c) (auto simp: bnd_eq_Inr vault_view_share_balance_def dest: vault_alive_ops)

text \<open>The balance entry of an LP after the LP's deposit or withdrawal.\<close>

lemma balance_ttl_ge:
  "BALANCE_TTL_THRESHOLD \<le> extend_ttl BALANCE_TTL_THRESHOLD BALANCE_TTL_EXTEND ttl"
  by (rule extend_ttl_ge) (simp add: perps_constants)

lemma share_ttl_writes [simp]:
  "BALANCE_TTL_THRESHOLD \<le> v_share_ttl (vault_st (vault_set_share_balance a x w)) a"
  "v_share_ttl (vault_st (vault_set_total_shares y w)) = v_share_ttl (vault_st w)"
  "v_share_ttl (vault_st (vault_set_total_deposits y w)) = v_share_ttl (vault_st w)"
  by (simp_all add: vault_storage_defs balance_ttl_ge)

lemma lp_entry_alive:
  "vault_deposit tk e d x w = Inr (s, w') \<Longrightarrow> BALANCE_TTL_THRESHOLD \<le> v_share_ttl (vault_st w') d"
  "vault_withdraw tk e d s w = Inr (x, w') \<Longrightarrow> BALANCE_TTL_THRESHOLD \<le> v_share_ttl (vault_st w') d"
  by (auto simp: vault_deposit_eq_Inr vault_withdraw_eq_Inr emit_deposit_def emit_withdraw_def
      publish_def)

section \<open>The position manager\<close>

lemma pm_alive_writes [simp]:
  "pm_alive (w\<lparr>ledger := x\<rparr>) \<longleftrightarrow> pm_alive w"
  "pm_alive (oracle_bump_instance w) \<longleftrightarrow> pm_alive w"
  "pm_alive (publish e topics d w) \<longleftrightarrow> pm_alive w"
  "pm_alive (snd (pm_load_position t i w)) \<longleftrightarrow> pm_alive w"
  "pm_alive (pm_save_position t i p w) \<longleftrightarrow> pm_alive w"
  "pm_alive (pm_remove_position t i w) \<longleftrightarrow> pm_alive w"
  "pm_alive (pm_set_trader_position_count t n w) \<longleftrightarrow> pm_alive w"
  "pm_alive (pm_drop_position_count t w) \<longleftrightarrow> pm_alive w"
  by (simp_all add: pm_alive_def oracle_bump_instance_def publish_def pm_load_position_def
      pm_save_position_def pm_remove_position_def pm_set_trader_position_count_def
      pm_drop_position_count_def Let_def)

text \<open>The writes of the position manager leave the instances of its callees.\<close>

definition callees_alive :: "('t, 'm) pm_world_scheme \<Rightarrow> bool" where
  "callees_alive w \<longleftrightarrow> oracle_alive w \<and> vault_alive w"

lemma callees_alive_writes [simp]:
  "callees_alive (publish e topics d w) \<longleftrightarrow> callees_alive w"
  "callees_alive (pm_bump_instance w) \<longleftrightarrow> callees_alive w"
  "callees_alive (snd (pm_load_position t i w)) \<longleftrightarrow> callees_alive w"
  "callees_alive (pm_save_position t i p w) \<longleftrightarrow> callees_alive w"
  "callees_alive (pm_remove_position t i w) \<longleftrightarrow> callees_alive w"
  "callees_alive (pm_set_trader_position_count t n w) \<longleftrightarrow> callees_alive w"
  "callees_alive (pm_drop_position_count t w) \<longleftrightarrow> callees_alive w"
  "callees_alive (w\<lparr>pm_st := q\<rparr>) \<longleftrightarrow> callees_alive w"
  by (simp_all add: callees_alive_def alive_defs publish_def pm_load_position_def
      pm_bump_instance_def pm_save_position_def pm_remove_position_def
      pm_set_trader_position_count_def pm_drop_position_count_def Let_def)

lemma alive_emits [simp]:
  "pm_alive (emit_position_opened e t i d sz c x l f w) \<longleftrightarrow> pm_alive w"
  "pm_alive (emit_position_closed e t i x r f w) \<longleftrightarrow> pm_alive w"
  "callees_alive (emit_position_opened e t i d sz c x l f w) \<longleftrightarrow> callees_alive w"
  "callees_alive (emit_position_closed e t i x r f w) \<longleftrightarrow> callees_alive w"
  by (simp_all add: emit_position_opened_def emit_position_closed_def)

lemma alive_oi:
  assumes "pm_add_open_interest d n w = Inr w' \<or> pm_sub_open_interest d n w = Inr w'"
  shows "pm_alive w' \<longleftrightarrow> pm_alive w" and "callees_alive w' \<longleftrightarrow> callees_alive w"
    and "p_position_ttl (pm_st w') = p_position_ttl (pm_st w)"
  using assms
  by (auto simp: pm_add_open_interest_def pm_sub_open_interest_def inv_simps pm_set_oi_long_def
      pm_set_oi_short_def pm_alive_def split: direction.splits)

lemma position_ttl_ge:
  "POSITION_TTL_THRESHOLD \<le> extend_ttl POSITION_TTL_THRESHOLD POSITION_TTL_EXTEND ttl"
  by (rule extend_ttl_ge) (simp add: perps_constants)

lemma pm_open_alive:
  assumes "pm_open_position tk e t asset d c l w = Inr (i, w')"
  shows "pm_alive w' \<and> callees_alive w'
       \<and> POSITION_TTL_THRESHOLD \<le> p_position_ttl (pm_st w') (t, i)"
  using pm_open_positionE [OF assms]
proof cases
  case (1 price fee usdc tok w2 w3 w4 w5)
  note f = vault_lock_frame(1,2) [OF 1(10)] vault_collect_frame(1,2) [OF 1(11)]
  note oi = alive_oi [OF disjI1 [OF 1(13)]]
  have w4: "w4 = w3\<lparr>pm_st := (pm_st w3)\<lparr>p_next_id := Some (i + 1)\<rparr>\<rparr>"
    using 1(12) by (simp add: pm_increment_eq_Inr)
  have "pm_alive w3" "oracle_alive w3"
    by (simp_all add: alive_defs f) (simp_all add: alive_defs [symmetric])
  then have "pm_alive w4" "callees_alive w4"
    using vault_alive_ops(4) [OF 1(11)]
    by (simp_all add: w4 callees_alive_def) (simp_all add: alive_defs)
  then show ?thesis
    by (simp add: 1(15) oi) (simp add: emit_position_opened_def publish_def
        pm_set_trader_position_count_def oi(3) pm_save_position_def position_ttl_ge)
qed

lemma pm_open_entry_alive:
  assumes "pm_open_position tk e t asset d c l w = Inr (i, w')"
  shows "POSITION_TTL_THRESHOLD \<le> p_position_ttl (pm_st w') (t, pm_get_next_position_id w)"
proof -
  have "i = pm_get_next_position_id w" using assms by (rule pm_open_effect)
  then show ?thesis using pm_open_alive [OF assms] by simp
qed

lemma pm_close_alive:
  assumes "pm_close_position tk e t i asset w = Inr (r, w')"
  shows "pm_alive w' \<and> callees_alive w'"
  using pm_close_positionE [OF assms]
proof cases
  case (1 pos price w1 pnl fee w2 w3)
  note oi = alive_oi [OF disjI2 [OF 1(11)]]
  have w1: "w1 = oracle_bump_instance (loaded t i w)" by (rule pm_query_loaded(1) [OF 1(5)])
  have "pm_alive w2" "oracle_alive w2"
    by (simp_all add: alive_defs vault_settle_frame(1,2) [OF 1(10)] w1)
      (simp_all add: alive_defs [symmetric])
  then show ?thesis
    using vault_alive_ops(9) [OF 1(10)] by (simp add: 1(12) oi) (simp add: callees_alive_def)
qed

lemma pm_liquidate_alive:
  assumes "pm_liquidate_position tk e c t i asset w = Inr ((m, pnl), w')"
  shows "pm_alive w' \<and> callees_alive w'"
  using pm_liquidate_positionE [OF assms]
proof cases
  case (1 pos price w1 w2 w3)
  note oi = alive_oi [OF disjI2 [OF 1(10)]]
  have w1: "w1 = oracle_bump_instance (loaded t i w)" by (rule pm_query_loaded(1) [OF 1(5)])
  have "pm_alive w2" "oracle_alive w2"
    by (simp_all add: alive_defs vault_settle_frame(1,2) [OF 1(9)] w1)
      (simp_all add: alive_defs [symmetric])
  then show ?thesis
    using vault_alive_ops(9) [OF 1(9)] by (simp add: 1(11) oi) (simp add: callees_alive_def)
qed

lemma pm_get_position_alive:
  assumes "pm_get_position t i w = Inr (p, w')"
  shows "pm_alive w' \<and> POSITION_TTL_THRESHOLD \<le> p_position_ttl (pm_st w') (t, i)"
  using assms
  by (auto simp: pm_get_position_eq_Inr)
    (simp add: pm_load_position_def pm_bump_instance_def position_ttl_ge Let_def)

lemma pm_exec_alive:
  assumes run: "pm_exec tk (e, c) w = Inr w'"
  shows "pm_alive w' \<and> (pm_trades c \<longrightarrow> callees_alive w')"
proof (cases c)
  case (POpen t asset d n l)
  then show ?thesis using run by (auto simp: bnd_eq_Inr dest: pm_open_alive)
next
  case (PClose t i asset)
  then show ?thesis using run by (auto simp: bnd_eq_Inr dest: pm_close_alive)
next
  case (PLiquidate a t i asset)
  then show ?thesis using run by (auto simp: bnd_eq_Inr dest: pm_liquidate_alive)
next
  case (PGetPosition t i)
  then show ?thesis using run by (auto simp: bnd_eq_Inr dest: pm_get_position_alive)
next
  case (PGetUnrealizedPnl t i asset)
  then show ?thesis using run by (auto simp: bnd_eq_Inr pm_get_unrealized_quoted)
next
  case (PInitialize a v orc us fo fc l m)
  then show ?thesis using run
    by (auto simp: pm_initialize_def inv_simps Let_def pm_alive_def pm_storage_defs instance_ttl_ge)
qed (use run in \<open>auto simp: pm_set_fee_rates_def pm_set_max_leverage_def inv_simps Let_def
      pm_set_liquidation_engine_def pm_set_funding_address_def pm_alive_def pm_storage_defs
      instance_ttl_ge\<close>)

section \<open>The other contracts\<close>

lemma oracle_exec_alive: "oracle_exec (e, c) w = Inr w' \<Longrightarrow> oracle_alive w'"
  by (cases c) (auto simp: bnd_eq_Inr oracle_set_price_eq_Inr oracle_get_price_eq_Inr
      oracle_get_price_value_eq_Inr
      oracle_initialize_def oracle_set_staleness_threshold_def inv_simps Let_def)

lemma fund_alive_writes [simp]:
  "fund_alive (pm_bump_instance w) \<longleftrightarrow> fund_alive w"
  "fund_alive (publish e topics d w) \<longleftrightarrow> fund_alive w"
  "fund_alive (fund_set_admin a w) \<longleftrightarrow> fund_alive w"
  "fund_alive (fund_set_position_manager a w) \<longleftrightarrow> fund_alive w"
  "fund_alive (fund_store_funding_interval n w) \<longleftrightarrow> fund_alive w"
  "fund_alive (fund_set_max_funding_rate m w) \<longleftrightarrow> fund_alive w"
  "fund_alive (fund_set_funding_spread m w) \<longleftrightarrow> fund_alive w"
  "fund_alive (fund_set_cumulative_funding_long x w) \<longleftrightarrow> fund_alive w"
  "fund_alive (fund_set_cumulative_funding_short x w) \<longleftrightarrow> fund_alive w"
  "fund_alive (fund_set_last_funding_time n w) \<longleftrightarrow> fund_alive w"
  "fund_alive (emit_funding_applied e lr sr cl cs l s n w) \<longleftrightarrow> fund_alive w"
  by (simp_all add: fund_alive_def publish_def pm_bump_instance_def fund_storage_defs
      emit_funding_applied_def)

lemma fund_exec_alive:
  assumes "fund_exec (e, c) w = Inr w'"
  shows "fund_alive w'"
  using assms
  by (cases c) (auto simp: bnd_eq_Inr fund_initialize_def fund_set_funding_interval_def
      fund_set_max_rate_def fund_apply_funding_def Let_def inv_simps fund_query_open_interest_eq_Inr
      dest!: fund_get_current_rate_effect(1))

lemma liq_alive_writes [simp]:
  "liq_alive (oracle_bump_instance w) \<longleftrightarrow> liq_alive w"
  "liq_alive (loaded t i w) \<longleftrightarrow> liq_alive w"
  "liq_alive (liq_set_admin a w) \<longleftrightarrow> liq_alive w"
  "liq_alive (liq_set_position_manager a w) \<longleftrightarrow> liq_alive w"
  "liq_alive (liq_set_oracle a w) \<longleftrightarrow> liq_alive w"
  "liq_alive (liq_set_maintenance_margin_rate x w) \<longleftrightarrow> liq_alive w"
  "liq_alive (liq_store_liquidation_penalty x w) \<longleftrightarrow> liq_alive w"
  "liq_alive (liq_store_keeper_reward x w) \<longleftrightarrow> liq_alive w"
  by (simp_all add: liq_alive_def oracle_bump_instance_def pm_bump_instance_def
      pm_load_position_def liq_storage_defs Let_def)

lemma callees_alive_emit [simp]:
  "callees_alive (emit_liquidation e t i k p r x y w) \<longleftrightarrow> callees_alive w"
  "pm_alive (emit_liquidation e t i k p r x y w) \<longleftrightarrow> pm_alive w"
  by (simp_all add: emit_liquidation_def)

lemma liq_liquidate_alive:
  assumes "liq_liquidate tk e k t i asset w = Inr w'"
  shows "liq_alive w' \<and> pm_alive w' \<and> callees_alive w'"
proof -
  have "liq_alive w'"
    using assms by (rule liq_liquidate_effect)
      (simp add: liq_alive_def, simp add: liq_alive_def [symmetric])
  moreover have "pm_alive w' \<and> callees_alive w'"
    using assms by (rule liq_liquidateE) (auto dest: pm_liquidate_alive)
  ultimately show ?thesis by blast
qed

lemma liq_exec_alive:
  assumes "liq_exec tk (e, c) w = Inr w'"
  shows "liq_alive w'"
  using assms
  by (cases c) (auto simp: bnd_eq_Inr liq_get_margin_ratio_eq_Inr liq_is_liquidatable_eq_Inr
      liq_initialize_def liq_set_maintenance_margin_def liq_set_liquidation_penalty_def
      liq_set_keeper_reward_def Let_def inv_simps dest: liq_liquidate_alive)

section \<open>What a transaction runs in and touches\<close>

text \<open>A read of a position that is stored extends its entry.\<close>

lemma loaded_entry_alive:
  assumes "p_positions (pm_st w) (t, i) = Some pos"
  shows "POSITION_TTL_THRESHOLD \<le> p_position_ttl (pm_st (loaded t i w)) (t, i)"
  using assms by (simp add: pm_load_position_def pm_bump_instance_def position_ttl_ge Let_def)

lemma pm_get_unrealized_alive:
  assumes "pm_get_unrealized_pnl e t i asset w = Inr (r, w')"
  shows "oracle_alive w' \<and> POSITION_TTL_THRESHOLD \<le> p_position_ttl (pm_st w') (t, i)"
proof -
  from assms obtain pos where pos: "p_positions (pm_st w) (t, i) = Some pos"
    and w': "w' = oracle_bump_instance (loaded t i w)"
    by (auto simp: pm_get_unrealized_quoted)
  have "p_position_ttl (pm_st w') (t, i) = p_position_ttl (pm_st (loaded t i w)) (t, i)"
    by (simp add: w' oracle_bump_instance_def)
  then show ?thesis using loaded_entry_alive [OF pos] by (simp add: w')
qed

lemma liq_reads_alive:
  assumes "p_positions (pm_st w) (t, i) = Some pos"
    and "w' = oracle_bump_instance (loaded t i (loaded t i (liq_bump_instance w)))"
  shows "pm_alive w' \<and> oracle_alive w' \<and> POSITION_TTL_THRESHOLD \<le> p_position_ttl (pm_st w') (t, i)"
proof -
  have pos: "p_positions (pm_st (loaded t i (liq_bump_instance w))) (t, i) = Some pos"
    using assms(1) by simp
  have "p_position_ttl (pm_st w') (t, i)
      = p_position_ttl (pm_st (loaded t i (loaded t i (liq_bump_instance w)))) (t, i)"
    by (simp add: assms(2) oracle_bump_instance_def)
  then show ?thesis using loaded_entry_alive [OF pos] by (simp add: assms(2))
qed

lemma liq_views_alive:
  "liq_get_margin_ratio e t i asset w = Inr (r, w') \<Longrightarrow>
     pm_alive w' \<and> oracle_alive w' \<and> POSITION_TTL_THRESHOLD \<le> p_position_ttl (pm_st w') (t, i)"
  "liq_is_liquidatable e t i asset w = Inr (b, w') \<Longrightarrow>
     pm_alive w' \<and> oracle_alive w' \<and> POSITION_TTL_THRESHOLD \<le> p_position_ttl (pm_st w') (t, i)"
  using liq_reads_alive [of w t i]
  by (auto simp: liq_get_margin_ratio_eq_Inr liq_is_liquidatable_eq_Inr margin_at_def)

lemma fund_reads_alive:
  "fund_apply_funding e k w = Inr w' \<Longrightarrow> pm_alive w'"
  "fund_get_current_rate e w = Inr (r, w') \<Longrightarrow> pm_alive w'"
proof -
  show "pm_alive w'" if "fund_apply_funding e k w = Inr w'"
    using that
    by (rule fund_apply_funding_effect) (simp add: pm_alive_def, simp add: pm_alive_def [symmetric])
  show "pm_alive w'" if "fund_get_current_rate e w = Inr (r, w')"
    using that fund_get_current_rate_effect(1) by (cases r) fastforce
qed

lemma viewed_balance_alive:
  "0 < vault_share_balance a w \<Longrightarrow>
     BALANCE_TTL_THRESHOLD \<le> v_share_ttl (vault_st (snd (vault_view_share_balance a w))) a"
  by (simp add: vault_view_share_balance_def vault_read_share_balance_def Let_def
      vault_share_balance_def vault_bump_instance_def balance_ttl_ge)

lemma set_price_alive: "oracle_set_price e a asset p w = Inr w' \<Longrightarrow> 100 \<le> o_price_ttl (oracle_st w') asset"
  by (auto simp: oracle_set_price_eq_Inr emit_price_fetched_def publish_def
      oracle_set_cached_price_def intro: extend_ttl_ge)

section \<open>Property\<close>

text \<open>The instances of the contracts a transaction runs in: the one it enters and those called.\<close>

fun pm_callees_alive :: "pm_call \<Rightarrow> ('t, 'm) pm_world_scheme \<Rightarrow> bool" where
  "pm_callees_alive (PGetUnrealizedPnl t i asset) w \<longleftrightarrow> oracle_alive w"
| "pm_callees_alive c w \<longleftrightarrow> (pm_trades c \<longrightarrow> callees_alive w)"

fun fund_callees_alive :: "fund_call \<Rightarrow> ('t, 'm) fund_world_scheme \<Rightarrow> bool" where
  "fund_callees_alive (FApply k) w \<longleftrightarrow> pm_alive w"
| "fund_callees_alive FGetRate w \<longleftrightarrow> pm_alive w"
| "fund_callees_alive c w \<longleftrightarrow> True"

fun liq_callees_alive :: "liq_call \<Rightarrow> ('t, 'm) liq_world_scheme \<Rightarrow> bool" where
  "liq_callees_alive (LLiquidate k t i asset) w \<longleftrightarrow> pm_alive w \<and> callees_alive w"
| "liq_callees_alive (LGetMarginRatio t i asset) w \<longleftrightarrow> pm_alive w \<and> oracle_alive w"
| "liq_callees_alive (LIsLiquidatable t i asset) w \<longleftrightarrow> pm_alive w \<and> oracle_alive w"
| "liq_callees_alive c w \<longleftrightarrow> True"

fun instances_alive :: "tx \<Rightarrow> ('t, 'm) liq_world_scheme \<Rightarrow> bool" where
  "instances_alive (OracleTx c) w \<longleftrightarrow> oracle_alive w"
| "instances_alive (VaultTx c) w \<longleftrightarrow> vault_alive w"
| "instances_alive (PmTx c) w \<longleftrightarrow> pm_alive w \<and> pm_callees_alive c w"
| "instances_alive (FundTx c) w \<longleftrightarrow> fund_alive w \<and> fund_callees_alive c w"
| "instances_alive (LiqTx c) w \<longleftrightarrow> liq_alive w \<and> liq_callees_alive c w"

text \<open>
  The entries outside the instances that a transaction reads or writes through the helpers that
  extend them and does not remove, in the state \<open>w'\<close> after it: a cached price that is set, the
  balance of an LP who deposits, withdraws or is looked up with a balance, a position that is
  opened or read.
\<close>

abbreviation position_alive :: "address \<Rightarrow> u64 \<Rightarrow> ('t, 'm) pm_world_scheme \<Rightarrow> bool" where
  "position_alive t i w \<equiv> POSITION_TTL_THRESHOLD \<le> p_position_ttl (pm_st w) (t, i)"

abbreviation balance_alive :: "address \<Rightarrow> ('t, 'm) vault_world_scheme \<Rightarrow> bool" where
  "balance_alive a w \<equiv> BALANCE_TTL_THRESHOLD \<le> v_share_ttl (vault_st w) a"

fun entries_alive ::
  "tx \<Rightarrow> ('t, 'm) liq_world_scheme \<Rightarrow> ('t, 'm) liq_world_scheme \<Rightarrow> bool" where
  "entries_alive (OracleTx (OSetPrice a asset p)) w w' \<longleftrightarrow> 100 \<le> o_price_ttl (oracle_st w') asset"
| "entries_alive (VaultTx (VDeposit d n)) w w' \<longleftrightarrow> balance_alive d w'"
| "entries_alive (VaultTx (VWithdraw d n)) w w' \<longleftrightarrow> balance_alive d w'"
| "entries_alive (VaultTx (VViewShareBalance a)) w w' \<longleftrightarrow>
     (0 < vault_share_balance a w \<longrightarrow> balance_alive a w')"
| "entries_alive (PmTx (POpen t asset d n l)) w w' \<longleftrightarrow>
     position_alive t (pm_get_next_position_id w) w'"
| "entries_alive (PmTx (PGetPosition t i)) w w' \<longleftrightarrow> position_alive t i w'"
| "entries_alive (PmTx (PGetUnrealizedPnl t i asset)) w w' \<longleftrightarrow> position_alive t i w'"
| "entries_alive (LiqTx (LGetMarginRatio t i asset)) w w' \<longleftrightarrow> position_alive t i w'"
| "entries_alive (LiqTx (LIsLiquidatable t i asset)) w w' \<longleftrightarrow> position_alive t i w'"
| "entries_alive _ w w' \<longleftrightarrow> True"

lemma pm_tx_alive:
  assumes "sys_exec tk (h, PmTx c) w = Inr w'"
  shows "instances_alive (PmTx c) w' \<and> entries_alive (PmTx c) w w'"
proof -
  have run: "pm_exec tk (entry h (p_self (pm_st w)), c) w = Inr w'" using assms by simp
  note alive = pm_exec_alive [OF run]
  show ?thesis
  proof (cases c)
    case (POpen t asset d n l)
    then show ?thesis using run alive by (auto simp: bnd_eq_Inr dest: pm_open_entry_alive)
  next
    case (PGetPosition t i)
    then show ?thesis using run alive by (auto simp: bnd_eq_Inr dest: pm_get_position_alive)
  next
    case (PGetUnrealizedPnl t i asset)
    then show ?thesis using run alive by (auto simp: bnd_eq_Inr dest: pm_get_unrealized_alive)
  qed (use alive in simp_all)
qed

lemma fund_tx_alive:
  assumes "sys_exec tk (h, FundTx c) w = Inr w'"
  shows "instances_alive (FundTx c) w'"
proof -
  have run: "fund_exec (entry h (f_self (fund_st w)), c) w = Inr w'" using assms by simp
  show ?thesis
    using run fund_exec_alive [OF run] by (cases c) (auto simp: bnd_eq_Inr dest: fund_reads_alive)
qed

lemma liq_tx_alive:
  assumes "sys_exec tk (h, LiqTx c) w = Inr w'"
  shows "instances_alive (LiqTx c) w' \<and> entries_alive (LiqTx c) w w'"
proof -
  have run: "liq_exec tk (entry h (l_self (liq_st w)), c) w = Inr w'" using assms by simp
  show ?thesis
    using run liq_exec_alive [OF run]
    by (cases c) (auto simp: bnd_eq_Inr dest: liq_liquidate_alive liq_views_alive)
qed

text \<open>
  C23. Contracts in use are never archived.  Every successful transaction leaves the instance of
  every contract it runs in, the one it enters and those called on the way, with at least a day's
  ledgers to live; the balance of an LP who deposits, withdraws or is looked up, and a position
  that is opened or read, with at least 30 days; and a price that is set with at least 100 ledgers.
\<close>

theorem calls_keep_storage_alive:
  assumes "sys_exec tk (h, x) w = Inr w'"
  shows "instances_alive x w' \<and> entries_alive x w w'"
proof (cases x)
  case (OracleTx c)
  then have run: "oracle_exec (entry h (o_self (oracle_st w)), c) w = Inr w'" using assms by simp
  show ?thesis
    using run oracle_exec_alive [OF run] OracleTx by (cases c) (auto dest: set_price_alive)
next
  case (VaultTx c)
  then have run: "vault_exec tk (entry h (v_self (vault_st w)), c) w = Inr w'" using assms by simp
  show ?thesis
    using run vault_exec_alive [OF run] VaultTx viewed_balance_alive
    by (cases c) (auto simp: bnd_eq_Inr dest: lp_entry_alive)
next
  case (PmTx c)
  then show ?thesis using assms pm_tx_alive by blast
next
  case (FundTx c)
  then show ?thesis using assms fund_tx_alive by fastforce
next
  case (LiqTx c)
  then show ?thesis using assms liq_tx_alive by blast
qed

end
