(* ===== verification/Stuck_Profit.thy ===== *)
theory Stuck_Profit
  imports Exit_Liveness
begin

text \<open>
  The limit of the vault as a counterparty: a profit beyond what the providers have deposited
  blocks the close of its position.
\<close>

text \<open>The settlement of a profit that the deposits and the fee do not cover.\<close>

lemma settlement_uncovered:
  assumes "authorised e c" and "v_pm (vault_st w) = Some c"
    and "i128_ok (vault_get_locked_liquidity w)" and "0 \<le> n" and "n \<le> vault_get_locked_liquidity w"
    and "0 \<le> vault_get_total_deposits w" and "i128_ok (vault_get_total_deposits w)"
    and "0 \<le> fee" and "i128_ok fee" and "i128_ok pnl"
    and "vault_get_total_deposits w + fee < pnl"
  shows "vault_close_position_settlement tk e c t n m pnl fee w = Inl (Err InsufficientLiquidity)"
proof -
  let ?w = "vault_set_locked_liquidity (vault_get_locked_liquidity w - n) (vault_bump_instance w)"
  have ok: "i128_ok (vault_get_locked_liquidity w - n)" "i128_ok (vault_get_total_deposits w - pnl)"
      "i128_ok (vault_get_total_deposits w - pnl + fee)"
    using assms by (auto simp: i128_ok_def)
  have "vault_require_position_manager e c (vault_bump_instance w) = Inr ()"
    using assms(1,2) by (simp add: vault_require_position_manager_eq_Inr)
  moreover have "vault_get_total_deposits ?w = vault_get_total_deposits w"
    by (simp add: vault_storage_defs)
  moreover have "vault_get_total_deposits w - pnl + fee < 0" using assms(11) by simp
  ultimately show ?thesis
    using ok assms(5) by (simp add: vault_close_position_settlement_def Let_def i128_sub_def
        i128_add_def i128_of_def)
qed

text \<open>
  C18. A profit the providers cannot pay is stuck.  In every reachable state of a wired exchange a
  position whose profit at the oracle's price is more than the deposits plus the close fee cannot
  be closed, not even for less: the close its owner signs fails with \<open>InsufficientLiquidity\<close> and
  changes nothing, however much collateral of other traders the vault holds.
\<close>

theorem profit_beyond_deposits_is_stuck:
  assumes "sep41 tk" and "sys_fresh w0" and "sys_reach tk u w0 w" and "operational u w"
    and "p_positions (pm_st w) (Account n, i) = Some pos" and "n \<in> snd h"
    and "quoted (entry h (p_self (pm_st w))) (pos_asset pos) w price"
    and "calculate_pnl (pos_direction pos) (pos_size pos) (pos_entry_price pos) price = Inr raw"
    and "calculate_fee (pos_size pos) (pm_get_close_fee_rate w) = Inr fee"
    and "vault_get_total_deposits w + fee < raw"
  shows "sys_exec tk (h, PmTx (PClose (Account n) i (pos_asset pos))) w
           = Inl (Err InsufficientLiquidity)"
proof -
  let ?e = "entry h (p_self (pm_st w))" and ?t = "Account n"
  let ?w1 = "oracle_bump_instance (loaded ?t i w)"
  have inv: "sys_inv u w" by (rule reach_inv [OF assms(1-3)])
  then have pm: "pm_inv w" and v: "vault_inv w" by (simp_all add: sys_inv_def)
  note r = sys_rangedD [OF reach_ranged [OF sys_fresh_ranged [OF assms(2)] assms(3)]]
  note ok = position_ok_at [OF pm] and pos = position_ok_at [OF pm assms(5)]
  have D: "0 \<le> vault_get_total_deposits w" by (rule vault_invD(3) [OF v])
  have "pos_size pos \<le> msum pos_size (p_positions (pm_st w))"
    using ok by (intro position_share [OF pm assms(5)]) (simp add: less_imp_le)
  then have locked: "pos_size pos \<le> vault_get_locked_liquidity w"
    using reach_locked [OF assms(1-3)] open_interest_is_size [OF inv] by simp
  have fee: "0 \<le> fee" "i128_ok fee" and raw: "i128_ok raw"
    using fee_nonneg [OF assms(9)] pos assms(8,9)
    by (auto simp: calculate_fee_eq_Inr calculate_pnl_eq_Inr)
  have settle: "vault_close_position_settlement tk (subcall ?e (v_self (vault_st w))) (p_self (pm_st w))
      ?t (pos_size pos) (pos_collateral pos) raw fee ?w1 = Inl (Err InsufficientLiquidity)"
    using assms(4,10) r(2,3) pos locked D fee raw
    by (intro settlement_uncovered)
      (auto simp: loaded_cells vault_get_total_deposits_def vault_get_locked_liquidity_def
        operational_def authorised_def)
  have "pos_collateral pos < 2 ^ 127"
    using r(7) [OF assms(5)] by (simp add: position_ranged_def i128_ok_def)
  then have neg: "i128_neg (pos_collateral pos) = Inr (- pos_collateral pos)"
    using pos by (simp add: inv_simps i128_ok_def)
  have capped: "capped_pnl pos price = Inr raw"
    using assms(8,10) neg D fee(1) pos by (simp add: capped_pnl_def)
  have net: "i128_sub raw fee = Inr (raw - fee)"
    using raw fee assms(10) D unfolding i128_sub_eq_Inr i128_ok_def by auto
  have "position_ok ?t i pos" using pm_invD(2) [OF pm assms(5)] .
  then have trader: "pos_trader pos = ?t" by (simp add: position_ok_def)
  have "p_oracle (pm_st w) = Some (o_self (oracle_st w))"
    and vault: "pm_get_vault w = Inr (v_self (vault_st w))"
    using assms(4) by (simp_all add: operational_def pm_get_vault_def)
  note query = query_possible [OF assms(7) this(1), of ?t i]
  have "authorised ?e ?t" using assms(6) by (simp add: authorised_entry)
  then have "pm_close_position tk ?e ?t i (pos_asset pos) w = Inl (Err InsufficientLiquidity)"
    by (simp add: pm_close_position_def Let_def require_auth_def prod.case_eq_if assms(5) trader
        query capped assms(9) net vault contract_at_def settle)
  then show ?thesis by simp
qed

end
