(* ===== verification/Witnesses.thy ===== *)
theory Witnesses
  imports Edge_Case_Tests Contract_Tests Trading_Tests Custody Histories Wind_Down Opening_Margin
    Storage_Ttl Stuck_Profit
begin

text \<open>
  One concrete instance of every property that has hypotheses, in the states of the scenario: the
  hypotheses hold there and the property is applied to them.
\<close>

section \<open>Facts about the scenario\<close>

lemma scenario_inv:
  "vault_inv live" "pm_inv live" "oracle_priced live"
  "vault_inv opened" "pm_inv opened" "oracle_priced opened"
  "vault_inv crashed" "pm_inv crashed" "oracle_priced crashed"
  using reachable_inv [OF live_reachable] reachable_inv [OF opened_reachable]
    reachable_inv [OF crashed_reachable] by (simp_all add: sys_inv_def)

lemma deployed_vault: "v_admin (vault_st deployed) = None" "vault_fresh (vault_st deployed)"
  using deployed_fresh by (simp_all add: sys_fresh_def)

lemma live_totals:
  "vault_get_total_deposits live = 1000000000000" "vault_get_total_shares live = 1000000000000"
  "vault_get_locked_liquidity live = 0" "vault_get_max_utilization live = 8000"
  by (simp_all add: live_def vault_storage_defs)

lemmas states = live_def opened_def closed_def crashed_def liquidated_def deployed_def
  alices_position_def paid_def

section \<open>The vault\<close>

theorem vault_accounting_invariant_witness:
  "let w' = run (vault_exec plain_token)
       [(call 1000 11 at_vault, VInitialize adm at_usdc 8000),
        (call 1000 12 at_vault, VDeposit lp 5000)] deployed in
   msum (\<lambda>x. x) (v_shares (vault_st w')) = vault_get_total_shares w'
   \<and> vault_share_balance lp w' \<le> vault_get_total_shares w' \<and> 0 \<le> vault_get_total_deposits w'"
  using vault_accounting_invariant [OF deployed_vault, of plain_token
      "[(call 1000 11 at_vault, VInitialize adm at_usdc 8000),
        (call 1000 12 at_vault, VDeposit lp 5000)]"]
  unfolding Let_def by blast

text \<open>A second deposit of 500 into the live vault, and its withdrawal.\<close>

definition topped_up :: "balances liq_world" where
  "topped_up = deposited (call 1200 12 at_vault) lp 500 500 (paid lp at_vault 500 (ledger live)) live"

lemma topped_up_run: "vault_deposit plain_token (call 1200 12 at_vault) lp 500 live = Inr (500, topped_up)"
  unfolding vault_deposit_eq_Inr topped_up_def
  by (simp add: live_def deployed_def paid_def vault_storage_defs calc_shares_to_mint_def host_run plain_transfer_def)

theorem share_price_never_falls_witness:
  "vault_get_total_deposits live * vault_get_total_shares topped_up
     \<le> vault_get_total_deposits topped_up * vault_get_total_shares live"
proof (rule share_price_never_falls [OF scenario_inv(1)])
  show "vault_exec plain_token (call 1200 12 at_vault, VDeposit lp 500) live = Inr topped_up"
    using topped_up_run by simp
qed (simp add: live_totals)

definition drawn_down :: "balances liq_world" where
  "drawn_down = withdrawn (call 1300 12 at_vault) lp 500 500
     (paid at_vault lp 500 (ledger topped_up)) topped_up"

lemma drawn_down_run:
  "vault_withdraw plain_token (call 1300 12 at_vault) lp 500 topped_up = Inr (500, drawn_down)"
  unfolding vault_withdraw_eq_Inr drawn_down_def
  by (simp add: topped_up_def live_def deployed_def paid_def vault_storage_defs vault_emit_defs
      calc_withdrawal_amount_def vault_check_withdrawal_def calc_utilization_bps_def host_run plain_transfer_def)

theorem deposit_withdraw_round_trip_witness:
  "(500::int) \<le> 500 \<and> (500 - 500 - 1) * vault_get_total_shares topped_up \<le> vault_get_total_deposits live"
  by (rule deposit_withdraw_round_trip [OF scenario_inv(1) topped_up_run drawn_down_run])
    (simp add: live_totals)

theorem utilization_stays_within_maximum_witness:
  "\<exists>w'. vault_exec plain_token (internal_call 1100 at_pm at_vault, VLock at_pm 700000000000) live = Inr w'
     \<and> vault_get_locked_liquidity w' * 10000
         < (uint (vault_get_max_utilization live) + 1) * vault_get_total_deposits w'"
proof -
  have run: "vault_exec plain_token (internal_call 1100 at_pm at_vault, VLock at_pm 700000000000) live
      = Inr (emit_liquidity_locked (internal_call 1100 at_pm at_vault) 700000000000
          (vault_set_locked_liquidity 700000000000 (vault_bump_instance live)))"
    (is "_ = Inr ?w")
    by (simp add: vault_lock_liquidity_eq_Inr live_totals)
      (simp add: live_def calc_utilization_bps_def host_run plain_transfer_def)
  have totals: "vault_get_total_deposits ?w = 1000000000000"
      "vault_get_locked_liquidity ?w = 700000000000"
    by (simp_all add: vault_emit_defs vault_storage_defs live_def)
  have "vault_get_locked_liquidity ?w * 10000
      < (uint (vault_get_max_utilization live) + 1) * vault_get_total_deposits ?w"
    by (rule utilization_stays_within_maximum [OF scenario_inv(1) run, of at_pm 700000000000])
      (simp_all only: totals, simp_all)
  then show ?thesis using run by blast
qed

theorem empty_vault_locks_any_amount_witness:
  "\<exists>w'. vault_lock_liquidity (internal_call 1100 at_pm at_vault) at_pm 999
         (deployed\<lparr>vault_st := (vault_st deployed)\<lparr>v_pm := Some at_pm\<rparr>\<rparr>) = Inr w'
     \<and> vault_get_locked_liquidity w' = 999"
  using empty_vault_locks_any_amount [of "deployed\<lparr>vault_st := (vault_st deployed)\<lparr>v_pm := Some at_pm\<rparr>\<rparr>"
      at_pm "internal_call 1100 at_pm at_vault" 999]
  by (simp add: deployed_def vault_storage_defs authorised_def i128_ok_def)

theorem vault_refuses_other_callers_witness:
  "vault_exec plain_token (call 1100 13 at_vault, VCollectFee alice 7) live = Inl (Err Unauthorized)"
  using vault_refuses_other_callers [of "VCollectFee alice 7" alice "call 1100 13 at_vault" live plain_token]
  by (simp add: live_def authorised_def)

section \<open>The arithmetic of positions\<close>

theorem pnl_is_rounded_relative_move_witness:
  "calculate_pnl Long 10000000000 10000000000 9400000000 = Inr (- 600000000)
     \<and> \<bar>- 600000000 :: int\<bar> * 10000000000
         \<le> 10000000000 * \<bar>favourable_move Long 10000000000 9400000000\<bar>"
proof -
  have run: "calculate_pnl Long 10000000000 10000000000 9400000000 = Inr (- 600000000)"
    by code_simp
  show ?thesis
    using pnl_is_rounded_relative_move [OF run] run by (simp add: favourable_move_def)
qed

theorem long_and_short_pnl_cancel_witness:
  "calculate_pnl Long 10 3 5 = Inr 6 \<and> calculate_pnl Short 10 3 5 = Inr (- 6) \<and> 6 + (- 6) = (0::int)"
proof -
  have run: "calculate_pnl Long 10 3 5 = Inr 6" "calculate_pnl Short 10 3 5 = Inr (- 6)"
    by code_simp+
  show ?thesis using long_and_short_pnl_cancel [OF run] run by simp
qed

theorem fee_is_rounded_share_witness:
  "calculate_fee 12345 10 = Inr 12 \<and> 10 * (12::int) \<le> 12345"
proof -
  have run: "calculate_fee 12345 10 = Inr 12" by code_simp
  show ?thesis using fee_is_rounded_share [OF run] run by simp
qed

section \<open>The position manager\<close>

theorem open_position_effect_witness:
  "vault_get_locked_liquidity opened
     = vault_get_locked_liquidity live + 1000000000 * u32_as_i128 10 \<and> same_wiring live opened
   \<and> uint (pm_get_trader_position_count alice opened) = uint (pm_get_trader_position_count alice live) + 1"
  using open_position_effect [OF opened_run] by blast

theorem close_refines_closing_step_witness:
  "\<exists>pos fee. - 10000000 = max 0 (- pos_collateral pos) - fee
     \<and> closed_out plain_token (call 1120 13 at_pm) alice 1 pos (max 0 (- pos_collateral pos)) fee
         opened closed"
proof -
  obtain pos price raw fee where step:
      "- 10000000 = max raw (- pos_collateral pos) - fee"
      "closed_out plain_token (call 1120 13 at_pm) alice 1 pos (max raw (- pos_collateral pos)) fee
         opened closed"
    and raw: "calculate_pnl (pos_direction pos) (pos_size pos) (pos_entry_price pos) price = Inr raw"
    and q: "oracle_get_price_value (subcall (call 1120 13 at_pm) (o_self (oracle_st opened))) 1 opened
           = Inr (price, oracle_bump_instance opened)"
    using close_refines_closing_step [OF closed_run] by blast
  have "pos = alices_position" using closed_outD(1) [OF step(2)] by (simp add: opened_def)
  moreover have "price = 10000000000"
    using q by (auto simp: oracle_get_price_value_eq_Inr oracle_get_price_eq_Inr states)
  ultimately have "raw = 0"
    using raw by (simp add: calculate_pnl_eq_Inr favourable_move_def alices_position_def)
  then show ?thesis using step by blast
qed

definition engine_closed :: "balances liq_world" where
  "engine_closed = snd (projr (pm_liquidate_position plain_token
     (internal_call 1160 at_liq at_pm) at_liq alice 1 1 crashed))"

lemma engine_closed_run:
  "pm_liquidate_position plain_token (internal_call 1160 at_liq at_pm) at_liq alice 1 1 crashed
     = Inr ((1000000000, - 600000000), engine_closed)"
  unfolding engine_closed_def by (simp add: states model_run)

theorem liquidation_refines_closing_step_witness:
  "\<exists>pos. pos_collateral pos = 1000000000 \<and> pos_asset pos = 1 \<and> closed_out plain_token
     (internal_call 1160 at_liq at_pm) alice 1 pos (- 600000000) 0 crashed engine_closed"
  using liquidation_refines_closing_step [OF engine_closed_run] by metis

lemma opened_usdc: "v_usdc (vault_st opened) = Some at_usdc" "alice \<noteq> v_self (vault_st opened)"
  "v_usdc (vault_st crashed) = Some at_usdc" "alice \<noteq> v_self (vault_st crashed)"
  by (simp_all add: states)

theorem close_pays_remaining_equity_witness:
  "\<exists>pos raw fee. p_positions (pm_st opened) (alice, 1) = Some pos
     \<and> - 10000000 = max raw (- pos_collateral pos) - fee
     \<and> tok_balance plain_token at_usdc alice (ledger closed)
         = tok_balance plain_token at_usdc alice (ledger opened)
             + max 0 (pos_collateral pos + - 10000000)"
  using close_pays_remaining_equity [OF plain_token_sep41 closed_run opened_usdc(1,2)] by blast

theorem open_close_round_trip_witness:
  "p_positions (pm_st closed) = p_positions (pm_st live)
     \<and> vault_get_locked_liquidity closed = vault_get_locked_liquidity live
     \<and> (\<exists>open_fee close_fee. tok_balance plain_token at_usdc alice (ledger closed)
         = tok_balance plain_token at_usdc alice (ledger live) - open_fee - min close_fee 1000000000)"
proof -
  have "p_positions (pm_st live) (alice, 1) = None" "p_usdc (pm_st live) = Some at_usdc"
      "p_usdc (pm_st live) = v_usdc (vault_st live)" "alice \<noteq> v_self (vault_st live)"
    by (simp_all add: live_def)
  note live = this
  obtain open_fee close_fee usdc where trip: "p_positions (pm_st closed) = p_positions (pm_st live)"
      "vault_get_locked_liquidity closed = vault_get_locked_liquidity live"
      "p_usdc (pm_st live) = Some usdc"
      "tok_balance plain_token usdc alice (ledger closed)
         = tok_balance plain_token usdc alice (ledger live) - open_fee - min close_fee 1000000000"
    using open_close_round_trip [OF plain_token_sep41 live(3,4) opened_run closed_run live(1)] by blast
  moreover have "usdc = at_usdc" using live(2) trip(3) by simp
  ultimately show ?thesis by blast
qed

text \<open>The price halves: the loss is five times the collateral.\<close>

definition halved :: "balances liq_world" where
  "halved = opened
     \<lparr>events := events opened @
       [\<lparr>ev_contract = at_oracle, ev_topics = [SSym ''price_fetched'', SU32 1],
          ev_data = SVec [SI128 5000000000, SU64 1150]\<rparr>],
      oracle_st := (oracle_st opened)
       \<lparr>o_prices := [1 \<mapsto> \<lparr>cp_price = 5000000000, cp_timestamp = 1150\<rparr>]\<rparr>\<rparr>"

lemma halved_run:
  "sys_exec plain_token ((1150, {11}), OracleTx (OSetPrice adm 1 5000000000)) opened = Inr halved"
  by (simp add: halved_def opened_def live_def host_run oracle_run)

lemma halved_reachable: "sys_reach plain_token at_usdc deployed halved"
  by (rule reach_step [OF opened_reachable sys_tx [OF _ _ halved_run]]) (simp_all add: i128_ok_def)

lemma halved_close: "\<exists>r. pm_close_position plain_token (call 1160 13 at_pm) alice 1 1 halved = Inr (r, ruined)"
proof -
  have self: "p_self (pm_st halved) = at_pm" by (simp add: halved_def states)
  have "sys_exec plain_token ((1160, {13}), PmTx (PClose alice 1 1)) halved = Inr ruined"
    using ruined_run unfolding ruin_script_def sys_play.simps halved_run
    by (auto simp: bnd_eq_Inr split: if_splits)
  then show ?thesis by (auto simp: self bnd_eq_Inr)
qed

theorem total_loss_books_unpaid_fee_witness:
  "ledger ruined = ledger halved
   \<and> vault_get_total_deposits ruined = vault_get_total_deposits halved + 1000000000 + 10000000"
proof -
  have inv: "pm_inv halved" using reachable_inv [OF halved_reachable] by (simp add: sys_inv_def)
  obtain r where run: "pm_close_position plain_token (call 1160 13 at_pm) alice 1 1 halved = Inr (r, ruined)"
    using halved_close by blast
  have pos: "p_positions (pm_st halved) (alice, 1) = Some alices_position"
    by (simp add: halved_def opened_def)
  have quote: "oracle_get_price_value (subcall (call 1160 13 at_pm) (o_self (oracle_st halved))) 1 halved
      = Inr (5000000000, oracle_bump_instance halved)"
    by (simp add: oracle_get_price_value_eq_Inr oracle_get_price_eq_Inr halved_def states
        oracle_get_staleness_threshold_def)
  have raw: "calculate_pnl (pos_direction alices_position) (pos_size alices_position)
      (pos_entry_price alices_position) 5000000000 = Inr (- 5000000000)"
    unfolding alices_position_def by code_simp
  have rate: "pm_get_close_fee_rate halved = 10"
    by (simp add: halved_def states pm_storage_defs)
  have fee: "calculate_fee (pos_size alices_position) (pm_get_close_fee_rate halved) = Inr 10000000"
    unfolding rate alices_position_def by code_simp
  have coll: "pos_collateral alices_position = 1000000000" by (simp add: alices_position_def)
  show ?thesis
    using total_loss_books_unpaid_fee [OF inv run pos quote raw _ fee] unfolding coll by simp
qed

theorem zero_open_fee_blocks_opening_witness:
  "\<exists>failure. pm_open_position plain_token (call 1100 13 at_pm) alice 1 Long 1000000000 10
     (live\<lparr>pm_st := (pm_st live)\<lparr>p_open_fee := Some 0\<rparr>\<rparr>) = Inl failure"
  by (rule zero_open_fee_blocks_opening) (simp add: pm_get_open_fee_rate_def)

theorem open_position_guards_witness:
  "pm_open_position plain_token (call 1100 13 at_pm) alice 1 Long 1000000000 31 live
     = Inl (Err InvalidLeverage)"
  using open_position_guards [of "call 1100 13 at_pm" alice 1000000000 live 31 plain_token 1 Long]
  by (simp add: authorised_def live_def pm_get_max_leverage_def pm_get_min_collateral_def)

lemma scenario_engine: "p_liq_engine (pm_st live) = Some at_liq" "p_liq_engine (pm_st opened) = Some at_liq"
  by (simp_all add: states)

theorem closing_guards_witness:
  "pm_close_position plain_token \<lparr>e_now = 1100, e_signers = {alice}, e_invoker = Some at_liq,
       e_self = at_pm\<rparr> alice 1 2 opened = Inl (Err AssetMismatch)
   \<and> pm_close_position plain_token \<lparr>e_now = 1100, e_signers = {alice}, e_invoker = Some at_liq,
       e_self = at_pm\<rparr> alice 9 1 opened = Inl (Err PositionNotFound)"
proof -
  let ?e = "\<lparr>e_now = 1100, e_signers = {alice}, e_invoker = Some at_liq, e_self = at_pm\<rparr>"
  have auth: "authorised ?e alice" "authorised ?e at_liq" by (simp_all add: authorised_def)
  have book: "p_positions (pm_st opened) (alice, 1) = Some alices_position"
      "p_positions (pm_st opened) (alice, 9) = None" "pos_asset alices_position = 1"
    by (simp_all add: opened_def alices_position_def)
  show ?thesis
    using closing_guards [OF scenario_inv(5) auth scenario_engine(2), of plain_token 1 2]
      closing_guards [OF scenario_inv(5) auth scenario_engine(2), of plain_token 9 1]
    by (simp add: book)
qed

theorem only_engine_liquidates_witness:
  "pm_liquidate_position plain_token (call 1160 13 at_pm) alice alice 1 1 opened = Inl (Err Unauthorized)"
  using only_engine_liquidates [of "call 1160 13 at_pm" alice opened plain_token alice 1 1]
  by (simp add: authorised_def scenario_engine)

section \<open>Funding\<close>

definition paced :: "balances liq_world" where
  "paced = projr (fund_apply_funding (call 5000 14 at_fund) keeper opened)"

lemma paced_run: "fund_apply_funding (call 5000 14 at_fund) keeper opened = Inr paced"
  unfolding paced_def by (simp add: states model_run)

lemma opened_rate:
  "fund_get_current_rate (call 5000 14 at_fund) opened
     = Inr ((15, - 5), pm_bump_instance (fund_bump_instance opened))"
  by (simp add: states model_run)

theorem funding_rates_bounded_witness:
  "pm_get_oi_long opened + pm_get_oi_short opened = 10000000000
     \<and> 15 + - 5 = 2 * u32_as_i128 (fund_get_funding_spread opened)"
  using funding_rates_bounded [OF scenario_inv(5) opened_rate]
  by (simp add: Let_def states pm_storage_defs fund_storage_defs)

theorem apply_funding_effect_witness:
  "fund_get_cumulative_funding_long paced = fund_get_cumulative_funding_long opened + 15
     \<and> fund_get_last_funding_time paced = 5000"
  using apply_funding_effect [OF paced_run] opened_rate by auto

theorem funding_once_per_interval_witness:
  "fund_apply_funding (call 8599 13 at_fund) alice paced = Inl (Err FundingTooEarly)"
proof -
  have "fund_get_funding_interval opened = 3600" by (simp add: states fund_storage_defs)
  then show ?thesis
    using funding_once_per_interval [OF paced_run, of "call 8599 13 at_fund" alice]
    by (simp add: authorised_def)
qed

theorem funding_indices_never_pay_net_witness:
  "let w' = run fund_exec [(call 1000 11 at_fund, FInitialize adm at_pm 3600 10 5),
       (call 5000 14 at_fund, FApply keeper)] deployed in
   0 \<le> fund_get_cumulative_funding_long w' + fund_get_cumulative_funding_short w'"
  using funding_indices_never_pay_net [of deployed "[(call 1000 11 at_fund, FInitialize adm at_pm 3600 10 5),
       (call 5000 14 at_fund, FApply keeper)]"]
  unfolding Let_def by (simp only: deployed_def fund_store.simps liq_world.simps) simp

section \<open>Liquidation\<close>

theorem liquidation_only_below_maintenance_witness:
  "\<exists>pos raw. p_positions (pm_st crashed) (alice, 1) = Some pos
     \<and> (pos_collateral pos + raw) * 10000
         < u32_as_i128 (liq_get_maintenance_margin_rate crashed) * pos_size pos"
  using liquidation_only_below_maintenance [OF scenario_inv(8) liquidated_run] by blast

theorem liquidate_agrees_with_view_witness:
  "\<exists>w1. liq_is_liquidatable (call 1160 14 at_liq) alice 1 1 crashed = Inr (True, w1)"
proof -
  have "authorised (call 1160 14 at_liq) keeper"
      "l_oracle (liq_st crashed) = Some (o_self (oracle_st crashed))"
    by (simp_all add: authorised_def states)
  note agree = liquidate_agrees_with_view [OF this, where tk = plain_token and t = alice and i = 1 and asset = 1]
  show ?thesis
  proof (cases "liq_is_liquidatable (call 1160 14 at_liq) alice 1 1 crashed")
    case (Inl failure)
    then show ?thesis using agree unfolding liquidated_run by simp
  next
    case (Inr r)
    then show ?thesis using agree unfolding liquidated_run by (cases r; cases "fst r") simp_all
  qed
qed

theorem liquidation_pays_trader_not_keeper_witness:
  "tok_balance plain_token at_usdc keeper (ledger liquidated)
     = tok_balance plain_token at_usdc keeper (ledger crashed)"
proof -
  have "keeper \<noteq> alice" "keeper \<noteq> v_self (vault_st crashed)" by (simp_all add: states)
  then show ?thesis
    using liquidation_pays_trader_not_keeper [OF plain_token_sep41 scenario_inv(8) opened_usdc(3,4)
        liquidated_run] by blast
qed

theorem keeper_reward_can_exceed_penalty_witness:
  "\<exists>w'. liq_set_keeper_reward (call 1200 11 at_liq) adm 251 live = Inr w'
     \<and> liq_get_liquidation_penalty w' < liq_get_keeper_reward w'"
  by (rule keeper_reward_can_exceed_penalty)
    (simp_all add: live_def authorised_def liq_get_liquidation_penalty_def)

section \<open>The system\<close>

lemma opened_to_crashed: "sys_step plain_token at_usdc opened crashed"
  by (rule sys_tx [OF _ _ crashed_run]) (simp_all add: i128_ok_def)

theorem system_refines_exchange_witness:
  "\<exists>k. exchange_step (books plain_token at_usdc opened) k (books plain_token at_usdc crashed)"
  by (rule system_refines_exchange [OF plain_token_sep41 deployed_fresh opened_reachable
        opened_to_crashed])

theorem position_book_invariant_witness:
  "pm_get_oi_long opened = msum (side Long) (p_positions (pm_st opened))
     \<and> position_ok alice 1 alices_position"
proof -
  have "p_positions (pm_st opened) (alice, 1) = Some alices_position" by (simp add: opened_def)
  then show ?thesis
    using position_book_invariant [OF plain_token_sep41 deployed_fresh opened_reachable]
    unfolding Let_def by blast
qed

theorem locked_liquidity_is_open_interest_witness:
  "vault_get_locked_liquidity opened = pm_get_oi_long opened + pm_get_oi_short opened
     \<and> vault_get_locked_liquidity opened = msum pos_size (p_positions (pm_st opened))"
  by (rule locked_liquidity_is_open_interest [OF plain_token_sep41 deployed_fresh opened_reachable])

theorem cash_covers_claims_up_to_unpaid_fees_witness:
  "\<exists>txs. sys_history plain_token at_usdc deployed txs ruined
     \<and> vault_get_total_deposits ruined + msum pos_collateral (p_positions (pm_st ruined))
           - (\<Sum>(x, v)\<leftarrow>txs. unpaid_fee x v)
         \<le> tok_balance plain_token at_usdc (v_self (vault_st ruined)) (ledger ruined)"
proof -
  have "0 \<le> tok_balance plain_token at_usdc (v_self (vault_st deployed)) (ledger deployed)"
    by (simp add: deployed_def plain_token_def)
  moreover obtain txs where "sys_history plain_token at_usdc deployed txs ruined"
    using sys_reach_history [OF ruined_reachable] by blast
  ultimately show ?thesis
    using cash_covers_claims_up_to_unpaid_fees [OF plain_token_sep41 deployed_fresh] by blast
qed

theorem only_admin_configures_witness:
  "sys_exec plain_token ((1200, {13}), OracleTx (OSetPrice alice 1 1)) live = Inl (Err Unauthorized)"
  using only_admin_configures [of "OracleTx (OSetPrice alice 1 1)" alice live "(1200, {13})" plain_token]
  by (simp add: live_def)

theorem initialize_only_once_witness:
  "sys_exec plain_token ((1200, {13}), VaultTx (VInitialize alice at_usdc 1)) live
     = Inl (Err AlreadyInitialized)"
  using initialize_only_once [of "VaultTx (VInitialize alice at_usdc 1)" live plain_token "(1200, {13})"]
  by (simp add: live_def)

section \<open>Range and progress\<close>

theorem admin_is_permanent_witness:
  "stored_admin (VaultTx (VInitialize alice at_usdc 1)) opened = Some adm
     \<and> sys_exec plain_token ((1200, {13}), VaultTx (VInitialize alice at_usdc 1)) opened
         = Inl (Err AlreadyInitialized)"
proof -
  have "sys_exec plain_token ((1100, {13}), PmTx (POpen alice 1 Long 1000000000 10)) live = Inr opened"
    using opened_run by simp
  then have "sys_step plain_token at_usdc live opened"
    by (rule sys_tx [rotated 2]) (simp_all add: i128_ok_def)
  then have "sys_reach plain_token at_usdc live opened" by (rule reach_step [OF reach_start])
  moreover have "stored_admin (VaultTx (VInitialize alice at_usdc 1)) live = Some adm"
    by (simp add: live_def)
  ultimately show ?thesis using admin_is_permanent by fastforce
qed

text \<open>Alice's position is liquidated after the price update, and the price is served as it was set.\<close>

theorem oracle_set_get_round_trip_witness:
  "oracle_get_price (call 1170 14 at_oracle) 1 liquidated
     = Inr (\<lparr>cp_price = 9400000000, cp_timestamp = 1150\<rparr>, oracle_bump_instance liquidated)"
proof -
  have set: "oracle_set_price (call 1150 11 at_oracle) adm 1 9400000000 opened = Inr crashed"
    using crashed_run by (simp add: states)
  have "sys_exec plain_token ((1160, {14}), LiqTx (LLiquidate keeper alice 1 1)) crashed = Inr liquidated"
    using liquidated_run by (simp add: states)
  then have "sys_history plain_token at_usdc crashed
      ([] @ [(((1160, {14}), LiqTx (LLiquidate keeper alice 1 1)), crashed)]) liquidated"
    by (rule hist_tx [OF hist_start, rotated 2]) simp_all
  from oracle_set_get_round_trip [OF set this, of "call 1170 14 at_oracle"] show ?thesis
    by (simp add: states oracle_get_staleness_threshold_def)
qed

lemma scenario_books:
  "operational at_usdc opened" "operational at_usdc crashed"
  "p_positions (pm_st opened) (alice, 1) = Some alices_position"
  "p_positions (pm_st crashed) (alice, 1) = Some alices_position"
  "vault_get_total_deposits opened = 1000010000000" "vault_get_total_deposits crashed = 1000010000000"
  "p_self (pm_st opened) = at_pm" "l_self (liq_st crashed) = at_liq"
  by (simp_all add: operational_def states vault_storage_defs)

lemma scenario_claims:
  "msum pos_collateral (p_positions (pm_st opened)) = 1000000000"
  "msum pos_collateral (p_positions (pm_st crashed)) = 1000000000"
  "msum pos_collateral (p_positions (pm_st live)) = 0"
  by (simp_all add: states msum_def)

lemma scenario_solvent:
  "solvent plain_token at_usdc live" "solvent plain_token at_usdc opened"
  "solvent plain_token at_usdc crashed"
  by (simp_all add: solvent_def scenario_claims)
    (simp_all add: states vault_storage_defs plain_token_def moved_def)

theorem trader_can_always_close_witness:
  "\<exists>w'. sys_exec plain_token ((1120, {13}), PmTx (PClose alice 1 1)) opened = Inr w'
     \<and> p_positions (pm_st w') (alice, 1) = None"
proof -
  have asset: "pos_asset alices_position = 1" by (simp add: alices_position_def)
  have quote: "quoted (entry (1120, {13}) (p_self (pm_st opened))) (pos_asset alices_position) opened
      10000000000"
    by (simp add: quoted_def states oracle_get_staleness_threshold_def)
  have raw: "calculate_pnl (pos_direction alices_position) (pos_size alices_position)
      (pos_entry_price alices_position) 10000000000 = Inr 0"
    unfolding alices_position_def by code_simp
  have "\<exists>w'. sys_exec plain_token ((1120, {13}), PmTx (PClose alice 1 (pos_asset alices_position)))
      opened = Inr w' \<and> sys_step plain_token at_usdc opened w'
      \<and> p_positions (pm_st w') (alice, 1) = None"
    by (rule trader_can_always_close [OF plain_token_sep41 deployed_fresh opened_reachable
        scenario_books(1) scenario_solvent(2) plain_token_payable scenario_books(3) _ quote raw])
      (simp_all add: scenario_books(5), simp add: alices_position_def)
  then show ?thesis unfolding asset by blast
qed

theorem liquidatable_position_can_be_liquidated_witness:
  "\<exists>w'. sys_exec plain_token ((1160, {14}), LiqTx (LLiquidate keeper alice 1 1)) crashed = Inr w'
     \<and> p_positions (pm_st w') (alice, 1) = None"
proof -
  have asset: "pos_asset alices_position = 1" by (simp add: alices_position_def)
  have quote: "quoted (entry (1160, {14}) (l_self (liq_st crashed))) (pos_asset alices_position) crashed
      9400000000"
    by (simp add: quoted_def states oracle_get_staleness_threshold_def)
  have raw: "calculate_pnl (pos_direction alices_position) (pos_size alices_position)
      (pos_entry_price alices_position) 9400000000 = Inr (- 600000000)"
    unfolding alices_position_def by code_simp
  obtain w1 where view: "liq_is_liquidatable (entry (1160, {14}) (l_self (liq_st crashed))) alice 1
      (pos_asset alices_position) crashed = Inr (True, w1)"
    by (auto simp: states model_run liq_is_liquidatable_def liq_get_margin_ratio_def)
  have "\<exists>w'. sys_exec plain_token ((1160, {14}), LiqTx (LLiquidate keeper alice 1 (pos_asset alices_position)))
      crashed = Inr w' \<and> sys_step plain_token at_usdc crashed w'
      \<and> p_positions (pm_st w') (alice, 1) = None"
    by (rule liquidatable_position_can_be_liquidated [OF plain_token_sep41 deployed_fresh
        crashed_reachable scenario_books(2) scenario_solvent(3) plain_token_payable
        scenario_books(4) _ view quote raw])
      (simp_all add: scenario_books(6), simp add: alices_position_def)
  then show ?thesis unfolding asset by blast
qed

theorem idle_liquidity_can_be_withdrawn_witness:
  "\<exists>w'. vault_withdraw plain_token (call 1200 12 at_vault) lp 250000000000 live = Inr (250000000000, w')"
proof -
  have "v_usdc (vault_st live) = Some at_usdc" "vault_share_balance lp live = 1000000000000"
    by (simp_all add: live_def vault_storage_defs)
  moreover have "vault_get_total_deposits live = 1000000000000" "vault_get_total_shares live = 1000000000000"
      "vault_get_locked_liquidity live = 0"
    by (simp_all add: live_def vault_storage_defs)
  ultimately show ?thesis
    using idle_liquidity_can_be_withdrawn [OF plain_token_sep41 deployed_fresh live_reachable
        _ scenario_solvent(1) plain_token_payable, of 12 "(1200, {12})" 250000000000]
    by auto
qed

section \<open>The test harness\<close>


section \<open>Custody\<close>

lemma opened_exec:
  "sys_exec plain_token ((1100, {13}), PmTx (POpen alice 1 Long 1000000000 10)) live = Inr opened"
  using opened_run by simp

theorem tokens_leave_only_when_signed_witness:
  "tok_balance plain_token at_usdc alice (ledger opened)
     < tok_balance plain_token at_usdc alice (ledger live) \<and> (13::nat) \<in> {13}"
proof -
  have "v_self (vault_st live) = Contract 22" by simp
  moreover have "tok_balance plain_token at_usdc alice (ledger opened)
      < tok_balance plain_token at_usdc alice (ledger live)"
    by (simp add: states plain_token_def moved_def)
  ultimately show ?thesis
    using tokens_leave_only_when_signed [OF plain_token_sep41 _ opened_exec, of 22 at_usdc 13]
    by simp
qed

theorem positions_end_by_owner_or_margin_witness:
  "p_positions (pm_st liquidated) (alice, 1) = None
   \<and> (\<exists>h x. sys_exec plain_token (h, x) crashed = Inr liquidated
        \<and> (x = PmTx (PClose alice 1 1) \<or> (\<exists>k. x = LiqTx (LLiquidate k alice 1 1))))"
proof -
  have "sys_exec plain_token ((1160, {14}), LiqTx (LLiquidate keeper alice 1 1)) crashed = Inr liquidated"
    using liquidated_run by (simp add: scenario_books(8))
  then have step: "sys_step plain_token at_usdc crashed liquidated"
    by (rule sys_tx [rotated 2]) simp_all
  have engine: "p_liq_engine (pm_st crashed) = Some (l_self (liq_st crashed))"
      "l_self (liq_st crashed) = Contract 25"
    by (simp_all add: states)
  have gone: "p_positions (pm_st liquidated) (alice, 1) = None" by (simp add: liquidated_def)
  have asset: "pos_asset alices_position = 1" by (simp add: alices_position_def)
  show ?thesis
    using positions_end_by_owner_or_margin [OF plain_token_sep41 deployed_fresh crashed_reachable
        step engine scenario_books(4)] gone unfolding asset by auto
qed

theorem shares_burned_only_by_holder_witness:
  "vault_share_balance lp drawn_down < vault_share_balance lp topped_up
   \<and> vault_share_balance lp drawn_down = vault_share_balance lp topped_up - 500"
proof -
  have self: "v_self (vault_st topped_up) = at_vault"
    by (simp add: topped_up_def live_def deployed_def paid_def vault_storage_defs vault_emit_defs host_run plain_transfer_def)
  have run: "sys_exec plain_token ((1300, {12}), VaultTx (VWithdraw lp 500)) topped_up = Inr drawn_down"
    using drawn_down_run by (simp add: self)
  have "vault_share_balance lp drawn_down < vault_share_balance lp topped_up"
    using withdraw_effect(8) [OF drawn_down_run, of lp] by simp
  then show ?thesis using shares_burned_only_by_holder [OF run] by blast
qed

section \<open>The end of the exchange and its limits\<close>

theorem all_providers_can_leave_witness:
  "\<exists>w'. sys_play plain_token at_usdc (redemptions 1200 live [12]) live = Inr w'
     \<and> vault_get_total_shares w' = 0 \<and> vault_get_total_deposits w' = 0"
proof -
  have live: "v_usdc (vault_st live) = Some at_usdc" "vault_get_locked_liquidity live = 0"
      "vault_get_total_shares live = 1000000000000" "vault_get_total_deposits live = 1000000000000"
      "vault_share_balance a live = (if a = lp then 1000000000000 else 0)" for a
    by (simp_all add: live_def vault_storage_defs)
  have "\<exists>w'. sys_play plain_token at_usdc (redemptions 1200 live [12]) live = Inr w'
     \<and> sys_reach plain_token at_usdc deployed w' \<and> (\<forall>a. vault_share_balance a w' = 0)
     \<and> vault_get_total_shares w' = 0 \<and> vault_get_total_deposits w' = 0
     \<and> tok_balance plain_token at_usdc (v_self (vault_st w')) (ledger w')
         = tok_balance plain_token at_usdc (v_self (vault_st live)) (ledger live)
           - vault_get_total_deposits live"
    by (rule all_providers_can_leave [OF plain_token_sep41 deployed_fresh live_reachable live(1)
          scenario_solvent(1) live(2)])
      (simp_all add: live plain_token_payable)
  then show ?thesis by blast
qed

definition soared :: "balances liq_world" where
  "soared = opened
     \<lparr>events := events opened @
       [\<lparr>ev_contract = at_oracle, ev_topics = [SSym ''price_fetched'', SU32 1],
          ev_data = SVec [SI128 2000000000000, SU64 1150]\<rparr>],
      oracle_st := (oracle_st opened)
       \<lparr>o_prices := [1 \<mapsto> \<lparr>cp_price = 2000000000000, cp_timestamp = 1150\<rparr>]\<rparr>\<rparr>"

lemma soared_run:
  "sys_exec plain_token ((1150, {11}), OracleTx (OSetPrice adm 1 2000000000000)) opened = Inr soared"
  by (simp add: soared_def opened_def live_def host_run oracle_run)

lemma soared_reachable: "sys_reach plain_token at_usdc deployed soared"
  by (rule reach_step [OF opened_reachable sys_tx [OF _ _ soared_run]]) (simp_all add: i128_ok_def)

theorem profit_beyond_deposits_is_stuck_witness:
  "sys_exec plain_token ((1160, {13}), PmTx (PClose alice 1 1)) soared = Inl (Err InsufficientLiquidity)"
proof -
  have books: "operational at_usdc soared" "p_positions (pm_st soared) (alice, 1) = Some alices_position"
      "vault_get_total_deposits soared = 1000010000000"
    using scenario_books(1,3,5)
    by (simp_all add: soared_def operational_def vault_get_total_deposits_def)
  have quote: "quoted (entry (1160, {13}) (p_self (pm_st soared))) (pos_asset alices_position) soared
      2000000000000"
    by (simp add: quoted_def soared_def states oracle_get_staleness_threshold_def)
  have raw: "calculate_pnl (pos_direction alices_position) (pos_size alices_position)
      (pos_entry_price alices_position) 2000000000000 = Inr 1990000000000"
    unfolding alices_position_def by code_simp
  have rate: "pm_get_close_fee_rate soared = 10"
    by (simp add: soared_def states pm_storage_defs)
  have fee: "calculate_fee (pos_size alices_position) (pm_get_close_fee_rate soared) = Inr 10000000"
    unfolding rate alices_position_def by code_simp
  have asset: "pos_asset alices_position = 1" by (simp add: alices_position_def)
  have "sys_exec plain_token ((1160, {13}), PmTx (PClose alice 1 (pos_asset alices_position))) soared
      = Inl (Err InsufficientLiquidity)"
    by (rule profit_beyond_deposits_is_stuck [OF plain_token_sep41 deployed_fresh soared_reachable
          books(1,2) _ quote raw fee]) (simp_all add: books(3))
  then show ?thesis unfolding asset .
qed

theorem opened_liquidatable_iff_leverage_witness:
  "\<exists>w1. liq_is_liquidatable (call 1100 14 at_liq) alice 1 1 opened = Inr (False, w1)"
proof -
  have "l_pm (liq_st live) = Some (p_self (pm_st live))"
      "liq_get_maintenance_margin_rate live = 500"
    by (simp_all add: live_def liq_storage_defs)
  then show ?thesis
    using opened_liquidatable_iff_leverage [OF scenario_inv(2,3) opened_run,
        of "call 1100 14 at_liq"] by (simp add: u32_as_i128_def)
qed

theorem calls_keep_storage_alive_witness:
  "pm_alive opened \<and> callees_alive opened
   \<and> POSITION_TTL_THRESHOLD \<le> p_position_ttl (pm_st opened) (alice, pm_get_next_position_id live)"
  using calls_keep_storage_alive [OF opened_exec] by simp

end
