(* ===== verification/Spec2Isabelle.thy ===== *)
theory Spec2Isabelle
  imports Witnesses
begin

text \<open>
  Soroperps: a pool-based perpetual futures exchange on Stellar/Soroban.  This library models the
  six Rust crates under \<^verbatim>\<open>contracts/\<close> completely, function by function, and the harness that deploys
  them for the tests, and proves what makes them correct, alone and together.

  \<^bold>\<open>The program.\<close>  Liquidity providers deposit USDC into the \<^emph>\<open>vault\<close> against shares; the vault is
  the counterparty of every trader.  Traders open and close leveraged long and short positions in
  the \<^emph>\<open>position manager\<close>, which reads prices from the \<^emph>\<open>oracle adapter\<close>, moves the trader's
  collateral to the vault, locks the position's size there and settles profit and loss with it.
  The \<^emph>\<open>funding rate\<close> contract turns the skew of open interest into two cumulative indices.  The
  \<^emph>\<open>liquidation engine\<close> closes positions below the maintenance margin through the position manager.
  The contracts call each other by stored addresses; an admin address in each guards its setters.

  \<^bold>\<open>Theories, in import order.\<close>

  \<^item> \<open>Perps_Prelude\<close>: results with an error branch and their inversion rules (\<open>inv_simps\<close>), division
    that truncates towards zero, sums over finite maps, runs of calls with roll-back of failed
    calls, and the locale \<open>invariant_machine\<close>.
  \<^item> \<open>Perps_Types\<close>: \<^verbatim>\<open>perps-types/src/lib.rs\<close>, the shared types, errors and constants.
  \<^item> \<open>Soroban_Host\<close>: what the contracts use of the platform: checked arithmetic, the environment of
    a call and \<open>require_auth\<close>, events, \<open>extend_ttl\<close>, and the token contract as a parameter.
  \<^item> \<open>Perps_Interfaces\<close>: the locales \<open>admin_gate\<close>, \<open>price_feed\<close>, \<open>liquidity_pool\<close> and
    \<open>interest_source\<close>.  Each is interpreted on the contract that provides it.
  \<^item> \<open>Oracle_Adapter\<close>: \<^verbatim>\<open>oracle-adapter/src/lib.rs\<close>; when a price is served, prices are positive.
  \<^item> \<open>Vault_Shares\<close>, \<open>Vault\<close>, \<open>Vault_Accounting\<close>: \<^verbatim>\<open>vault/src/\<close>\<^verbatim>\<open>{shares,storage,lib}.rs\<close>; the share
    accounting invariant, the share price, utilization, and who may call what.
  \<^item> \<open>Position_Math\<close>, \<open>Position_Manager\<close>, \<open>Position_Accounting\<close>, \<open>Position_Book\<close>:
    \<^verbatim>\<open>position-manager/src/\<close>\<^verbatim>\<open>{math,storage,lib}.rs\<close>; the effect of opening, the abstract step
    \<open>closed_out\<close> that closing and liquidating refine, the book invariant, errors and gates.
  \<^item> \<open>Funding_Rate\<close>, \<open>Funding_Accounting\<close>: \<^verbatim>\<open>funding-rate/src/lib.rs\<close>; bounds and signs of the
    rates, the indices, the interval.
  \<^item> \<open>Liquidation_Engine\<close>, \<open>Liquidation_Accounting\<close>: \<^verbatim>\<open>liquidation-engine/src/lib.rs\<close>; the
    condition of a liquidation, its agreement with the view, and who is paid.
  \<^item> \<open>Perps_System\<close>: the contracts together: transactions, steps of the world, reachability and
    histories, the refinement of an abstract exchange, the book of positions, locked liquidity,
    coverage of the claims up to the unpaid fees of the history, configuration.
  \<^item> \<open>Stored_Range\<close>: lemmas of the progress properties: stored amounts stay in the 128-bit range,
    and what the calls of each contract leave alone.
  \<^item> \<open>Histories\<close>: along every history a price is served as it was set or not at all, and the admin
    of a contract is permanent.
  \<^item> \<open>Storage_Ttl\<close>: every call leaves the contracts it runs in and the entries it touches with the
    threshold of ledgers to live.
  \<^item> \<open>Opening_Margin\<close>: the margin ratio a position is opened with, and when that is too low.
  \<^item> \<open>Custody\<close>: consent: tokens, shares and positions go only with their owner's signature, a
    position also by a liquidation below the maintenance margin.
  \<^item> \<open>Exit_Liveness\<close>: progress: a trader can close, a keeper can liquidate, an LP can withdraw.
  \<^item> \<open>Wind_Down\<close>, \<open>Stuck_Profit\<close>: all LPs can leave in any order once no position is open; and
    where progress ends, a profit that exceeds the deposits.
  \<^item> \<open>Test_Harness\<close>: \<^verbatim>\<open>integration-tests/src/harness.rs\<close>; the state \<open>setup\<close> leaves, in closed form.
  \<^item> \<open>Scenario\<close>, \<open>Witnesses\<close>: an exchange deployed and traded on, state by state, and one instance of
    each property that has hypotheses.
  \<^item> \<open>Lifecycle_Tests\<close>, \<open>Access_Tests\<close>, \<open>Edge_Case_Tests\<close>: the forty integration tests, of
    \<^verbatim>\<open>integration-tests/src/test_lifecycle.rs\<close>, \<^verbatim>\<open>test_access_control.rs\<close> and \<^verbatim>\<open>test_edge_cases.rs\<close>.
  \<^item> \<open>Unit_Harness\<close>, \<open>Contract_Tests\<close>, \<open>Trading_Tests\<close>: the set-ups and the 54 unit tests in the
    \<^verbatim>\<open>src/test.rs\<close> of the contracts.  Every test of the repository thus runs on the model, call by call
    and assertion by assertion, and passes: the model computes the numbers they expect.

  \<^bold>\<open>How state and operations correspond.\<close>  Each contract's storage is a record with one field per
  storage key (an absent key is \<open>None\<close>), its address and the times to live of its entries.  The
  worlds extend each other in the order host, oracle, vault, position manager, funding,
  liquidation, so that a contract's operations take any world that holds the contracts it calls.
  An operation of the source is a definition with the contract's prefix (\<open>vault_deposit\<close>,
  \<open>pm_open_position\<close>); a storage helper has the helper's name, with \<open>store\<close> for \<open>set\<close> where an entry
  point has the same name (\<open>vault_store_max_utilization\<close>).  The entry points of a contract are the constructors of its datatype of calls,
  the views included, and its dispatcher (\<open>vault_exec\<close>) runs the operation or view each names; a
  transaction (\<open>tx\<close>) is a call of one of the five.  An operation returns \<open>Inl\<close> of a failure
  (an error of \<open>PerpsError\<close>, a trap, or a failure of the host or token) or \<open>Inr\<close> of its result and
  the new world.  A failed transaction is rolled back by the host, so a failure carries no state;
  a failing callee fails its caller.  \<open>i128\<close> is an \<open>int\<close> and every operation on it traps outside the
  128-bit range, as the release profile's overflow checks do; \<open>u32\<close> and \<open>u64\<close> are words, and the
  casts \<open>as u32\<close> and \<open>as i128\<close> are \<open>i128_as_u32\<close> (which wraps) and \<open>u32_as_i128\<close>.

  \<^bold>\<open>Parameters and hypotheses.\<close>  The token contract is not in the repository: it is the record
  \<open>tk\<close> of a transfer and a balance function over an abstract ledger.  Where a property needs to know
  what a transfer does it assumes \<open>sep41 tk\<close>, the documented behaviour of such a token;
  \<open>plain_token\<close> satisfies it and runs in the scenario.  The properties of \<open>Perps_System\<close> assume that
  the admin configures the exchange's own addresses (\<open>configures_for\<close>) and that the arguments of a
  transaction have their Rust types (\<open>tx_typed\<close>, as an \<open>i128\<close> is an \<open>int\<close> here): everything else,
  including the accounts that sign, the order of transactions, prices, token movements of others
  and the expiry of cached prices, is unrestricted.  The progress properties add what the contracts
  cannot ensure themselves: the wiring of a deployment (\<open>operational\<close>), cash that covers the claims
  (\<open>solvent\<close>; close fees left unpaid can make it fail), a holder whom the token can pay
  (\<open>payable\<close>), a fresh price (\<open>quoted\<close>), and amounts below 2 to the power of 95 for sizes and of
  126 for deposits, far above any supply of the token.  The test utilities of the Soroban SDK are
  the record \<open>testutils\<close>; the harness relies on \<open>register\<close> giving contract addresses and, for
  \<open>first_liquidity\<close>, on \<open>mint\<close> crediting the receiver (\<open>sac_mints\<close>).

  \<^bold>\<open>What is not modelled.\<close>  Expiry of persistent and instance storage (their times to live are
  state, but entries are never archived), fees and resource limits of the host, reentrancy from
  the token, contract upgrade.  The Go keeper is outside the model: its
  calls of the contracts are stubs that report they are not implemented, and the rest is network
  and database access.  The shell scripts are outside it too.  No loop or recursion occurs in the
  contracts, so there is no fuel.
\<close>

end
